(* ===== verification/Prelude.thy ===== *)
theory Prelude
  imports Complex_Main "HOL-Library.Multiset" "HOL-Library.Sublist"
begin

text \<open>
  Shared vocabulary of the development: the JavaScript values the web client computes with
  (strings as lists of UTF-16 code units, numbers, thrown values), the list and string operations
  of the standard library that the sources call, and the generic lemmas on them. Nothing here is
  specific to one component; every other theory imports it.
\<close>

section \<open>Hint collections\<close>

named_theorems js_defs \<open>definitions of the string operations, for evaluation\<close>
named_theorems view_simps \<open>equations that compute what a view shows and offers\<close>

section \<open>Strings\<close>

text \<open>
  A JavaScript string is a sequence of UTF-16 code units. The literals of the sources are mostly
  Chinese, so a string is a list of code units and \<open>js\<close> turns an ASCII literal into one.
\<close>

type_synonym jstr = "nat list"

definition js :: "string \<Rightarrow> jstr" where
  [js_defs]: "js s = map of_char s"

lemma js_Nil [simp]: "js [] = []"
  by (simp add: js_def)

lemma js_eq_Nil [simp]: "js s = [] \<longleftrightarrow> s = []" "[] = js s \<longleftrightarrow> s = []"
  by (auto simp: js_def)

lemma length_js [simp]: "length (js s) = length s"
  by (simp add: js_def)

lemma js_inject [simp]: "js s = js t \<longleftrightarrow> s = t"
  by (simp add: js_def inj_map_eq_map inj_on_def)

text \<open>ECMAScript's WhiteSpace and LineTerminator code units, which \<open>trim\<close> strips.\<close>

definition js_space :: "nat \<Rightarrow> bool" where
  [js_defs]: "js_space c \<longleftrightarrow>
     c \<in> {9, 10, 11, 12, 13, 32, 0xA0, 0x1680, 0x2028, 0x2029, 0x202F, 0x205F, 0x3000, 0xFEFF}
     \<or> 0x2000 \<le> c \<and> c \<le> 0x200A"

definition trim :: "jstr \<Rightarrow> jstr" where
  [js_defs]: "trim s = rev (dropWhile js_space (rev (dropWhile js_space s)))"

definition starts_with :: "jstr \<Rightarrow> jstr \<Rightarrow> bool" where
  [js_defs]: "starts_with s p \<longleftrightarrow> take (length p) s = p"

definition includes_str :: "jstr \<Rightarrow> jstr \<Rightarrow> bool" where
  [js_defs]: "includes_str s t \<longleftrightarrow> list_ex (\<lambda>u. starts_with u t) (suffixes s)"

fun join :: "jstr \<Rightarrow> jstr list \<Rightarrow> jstr" where
  "join sep [] = []"
| "join sep [x] = x"
| "join sep (x # y # zs) = x @ sep @ join sep (y # zs)"

text \<open>\<open>String(n)\<close> of a non-negative integer.\<close>

fun show_nat :: "nat \<Rightarrow> jstr" where
  "show_nat n = (if n < 10 then [48 + n] else show_nat (n div 10) @ [48 + n mod 10])"

declare show_nat.simps [simp del]

text \<open>The same for an integer, negative ones with a minus sign.\<close>

definition show_int :: "int \<Rightarrow> jstr" where
  "show_int n = (if n < 0 then 45 # show_nat (nat (- n)) else show_nat (nat n))"

lemma starts_with_append [simp]: "starts_with (p @ s) p"
  by (simp add: starts_with_def)

lemma starts_with_Nil [simp]: "starts_with s []"
  by (simp add: starts_with_def)

lemma starts_with_Cons [simp]: "starts_with (x # xs) (y # ys) \<longleftrightarrow> x = y \<and> starts_with xs ys"
  by (auto simp: starts_with_def)

lemma starts_with_iff: "starts_with s p \<longleftrightarrow> (\<exists>r. s = p @ r)"
  unfolding starts_with_def by (metis append_eq_conv_conj append_take_drop_id)

lemma includes_str_iff: "includes_str s t \<longleftrightarrow> (\<exists>a b. s = a @ t @ b)"
  by (fastforce simp: includes_str_def list_ex_iff starts_with_iff suffix_def)

lemma trim_Nil [simp]: "trim [] = []"
  by (simp add: trim_def)

lemma dropWhile_rev_dropWhile:
  "dropWhile P (rev (dropWhile P (rev (dropWhile P xs)))) = rev (dropWhile P (rev (dropWhile P xs)))"
proof (cases "dropWhile P xs")
  case Nil
  then show ?thesis by (simp only: Nil rev.simps dropWhile.simps)
next
  case (Cons y ys)
  then have y: "\<not> P y"
    by (metis hd_dropWhile list.distinct(1) list.sel(1))
  have "dropWhile P (rev ys @ [y]) = dropWhile P (rev ys) @ [y]"
    using y by (cases "\<exists>x\<in>set ys. \<not> P x") (auto simp: dropWhile_append)
  with Cons y show ?thesis by simp
qed

lemma trim_trim [simp]: "trim (trim s) = trim s"
  by (simp add: trim_def dropWhile_rev_dropWhile)

section \<open>Numbers\<close>

text \<open>
  The values of a number input: \<open>valueAsNumber\<close> of an empty or malformed field is NaN.
  Finite values are kept exact, as rationals.
\<close>

datatype jnum = NaN | Num rat

text \<open>\<open>x || 0\<close>: NaN and zero are falsy.\<close>

definition or_zero :: "jnum \<Rightarrow> jnum" where
  "or_zero x = (case x of NaN \<Rightarrow> Num 0 | Num q \<Rightarrow> Num q)"

text \<open>\<open>Math.round\<close>: the nearest integer, halves towards positive infinity.\<close>

definition math_round :: "rat \<Rightarrow> int" where
  "math_round x = \<lfloor>x + 1 / 2\<rfloor>"

lemma math_round_error: "\<bar>of_int (math_round x) - x\<bar> \<le> 1 / 2"
proof -
  have "of_int \<lfloor>x + 1 / 2\<rfloor> \<le> x + 1 / 2" and "x + 1 / 2 < of_int \<lfloor>x + 1 / 2\<rfloor> + 1"
    by linarith+
  then have "of_int \<lfloor>x + 1 / 2\<rfloor> - x \<le> 1 / 2" and "x - of_int \<lfloor>x + 1 / 2\<rfloor> \<le> 1 / 2"
    by linarith+
  then show ?thesis unfolding math_round_def abs_le_iff by linarith
qed

section \<open>Lists\<close>

text \<open>\<open>xs.slice(0, k)\<close>: a negative bound counts from the end.\<close>

definition slice_to :: "int \<Rightarrow> 'a list \<Rightarrow> 'a list" where
  "slice_to k xs = (if k \<ge> 0 then take (nat k) xs else take (length xs - nat (- k)) xs)"

lemma length_slice_to: "0 \<le> k \<Longrightarrow> length (slice_to k xs) = min (nat k) (length xs)"
  by (simp add: slice_to_def)

text \<open>\<open>xs.indexOf(x)\<close>, with \<open>None\<close> for the source's \<open>-1\<close>.\<close>

fun index_of :: "'a list \<Rightarrow> 'a \<Rightarrow> nat option" where
  "index_of [] x = None"
| "index_of (y # ys) x = (if y = x then Some 0 else map_option Suc (index_of ys x))"

text \<open>\<open>xs.splice(i, 1)\<close> and \<open>xs.splice(i, 0, x)\<close>: the start index is clamped to the length.\<close>

definition splice_out :: "nat \<Rightarrow> 'a list \<Rightarrow> 'a list" where
  "splice_out i xs = take i xs @ drop (Suc i) xs"

definition splice_in :: "nat \<Rightarrow> 'a \<Rightarrow> 'a list \<Rightarrow> 'a list" where
  "splice_in i x xs = take i xs @ x # drop i xs"

text \<open>\<open>[...new Set(xs)]\<close>: the first occurrence of every element, in order.\<close>

fun uniq :: "'a list \<Rightarrow> 'a list" where
  "uniq [] = []"
| "uniq (x # xs) = x # filter (\<lambda>y. y \<noteq> x) (uniq xs)"

text \<open>\<open>x ?? d\<close>\<close>

definition or_else :: "'a \<Rightarrow> 'a option \<Rightarrow> 'a" where
  "or_else d x = (case x of None \<Rightarrow> d | Some y \<Rightarrow> y)"

text \<open>JSX's \<open>c && children\<close>, as a list of children.\<close>

definition shown :: "bool \<Rightarrow> 'a list \<Rightarrow> 'a list" where
  [view_simps]: "shown c xs = (if c then xs else [])"

lemma index_of_Some: "index_of xs x = Some i \<Longrightarrow> i < length xs \<and> xs ! i = x"
  by (induction xs arbitrary: i) (auto split: if_splits)

lemma index_of_None: "index_of xs x = None \<longleftrightarrow> x \<notin> set xs"
  by (induction xs) auto

lemma mset_splice_out: "i < length xs \<Longrightarrow> add_mset (xs ! i) (mset (splice_out i xs)) = mset xs"
  by (metis add_mset_add_single id_take_nth_drop mset.simps(2) mset_append splice_out_def
      union_mset_add_mset_right)

lemma mset_splice_in: "mset (splice_in i x xs) = add_mset x (mset xs)"
proof -
  have "mset (splice_in i x xs) = add_mset x (mset (take i xs @ drop i xs))"
    unfolding splice_in_def by (simp only: mset_append mset.simps union_mset_add_mset_right)
  then show ?thesis by simp
qed

lemma length_splice_out: "i < length xs \<Longrightarrow> length (splice_out i xs) = length xs - 1"
  by (simp add: splice_out_def)

lemma splice_in_nth: "i \<le> length xs \<Longrightarrow> splice_in i x xs ! i = x"
  by (simp add: splice_in_def nth_append)

lemma filter_splice_in: "\<not> P x \<Longrightarrow> filter P (splice_in i x xs) = filter P xs"
  unfolding splice_in_def by (metis append_take_drop_id filter.simps(2) filter_append)

lemma filter_splice_out: "i < length xs \<Longrightarrow> \<not> P (xs ! i) \<Longrightarrow> filter P (splice_out i xs) = filter P xs"
  by (metis filter.simps(2) filter_append id_take_nth_drop splice_out_def)

lemma set_uniq [simp]: "set (uniq xs) = set xs"
  by (induction xs) auto

lemma distinct_uniq [simp]: "distinct (uniq xs)"
  by (induction xs) auto

lemma uniq_distinct [simp]: "distinct xs \<Longrightarrow> uniq xs = xs"
  by (induction xs) (auto simp: filter_id_conv)

lemma filter_uniq: "filter P (uniq xs) = uniq (filter P xs)"
proof (induction xs)
  case (Cons x xs)
  have "filter P (filter (\<lambda>y. y \<noteq> x) (uniq xs)) = filter (\<lambda>y. y \<noteq> x) (filter P (uniq xs))"
    by (simp add: conj_commute)
  moreover have "\<not> P x \<Longrightarrow> filter (\<lambda>y. y \<noteq> x) (uniq (filter P xs)) = uniq (filter P xs)"
    by (auto simp: filter_id_conv)
  ultimately show ?case using Cons by simp
qed simp

lemma map_filter_total:
  assumes "\<forall>i \<in> set ids. m i \<noteq> None"
  shows "map Some (List.map_filter m ids) = map m ids"
  using assms by (induction ids) (auto simp: map_filter_simps)

lemma distinct_map_filter:
  assumes "\<forall>i \<in> set ids. m i \<noteq> None" and "distinct ids" and "\<And>i j x. m i = Some x \<Longrightarrow> m j = Some x \<Longrightarrow> i = j"
  shows "distinct (List.map_filter m ids)"
proof -
  have "distinct (map m ids)"
    using assms by (auto simp: distinct_map inj_on_def)
  then show ?thesis unfolding map_filter_total [OF assms(1), symmetric] by (simp add: distinct_map)
qed

lemma distinct_subseq: "subseq xs ys \<Longrightarrow> distinct ys \<Longrightarrow> distinct xs"
proof (induction rule: list_emb.induct)
  case (list_emb_Cons2 x y xs ys)
  then show ?case by (auto dest: list_emb_set)
qed auto

lemma set_shown [simp]: "set (shown c xs) = (if c then set xs else {})"
  by (simp add: shown_def)

lemma map_shown [simp]: "map f (shown c xs) = shown c (map f xs)"
  by (simp add: shown_def)

lemma distinct_map_find:
  "distinct (map f xs) \<Longrightarrow> x \<in> set xs \<Longrightarrow> find (\<lambda>y. f y = f x) xs = Some x"
  by (induction xs) (auto simp: image_iff)

lemma find_map_None: "find (\<lambda>y. f y = k) xs = None \<longleftrightarrow> k \<notin> f ` set xs"
  by (induction xs) auto

lemma find_SomeD: "find P xs = Some x \<Longrightarrow> x \<in> set xs \<and> P x"
  by (induction xs) (auto split: if_splits)

text \<open>
  Comparing two id lists through \<open>join(",")\<close> is comparing the lists, when no id is empty or
  contains the separator.
\<close>

lemma join_Cons: "join [c] (x # xs) = (if xs = [] then x else x @ c # join [c] xs)"
  by (cases xs) auto

lemma append_Cons_eq_iff:
  "c \<notin> set x \<Longrightarrow> c \<notin> set y \<Longrightarrow> (x @ c # u = y @ c # v) \<longleftrightarrow> (x = y \<and> u = v)"
proof (induction x arbitrary: y)
  case Nil
  then show ?case by (cases y) auto
next
  case (Cons a x)
  then show ?case by (cases y) auto
qed

lemma join_inject:
  assumes "\<forall>x \<in> set xs. x \<noteq> [] \<and> c \<notin> set x" and "\<forall>y \<in> set ys. y \<noteq> [] \<and> c \<notin> set y"
  shows "join [c] xs = join [c] ys \<longleftrightarrow> xs = ys"
  using assms
proof (induction xs arbitrary: ys)
  case Nil
  then show ?case by (cases ys) (auto simp: join_Cons)
next
  case (Cons x xs)
  show ?case
  proof (cases ys)
    case Nil
    with Cons.prems show ?thesis by (auto simp: join_Cons)
  next
    case (Cons y ys')
    have eq: "join [c] xs = join [c] ys' \<longleftrightarrow> xs = ys'"
      using Cons.IH Cons.prems Cons by simp
    from Cons Cons.prems have c: "c \<notin> set x" "c \<notin> set y" by auto
    then have "x \<noteq> y @ c # join [c] ys'" "y \<noteq> x @ c # join [c] xs" by auto
    with c eq Cons show ?thesis
      by (auto simp: join_Cons append_Cons_eq_iff)
  qed
qed


section \<open>Objects as insertion-ordered dictionaries\<close>

text \<open>
  \<open>Object.fromEntries\<close>: a repeated key keeps its place and takes the later value. (Keys that are
  array indices, which JavaScript would list first, do not occur in the sources.)
\<close>

fun put :: "'k \<Rightarrow> 'v \<Rightarrow> ('k \<times> 'v) list \<Rightarrow> ('k \<times> 'v) list" where
  "put k v [] = [(k, v)]"
| "put k v ((a, b) # r) = (if a = k then (a, v) # r else (a, b) # put k v r)"

definition from_entries :: "('k \<times> 'v) list \<Rightarrow> ('k \<times> 'v) list" where
  "from_entries es = foldl (\<lambda>o' (k, v). put k v o') [] es"

lemma map_of_put: "map_of (put k v r) = (map_of r)(k \<mapsto> v)"
  by (induction k v r rule: put.induct) auto

lemma keys_put: "map fst (put k v r) = (if k \<in> fst ` set r then map fst r else map fst r @ [k])"
  by (induction k v r rule: put.induct) (auto simp: image_iff)

lemma from_entries_snoc: "from_entries (es @ [(k, v)]) = put k v (from_entries es)"
  by (simp add: from_entries_def)

lemma map_of_from_entries: "map_of (from_entries es) = map_of (rev es)"
proof (induction es rule: rev_induct)
  case (snoc e es)
  then show ?case by (cases e) (simp add: from_entries_snoc map_of_put)
qed (simp add: from_entries_def)

lemma distinct_from_entries: "distinct (map fst (from_entries es))"
proof (induction es rule: rev_induct)
  case (snoc e es)
  then show ?case by (cases e) (auto simp: from_entries_snoc keys_put)
qed (simp add: from_entries_def)

lemma put_not_Nil [simp]: "put k v r \<noteq> []"
  by (cases "(k, v, r)" rule: put.cases) auto

lemma from_entries_Nil_iff: "from_entries es = [] \<longleftrightarrow> es = []"
proof (cases es rule: rev_cases)
  case (snoc xs x)
  then show ?thesis by (cases x) (simp add: from_entries_snoc)
qed (simp add: from_entries_def)

end
