(* ===== verification/View.thy ===== *)
theory View
  imports Prelude
begin

text \<open>
  What a React component renders, as a value. A \<open>'e node\<close> is a JSX tree over the component's own
  event type \<open>'e\<close>: text leaves, images and links, and the interactive elements with the event their
  handler raises. Presentation (class names, icons, sizes, placeholders, ARIA labels) is left out,
  except where a class is chosen from the state: \<open>Mark\<close> says whether the element is drawn
  as selected or active. Text that the browser formats (\<open>toLocaleString\<close>,
  \<open>toLocaleDateString\<close>) is kept as the value it formats. The second half is the generic state
  machine of a component: its reachable states when every user event comes from an element that the
  current view offers.
\<close>

section \<open>Nodes\<close>

datatype 'e node =
    Txt jstr
  | NumT rat                      \<comment> \<open>a number, as \<open>{n}\<close>\<close>
  | MoneyT rat                    \<comment> \<open>\<open>{n.toLocaleString()}\<close>\<close>
  | DateT jstr                    \<comment> \<open>\<open>{new Date(s).toLocaleDateString("zh-TW")}\<close>\<close>
  | Img jstr
  | Box "'e node list"
  | Mark bool "'e node list"
  | Link jstr "'e node list"
  | Btn bool 'e "'e node list"    \<comment> \<open>disabled, onClick, children\<close>
  | Chk bool "bool \<Rightarrow> 'e" "'e node list"  \<comment> \<open>checked, onChange of the new value\<close>
  | Inp bool jstr "jstr \<Rightarrow> 'e"    \<comment> \<open>disabled, value, onChange of the new value\<close>
  | Form 'e "'e node list"        \<comment> \<open>onSubmit\<close>
  | Submit bool "'e node list"    \<comment> \<open>disabled\<close>
  | Tap 'e "'e node list"         \<comment> \<open>a container with onClick\<close>
  | Stop "'e node list"           \<comment> \<open>a container that stops propagation\<close>

text \<open>The text a node shows, in document order.\<close>

fun texts :: "'e node \<Rightarrow> jstr list" where
  "texts (Txt t) = [t]"
| "texts (Box cs) = concat (map texts cs)"
| "texts (Mark b cs) = concat (map texts cs)"
| "texts (Link h cs) = concat (map texts cs)"
| "texts (Btn d e cs) = concat (map texts cs)"
| "texts (Chk b f cs) = concat (map texts cs)"
| "texts (Form e cs) = concat (map texts cs)"
| "texts (Submit d cs) = concat (map texts cs)"
| "texts (Tap e cs) = concat (map texts cs)"
| "texts (Stop cs) = concat (map texts cs)"
| "texts _ = []"

text \<open>The amounts of money a node shows, in document order.\<close>

fun amounts :: "'e node \<Rightarrow> rat list" where
  "amounts (MoneyT q) = [q]"
| "amounts (Box cs) = concat (map amounts cs)"
| "amounts (Mark b cs) = concat (map amounts cs)"
| "amounts (Link h cs) = concat (map amounts cs)"
| "amounts (Btn d e cs) = concat (map amounts cs)"
| "amounts (Chk b f cs) = concat (map amounts cs)"
| "amounts (Form e cs) = concat (map amounts cs)"
| "amounts (Submit d cs) = concat (map amounts cs)"
| "amounts (Tap e cs) = concat (map amounts cs)"
| "amounts (Stop cs) = concat (map amounts cs)"
| "amounts _ = []"

text \<open>Whether a form holds an enabled submit button (a disabled one blocks the form's submission).\<close>

fun can_submit :: "'e node \<Rightarrow> bool" where
  "can_submit (Submit d cs) = (\<not> d)"
| "can_submit (Box cs) = list_ex can_submit cs"
| "can_submit (Mark b cs) = list_ex can_submit cs"
| "can_submit (Tap e cs) = list_ex can_submit cs"
| "can_submit (Stop cs) = list_ex can_submit cs"
| "can_submit _ = False"

text \<open>The events the user can raise on a rendered node.\<close>

fun offers :: "'e node \<Rightarrow> 'e \<Rightarrow> bool" where
  "offers (Btn d a cs) e = (\<not> d \<and> e = a)"
| "offers (Chk b f cs) e = (e = f (\<not> b))"
| "offers (Inp d v f) e = (\<not> d \<and> (\<exists>s. e = f s))"
| "offers (Form a cs) e = (e = a \<and> list_ex can_submit cs \<or> list_ex (\<lambda>c. offers c e) cs)"
| "offers (Box cs) e = list_ex (\<lambda>c. offers c e) cs"
| "offers (Mark b cs) e = list_ex (\<lambda>c. offers c e) cs"
| "offers (Tap a cs) e = (e = a \<or> list_ex (\<lambda>c. offers c e) cs)"
| "offers (Stop cs) e = list_ex (\<lambda>c. offers c e) cs"
| "offers _ e = False"

text \<open>
  Whether no click on an inner control also raises the event of a container around it: inside a
  \<open>Tap\<close>, every control sits in a \<open>Stop\<close>.
\<close>

fun no_bubble :: "bool \<Rightarrow> 'e node \<Rightarrow> bool" where
  "no_bubble t (Btn d a cs) = (\<not> t)"
| "no_bubble t (Chk b f cs) = (\<not> t)"
| "no_bubble t (Inp d v f) = (\<not> t)"
| "no_bubble t (Submit d cs) = (\<not> t)"
| "no_bubble t (Link h cs) = (\<not> t)"
| "no_bubble t (Tap a cs) = (\<not> t \<and> list_all (no_bubble True) cs)"
| "no_bubble t (Stop cs) = list_all (no_bubble False) cs"
| "no_bubble t (Box cs) = list_all (no_bubble t) cs"
| "no_bubble t (Mark b cs) = list_all (no_bubble t) cs"
| "no_bubble t (Form a cs) = list_all (no_bubble t) cs"
| "no_bubble t _ = True"

lemmas [view_simps] = list_ex_append list_all_append list_ex_iff list_all_iff

lemma shown_append [simp]: "list_ex P (shown c xs) \<longleftrightarrow> c \<and> list_ex P xs"
  by (simp add: shown_def)

lemma shown_all [simp]: "list_all P (shown c xs) \<longleftrightarrow> (c \<longrightarrow> list_all P xs)"
  by (simp add: shown_def)

text \<open>A child component's view, with its events renamed into its parent's.\<close>

lemma texts_map_node [simp]: "texts (map_node f v) = texts v"
proof (induction v rule: texts.induct)
qed (auto simp: comp_def cong: map_cong)

lemma can_submit_map_node [simp]: "can_submit (map_node f v) = can_submit v"
  by (induction v) (auto simp: list_ex_iff)

lemma offers_map_node [simp]: "offers (map_node f v) e \<longleftrightarrow> (\<exists>e'. offers v e' \<and> e = f e')"
proof (induction v)
qed (auto simp: list_ex_iff)

section \<open>Reachable states\<close>

text \<open>
  \<open>reach start guard next\<close>: the states a machine can get into from a start state, when an event can
  happen only where its guard holds (for a user event, that the view offers it).
\<close>

inductive reach :: "('s \<Rightarrow> bool) \<Rightarrow> ('s \<Rightarrow> 'e \<Rightarrow> bool) \<Rightarrow> ('s \<Rightarrow> 'e \<Rightarrow> 's) \<Rightarrow> 's \<Rightarrow> bool"
  for start guard step where
  reach_start: "start s \<Longrightarrow> reach start guard step s"
| reach_step: "reach start guard step s \<Longrightarrow> guard s e \<Longrightarrow> reach start guard step (step s e)"

text \<open>The interface of an invariant: it holds initially and every enabled event keeps it.\<close>

locale guarded_machine =
  fixes start :: "'s \<Rightarrow> bool"
    and guard :: "'s \<Rightarrow> 'e \<Rightarrow> bool"
    and step :: "'s \<Rightarrow> 'e \<Rightarrow> 's"
    and inv :: "'s \<Rightarrow> bool"
  assumes inv_start: "start s \<Longrightarrow> inv s"
    and inv_step: "inv s \<Longrightarrow> guard s e \<Longrightarrow> inv (step s e)"
begin

lemma reach_inv: "reach start guard step s \<Longrightarrow> inv s"
  by (induction rule: reach.induct) (auto intro: inv_start inv_step)

lemma reach_init: "start s \<Longrightarrow> reach start guard step s"
  by (rule reach_start)

lemma reach_next: "reach start guard step s \<Longrightarrow> guard s e \<Longrightarrow> reach start guard step (step s e)"
  by (rule reach_step)

end


text \<open>
  The interface of a refinement: \<open>abs\<close> maps the machine's states to those of an abstract transition
  system, and every enabled event is either invisible there or one of its steps.
\<close>

locale refining_machine = guarded_machine start guard step inv
  for start :: "'s \<Rightarrow> bool" and guard :: "'s \<Rightarrow> 'e \<Rightarrow> bool" and step :: "'s \<Rightarrow> 'e \<Rightarrow> 's" and inv :: "'s \<Rightarrow> bool" +
  fixes abs :: "'s \<Rightarrow> 't"
    and a_start :: "'t \<Rightarrow> bool"
    and a_step :: "'t \<Rightarrow> 't \<Rightarrow> bool"
  assumes abs_start: "start s \<Longrightarrow> a_start (abs s)"
    and abs_step: "inv s \<Longrightarrow> guard s e \<Longrightarrow> abs (step s e) = abs s \<or> a_step (abs s) (abs (step s e))"
begin

lemma refines: "reach start guard step s \<Longrightarrow> \<exists>a. a_start a \<and> a_step\<^sup>*\<^sup>* a (abs s)"
proof (induction rule: reach.induct)
  case (reach_start s)
  then show ?case using abs_start by blast
next
  case (reach_step s e)
  then have "inv s" by (blast intro: reach_inv)
  then have "abs (step s e) = abs s \<or> a_step (abs s) (abs (step s e))" using reach_step.hyps(2) by (rule abs_step)
  then show ?case using reach_step.IH by (metis rtranclp.rtrancl_into_rtrancl)
qed

end

text \<open>A run: the events in turn, each of them enabled; \<open>None\<close> if one is not.\<close>

fun run :: "('s \<Rightarrow> 'e \<Rightarrow> bool) \<Rightarrow> ('s \<Rightarrow> 'e \<Rightarrow> 's) \<Rightarrow> 's \<Rightarrow> 'e list \<Rightarrow> 's option" where
  "run guard step s [] = Some s"
| "run guard step s (e # es) = (if guard s e then run guard step (step s e) es else None)"

lemma reach_run: "run guard step s es = Some t \<Longrightarrow> reach start guard step s \<Longrightarrow> reach start guard step t"
  by (induction es arbitrary: s) (auto split: if_splits intro: reach_step)

lemma reach_from_start: "run guard step s es = Some t \<Longrightarrow> start s \<Longrightarrow> reach start guard step t"
  by (blast intro: reach_run reach_start)


text \<open>A run with outputs: the events in turn, whatever their guards, and everything the steps emit.\<close>

fun steps :: "('s \<Rightarrow> 'e \<Rightarrow> 's \<times> 'o list) \<Rightarrow> 's \<Rightarrow> 'e list \<Rightarrow> 's \<times> 'o list" where
  "steps step s [] = (s, [])"
| "steps step s (e # es) = (case step s e of (t, out) \<Rightarrow> case steps step t es of (u, outs) \<Rightarrow> (u, out @ outs))"

lemma fst_steps_Cons: "fst (steps step s (e # es)) = fst (steps step (fst (step s e)) es)"
  by (simp split: prod.splits)

lemma steps_append:
  "steps step s (es @ fs) = (case steps step s es of (t, out) \<Rightarrow> case steps step t fs of (u, outs) \<Rightarrow> (u, out @ outs))"
  by (induction es arbitrary: s) (auto split: prod.splits)

text \<open>Looking only at some of the outputs.\<close>

definition seen :: "('o \<Rightarrow> bool) \<Rightarrow> ('s \<Rightarrow> 'e \<Rightarrow> 's \<times> 'o list) \<Rightarrow> 's \<Rightarrow> 'e \<Rightarrow> 's \<times> 'o list" where
  "seen P step s e = (fst (step s e), filter P (snd (step s e)))"

lemma steps_seen: "steps (seen P step) s es = (fst (steps step s es), filter P (snd (steps step s es)))"
  by (induction es arbitrary: s) (auto simp: seen_def split: prod.splits)

end
