(* ===== verification/ApiClient.thy ===== *)
theory ApiClient
  imports View
begin

text \<open>
  The web client's HTTP layer, \<open>src/apps/web/lib/api.ts\<close>: the response interceptor that turns a 401
  into one shared token refresh and a single retry, as a state machine over all requests in flight,
  and \<open>extractFieldErrors\<close>. Axios itself (sending, matching responses to requests) is the
  environment: its answers are the machine's events.
\<close>

section \<open>State\<close>

text \<open>
  A request configuration. \<open>cfg_id\<close> is not in the code: it names the caller's promise, so that the
  theorems can follow one request through its retry.
\<close>

record config =
  cfg_id :: nat
  cfg_url :: "jstr option"
  cfg_retry :: bool

text \<open>
  \<open>refreshing\<close> is \<open>refreshPromise\<close> being non-null. A handler suspended at \<open>await refreshPromise\<close> is an
  entry of \<open>waiting\<close>, with its error's config. The rest are histories: the ids whose request was
  sent (once per attempt), the promises settled (fulfilled or not), the assignments of
  \<open>window.location.href\<close> to "/", and the refresh calls started and finished.
\<close>

record client =
  browser :: bool
  pathname :: jstr
  refreshing :: bool
  in_flight :: "config list"
  waiting :: "(nat \<times> config option) list"
  issued :: nat
  sent :: "nat list"
  settled :: "(nat \<times> bool) list"
  redirects :: nat
  refresh_calls :: nat
  refresh_ends :: nat

definition root_path :: jstr where
  "root_path = js ''/''"

definition refresh_url :: jstr where
  "refresh_url = js ''/auth/refresh''"

text \<open>What the handler decides before it awaits anything: reject (and redirect or not), or await.\<close>

datatype verdict = Reject bool | Await

definition on_error :: "bool \<Rightarrow> jstr \<Rightarrow> nat option \<Rightarrow> config option \<Rightarrow> verdict" where
  "on_error win path status cfg =
     (if status \<noteq> Some 401 \<or> \<not> win then Reject False
      else if path = root_path then Reject False
      else if (case cfg of None \<Rightarrow> False
               | Some c \<Rightarrow> (case cfg_url c of None \<Rightarrow> False | Some u \<Rightarrow> includes_str u refresh_url))
        then Reject (path \<noteq> root_path)
      else if (case cfg of None \<Rightarrow> False | Some c \<Rightarrow> cfg_retry c) then Reject (path \<noteq> root_path)
      else Await)"

section \<open>Operations\<close>

definition send :: "jstr option \<Rightarrow> client \<Rightarrow> client" where
  "send u s = s\<lparr>in_flight := in_flight s @ [\<lparr>cfg_id = issued s, cfg_url = u, cfg_retry = False\<rparr>],
     sent := sent s @ [issued s], issued := Suc (issued s)\<rparr>"

definition fulfil :: "nat \<Rightarrow> client \<Rightarrow> client" where
  "fulfil i s = s\<lparr>in_flight := splice_out i (in_flight s),
     settled := settled s @ [(cfg_id (in_flight s ! i), True)]\<rparr>"

text \<open>The rejected branch of the interceptor; \<open>has_cfg\<close> says whether the error carries its config.\<close>

definition fail :: "nat \<Rightarrow> nat option \<Rightarrow> bool \<Rightarrow> client \<Rightarrow> client" where
  "fail i status has_cfg s =
     (let c = in_flight s ! i; cfg = (if has_cfg then Some c else None);
          s' = s\<lparr>in_flight := splice_out i (in_flight s)\<rparr>
      in case on_error (browser s) (pathname s) status cfg of
           Reject r \<Rightarrow> s'\<lparr>settled := settled s' @ [(cfg_id c, False)],
                          redirects := redirects s' + (if r then 1 else 0)\<rparr>
         | Await \<Rightarrow> s'\<lparr>waiting := waiting s' @ [(cfg_id c, cfg)],
                       refresh_calls := refresh_calls s' + (if refreshing s' then 0 else 1),
                       refreshing := True\<rparr>)"

text \<open>The refresh succeeded: \<open>refreshPromise = null\<close>, then every suspended handler retries.\<close>

definition resend :: "config \<Rightarrow> client \<Rightarrow> client" where
  "resend c s = s\<lparr>in_flight := in_flight s @ [c\<lparr>cfg_retry := True\<rparr>], sent := sent s @ [cfg_id c]\<rparr>"

fun resume_ok :: "(nat \<times> config option) list \<Rightarrow> client \<Rightarrow> client" where
  "resume_ok [] s = s"
| "resume_ok ((i, None) # ws) s = resume_ok ws (s\<lparr>settled := settled s @ [(i, False)]\<rparr>)"
| "resume_ok ((i, Some c) # ws) s = resume_ok ws (resend c s)"

definition refresh_ok :: "client \<Rightarrow> client" where
  "refresh_ok s = resume_ok (waiting s)
     (s\<lparr>refreshing := False, waiting := [], refresh_ends := Suc (refresh_ends s)\<rparr>)"

text \<open>
  The refresh failed. Its error passes through the same interceptor first, then
  \<open>refreshPromise\<close> is reset and rejected, and every suspended handler redirects and rejects.
\<close>

fun resume_fail :: "(nat \<times> config option) list \<Rightarrow> client \<Rightarrow> client" where
  "resume_fail [] s = s"
| "resume_fail ((i, c) # ws) s = resume_fail ws
     (s\<lparr>settled := settled s @ [(i, False)],
        redirects := redirects s + (if pathname s \<noteq> root_path then 1 else 0)\<rparr>)"

definition refresh_config :: "nat \<Rightarrow> config" where
  "refresh_config i = \<lparr>cfg_id = i, cfg_url = Some refresh_url, cfg_retry = False\<rparr>"

definition refresh_fail :: "nat option \<Rightarrow> client \<Rightarrow> client" where
  "refresh_fail status s =
     (case on_error (browser s) (pathname s) status (Some (refresh_config (issued s))) of
        Reject r \<Rightarrow> resume_fail (waiting s)
          (s\<lparr>refreshing := False, waiting := [], refresh_ends := Suc (refresh_ends s),
             redirects := redirects s + (if r then 1 else 0)\<rparr>)
      | Await \<Rightarrow> s)"

section \<open>The machine\<close>

text \<open>
  The environment's moves: a component sends a request, the server answers one in flight, the refresh
  call is answered, the user navigates.
\<close>

datatype api_event =
    Send "jstr option"
  | Fulfil nat
  | Fail nat "nat option" bool
  | RefreshOk
  | RefreshFail "nat option"
  | Navigate jstr

fun api_step :: "client \<Rightarrow> api_event \<Rightarrow> client" where
  "api_step s (Send u) = send u s"
| "api_step s (Fulfil i) = fulfil i s"
| "api_step s (Fail i st h) = fail i st h s"
| "api_step s RefreshOk = refresh_ok s"
| "api_step s (RefreshFail st) = refresh_fail st s"
| "api_step s (Navigate p) = s\<lparr>pathname := p\<rparr>"

fun api_enabled :: "client \<Rightarrow> api_event \<Rightarrow> bool" where
  "api_enabled s (Fulfil i) = (i < length (in_flight s))"
| "api_enabled s (Fail i st h) = (i < length (in_flight s))"
| "api_enabled s RefreshOk = refreshing s"
| "api_enabled s (RefreshFail st) = refreshing s"
| "api_enabled s _ = True"

definition api_init :: "bool \<Rightarrow> jstr \<Rightarrow> client" where
  "api_init win p = \<lparr>browser = win, pathname = p, refreshing = False, in_flight = [], waiting = [],
     issued = 0, sent = [], settled = [], redirects = 0, refresh_calls = 0, refresh_ends = 0\<rparr>"

abbreviation api_start :: "client \<Rightarrow> bool" where
  "api_start s \<equiv> \<exists>w p. s = api_init w p"

abbreviation api_reach :: "client \<Rightarrow> bool" where
  "api_reach \<equiv> reach api_start api_enabled api_step"

section \<open>Invariant\<close>

text \<open>
  The ids of a state: every promise is in flight, suspended or settled. The invariant counts the
  attempts of each of them and ties the refresh call to the suspended handlers.
\<close>

definition open_ids :: "client \<Rightarrow> nat multiset" where
  "open_ids s = mset (map cfg_id (in_flight s)) + mset (map fst (waiting s)) + mset (map fst (settled s))"

definition attempts :: "client \<Rightarrow> nat \<Rightarrow> nat" where
  "attempts s i = count (mset (sent s)) i"

definition waiter_ok :: "client \<Rightarrow> nat \<times> config option \<Rightarrow> bool" where
  "waiter_ok s w \<longleftrightarrow>
     (\<forall>c. snd w = Some c \<longrightarrow> attempts s (fst w) = 1 \<and> cfg_id c = fst w \<and> \<not> cfg_retry c)"

definition flight_ok :: "client \<Rightarrow> config \<Rightarrow> bool" where
  "flight_ok s c \<longleftrightarrow> attempts s (cfg_id c) = (if cfg_retry c then 2 else 1)"

definition budget_ok :: "client \<Rightarrow> bool" where
  "budget_ok s \<longleftrightarrow> (\<forall>i. attempts s i \<le> 2 \<and> (issued s \<le> i \<longrightarrow> attempts s i = 0))"

definition api_inv :: "client \<Rightarrow> bool" where
  "api_inv s \<longleftrightarrow>
     open_ids s = mset_set {0..<issued s} \<and>
     (refreshing s \<longleftrightarrow> waiting s \<noteq> []) \<and>
     refresh_calls s = refresh_ends s + (if refreshing s then 1 else 0) \<and>
     (\<forall>c \<in> set (in_flight s). flight_ok s c) \<and>
     (\<forall>w \<in> set (waiting s). waiter_ok s w) \<and>
     budget_ok s"


text \<open>Facts about the multiset of ids that every case below needs.\<close>

lemma open_ids_unique:
  assumes eq: "add_mset i (A + B) = mset_set {0..<n}"
  shows "i < n \<and> i \<notin># A \<and> i \<notin># B"
proof -
  from eq have "count (mset_set {0..<n}) i = Suc (count A i + count B i)"
    by (metis count_add_mset count_union)
  then show ?thesis
    by (cases "i < n") (auto simp: count_mset_set' not_in_iff split: if_splits)
qed

lemma mset_map_splice_out:
  "i < length xs \<Longrightarrow> mset (map f xs) = add_mset (f (xs ! i)) (mset (map f (splice_out i xs)))"
  by (metis image_mset_add_mset mset_map mset_splice_out)

lemma set_splice_out_subset: "set (splice_out i xs) \<subseteq> set xs"
  by (auto simp: splice_out_def dest: in_set_takeD in_set_dropD)

lemma attempts_simps [simp]:
  "attempts (s\<lparr>in_flight := a\<rparr>) = attempts s" "attempts (s\<lparr>waiting := w\<rparr>) = attempts s"
  "attempts (s\<lparr>settled := t\<rparr>) = attempts s" "attempts (s\<lparr>redirects := r\<rparr>) = attempts s"
  "attempts (s\<lparr>refreshing := b\<rparr>) = attempts s" "attempts (s\<lparr>refresh_calls := k\<rparr>) = attempts s"
  "attempts (s\<lparr>refresh_ends := k\<rparr>) = attempts s" "attempts (s\<lparr>pathname := p\<rparr>) = attempts s"
  "attempts (s\<lparr>issued := m\<rparr>) = attempts s"
  by (simp_all add: attempts_def fun_eq_iff)

lemma attempts_sent [simp]:
  "attempts (s\<lparr>sent := sent s @ [i]\<rparr>) j = attempts s j + (if j = i then 1 else 0)"
  by (simp add: attempts_def)

text \<open>
  Every suspended handler resumes in turn; \<open>resuming ws s\<close> is the invariant while the handlers \<open>ws\<close>
  are still to run.
\<close>

definition resuming :: "(nat \<times> config option) list \<Rightarrow> client \<Rightarrow> bool" where
  "resuming ws s \<longleftrightarrow> open_ids s + mset (map fst ws) = mset_set {0..<issued s} \<and>
     (\<forall>c \<in> set (in_flight s). flight_ok s c) \<and> (\<forall>w \<in> set ws. waiter_ok s w) \<and>
     budget_ok s"

lemma resuming_reject:
  assumes "resuming ((i, c) # ws) s"
  shows "resuming ws (s\<lparr>settled := settled s @ [(i, False)]\<rparr>)"
  using assms by (auto simp: resuming_def open_ids_def flight_ok_def waiter_ok_def budget_ok_def)

lemma resuming_resend:
  assumes r: "resuming ((i, Some c) # ws) s"
  shows "resuming ws (resend c s)"
proof -
  from r have c: "cfg_id c = i" "attempts s i = 1" by (auto simp: resuming_def waiter_ok_def)
  from r have "add_mset i (open_ids s + mset (map fst ws)) = mset_set {0..<issued s}"
    by (simp add: resuming_def)
  then have u: "i < issued s" "i \<notin># open_ids s" "i \<notin># mset (map fst ws)"
    using open_ids_unique by blast+
  have at: "attempts (resend c s) j = attempts s j + (if j = i then 1 else 0)" for j
    using c by (simp add: resend_def attempts_def)
  have fl: "flight_ok (resend c s) d" if "d \<in> set (in_flight s)" for d
  proof -
    from that u(2) have "cfg_id d \<noteq> i" by (auto simp: open_ids_def)
    with that r show ?thesis by (auto simp: flight_ok_def at resuming_def)
  qed
  have wt: "waiter_ok (resend c s) w" if "w \<in> set ws" for w
  proof -
    from that u(3) have "fst w \<noteq> i" by auto
    with that r show ?thesis by (auto simp: waiter_ok_def at resuming_def)
  qed
  have "flight_ok (resend c s) (c\<lparr>cfg_retry := True\<rparr>)"
    using c by (simp add: flight_ok_def at)
  moreover have "open_ids (resend c s) + mset (map fst ws) = mset_set {0..<issued (resend c s)}"
    using r c by (simp add: resuming_def open_ids_def resend_def)
  moreover have "budget_ok (resend c s)"
  proof -
    have "budget_ok s" using r by (simp add: resuming_def)
    then show ?thesis using c u(1) by (auto simp: budget_ok_def at) (auto simp: resend_def)
  qed
  ultimately show ?thesis
    using fl wt by (auto simp: resuming_def resend_def)
qed


lemma resume_ok_frame:
  "waiting (resume_ok ws s) = waiting s \<and> refreshing (resume_ok ws s) = refreshing s \<and>
   issued (resume_ok ws s) = issued s \<and> refresh_calls (resume_ok ws s) = refresh_calls s \<and>
   refresh_ends (resume_ok ws s) = refresh_ends s \<and> redirects (resume_ok ws s) = redirects s"
  by (induction ws s rule: resume_ok.induct) (auto simp: resend_def)

lemma resume_fail_frame:
  "waiting (resume_fail ws s) = waiting s \<and> refreshing (resume_fail ws s) = refreshing s \<and>
   issued (resume_fail ws s) = issued s \<and> refresh_calls (resume_fail ws s) = refresh_calls s \<and>
   refresh_ends (resume_fail ws s) = refresh_ends s \<and> in_flight (resume_fail ws s) = in_flight s \<and>
   pathname (resume_fail ws s) = pathname s \<and>
   settled (resume_fail ws s) = settled s @ map (\<lambda>w. (fst w, False)) ws \<and>
   redirects (resume_fail ws s) = redirects s + (if pathname s \<noteq> root_path then length ws else 0)"
  by (induction ws s rule: resume_fail.induct) auto

lemma resuming_resume_ok: "resuming ws s \<Longrightarrow> resuming [] (resume_ok ws s)"
  by (induction ws s rule: resume_ok.induct) (auto dest: resuming_reject resuming_resend)

lemma resuming_redirects [simp]: "resuming ws (s\<lparr>redirects := r\<rparr>) = resuming ws s"
  by (simp add: resuming_def open_ids_def flight_ok_def waiter_ok_def budget_ok_def)

lemma resuming_resume_fail: "resuming ws s \<Longrightarrow> resuming [] (resume_fail ws s)"
proof (induction ws s rule: resume_fail.induct)
  case (2 i c ws s)
  from 2(2) have "resuming ws (s\<lparr>settled := settled s @ [(i, False)]\<rparr>)" by (rule resuming_reject)
  then have "resuming ws (s\<lparr>settled := settled s @ [(i, False)],
      redirects := redirects s + (if pathname s \<noteq> root_path then 1 else 0)\<rparr>)"
    by simp
  with 2(1) show ?case by simp
qed simp

lemma api_inv_resuming:
  "api_inv s \<Longrightarrow> resuming (waiting s) (s\<lparr>refreshing := False, waiting := [], refresh_ends := k, redirects := r\<rparr>)"
  by (auto simp: api_inv_def resuming_def open_ids_def flight_ok_def waiter_ok_def budget_ok_def ac_simps)

lemma resuming_Nil_inv:
  "resuming [] s \<Longrightarrow> waiting s = [] \<Longrightarrow> \<not> refreshing s \<Longrightarrow> refresh_calls s = refresh_ends s \<Longrightarrow> api_inv s"
  by (simp add: resuming_def api_inv_def)

section \<open>Every operation keeps the invariant\<close>

lemma inv_send: "api_inv s \<Longrightarrow> api_inv (send u s)"
proof -
  assume inv: "api_inv s"
  have at: "attempts (send u s) j = attempts s j + (if j = issued s then 1 else 0)" for j
    by (simp add: send_def attempts_def)
  have old: "i < issued s" if "i \<in># open_ids s" for i
    using that inv by (auto simp: api_inv_def)
  have new: "attempts s (issued s) = 0" using inv by (simp add: api_inv_def budget_ok_def)
  have fl: "flight_ok (send u s) c" if "c \<in> set (in_flight s)" for c
  proof -
    from that have "cfg_id c < issued s" by (intro old) (auto simp: open_ids_def)
    with that inv show ?thesis by (auto simp: flight_ok_def at api_inv_def)
  qed
  have wt: "waiter_ok (send u s) w" if "w \<in> set (waiting s)" for w
  proof -
    from that have "fst w < issued s" by (intro old) (auto simp: open_ids_def)
    with that inv show ?thesis by (auto simp: waiter_ok_def at api_inv_def)
  qed
  have "open_ids (send u s) = add_mset (issued s) (open_ids s)"
    by (simp add: open_ids_def send_def)
  also have "\<dots> = mset_set {0..<Suc (issued s)}"
    using inv by (simp add: api_inv_def atLeastLessThanSuc)
  finally have ids: "open_ids (send u s) = mset_set {0..<issued (send u s)}"
    by (simp add: send_def)
  have bound: "budget_ok (send u s)"
    using inv new by (auto simp: api_inv_def budget_ok_def at) (auto simp: send_def)
  have "flight_ok (send u s) \<lparr>cfg_id = issued s, cfg_url = u, cfg_retry = False\<rparr>"
    using new by (simp add: flight_ok_def at)
  moreover have "in_flight (send u s) = in_flight s @ [\<lparr>cfg_id = issued s, cfg_url = u, cfg_retry = False\<rparr>]"
    "waiting (send u s) = waiting s" "refreshing (send u s) = refreshing s"
    "refresh_calls (send u s) = refresh_calls s" "refresh_ends (send u s) = refresh_ends s"
    by (simp_all add: send_def)
  ultimately show ?thesis
    using inv fl wt ids bound by (auto simp: api_inv_def)
qed

text \<open>Taking a request out of flight and putting its id elsewhere.\<close>

lemma open_ids_move:
  assumes "i < length (in_flight s)"
  shows "open_ids (s\<lparr>in_flight := splice_out i (in_flight s),
      settled := settled s @ [(cfg_id (in_flight s ! i), b)], redirects := r\<rparr>) = open_ids s"
    and "open_ids (s\<lparr>in_flight := splice_out i (in_flight s),
      waiting := waiting s @ [(cfg_id (in_flight s ! i), c)], refresh_calls := k, refreshing := f\<rparr>) = open_ids s"
  using mset_map_splice_out [OF assms, of cfg_id] by (auto simp: open_ids_def)

lemma inv_settle:
  assumes "api_inv s" and "i < length (in_flight s)"
  shows "api_inv (s\<lparr>in_flight := splice_out i (in_flight s),
      settled := settled s @ [(cfg_id (in_flight s ! i), b)], redirects := r\<rparr>)"
  using assms open_ids_move(1) [OF assms(2), where b = b and r = r]
    set_splice_out_subset [of i "in_flight s"]
  by (auto simp: api_inv_def budget_ok_def flight_ok_def waiter_ok_def)

lemma inv_suspend:
  assumes inv: "api_inv s" and i: "i < length (in_flight s)"
    and c: "c = None \<or> c = Some (in_flight s ! i) \<and> \<not> cfg_retry (in_flight s ! i)"
  shows "api_inv (s\<lparr>in_flight := splice_out i (in_flight s),
      waiting := waiting s @ [(cfg_id (in_flight s ! i), c)],
      refresh_calls := refresh_calls s + (if refreshing s then 0 else 1), refreshing := True\<rparr>)"
    (is "api_inv ?t")
proof -
  have at: "attempts ?t = attempts s" by simp
  have "flight_ok s (in_flight s ! i)" using inv i by (simp add: api_inv_def)
  then have w: "waiter_ok ?t (cfg_id (in_flight s ! i), c)"
    using c unfolding waiter_ok_def flight_ok_def at by auto
  have "open_ids ?t = open_ids s" by (rule open_ids_move(2) [OF i])
  moreover have "budget_ok ?t" using inv unfolding budget_ok_def at by (simp add: api_inv_def budget_ok_def)
  moreover have "flight_ok ?t d" if "d \<in> set (in_flight ?t)" for d
    using that inv set_splice_out_subset [of i "in_flight s"]
    unfolding flight_ok_def at by (auto simp: api_inv_def flight_ok_def)
  moreover have "waiter_ok ?t v" if "v \<in> set (waiting s)" for v
    using that inv unfolding waiter_ok_def at by (auto simp: api_inv_def waiter_ok_def)
  ultimately show ?thesis
    using inv w by (simp add: api_inv_def)
qed

lemma inv_fulfil: "api_inv s \<Longrightarrow> i < length (in_flight s) \<Longrightarrow> api_inv (fulfil i s)"
  using inv_settle [where b = True and r = "redirects s" and s = s and i = i] by (simp add: fulfil_def)

lemma on_error_Await:
  "on_error w p st (Some c) = Await \<Longrightarrow> \<not> cfg_retry c"
  by (auto simp: on_error_def split: if_splits)

lemma fail_cases:
  obtains (rejected) r where "fail i st h s = s\<lparr>in_flight := splice_out i (in_flight s),
      settled := settled s @ [(cfg_id (in_flight s ! i), False)], redirects := r\<rparr>"
  | (suspended) c where "c = None \<or> c = Some (in_flight s ! i) \<and> \<not> cfg_retry (in_flight s ! i)"
    and "fail i st h s = s\<lparr>in_flight := splice_out i (in_flight s),
      waiting := waiting s @ [(cfg_id (in_flight s ! i), c)],
      refresh_calls := refresh_calls s + (if refreshing s then 0 else 1), refreshing := True\<rparr>"
proof (cases "on_error (browser s) (pathname s) st (if h then Some (in_flight s ! i) else None)")
  case (Reject r)
  then show ?thesis by (intro that(1)) (simp add: fail_def)
next
  case Await
  then show ?thesis
    by (intro that(2) [of "if h then Some (in_flight s ! i) else None"])
       (auto simp: fail_def Let_def dest: on_error_Await)
qed

lemma inv_fail: "api_inv s \<Longrightarrow> i < length (in_flight s) \<Longrightarrow> api_inv (fail i st h s)"
  by (rule fail_cases [of i st h s]) (simp_all only: inv_settle inv_suspend)

lemma inv_refresh_ok: "api_inv s \<Longrightarrow> refreshing s \<Longrightarrow> api_inv (refresh_ok s)"
  unfolding refresh_ok_def using api_inv_resuming [where k = "Suc (refresh_ends s)" and r = "redirects s" and s = s]
  by (intro resuming_Nil_inv resuming_resume_ok) (simp_all add: resume_ok_frame, simp add: api_inv_def)

text \<open>The refresh call's own 401 never waits for the refresh: no deadlock.\<close>

lemma refresh_config_rejects: "\<exists>r. on_error w p st (Some (refresh_config i)) = Reject r"
proof -
  have "includes_str refresh_url refresh_url" by (simp add: includes_str_iff exI [of _ "[]"])
  then show ?thesis by (cases "st = Some 401 \<and> w"; cases "p = root_path") (auto simp: on_error_def refresh_config_def)
qed

lemma inv_refresh_fail: "api_inv s \<Longrightarrow> refreshing s \<Longrightarrow> api_inv (refresh_fail st s)"
proof -
  assume inv: "api_inv s" "refreshing s"
  obtain r where r: "on_error (browser s) (pathname s) st (Some (refresh_config (issued s))) = Reject r"
    using refresh_config_rejects by blast
  show ?thesis
    unfolding refresh_fail_def r using inv api_inv_resuming [OF inv(1)]
    by (auto intro!: resuming_Nil_inv resuming_resume_fail simp: resume_fail_frame)
       (simp_all add: api_inv_def)
qed

lemma inv_navigate: "api_inv s \<Longrightarrow> api_inv (s\<lparr>pathname := p\<rparr>)"
  by (simp add: api_inv_def open_ids_def budget_ok_def flight_ok_def waiter_ok_def)

lemma inv_init: "api_inv (api_init w p)"
  by (simp add: api_inv_def api_init_def open_ids_def budget_ok_def attempts_def)

lemma inv_api_step: "api_inv s \<Longrightarrow> api_enabled s e \<Longrightarrow> api_inv (api_step s e)"
  by (cases e) (auto intro: inv_send inv_fulfil inv_fail inv_refresh_ok inv_refresh_fail inv_navigate)

interpretation api: guarded_machine api_start api_enabled api_step api_inv
  by unfold_locales (auto intro: inv_init inv_api_step)


section \<open>Quiescence\<close>

text \<open>
  Once the components stop sending, the client settles: every answer of the server uses up a unit of
  the potential below. A fresh request costs four, a suspended handler three (one if its error had
  no config, since it cannot be retried), a retry two.
\<close>

fun is_answer :: "api_event \<Rightarrow> bool" where
  "is_answer (Send u) = False"
| "is_answer (Navigate p) = False"
| "is_answer e = True"

definition flight_cost :: "config \<Rightarrow> nat" where
  "flight_cost c = (if cfg_retry c then 2 else 4)"

definition wait_cost :: "nat \<times> config option \<Rightarrow> nat" where
  "wait_cost w = (if snd w = None then 1 else 3)"

definition potential :: "client \<Rightarrow> nat" where
  "potential s = sum_list (map flight_cost (in_flight s)) + sum_list (map wait_cost (waiting s))"

lemma sum_list_splice_out:
  fixes f :: "'a \<Rightarrow> nat"
  assumes "i < length xs"
  shows "sum_list (map f xs) = f (xs ! i) + sum_list (map f (splice_out i xs))"
proof -
  from id_take_nth_drop [OF assms]
  have "sum_list (map f xs) = sum_list (map f (take i xs @ xs ! i # drop (Suc i) xs))" by simp
  then show ?thesis by (simp add: splice_out_def)
qed

lemma potential_resume_ok:
  "sum_list (map flight_cost (in_flight (resume_ok ws s))) + length ws
     \<le> sum_list (map flight_cost (in_flight s)) + sum_list (map wait_cost ws)"
  by (induction ws s rule: resume_ok.induct) (auto simp: resend_def flight_cost_def wait_cost_def)

lemma potential_resume_less:
  "ws \<noteq> [] \<Longrightarrow> sum_list (map flight_cost (in_flight (resume_ok ws s)))
     < sum_list (map flight_cost (in_flight s)) + sum_list (map wait_cost ws)"
proof -
  assume "ws \<noteq> []"
  then have "0 < length ws" by simp
  with potential_resume_ok [of ws s] show ?thesis by linarith
qed

lemma wait_cost_pos: "ws \<noteq> [] \<Longrightarrow> 0 < sum_list (map wait_cost ws)"
  by (cases ws) (auto simp: wait_cost_def)

lemma potential_step:
  assumes inv: "api_inv s" and en: "api_enabled s e" and "is_answer e"
  shows "potential (api_step s e) < potential s"
proof (cases e)
  case (Fulfil i)
  then have "i < length (in_flight s)" using en by simp
  from sum_list_splice_out [OF this, of flight_cost] Fulfil show ?thesis
    by (simp add: potential_def fulfil_def flight_cost_def)
next
  case (Fail i st h)
  then have i: "i < length (in_flight s)" using en by simp
  have cost: "flight_cost (in_flight s ! i) \<ge> 2" by (simp add: flight_cost_def)
  show ?thesis
    by (rule fail_cases [of i st h s])
       (use sum_list_splice_out [OF i, of flight_cost] cost Fail in
         \<open>auto simp: potential_def wait_cost_def flight_cost_def\<close>)
next
  case RefreshOk
  then have "waiting s \<noteq> []" using inv en by (simp add: api_inv_def)
  with potential_resume_less [of "waiting s" "s\<lparr>refreshing := False, waiting := [], refresh_ends := Suc (refresh_ends s)\<rparr>"]
  show ?thesis using RefreshOk
    by (simp add: potential_def refresh_ok_def resume_ok_frame)
next
  case (RefreshFail st)
  then have "waiting s \<noteq> []" using inv en by (simp add: api_inv_def)
  with RefreshFail wait_cost_pos show ?thesis
    using refresh_config_rejects [of "browser s" "pathname s" st "issued s"]
    by (auto simp: potential_def refresh_fail_def resume_fail_frame)
qed (use assms(3) in simp_all)

lemma potential_bound: "api_inv s \<Longrightarrow> potential s \<le> 4 * issued s"
proof -
  assume "api_inv s"
  then have "size (open_ids s) = issued s" by (simp add: api_inv_def)
  then have "length (in_flight s) + length (waiting s) \<le> issued s" by (simp add: open_ids_def)
  moreover have "sum_list (map flight_cost cs) \<le> 4 * length cs" for cs
    by (induction cs) (auto simp: flight_cost_def)
  moreover have "sum_list (map wait_cost ws) \<le> 4 * length ws" for ws
    by (induction ws) (auto simp: wait_cost_def)
  ultimately show ?thesis
    unfolding potential_def by (smt (verit) add_mono add_mult_distrib2 le_trans mult_le_mono2)
qed

lemma answers_bounded:
  "run api_enabled api_step s es = Some t \<Longrightarrow> list_all is_answer es \<Longrightarrow> api_inv s
     \<Longrightarrow> api_inv t \<and> potential t + length es \<le> potential s"
proof (induction es arbitrary: s)
  case (Cons e es)
  then have e: "api_enabled s e" "is_answer e" and r: "run api_enabled api_step (api_step s e) es = Some t"
    by (auto split: if_splits)
  with Cons have "api_inv t \<and> potential t + length es \<le> potential (api_step s e)"
    using inv_api_step by simp
  with potential_step [OF Cons.prems(3) e] show ?case by simp
qed simp

definition quiet :: "client \<Rightarrow> bool" where
  "quiet s \<longleftrightarrow> in_flight s = [] \<and> \<not> refreshing s"

lemma not_quiet_answer:
  "api_inv s \<Longrightarrow> \<not> quiet s \<Longrightarrow> \<exists>e. api_enabled s e \<and> is_answer e"
  by (cases "refreshing s") (auto simp: quiet_def intro: exI [of _ RefreshOk] exI [of _ "Fulfil 0"])

lemma quiet_settled:
  "api_inv s \<Longrightarrow> quiet s \<Longrightarrow> mset (map fst (settled s)) = mset_set {0..<issued s}"
  by (simp add: api_inv_def quiet_def open_ids_def)

section \<open>Errors of a request\<close>

text \<open>
  What a \<open>catch\<close> clause receives, as far as the client looks: a value with no \<open>response\<close> property
  (a network failure), or a response whose body may carry the API's \<open>fields\<close> and \<open>error\<close>.
\<close>

record field_error =
  fe_field :: jstr
  fe_message :: jstr

record error_body =
  eb_fields :: "field_error list option"
  eb_error :: "jstr option"

datatype thrown = NotAnObject | NoResponse | HasResponse "error_body option option"

definition response_body :: "thrown \<Rightarrow> error_body option" where
  "response_body err = (case err of HasResponse (Some (Some b)) \<Rightarrow> Some b | _ \<Rightarrow> None)"

definition extractFieldErrors :: "thrown \<Rightarrow> (jstr \<times> jstr) list" where
  "extractFieldErrors err =
     (case response_body err of
        None \<Rightarrow> []
      | Some b \<Rightarrow> (case eb_fields b of
           None \<Rightarrow> []
         | Some fs \<Rightarrow> from_entries (map (\<lambda>f. (fe_field f, fe_message f)) fs)))"

text \<open>\<open>err.response?.data?.error ?? fallback\<close>.\<close>

definition error_or :: "jstr \<Rightarrow> thrown \<Rightarrow> jstr" where
  "error_or d err = (case response_body err of None \<Rightarrow> d | Some b \<Rightarrow> (case eb_error b of None \<Rightarrow> d | Some m \<Rightarrow> m))"

lemma extractFieldErrors_distinct: "distinct (map fst (extractFieldErrors err))"
  by (auto simp: extractFieldErrors_def distinct_from_entries split: option.splits)

lemma extractFieldErrors_Nil_iff:
  "extractFieldErrors err = [] \<longleftrightarrow>
     (\<forall>b. response_body err = Some b \<longrightarrow> eb_fields b = None \<or> eb_fields b = Some [])"
  by (auto simp: extractFieldErrors_def from_entries_Nil_iff split: option.splits)

text \<open>
  What a form's submit handler does with it: \<open>setError\<close> for every field the server names, and the
  banner it shows above the form.
\<close>

definition submit_error :: "jstr \<Rightarrow> jstr \<Rightarrow> thrown \<Rightarrow> (jstr \<times> jstr) list \<times> jstr" where
  "submit_error fix_text other_text err =
     (let fe = extractFieldErrors err
      in if fe \<noteq> [] then (fe, fix_text) else ([], error_or other_text err))"

end
