(* ===== verification/LocationTable.thy ===== *)
theory LocationTable
  imports Prelude
begin

text \<open>
  The location table \<open>LOCATION_GROUPS\<close> of \<open>src/apps/web/types/index.ts\<close>, one definition per city
  (\<open>city_c\<close> for the city with code \<open>c\<close>), in the source's order.
\<close>

record location_district =
  ld_id :: jstr
  ld_districtLabel :: jstr
  ld_label :: jstr

record location_city =
  lc_cityCode :: jstr
  lc_cityLabel :: jstr
  lc_districts :: "location_district list"

abbreviation (input) district :: "string \<Rightarrow> jstr \<Rightarrow> jstr \<Rightarrow> location_district" where
  "district i d l \<equiv> \<lparr>ld_id = js i, ld_districtLabel = d, ld_label = l\<rparr>"

named_theorems city_defs \<open>the table's cities\<close>

definition city_01 :: location_city where
  [city_defs]: "city_01 = \<lparr>lc_cityCode = js ''01'', lc_cityLabel = [0x53F0, 0x5317, 0x5E02], lc_districts = [
    district ''01-0101'' [0x677E, 0x5C71, 0x5340]
      [0x53F0, 0x5317, 0x5E02, 0x30FB, 0x677E, 0x5C71, 0x5340],
    district ''01-0102'' [0x5927, 0x5B89, 0x5340]
      [0x53F0, 0x5317, 0x5E02, 0x30FB, 0x5927, 0x5B89, 0x5340],
    district ''01-0109'' [0x5927, 0x540C, 0x5340]
      [0x53F0, 0x5317, 0x5E02, 0x30FB, 0x5927, 0x540C, 0x5340],
    district ''01-0110'' [0x4E2D, 0x5C71, 0x5340]
      [0x53F0, 0x5317, 0x5E02, 0x30FB, 0x4E2D, 0x5C71, 0x5340],
    district ''01-0111'' [0x5167, 0x6E56, 0x5340]
      [0x53F0, 0x5317, 0x5E02, 0x30FB, 0x5167, 0x6E56, 0x5340],
    district ''01-0112'' [0x5357, 0x6E2F, 0x5340]
      [0x53F0, 0x5317, 0x5E02, 0x30FB, 0x5357, 0x6E2F, 0x5340],
    district ''01-0115'' [0x58EB, 0x6797, 0x5340]
      [0x53F0, 0x5317, 0x5E02, 0x30FB, 0x58EB, 0x6797, 0x5340],
    district ''01-0116'' [0x5317, 0x6295, 0x5340]
      [0x53F0, 0x5317, 0x5E02, 0x30FB, 0x5317, 0x6295, 0x5340],
    district ''01-0117'' [0x4FE1, 0x7FA9, 0x5340]
      [0x53F0, 0x5317, 0x5E02, 0x30FB, 0x4FE1, 0x7FA9, 0x5340],
    district ''01-0118'' [0x4E2D, 0x6B63, 0x5340]
      [0x53F0, 0x5317, 0x5E02, 0x30FB, 0x4E2D, 0x6B63, 0x5340],
    district ''01-0119'' [0x842C, 0x83EF, 0x5340]
      [0x53F0, 0x5317, 0x5E02, 0x30FB, 0x842C, 0x83EF, 0x5340],
    district ''01-0120'' [0x6587, 0x5C71, 0x5340]
      [0x53F0, 0x5317, 0x5E02, 0x30FB, 0x6587, 0x5C71, 0x5340]]\<rparr>"

definition city_31 :: location_city where
  [city_defs]: "city_31 = \<lparr>lc_cityCode = js ''31'', lc_cityLabel = [0x65B0, 0x5317, 0x5E02], lc_districts = [
    district ''31-3101'' [0x677F, 0x6A4B, 0x5340]
      [0x65B0, 0x5317, 0x5E02, 0x30FB, 0x677F, 0x6A4B, 0x5340],
    district ''31-3102'' [0x4E09, 0x91CD, 0x5340]
      [0x65B0, 0x5317, 0x5E02, 0x30FB, 0x4E09, 0x91CD, 0x5340],
    district ''31-3103'' [0x6C38, 0x548C, 0x5340]
      [0x65B0, 0x5317, 0x5E02, 0x30FB, 0x6C38, 0x548C, 0x5340],
    district ''31-3104'' [0x4E2D, 0x548C, 0x5340]
      [0x65B0, 0x5317, 0x5E02, 0x30FB, 0x4E2D, 0x548C, 0x5340],
    district ''31-3105'' [0x65B0, 0x5E97, 0x5340]
      [0x65B0, 0x5317, 0x5E02, 0x30FB, 0x65B0, 0x5E97, 0x5340],
    district ''31-3106'' [0x65B0, 0x838A, 0x5340]
      [0x65B0, 0x5317, 0x5E02, 0x30FB, 0x65B0, 0x838A, 0x5340],
    district ''31-3107'' [0x6A39, 0x6797, 0x5340]
      [0x65B0, 0x5317, 0x5E02, 0x30FB, 0x6A39, 0x6797, 0x5340],
    district ''31-3108'' [0x9DAF, 0x6B4C, 0x5340]
      [0x65B0, 0x5317, 0x5E02, 0x30FB, 0x9DAF, 0x6B4C, 0x5340],
    district ''31-3109'' [0x4E09, 0x5CFD, 0x5340]
      [0x65B0, 0x5317, 0x5E02, 0x30FB, 0x4E09, 0x5CFD, 0x5340],
    district ''31-3110'' [0x6DE1, 0x6C34, 0x5340]
      [0x65B0, 0x5317, 0x5E02, 0x30FB, 0x6DE1, 0x6C34, 0x5340],
    district ''31-3111'' [0x6C50, 0x6B62, 0x5340]
      [0x65B0, 0x5317, 0x5E02, 0x30FB, 0x6C50, 0x6B62, 0x5340],
    district ''31-3112'' [0x745E, 0x82B3, 0x5340]
      [0x65B0, 0x5317, 0x5E02, 0x30FB, 0x745E, 0x82B3, 0x5340],
    district ''31-3113'' [0x571F, 0x57CE, 0x5340]
      [0x65B0, 0x5317, 0x5E02, 0x30FB, 0x571F, 0x57CE, 0x5340],
    district ''31-3114'' [0x8606, 0x6D32, 0x5340]
      [0x65B0, 0x5317, 0x5E02, 0x30FB, 0x8606, 0x6D32, 0x5340],
    district ''31-3115'' [0x4E94, 0x80A1, 0x5340]
      [0x65B0, 0x5317, 0x5E02, 0x30FB, 0x4E94, 0x80A1, 0x5340],
    district ''31-3116'' [0x6CF0, 0x5C71, 0x5340]
      [0x65B0, 0x5317, 0x5E02, 0x30FB, 0x6CF0, 0x5C71, 0x5340],
    district ''31-3117'' [0x6797, 0x53E3, 0x5340]
      [0x65B0, 0x5317, 0x5E02, 0x30FB, 0x6797, 0x53E3, 0x5340],
    district ''31-3118'' [0x6DF1, 0x5751, 0x5340]
      [0x65B0, 0x5317, 0x5E02, 0x30FB, 0x6DF1, 0x5751, 0x5340],
    district ''31-3119'' [0x77F3, 0x7887, 0x5340]
      [0x65B0, 0x5317, 0x5E02, 0x30FB, 0x77F3, 0x7887, 0x5340],
    district ''31-3120'' [0x576A, 0x6797, 0x5340]
      [0x65B0, 0x5317, 0x5E02, 0x30FB, 0x576A, 0x6797, 0x5340],
    district ''31-3121'' [0x4E09, 0x829D, 0x5340]
      [0x65B0, 0x5317, 0x5E02, 0x30FB, 0x4E09, 0x829D, 0x5340],
    district ''31-3122'' [0x77F3, 0x9580, 0x5340]
      [0x65B0, 0x5317, 0x5E02, 0x30FB, 0x77F3, 0x9580, 0x5340],
    district ''31-3123'' [0x516B, 0x91CC, 0x5340]
      [0x65B0, 0x5317, 0x5E02, 0x30FB, 0x516B, 0x91CC, 0x5340],
    district ''31-3124'' [0x5E73, 0x6EAA, 0x5340]
      [0x65B0, 0x5317, 0x5E02, 0x30FB, 0x5E73, 0x6EAA, 0x5340],
    district ''31-3125'' [0x96D9, 0x6EAA, 0x5340]
      [0x65B0, 0x5317, 0x5E02, 0x30FB, 0x96D9, 0x6EAA, 0x5340],
    district ''31-3126'' [0x8CA2, 0x5BEE, 0x5340]
      [0x65B0, 0x5317, 0x5E02, 0x30FB, 0x8CA2, 0x5BEE, 0x5340],
    district ''31-3127'' [0x91D1, 0x5C71, 0x5340]
      [0x65B0, 0x5317, 0x5E02, 0x30FB, 0x91D1, 0x5C71, 0x5340],
    district ''31-3128'' [0x842C, 0x91CC, 0x5340]
      [0x65B0, 0x5317, 0x5E02, 0x30FB, 0x842C, 0x91CC, 0x5340],
    district ''31-3129'' [0x70CF, 0x4F86, 0x5340]
      [0x65B0, 0x5317, 0x5E02, 0x30FB, 0x70CF, 0x4F86, 0x5340]]\<rparr>"

definition city_32 :: location_city where
  [city_defs]: "city_32 = \<lparr>lc_cityCode = js ''32'', lc_cityLabel = [0x6843, 0x5712, 0x5E02], lc_districts = [
    district ''32-3201'' [0x6843, 0x5712, 0x5340]
      [0x6843, 0x5712, 0x5E02, 0x30FB, 0x6843, 0x5712, 0x5340],
    district ''32-3202'' [0x4E2D, 0x58E2, 0x5340]
      [0x6843, 0x5712, 0x5E02, 0x30FB, 0x4E2D, 0x58E2, 0x5340],
    district ''32-3203'' [0x5927, 0x6EAA, 0x5340]
      [0x6843, 0x5712, 0x5E02, 0x30FB, 0x5927, 0x6EAA, 0x5340],
    district ''32-3204'' [0x694A, 0x6885, 0x5340]
      [0x6843, 0x5712, 0x5E02, 0x30FB, 0x694A, 0x6885, 0x5340],
    district ''32-3205'' [0x8606, 0x7AF9, 0x5340]
      [0x6843, 0x5712, 0x5E02, 0x30FB, 0x8606, 0x7AF9, 0x5340],
    district ''32-3206'' [0x5927, 0x5712, 0x5340]
      [0x6843, 0x5712, 0x5E02, 0x30FB, 0x5927, 0x5712, 0x5340],
    district ''32-3207'' [0x9F9C, 0x5C71, 0x5340]
      [0x6843, 0x5712, 0x5E02, 0x30FB, 0x9F9C, 0x5C71, 0x5340],
    district ''32-3208'' [0x516B, 0x5FB7, 0x5340]
      [0x6843, 0x5712, 0x5E02, 0x30FB, 0x516B, 0x5FB7, 0x5340],
    district ''32-3209'' [0x9F8D, 0x6F6D, 0x5340]
      [0x6843, 0x5712, 0x5E02, 0x30FB, 0x9F8D, 0x6F6D, 0x5340],
    district ''32-3210'' [0x5E73, 0x93AE, 0x5340]
      [0x6843, 0x5712, 0x5E02, 0x30FB, 0x5E73, 0x93AE, 0x5340],
    district ''32-3211'' [0x65B0, 0x5C4B, 0x5340]
      [0x6843, 0x5712, 0x5E02, 0x30FB, 0x65B0, 0x5C4B, 0x5340],
    district ''32-3212'' [0x89C0, 0x97F3, 0x5340]
      [0x6843, 0x5712, 0x5E02, 0x30FB, 0x89C0, 0x97F3, 0x5340],
    district ''32-3213'' [0x5FA9, 0x8208, 0x5340]
      [0x6843, 0x5712, 0x5E02, 0x30FB, 0x5FA9, 0x8208, 0x5340]]\<rparr>"

definition city_12 :: location_city where
  [city_defs]: "city_12 = \<lparr>lc_cityCode = js ''12'', lc_cityLabel = [0x65B0, 0x7AF9, 0x5E02], lc_districts = [
    district ''12-1201'' [0x6771, 0x5340]
      [0x65B0, 0x7AF9, 0x5E02, 0x30FB, 0x6771, 0x5340],
    district ''12-1204'' [0x5317, 0x5340]
      [0x65B0, 0x7AF9, 0x5E02, 0x30FB, 0x5317, 0x5340],
    district ''12-1205'' [0x9999, 0x5C71, 0x5340]
      [0x65B0, 0x7AF9, 0x5E02, 0x30FB, 0x9999, 0x5C71, 0x5340]]\<rparr>"

definition city_33 :: location_city where
  [city_defs]: "city_33 = \<lparr>lc_cityCode = js ''33'', lc_cityLabel = [0x65B0, 0x7AF9, 0x7E23], lc_districts = [
    district ''33-3301'' [0x95DC, 0x897F, 0x93AE]
      [0x65B0, 0x7AF9, 0x7E23, 0x30FB, 0x95DC, 0x897F, 0x93AE],
    district ''33-3302'' [0x65B0, 0x57D4, 0x93AE]
      [0x65B0, 0x7AF9, 0x7E23, 0x30FB, 0x65B0, 0x57D4, 0x93AE],
    district ''33-3303'' [0x7AF9, 0x6771, 0x93AE]
      [0x65B0, 0x7AF9, 0x7E23, 0x30FB, 0x7AF9, 0x6771, 0x93AE],
    district ''33-3305'' [0x7AF9, 0x5317, 0x5E02]
      [0x65B0, 0x7AF9, 0x7E23, 0x30FB, 0x7AF9, 0x5317, 0x5E02],
    district ''33-3306'' [0x6E56, 0x53E3, 0x9109]
      [0x65B0, 0x7AF9, 0x7E23, 0x30FB, 0x6E56, 0x53E3, 0x9109],
    district ''33-3307'' [0x6A6B, 0x5C71, 0x9109]
      [0x65B0, 0x7AF9, 0x7E23, 0x30FB, 0x6A6B, 0x5C71, 0x9109],
    district ''33-3308'' [0x65B0, 0x8C50, 0x9109]
      [0x65B0, 0x7AF9, 0x7E23, 0x30FB, 0x65B0, 0x8C50, 0x9109],
    district ''33-3309'' [0x828E, 0x6797, 0x9109]
      [0x65B0, 0x7AF9, 0x7E23, 0x30FB, 0x828E, 0x6797, 0x9109],
    district ''33-3310'' [0x5BF6, 0x5C71, 0x9109]
      [0x65B0, 0x7AF9, 0x7E23, 0x30FB, 0x5BF6, 0x5C71, 0x9109],
    district ''33-3311'' [0x5317, 0x57D4, 0x9109]
      [0x65B0, 0x7AF9, 0x7E23, 0x30FB, 0x5317, 0x57D4, 0x9109],
    district ''33-3312'' [0x5CE8, 0x7709, 0x9109]
      [0x65B0, 0x7AF9, 0x7E23, 0x30FB, 0x5CE8, 0x7709, 0x9109],
    district ''33-3313'' [0x5C16, 0x77F3, 0x9109]
      [0x65B0, 0x7AF9, 0x7E23, 0x30FB, 0x5C16, 0x77F3, 0x9109],
    district ''33-3314'' [0x4E94, 0x5CF0, 0x9109]
      [0x65B0, 0x7AF9, 0x7E23, 0x30FB, 0x4E94, 0x5CF0, 0x9109]]\<rparr>"

definition city_35 :: location_city where
  [city_defs]: "city_35 = \<lparr>lc_cityCode = js ''35'', lc_cityLabel = [0x82D7, 0x6817, 0x7E23], lc_districts = [
    district ''35-3501'' [0x82D7, 0x6817, 0x5E02]
      [0x82D7, 0x6817, 0x7E23, 0x30FB, 0x82D7, 0x6817, 0x5E02],
    district ''35-3502'' [0x82D1, 0x88E1, 0x93AE]
      [0x82D7, 0x6817, 0x7E23, 0x30FB, 0x82D1, 0x88E1, 0x93AE],
    district ''35-3503'' [0x901A, 0x9704, 0x93AE]
      [0x82D7, 0x6817, 0x7E23, 0x30FB, 0x901A, 0x9704, 0x93AE],
    district ''35-3504'' [0x7AF9, 0x5357, 0x93AE]
      [0x82D7, 0x6817, 0x7E23, 0x30FB, 0x7AF9, 0x5357, 0x93AE],
    district ''35-3505'' [0x982D, 0x4EFD, 0x5E02]
      [0x82D7, 0x6817, 0x7E23, 0x30FB, 0x982D, 0x4EFD, 0x5E02],
    district ''35-3506'' [0x5F8C, 0x9F8D, 0x93AE]
      [0x82D7, 0x6817, 0x7E23, 0x30FB, 0x5F8C, 0x9F8D, 0x93AE],
    district ''35-3507'' [0x5353, 0x862D, 0x93AE]
      [0x82D7, 0x6817, 0x7E23, 0x30FB, 0x5353, 0x862D, 0x93AE],
    district ''35-3508'' [0x5927, 0x6E56, 0x9109]
      [0x82D7, 0x6817, 0x7E23, 0x30FB, 0x5927, 0x6E56, 0x9109],
    district ''35-3509'' [0x516C, 0x9928, 0x9109]
      [0x82D7, 0x6817, 0x7E23, 0x30FB, 0x516C, 0x9928, 0x9109],
    district ''35-3510'' [0x9285, 0x947C, 0x9109]
      [0x82D7, 0x6817, 0x7E23, 0x30FB, 0x9285, 0x947C, 0x9109],
    district ''35-3511'' [0x5357, 0x5E84, 0x9109]
      [0x82D7, 0x6817, 0x7E23, 0x30FB, 0x5357, 0x5E84, 0x9109],
    district ''35-3512'' [0x982D, 0x5C4B, 0x9109]
      [0x82D7, 0x6817, 0x7E23, 0x30FB, 0x982D, 0x5C4B, 0x9109],
    district ''35-3513'' [0x4E09, 0x7FA9, 0x9109]
      [0x82D7, 0x6817, 0x7E23, 0x30FB, 0x4E09, 0x7FA9, 0x9109],
    district ''35-3514'' [0x897F, 0x6E56, 0x9109]
      [0x82D7, 0x6817, 0x7E23, 0x30FB, 0x897F, 0x6E56, 0x9109],
    district ''35-3515'' [0x9020, 0x6A4B, 0x9109]
      [0x82D7, 0x6817, 0x7E23, 0x30FB, 0x9020, 0x6A4B, 0x9109],
    district ''35-3516'' [0x4E09, 0x7063, 0x9109]
      [0x82D7, 0x6817, 0x7E23, 0x30FB, 0x4E09, 0x7063, 0x9109],
    district ''35-3517'' [0x7345, 0x6F6D, 0x9109]
      [0x82D7, 0x6817, 0x7E23, 0x30FB, 0x7345, 0x6F6D, 0x9109],
    district ''35-3518'' [0x6CF0, 0x5B89, 0x9109]
      [0x82D7, 0x6817, 0x7E23, 0x30FB, 0x6CF0, 0x5B89, 0x9109]]\<rparr>"

definition city_03 :: location_city where
  [city_defs]: "city_03 = \<lparr>lc_cityCode = js ''03'', lc_cityLabel = [0x53F0, 0x4E2D, 0x5E02], lc_districts = [
    district ''03-0322'' [0x4E2D, 0x5340]
      [0x53F0, 0x4E2D, 0x5E02, 0x30FB, 0x4E2D, 0x5340],
    district ''03-0323'' [0x6771, 0x5340]
      [0x53F0, 0x4E2D, 0x5E02, 0x30FB, 0x6771, 0x5340],
    district ''03-0324'' [0x897F, 0x5340]
      [0x53F0, 0x4E2D, 0x5E02, 0x30FB, 0x897F, 0x5340],
    district ''03-0325'' [0x5357, 0x5340]
      [0x53F0, 0x4E2D, 0x5E02, 0x30FB, 0x5357, 0x5340],
    district ''03-0326'' [0x5317, 0x5340]
      [0x53F0, 0x4E2D, 0x5E02, 0x30FB, 0x5317, 0x5340],
    district ''03-0327'' [0x897F, 0x5C6F, 0x5340]
      [0x53F0, 0x4E2D, 0x5E02, 0x30FB, 0x897F, 0x5C6F, 0x5340],
    district ''03-0328'' [0x5357, 0x5C6F, 0x5340]
      [0x53F0, 0x4E2D, 0x5E02, 0x30FB, 0x5357, 0x5C6F, 0x5340],
    district ''03-0329'' [0x5317, 0x5C6F, 0x5340]
      [0x53F0, 0x4E2D, 0x5E02, 0x30FB, 0x5317, 0x5C6F, 0x5340],
    district ''03-0301'' [0x8C50, 0x539F, 0x5340]
      [0x53F0, 0x4E2D, 0x5E02, 0x30FB, 0x8C50, 0x539F, 0x5340],
    district ''03-0302'' [0x6771, 0x52E2, 0x5340]
      [0x53F0, 0x4E2D, 0x5E02, 0x30FB, 0x6771, 0x52E2, 0x5340],
    district ''03-0303'' [0x5927, 0x7532, 0x5340]
      [0x53F0, 0x4E2D, 0x5E02, 0x30FB, 0x5927, 0x7532, 0x5340],
    district ''03-0304'' [0x6E05, 0x6C34, 0x5340]
      [0x53F0, 0x4E2D, 0x5E02, 0x30FB, 0x6E05, 0x6C34, 0x5340],
    district ''03-0305'' [0x6C99, 0x9E7F, 0x5340]
      [0x53F0, 0x4E2D, 0x5E02, 0x30FB, 0x6C99, 0x9E7F, 0x5340],
    district ''03-0306'' [0x68A7, 0x68F2, 0x5340]
      [0x53F0, 0x4E2D, 0x5E02, 0x30FB, 0x68A7, 0x68F2, 0x5340],
    district ''03-0307'' [0x540E, 0x91CC, 0x5340]
      [0x53F0, 0x4E2D, 0x5E02, 0x30FB, 0x540E, 0x91CC, 0x5340],
    district ''03-0308'' [0x795E, 0x5CA1, 0x5340]
      [0x53F0, 0x4E2D, 0x5E02, 0x30FB, 0x795E, 0x5CA1, 0x5340],
    district ''03-0309'' [0x6F6D, 0x5B50, 0x5340]
      [0x53F0, 0x4E2D, 0x5E02, 0x30FB, 0x6F6D, 0x5B50, 0x5340],
    district ''03-0310'' [0x5927, 0x96C5, 0x5340]
      [0x53F0, 0x4E2D, 0x5E02, 0x30FB, 0x5927, 0x96C5, 0x5340],
    district ''03-0311'' [0x65B0, 0x793E, 0x5340]
      [0x53F0, 0x4E2D, 0x5E02, 0x30FB, 0x65B0, 0x793E, 0x5340],
    district ''03-0312'' [0x77F3, 0x5CA1, 0x5340]
      [0x53F0, 0x4E2D, 0x5E02, 0x30FB, 0x77F3, 0x5CA1, 0x5340],
    district ''03-0313'' [0x5916, 0x57D4, 0x5340]
      [0x53F0, 0x4E2D, 0x5E02, 0x30FB, 0x5916, 0x57D4, 0x5340],
    district ''03-0314'' [0x5927, 0x5B89, 0x5340]
      [0x53F0, 0x4E2D, 0x5E02, 0x30FB, 0x5927, 0x5B89, 0x5340],
    district ''03-0315'' [0x70CF, 0x65E5, 0x5340]
      [0x53F0, 0x4E2D, 0x5E02, 0x30FB, 0x70CF, 0x65E5, 0x5340],
    district ''03-0316'' [0x5927, 0x809A, 0x5340]
      [0x53F0, 0x4E2D, 0x5E02, 0x30FB, 0x5927, 0x809A, 0x5340],
    district ''03-0317'' [0x9F8D, 0x4E95, 0x5340]
      [0x53F0, 0x4E2D, 0x5E02, 0x30FB, 0x9F8D, 0x4E95, 0x5340],
    district ''03-0318'' [0x9727, 0x5CF0, 0x5340]
      [0x53F0, 0x4E2D, 0x5E02, 0x30FB, 0x9727, 0x5CF0, 0x5340],
    district ''03-0319'' [0x592A, 0x5E73, 0x5340]
      [0x53F0, 0x4E2D, 0x5E02, 0x30FB, 0x592A, 0x5E73, 0x5340],
    district ''03-0320'' [0x5927, 0x91CC, 0x5340]
      [0x53F0, 0x4E2D, 0x5E02, 0x30FB, 0x5927, 0x91CC, 0x5340],
    district ''03-0321'' [0x548C, 0x5E73, 0x5340]
      [0x53F0, 0x4E2D, 0x5E02, 0x30FB, 0x548C, 0x5E73, 0x5340]]\<rparr>"

definition city_37 :: location_city where
  [city_defs]: "city_37 = \<lparr>lc_cityCode = js ''37'', lc_cityLabel = [0x5F70, 0x5316, 0x7E23], lc_districts = [
    district ''37-3701'' [0x5F70, 0x5316, 0x5E02]
      [0x5F70, 0x5316, 0x7E23, 0x30FB, 0x5F70, 0x5316, 0x5E02],
    district ''37-3702'' [0x9E7F, 0x6E2F, 0x93AE]
      [0x5F70, 0x5316, 0x7E23, 0x30FB, 0x9E7F, 0x6E2F, 0x93AE],
    district ''37-3703'' [0x548C, 0x7F8E, 0x93AE]
      [0x5F70, 0x5316, 0x7E23, 0x30FB, 0x548C, 0x7F8E, 0x93AE],
    district ''37-3704'' [0x5317, 0x6597, 0x93AE]
      [0x5F70, 0x5316, 0x7E23, 0x30FB, 0x5317, 0x6597, 0x93AE],
    district ''37-3705'' [0x54E1, 0x6797, 0x5E02]
      [0x5F70, 0x5316, 0x7E23, 0x30FB, 0x54E1, 0x6797, 0x5E02],
    district ''37-3706'' [0x6EAA, 0x6E56, 0x93AE]
      [0x5F70, 0x5316, 0x7E23, 0x30FB, 0x6EAA, 0x6E56, 0x93AE],
    district ''37-3707'' [0x7530, 0x4E2D, 0x93AE]
      [0x5F70, 0x5316, 0x7E23, 0x30FB, 0x7530, 0x4E2D, 0x93AE],
    district ''37-3708'' [0x4E8C, 0x6797, 0x93AE]
      [0x5F70, 0x5316, 0x7E23, 0x30FB, 0x4E8C, 0x6797, 0x93AE],
    district ''37-3709'' [0x7DDA, 0x897F, 0x9109]
      [0x5F70, 0x5316, 0x7E23, 0x30FB, 0x7DDA, 0x897F, 0x9109],
    district ''37-3710'' [0x4F38, 0x6E2F, 0x9109]
      [0x5F70, 0x5316, 0x7E23, 0x30FB, 0x4F38, 0x6E2F, 0x9109],
    district ''37-3711'' [0x798F, 0x8208, 0x9109]
      [0x5F70, 0x5316, 0x7E23, 0x30FB, 0x798F, 0x8208, 0x9109],
    district ''37-3712'' [0x79C0, 0x6C34, 0x9109]
      [0x5F70, 0x5316, 0x7E23, 0x30FB, 0x79C0, 0x6C34, 0x9109],
    district ''37-3713'' [0x82B1, 0x58C7, 0x9109]
      [0x5F70, 0x5316, 0x7E23, 0x30FB, 0x82B1, 0x58C7, 0x9109],
    district ''37-3714'' [0x82AC, 0x5712, 0x9109]
      [0x5F70, 0x5316, 0x7E23, 0x30FB, 0x82AC, 0x5712, 0x9109],
    district ''37-3715'' [0x5927, 0x6751, 0x9109]
      [0x5F70, 0x5316, 0x7E23, 0x30FB, 0x5927, 0x6751, 0x9109],
    district ''37-3716'' [0x57D4, 0x9E7D, 0x9109]
      [0x5F70, 0x5316, 0x7E23, 0x30FB, 0x57D4, 0x9E7D, 0x9109],
    district ''37-3717'' [0x57D4, 0x5FC3, 0x9109]
      [0x5F70, 0x5316, 0x7E23, 0x30FB, 0x57D4, 0x5FC3, 0x9109],
    district ''37-3718'' [0x6C38, 0x9756, 0x9109]
      [0x5F70, 0x5316, 0x7E23, 0x30FB, 0x6C38, 0x9756, 0x9109],
    district ''37-3719'' [0x793E, 0x982D, 0x9109]
      [0x5F70, 0x5316, 0x7E23, 0x30FB, 0x793E, 0x982D, 0x9109],
    district ''37-3720'' [0x4E8C, 0x6C34, 0x9109]
      [0x5F70, 0x5316, 0x7E23, 0x30FB, 0x4E8C, 0x6C34, 0x9109],
    district ''37-3721'' [0x7530, 0x5C3E, 0x9109]
      [0x5F70, 0x5316, 0x7E23, 0x30FB, 0x7530, 0x5C3E, 0x9109],
    district ''37-3722'' [0x57E4, 0x982D, 0x9109]
      [0x5F70, 0x5316, 0x7E23, 0x30FB, 0x57E4, 0x982D, 0x9109],
    district ''37-3723'' [0x82B3, 0x82D1, 0x9109]
      [0x5F70, 0x5316, 0x7E23, 0x30FB, 0x82B3, 0x82D1, 0x9109],
    district ''37-3724'' [0x5927, 0x57CE, 0x9109]
      [0x5F70, 0x5316, 0x7E23, 0x30FB, 0x5927, 0x57CE, 0x9109],
    district ''37-3725'' [0x7AF9, 0x5858, 0x9109]
      [0x5F70, 0x5316, 0x7E23, 0x30FB, 0x7AF9, 0x5858, 0x9109],
    district ''37-3726'' [0x6EAA, 0x5DDE, 0x9109]
      [0x5F70, 0x5316, 0x7E23, 0x30FB, 0x6EAA, 0x5DDE, 0x9109]]\<rparr>"

definition city_38 :: location_city where
  [city_defs]: "city_38 = \<lparr>lc_cityCode = js ''38'', lc_cityLabel = [0x5357, 0x6295, 0x7E23], lc_districts = [
    district ''38-3801'' [0x5357, 0x6295, 0x5E02]
      [0x5357, 0x6295, 0x7E23, 0x30FB, 0x5357, 0x6295, 0x5E02],
    district ''38-3802'' [0x57D4, 0x91CC, 0x93AE]
      [0x5357, 0x6295, 0x7E23, 0x30FB, 0x57D4, 0x91CC, 0x93AE],
    district ''38-3803'' [0x8349, 0x5C6F, 0x93AE]
      [0x5357, 0x6295, 0x7E23, 0x30FB, 0x8349, 0x5C6F, 0x93AE],
    district ''38-3804'' [0x7AF9, 0x5C71, 0x93AE]
      [0x5357, 0x6295, 0x7E23, 0x30FB, 0x7AF9, 0x5C71, 0x93AE],
    district ''38-3805'' [0x96C6, 0x96C6, 0x93AE]
      [0x5357, 0x6295, 0x7E23, 0x30FB, 0x96C6, 0x96C6, 0x93AE],
    district ''38-3806'' [0x540D, 0x9593, 0x9109]
      [0x5357, 0x6295, 0x7E23, 0x30FB, 0x540D, 0x9593, 0x9109],
    district ''38-3807'' [0x9E7F, 0x8C37, 0x9109]
      [0x5357, 0x6295, 0x7E23, 0x30FB, 0x9E7F, 0x8C37, 0x9109],
    district ''38-3808'' [0x4E2D, 0x5BEE, 0x9109]
      [0x5357, 0x6295, 0x7E23, 0x30FB, 0x4E2D, 0x5BEE, 0x9109],
    district ''38-3809'' [0x9B5A, 0x6C60, 0x9109]
      [0x5357, 0x6295, 0x7E23, 0x30FB, 0x9B5A, 0x6C60, 0x9109],
    district ''38-3810'' [0x570B, 0x59D3, 0x9109]
      [0x5357, 0x6295, 0x7E23, 0x30FB, 0x570B, 0x59D3, 0x9109],
    district ''38-3811'' [0x6C34, 0x91CC, 0x9109]
      [0x5357, 0x6295, 0x7E23, 0x30FB, 0x6C34, 0x91CC, 0x9109],
    district ''38-3812'' [0x4FE1, 0x7FA9, 0x9109]
      [0x5357, 0x6295, 0x7E23, 0x30FB, 0x4FE1, 0x7FA9, 0x9109],
    district ''38-3813'' [0x4EC1, 0x611B, 0x9109]
      [0x5357, 0x6295, 0x7E23, 0x30FB, 0x4EC1, 0x611B, 0x9109]]\<rparr>"

definition city_39 :: location_city where
  [city_defs]: "city_39 = \<lparr>lc_cityCode = js ''39'', lc_cityLabel = [0x96F2, 0x6797, 0x7E23], lc_districts = [
    district ''39-3901'' [0x6597, 0x516D, 0x5E02]
      [0x96F2, 0x6797, 0x7E23, 0x30FB, 0x6597, 0x516D, 0x5E02],
    district ''39-3902'' [0x6597, 0x5357, 0x93AE]
      [0x96F2, 0x6797, 0x7E23, 0x30FB, 0x6597, 0x5357, 0x93AE],
    district ''39-3903'' [0x864E, 0x5C3E, 0x93AE]
      [0x96F2, 0x6797, 0x7E23, 0x30FB, 0x864E, 0x5C3E, 0x93AE],
    district ''39-3904'' [0x897F, 0x87BA, 0x93AE]
      [0x96F2, 0x6797, 0x7E23, 0x30FB, 0x897F, 0x87BA, 0x93AE],
    district ''39-3905'' [0x571F, 0x5EAB, 0x93AE]
      [0x96F2, 0x6797, 0x7E23, 0x30FB, 0x571F, 0x5EAB, 0x93AE],
    district ''39-3906'' [0x5317, 0x6E2F, 0x93AE]
      [0x96F2, 0x6797, 0x7E23, 0x30FB, 0x5317, 0x6E2F, 0x93AE],
    district ''39-3907'' [0x53E4, 0x5751, 0x9109]
      [0x96F2, 0x6797, 0x7E23, 0x30FB, 0x53E4, 0x5751, 0x9109],
    district ''39-3908'' [0x5927, 0x57E4, 0x9109]
      [0x96F2, 0x6797, 0x7E23, 0x30FB, 0x5927, 0x57E4, 0x9109],
    district ''39-3909'' [0x83BF, 0x6850, 0x9109]
      [0x96F2, 0x6797, 0x7E23, 0x30FB, 0x83BF, 0x6850, 0x9109],
    district ''39-3910'' [0x6797, 0x5167, 0x9109]
      [0x96F2, 0x6797, 0x7E23, 0x30FB, 0x6797, 0x5167, 0x9109],
    district ''39-3911'' [0x4E8C, 0x5D19, 0x9109]
      [0x96F2, 0x6797, 0x7E23, 0x30FB, 0x4E8C, 0x5D19, 0x9109],
    district ''39-3912'' [0x5D19, 0x80CC, 0x9109]
      [0x96F2, 0x6797, 0x7E23, 0x30FB, 0x5D19, 0x80CC, 0x9109],
    district ''39-3913'' [0x9EA5, 0x5BEE, 0x9109]
      [0x96F2, 0x6797, 0x7E23, 0x30FB, 0x9EA5, 0x5BEE, 0x9109],
    district ''39-3914'' [0x6771, 0x52E2, 0x9109]
      [0x96F2, 0x6797, 0x7E23, 0x30FB, 0x6771, 0x52E2, 0x9109],
    district ''39-3915'' [0x8912, 0x5FE0, 0x9109]
      [0x96F2, 0x6797, 0x7E23, 0x30FB, 0x8912, 0x5FE0, 0x9109],
    district ''39-3916'' [0x53F0, 0x897F, 0x9109]
      [0x96F2, 0x6797, 0x7E23, 0x30FB, 0x53F0, 0x897F, 0x9109],
    district ''39-3917'' [0x5143, 0x9577, 0x9109]
      [0x96F2, 0x6797, 0x7E23, 0x30FB, 0x5143, 0x9577, 0x9109],
    district ''39-3918'' [0x56DB, 0x6E56, 0x9109]
      [0x96F2, 0x6797, 0x7E23, 0x30FB, 0x56DB, 0x6E56, 0x9109],
    district ''39-3919'' [0x53E3, 0x6E56, 0x9109]
      [0x96F2, 0x6797, 0x7E23, 0x30FB, 0x53E3, 0x6E56, 0x9109],
    district ''39-3920'' [0x6C34, 0x6797, 0x9109]
      [0x96F2, 0x6797, 0x7E23, 0x30FB, 0x6C34, 0x6797, 0x9109]]\<rparr>"

definition city_22 :: location_city where
  [city_defs]: "city_22 = \<lparr>lc_cityCode = js ''22'', lc_cityLabel = [0x5609, 0x7FA9, 0x5E02], lc_districts = [
    district ''22-2201'' [0x6771, 0x5340]
      [0x5609, 0x7FA9, 0x5E02, 0x30FB, 0x6771, 0x5340],
    district ''22-2202'' [0x897F, 0x5340]
      [0x5609, 0x7FA9, 0x5E02, 0x30FB, 0x897F, 0x5340]]\<rparr>"

definition city_40 :: location_city where
  [city_defs]: "city_40 = \<lparr>lc_cityCode = js ''40'', lc_cityLabel = [0x5609, 0x7FA9, 0x7E23], lc_districts = [
    district ''40-4001'' [0x6734, 0x5B50, 0x5E02]
      [0x5609, 0x7FA9, 0x7E23, 0x30FB, 0x6734, 0x5B50, 0x5E02],
    district ''40-4002'' [0x5E03, 0x888B, 0x93AE]
      [0x5609, 0x7FA9, 0x7E23, 0x30FB, 0x5E03, 0x888B, 0x93AE],
    district ''40-4003'' [0x5927, 0x6797, 0x93AE]
      [0x5609, 0x7FA9, 0x7E23, 0x30FB, 0x5927, 0x6797, 0x93AE],
    district ''40-4004'' [0x6C11, 0x96C4, 0x9109]
      [0x5609, 0x7FA9, 0x7E23, 0x30FB, 0x6C11, 0x96C4, 0x9109],
    district ''40-4005'' [0x6EAA, 0x53E3, 0x9109]
      [0x5609, 0x7FA9, 0x7E23, 0x30FB, 0x6EAA, 0x53E3, 0x9109],
    district ''40-4006'' [0x65B0, 0x6E2F, 0x9109]
      [0x5609, 0x7FA9, 0x7E23, 0x30FB, 0x65B0, 0x6E2F, 0x9109],
    district ''40-4007'' [0x516D, 0x8173, 0x9109]
      [0x5609, 0x7FA9, 0x7E23, 0x30FB, 0x516D, 0x8173, 0x9109],
    district ''40-4008'' [0x6771, 0x77F3, 0x9109]
      [0x5609, 0x7FA9, 0x7E23, 0x30FB, 0x6771, 0x77F3, 0x9109],
    district ''40-4009'' [0x7FA9, 0x7AF9, 0x9109]
      [0x5609, 0x7FA9, 0x7E23, 0x30FB, 0x7FA9, 0x7AF9, 0x9109],
    district ''40-4010'' [0x9E7F, 0x8349, 0x9109]
      [0x5609, 0x7FA9, 0x7E23, 0x30FB, 0x9E7F, 0x8349, 0x9109],
    district ''40-4011'' [0x592A, 0x4FDD, 0x5E02]
      [0x5609, 0x7FA9, 0x7E23, 0x30FB, 0x592A, 0x4FDD, 0x5E02],
    district ''40-4012'' [0x6C34, 0x4E0A, 0x9109]
      [0x5609, 0x7FA9, 0x7E23, 0x30FB, 0x6C34, 0x4E0A, 0x9109],
    district ''40-4013'' [0x4E2D, 0x57D4, 0x9109]
      [0x5609, 0x7FA9, 0x7E23, 0x30FB, 0x4E2D, 0x57D4, 0x9109],
    district ''40-4014'' [0x7AF9, 0x5D0E, 0x9109]
      [0x5609, 0x7FA9, 0x7E23, 0x30FB, 0x7AF9, 0x5D0E, 0x9109],
    district ''40-4015'' [0x6885, 0x5C71, 0x9109]
      [0x5609, 0x7FA9, 0x7E23, 0x30FB, 0x6885, 0x5C71, 0x9109],
    district ''40-4016'' [0x756A, 0x8DEF, 0x9109]
      [0x5609, 0x7FA9, 0x7E23, 0x30FB, 0x756A, 0x8DEF, 0x9109],
    district ''40-4017'' [0x5927, 0x57D4, 0x9109]
      [0x5609, 0x7FA9, 0x7E23, 0x30FB, 0x5927, 0x57D4, 0x9109],
    district ''40-4018'' [0x963F, 0x91CC, 0x5C71, 0x9109]
      [0x5609, 0x7FA9, 0x7E23, 0x30FB, 0x963F, 0x91CC, 0x5C71, 0x9109]]\<rparr>"

definition city_05 :: location_city where
  [city_defs]: "city_05 = \<lparr>lc_cityCode = js ''05'', lc_cityLabel = [0x53F0, 0x5357, 0x5E02], lc_districts = [
    district ''05-0532'' [0x6771, 0x5340]
      [0x53F0, 0x5357, 0x5E02, 0x30FB, 0x6771, 0x5340],
    district ''05-0533'' [0x5357, 0x5340]
      [0x53F0, 0x5357, 0x5E02, 0x30FB, 0x5357, 0x5340],
    district ''05-0534'' [0x4E2D, 0x897F, 0x5340]
      [0x53F0, 0x5357, 0x5E02, 0x30FB, 0x4E2D, 0x897F, 0x5340],
    district ''05-0535'' [0x5317, 0x5340]
      [0x53F0, 0x5357, 0x5E02, 0x30FB, 0x5317, 0x5340],
    district ''05-0537'' [0x5B89, 0x5357, 0x5340]
      [0x53F0, 0x5357, 0x5E02, 0x30FB, 0x5B89, 0x5357, 0x5340],
    district ''05-0538'' [0x5B89, 0x5E73, 0x5340]
      [0x53F0, 0x5357, 0x5E02, 0x30FB, 0x5B89, 0x5E73, 0x5340],
    district ''05-0531'' [0x6C38, 0x5EB7, 0x5340]
      [0x53F0, 0x5357, 0x5E02, 0x30FB, 0x6C38, 0x5EB7, 0x5340],
    district ''05-0527'' [0x4EC1, 0x5FB7, 0x5340]
      [0x53F0, 0x5357, 0x5E02, 0x30FB, 0x4EC1, 0x5FB7, 0x5340],
    district ''05-0528'' [0x6B78, 0x4EC1, 0x5340]
      [0x53F0, 0x5357, 0x5E02, 0x30FB, 0x6B78, 0x4EC1, 0x5340],
    district ''05-0529'' [0x95DC, 0x5EDF, 0x5340]
      [0x53F0, 0x5357, 0x5E02, 0x30FB, 0x95DC, 0x5EDF, 0x5340],
    district ''05-0530'' [0x9F8D, 0x5D0E, 0x5340]
      [0x53F0, 0x5357, 0x5E02, 0x30FB, 0x9F8D, 0x5D0E, 0x5340],
    district ''05-0501'' [0x65B0, 0x71DF, 0x5340]
      [0x53F0, 0x5357, 0x5E02, 0x30FB, 0x65B0, 0x71DF, 0x5340],
    district ''05-0502'' [0x9E7D, 0x6C34, 0x5340]
      [0x53F0, 0x5357, 0x5E02, 0x30FB, 0x9E7D, 0x6C34, 0x5340],
    district ''05-0503'' [0x767D, 0x6CB3, 0x5340]
      [0x53F0, 0x5357, 0x5E02, 0x30FB, 0x767D, 0x6CB3, 0x5340],
    district ''05-0504'' [0x9EBB, 0x8C46, 0x5340]
      [0x53F0, 0x5357, 0x5E02, 0x30FB, 0x9EBB, 0x8C46, 0x5340],
    district ''05-0505'' [0x4F73, 0x91CC, 0x5340]
      [0x53F0, 0x5357, 0x5E02, 0x30FB, 0x4F73, 0x91CC, 0x5340],
    district ''05-0506'' [0x65B0, 0x5316, 0x5340]
      [0x53F0, 0x5357, 0x5E02, 0x30FB, 0x65B0, 0x5316, 0x5340],
    district ''05-0507'' [0x5584, 0x5316, 0x5340]
      [0x53F0, 0x5357, 0x5E02, 0x30FB, 0x5584, 0x5316, 0x5340],
    district ''05-0508'' [0x5B78, 0x7532, 0x5340]
      [0x53F0, 0x5357, 0x5E02, 0x30FB, 0x5B78, 0x7532, 0x5340],
    district ''05-0509'' [0x67F3, 0x71DF, 0x5340]
      [0x53F0, 0x5357, 0x5E02, 0x30FB, 0x67F3, 0x71DF, 0x5340],
    district ''05-0510'' [0x5F8C, 0x58C1, 0x5340]
      [0x53F0, 0x5357, 0x5E02, 0x30FB, 0x5F8C, 0x58C1, 0x5340],
    district ''05-0511'' [0x6771, 0x5C71, 0x5340]
      [0x53F0, 0x5357, 0x5E02, 0x30FB, 0x6771, 0x5C71, 0x5340],
    district ''05-0512'' [0x4E0B, 0x71DF, 0x5340]
      [0x53F0, 0x5357, 0x5E02, 0x30FB, 0x4E0B, 0x71DF, 0x5340],
    district ''05-0513'' [0x516D, 0x7532, 0x5340]
      [0x53F0, 0x5357, 0x5E02, 0x30FB, 0x516D, 0x7532, 0x5340],
    district ''05-0514'' [0x5B98, 0x7530, 0x5340]
      [0x53F0, 0x5357, 0x5E02, 0x30FB, 0x5B98, 0x7530, 0x5340],
    district ''05-0515'' [0x5927, 0x5167, 0x5340]
      [0x53F0, 0x5357, 0x5E02, 0x30FB, 0x5927, 0x5167, 0x5340],
    district ''05-0516'' [0x897F, 0x6E2F, 0x5340]
      [0x53F0, 0x5357, 0x5E02, 0x30FB, 0x897F, 0x6E2F, 0x5340],
    district ''05-0517'' [0x4E03, 0x80A1, 0x5340]
      [0x53F0, 0x5357, 0x5E02, 0x30FB, 0x4E03, 0x80A1, 0x5340],
    district ''05-0518'' [0x5C07, 0x8ECD, 0x5340]
      [0x53F0, 0x5357, 0x5E02, 0x30FB, 0x5C07, 0x8ECD, 0x5340],
    district ''05-0519'' [0x5317, 0x9580, 0x5340]
      [0x53F0, 0x5357, 0x5E02, 0x30FB, 0x5317, 0x9580, 0x5340],
    district ''05-0520'' [0x65B0, 0x5E02, 0x5340]
      [0x53F0, 0x5357, 0x5E02, 0x30FB, 0x65B0, 0x5E02, 0x5340],
    district ''05-0521'' [0x5B89, 0x5B9A, 0x5340]
      [0x53F0, 0x5357, 0x5E02, 0x30FB, 0x5B89, 0x5B9A, 0x5340],
    district ''05-0522'' [0x5C71, 0x4E0A, 0x5340]
      [0x53F0, 0x5357, 0x5E02, 0x30FB, 0x5C71, 0x4E0A, 0x5340],
    district ''05-0523'' [0x7389, 0x4E95, 0x5340]
      [0x53F0, 0x5357, 0x5E02, 0x30FB, 0x7389, 0x4E95, 0x5340],
    district ''05-0524'' [0x6960, 0x897F, 0x5340]
      [0x53F0, 0x5357, 0x5E02, 0x30FB, 0x6960, 0x897F, 0x5340],
    district ''05-0525'' [0x5357, 0x5316, 0x5340]
      [0x53F0, 0x5357, 0x5E02, 0x30FB, 0x5357, 0x5316, 0x5340],
    district ''05-0526'' [0x5DE6, 0x93AE, 0x5340]
      [0x53F0, 0x5357, 0x5E02, 0x30FB, 0x5DE6, 0x93AE, 0x5340]]\<rparr>"

definition city_07 :: location_city where
  [city_defs]: "city_07 = \<lparr>lc_cityCode = js ''07'', lc_cityLabel = [0x9AD8, 0x96C4, 0x5E02], lc_districts = [
    district ''07-0728'' [0x9E7D, 0x57D5, 0x5340]
      [0x9AD8, 0x96C4, 0x5E02, 0x30FB, 0x9E7D, 0x57D5, 0x5340],
    district ''07-0729'' [0x9F13, 0x5C71, 0x5340]
      [0x9AD8, 0x96C4, 0x5E02, 0x30FB, 0x9F13, 0x5C71, 0x5340],
    district ''07-0730'' [0x5DE6, 0x71DF, 0x5340]
      [0x9AD8, 0x96C4, 0x5E02, 0x30FB, 0x5DE6, 0x71DF, 0x5340],
    district ''07-0731'' [0x6960, 0x6893, 0x5340]
      [0x9AD8, 0x96C4, 0x5E02, 0x30FB, 0x6960, 0x6893, 0x5340],
    district ''07-0732'' [0x4E09, 0x6C11, 0x5340]
      [0x9AD8, 0x96C4, 0x5E02, 0x30FB, 0x4E09, 0x6C11, 0x5340],
    district ''07-0733'' [0x65B0, 0x8208, 0x5340]
      [0x9AD8, 0x96C4, 0x5E02, 0x30FB, 0x65B0, 0x8208, 0x5340],
    district ''07-0734'' [0x524D, 0x91D1, 0x5340]
      [0x9AD8, 0x96C4, 0x5E02, 0x30FB, 0x524D, 0x91D1, 0x5340],
    district ''07-0735'' [0x82D3, 0x96C5, 0x5340]
      [0x9AD8, 0x96C4, 0x5E02, 0x30FB, 0x82D3, 0x96C5, 0x5340],
    district ''07-0736'' [0x524D, 0x93AE, 0x5340]
      [0x9AD8, 0x96C4, 0x5E02, 0x30FB, 0x524D, 0x93AE, 0x5340],
    district ''07-0737'' [0x65D7, 0x6D25, 0x5340]
      [0x9AD8, 0x96C4, 0x5E02, 0x30FB, 0x65D7, 0x6D25, 0x5340],
    district ''07-0738'' [0x5C0F, 0x6E2F, 0x5340]
      [0x9AD8, 0x96C4, 0x5E02, 0x30FB, 0x5C0F, 0x6E2F, 0x5340],
    district ''07-0701'' [0x9CF3, 0x5C71, 0x5340]
      [0x9AD8, 0x96C4, 0x5E02, 0x30FB, 0x9CF3, 0x5C71, 0x5340],
    district ''07-0702'' [0x5CA1, 0x5C71, 0x5340]
      [0x9AD8, 0x96C4, 0x5E02, 0x30FB, 0x5CA1, 0x5C71, 0x5340],
    district ''07-0703'' [0x65D7, 0x5C71, 0x5340]
      [0x9AD8, 0x96C4, 0x5E02, 0x30FB, 0x65D7, 0x5C71, 0x5340],
    district ''07-0704'' [0x7F8E, 0x6FC3, 0x5340]
      [0x9AD8, 0x96C4, 0x5E02, 0x30FB, 0x7F8E, 0x6FC3, 0x5340],
    district ''07-0705'' [0x6797, 0x5712, 0x5340]
      [0x9AD8, 0x96C4, 0x5E02, 0x30FB, 0x6797, 0x5712, 0x5340],
    district ''07-0706'' [0x5927, 0x5BEE, 0x5340]
      [0x9AD8, 0x96C4, 0x5E02, 0x30FB, 0x5927, 0x5BEE, 0x5340],
    district ''07-0707'' [0x5927, 0x6A39, 0x5340]
      [0x9AD8, 0x96C4, 0x5E02, 0x30FB, 0x5927, 0x6A39, 0x5340],
    district ''07-0708'' [0x4EC1, 0x6B66, 0x5340]
      [0x9AD8, 0x96C4, 0x5E02, 0x30FB, 0x4EC1, 0x6B66, 0x5340],
    district ''07-0709'' [0x5927, 0x793E, 0x5340]
      [0x9AD8, 0x96C4, 0x5E02, 0x30FB, 0x5927, 0x793E, 0x5340],
    district ''07-0710'' [0x9CE5, 0x677E, 0x5340]
      [0x9AD8, 0x96C4, 0x5E02, 0x30FB, 0x9CE5, 0x677E, 0x5340],
    district ''07-0711'' [0x6A4B, 0x982D, 0x5340]
      [0x9AD8, 0x96C4, 0x5E02, 0x30FB, 0x6A4B, 0x982D, 0x5340],
    district ''07-0712'' [0x71D5, 0x5DE2, 0x5340]
      [0x9AD8, 0x96C4, 0x5E02, 0x30FB, 0x71D5, 0x5DE2, 0x5340],
    district ''07-0713'' [0x7530, 0x5BEE, 0x5340]
      [0x9AD8, 0x96C4, 0x5E02, 0x30FB, 0x7530, 0x5BEE, 0x5340],
    district ''07-0714'' [0x963F, 0x84EE, 0x5340]
      [0x9AD8, 0x96C4, 0x5E02, 0x30FB, 0x963F, 0x84EE, 0x5340],
    district ''07-0715'' [0x8DEF, 0x7AF9, 0x5340]
      [0x9AD8, 0x96C4, 0x5E02, 0x30FB, 0x8DEF, 0x7AF9, 0x5340],
    district ''07-0716'' [0x6E56, 0x5167, 0x5340]
      [0x9AD8, 0x96C4, 0x5E02, 0x30FB, 0x6E56, 0x5167, 0x5340],
    district ''07-0717'' [0x8304, 0x8423, 0x5340]
      [0x9AD8, 0x96C4, 0x5E02, 0x30FB, 0x8304, 0x8423, 0x5340],
    district ''07-0718'' [0x6C38, 0x5B89, 0x5340]
      [0x9AD8, 0x96C4, 0x5E02, 0x30FB, 0x6C38, 0x5B89, 0x5340],
    district ''07-0719'' [0x5F4C, 0x9640, 0x5340]
      [0x9AD8, 0x96C4, 0x5E02, 0x30FB, 0x5F4C, 0x9640, 0x5340],
    district ''07-0720'' [0x6893, 0x5B98, 0x5340]
      [0x9AD8, 0x96C4, 0x5E02, 0x30FB, 0x6893, 0x5B98, 0x5340],
    district ''07-0721'' [0x516D, 0x9F9C, 0x5340]
      [0x9AD8, 0x96C4, 0x5E02, 0x30FB, 0x516D, 0x9F9C, 0x5340],
    district ''07-0722'' [0x7532, 0x4ED9, 0x5340]
      [0x9AD8, 0x96C4, 0x5E02, 0x30FB, 0x7532, 0x4ED9, 0x5340],
    district ''07-0723'' [0x6749, 0x6797, 0x5340]
      [0x9AD8, 0x96C4, 0x5E02, 0x30FB, 0x6749, 0x6797, 0x5340],
    district ''07-0724'' [0x5167, 0x9580, 0x5340]
      [0x9AD8, 0x96C4, 0x5E02, 0x30FB, 0x5167, 0x9580, 0x5340],
    district ''07-0725'' [0x8302, 0x6797, 0x5340]
      [0x9AD8, 0x96C4, 0x5E02, 0x30FB, 0x8302, 0x6797, 0x5340],
    district ''07-0726'' [0x6843, 0x6E90, 0x5340]
      [0x9AD8, 0x96C4, 0x5E02, 0x30FB, 0x6843, 0x6E90, 0x5340],
    district ''07-0727'' [0x90A3, 0x746A, 0x590F, 0x5340]
      [0x9AD8, 0x96C4, 0x5E02, 0x30FB, 0x90A3, 0x746A, 0x590F, 0x5340]]\<rparr>"

definition city_43 :: location_city where
  [city_defs]: "city_43 = \<lparr>lc_cityCode = js ''43'', lc_cityLabel = [0x5C4F, 0x6771, 0x7E23], lc_districts = [
    district ''43-4301'' [0x5C4F, 0x6771, 0x5E02]
      [0x5C4F, 0x6771, 0x7E23, 0x30FB, 0x5C4F, 0x6771, 0x5E02],
    district ''43-4302'' [0x6F6E, 0x5DDE, 0x93AE]
      [0x5C4F, 0x6771, 0x7E23, 0x30FB, 0x6F6E, 0x5DDE, 0x93AE],
    district ''43-4303'' [0x6771, 0x6E2F, 0x93AE]
      [0x5C4F, 0x6771, 0x7E23, 0x30FB, 0x6771, 0x6E2F, 0x93AE],
    district ''43-4304'' [0x6046, 0x6625, 0x93AE]
      [0x5C4F, 0x6771, 0x7E23, 0x30FB, 0x6046, 0x6625, 0x93AE],
    district ''43-4305'' [0x842C, 0x4E39, 0x9109]
      [0x5C4F, 0x6771, 0x7E23, 0x30FB, 0x842C, 0x4E39, 0x9109],
    district ''43-4306'' [0x9577, 0x6CBB, 0x9109]
      [0x5C4F, 0x6771, 0x7E23, 0x30FB, 0x9577, 0x6CBB, 0x9109],
    district ''43-4307'' [0x9E9F, 0x6D1B, 0x9109]
      [0x5C4F, 0x6771, 0x7E23, 0x30FB, 0x9E9F, 0x6D1B, 0x9109],
    district ''43-4308'' [0x4E5D, 0x5982, 0x9109]
      [0x5C4F, 0x6771, 0x7E23, 0x30FB, 0x4E5D, 0x5982, 0x9109],
    district ''43-4309'' [0x91CC, 0x6E2F, 0x9109]
      [0x5C4F, 0x6771, 0x7E23, 0x30FB, 0x91CC, 0x6E2F, 0x9109],
    district ''43-4310'' [0x9E7D, 0x57D4, 0x9109]
      [0x5C4F, 0x6771, 0x7E23, 0x30FB, 0x9E7D, 0x57D4, 0x9109],
    district ''43-4311'' [0x9AD8, 0x6A39, 0x9109]
      [0x5C4F, 0x6771, 0x7E23, 0x30FB, 0x9AD8, 0x6A39, 0x9109],
    district ''43-4312'' [0x842C, 0x5DD2, 0x9109]
      [0x5C4F, 0x6771, 0x7E23, 0x30FB, 0x842C, 0x5DD2, 0x9109],
    district ''43-4313'' [0x5167, 0x57D4, 0x9109]
      [0x5C4F, 0x6771, 0x7E23, 0x30FB, 0x5167, 0x57D4, 0x9109],
    district ''43-4314'' [0x7AF9, 0x7530, 0x9109]
      [0x5C4F, 0x6771, 0x7E23, 0x30FB, 0x7AF9, 0x7530, 0x9109],
    district ''43-4315'' [0x65B0, 0x57E4, 0x9109]
      [0x5C4F, 0x6771, 0x7E23, 0x30FB, 0x65B0, 0x57E4, 0x9109],
    district ''43-4316'' [0x678B, 0x5BEE, 0x9109]
      [0x5C4F, 0x6771, 0x7E23, 0x30FB, 0x678B, 0x5BEE, 0x9109],
    district ''43-4317'' [0x65B0, 0x5712, 0x9109]
      [0x5C4F, 0x6771, 0x7E23, 0x30FB, 0x65B0, 0x5712, 0x9109],
    district ''43-4318'' [0x5D01, 0x9802, 0x9109]
      [0x5C4F, 0x6771, 0x7E23, 0x30FB, 0x5D01, 0x9802, 0x9109],
    district ''43-4319'' [0x6797, 0x908A, 0x9109]
      [0x5C4F, 0x6771, 0x7E23, 0x30FB, 0x6797, 0x908A, 0x9109],
    district ''43-4320'' [0x5357, 0x5DDE, 0x9109]
      [0x5C4F, 0x6771, 0x7E23, 0x30FB, 0x5357, 0x5DDE, 0x9109],
    district ''43-4321'' [0x4F73, 0x51AC, 0x9109]
      [0x5C4F, 0x6771, 0x7E23, 0x30FB, 0x4F73, 0x51AC, 0x9109],
    district ''43-4322'' [0x7409, 0x7403, 0x9109]
      [0x5C4F, 0x6771, 0x7E23, 0x30FB, 0x7409, 0x7403, 0x9109],
    district ''43-4323'' [0x8ECA, 0x57CE, 0x9109]
      [0x5C4F, 0x6771, 0x7E23, 0x30FB, 0x8ECA, 0x57CE, 0x9109],
    district ''43-4324'' [0x6EFF, 0x5DDE, 0x9109]
      [0x5C4F, 0x6771, 0x7E23, 0x30FB, 0x6EFF, 0x5DDE, 0x9109],
    district ''43-4325'' [0x678B, 0x5C71, 0x9109]
      [0x5C4F, 0x6771, 0x7E23, 0x30FB, 0x678B, 0x5C71, 0x9109],
    district ''43-4326'' [0x4E09, 0x5730, 0x9580, 0x9109]
      [0x5C4F, 0x6771, 0x7E23, 0x30FB, 0x4E09, 0x5730, 0x9580, 0x9109],
    district ''43-4327'' [0x9727, 0x53F0, 0x9109]
      [0x5C4F, 0x6771, 0x7E23, 0x30FB, 0x9727, 0x53F0, 0x9109],
    district ''43-4328'' [0x746A, 0x5BB6, 0x9109]
      [0x5C4F, 0x6771, 0x7E23, 0x30FB, 0x746A, 0x5BB6, 0x9109],
    district ''43-4329'' [0x6CF0, 0x6B66, 0x9109]
      [0x5C4F, 0x6771, 0x7E23, 0x30FB, 0x6CF0, 0x6B66, 0x9109],
    district ''43-4330'' [0x4F86, 0x7FA9, 0x9109]
      [0x5C4F, 0x6771, 0x7E23, 0x30FB, 0x4F86, 0x7FA9, 0x9109],
    district ''43-4331'' [0x6625, 0x65E5, 0x9109]
      [0x5C4F, 0x6771, 0x7E23, 0x30FB, 0x6625, 0x65E5, 0x9109],
    district ''43-4332'' [0x7345, 0x5B50, 0x9109]
      [0x5C4F, 0x6771, 0x7E23, 0x30FB, 0x7345, 0x5B50, 0x9109],
    district ''43-4333'' [0x7261, 0x4E39, 0x9109]
      [0x5C4F, 0x6771, 0x7E23, 0x30FB, 0x7261, 0x4E39, 0x9109]]\<rparr>"

definition city_11 :: location_city where
  [city_defs]: "city_11 = \<lparr>lc_cityCode = js ''11'', lc_cityLabel = [0x57FA, 0x9686, 0x5E02], lc_districts = [
    district ''11-1101'' [0x4E2D, 0x6B63, 0x5340]
      [0x57FA, 0x9686, 0x5E02, 0x30FB, 0x4E2D, 0x6B63, 0x5340],
    district ''11-1102'' [0x4E03, 0x5835, 0x5340]
      [0x57FA, 0x9686, 0x5E02, 0x30FB, 0x4E03, 0x5835, 0x5340],
    district ''11-1103'' [0x6696, 0x6696, 0x5340]
      [0x57FA, 0x9686, 0x5E02, 0x30FB, 0x6696, 0x6696, 0x5340],
    district ''11-1104'' [0x4EC1, 0x611B, 0x5340]
      [0x57FA, 0x9686, 0x5E02, 0x30FB, 0x4EC1, 0x611B, 0x5340],
    district ''11-1105'' [0x4E2D, 0x5C71, 0x5340]
      [0x57FA, 0x9686, 0x5E02, 0x30FB, 0x4E2D, 0x5C71, 0x5340],
    district ''11-1106'' [0x5B89, 0x6A02, 0x5340]
      [0x57FA, 0x9686, 0x5E02, 0x30FB, 0x5B89, 0x6A02, 0x5340],
    district ''11-1107'' [0x4FE1, 0x7FA9, 0x5340]
      [0x57FA, 0x9686, 0x5E02, 0x30FB, 0x4FE1, 0x7FA9, 0x5340]]\<rparr>"

definition city_34 :: location_city where
  [city_defs]: "city_34 = \<lparr>lc_cityCode = js ''34'', lc_cityLabel = [0x5B9C, 0x862D, 0x7E23], lc_districts = [
    district ''34-3401'' [0x5B9C, 0x862D, 0x5E02]
      [0x5B9C, 0x862D, 0x7E23, 0x30FB, 0x5B9C, 0x862D, 0x5E02],
    district ''34-3402'' [0x7F85, 0x6771, 0x93AE]
      [0x5B9C, 0x862D, 0x7E23, 0x30FB, 0x7F85, 0x6771, 0x93AE],
    district ''34-3403'' [0x8607, 0x6FB3, 0x93AE]
      [0x5B9C, 0x862D, 0x7E23, 0x30FB, 0x8607, 0x6FB3, 0x93AE],
    district ''34-3404'' [0x982D, 0x57CE, 0x93AE]
      [0x5B9C, 0x862D, 0x7E23, 0x30FB, 0x982D, 0x57CE, 0x93AE],
    district ''34-3405'' [0x7901, 0x6EAA, 0x9109]
      [0x5B9C, 0x862D, 0x7E23, 0x30FB, 0x7901, 0x6EAA, 0x9109],
    district ''34-3406'' [0x58EF, 0x570D, 0x9109]
      [0x5B9C, 0x862D, 0x7E23, 0x30FB, 0x58EF, 0x570D, 0x9109],
    district ''34-3407'' [0x54E1, 0x5C71, 0x9109]
      [0x5B9C, 0x862D, 0x7E23, 0x30FB, 0x54E1, 0x5C71, 0x9109],
    district ''34-3408'' [0x51AC, 0x5C71, 0x9109]
      [0x5B9C, 0x862D, 0x7E23, 0x30FB, 0x51AC, 0x5C71, 0x9109],
    district ''34-3409'' [0x4E94, 0x7D50, 0x9109]
      [0x5B9C, 0x862D, 0x7E23, 0x30FB, 0x4E94, 0x7D50, 0x9109],
    district ''34-3410'' [0x4E09, 0x661F, 0x9109]
      [0x5B9C, 0x862D, 0x7E23, 0x30FB, 0x4E09, 0x661F, 0x9109],
    district ''34-3411'' [0x5927, 0x540C, 0x9109]
      [0x5B9C, 0x862D, 0x7E23, 0x30FB, 0x5927, 0x540C, 0x9109],
    district ''34-3412'' [0x5357, 0x6FB3, 0x9109]
      [0x5B9C, 0x862D, 0x7E23, 0x30FB, 0x5357, 0x6FB3, 0x9109]]\<rparr>"

definition city_45 :: location_city where
  [city_defs]: "city_45 = \<lparr>lc_cityCode = js ''45'', lc_cityLabel = [0x82B1, 0x84EE, 0x7E23], lc_districts = [
    district ''45-4501'' [0x82B1, 0x84EE, 0x5E02]
      [0x82B1, 0x84EE, 0x7E23, 0x30FB, 0x82B1, 0x84EE, 0x5E02],
    district ''45-4502'' [0x9CF3, 0x6797, 0x93AE]
      [0x82B1, 0x84EE, 0x7E23, 0x30FB, 0x9CF3, 0x6797, 0x93AE],
    district ''45-4503'' [0x7389, 0x91CC, 0x93AE]
      [0x82B1, 0x84EE, 0x7E23, 0x30FB, 0x7389, 0x91CC, 0x93AE],
    district ''45-4504'' [0x65B0, 0x57CE, 0x9109]
      [0x82B1, 0x84EE, 0x7E23, 0x30FB, 0x65B0, 0x57CE, 0x9109],
    district ''45-4505'' [0x5409, 0x5B89, 0x9109]
      [0x82B1, 0x84EE, 0x7E23, 0x30FB, 0x5409, 0x5B89, 0x9109],
    district ''45-4506'' [0x58FD, 0x8C50, 0x9109]
      [0x82B1, 0x84EE, 0x7E23, 0x30FB, 0x58FD, 0x8C50, 0x9109],
    district ''45-4507'' [0x5149, 0x5FA9, 0x9109]
      [0x82B1, 0x84EE, 0x7E23, 0x30FB, 0x5149, 0x5FA9, 0x9109],
    district ''45-4508'' [0x8C50, 0x6FF1, 0x9109]
      [0x82B1, 0x84EE, 0x7E23, 0x30FB, 0x8C50, 0x6FF1, 0x9109],
    district ''45-4509'' [0x745E, 0x7A57, 0x9109]
      [0x82B1, 0x84EE, 0x7E23, 0x30FB, 0x745E, 0x7A57, 0x9109],
    district ''45-4510'' [0x5BCC, 0x91CC, 0x9109]
      [0x82B1, 0x84EE, 0x7E23, 0x30FB, 0x5BCC, 0x91CC, 0x9109],
    district ''45-4511'' [0x79C0, 0x6797, 0x9109]
      [0x82B1, 0x84EE, 0x7E23, 0x30FB, 0x79C0, 0x6797, 0x9109],
    district ''45-4512'' [0x842C, 0x69AE, 0x9109]
      [0x82B1, 0x84EE, 0x7E23, 0x30FB, 0x842C, 0x69AE, 0x9109],
    district ''45-4513'' [0x5353, 0x6EAA, 0x9109]
      [0x82B1, 0x84EE, 0x7E23, 0x30FB, 0x5353, 0x6EAA, 0x9109]]\<rparr>"

definition city_46 :: location_city where
  [city_defs]: "city_46 = \<lparr>lc_cityCode = js ''46'', lc_cityLabel = [0x53F0, 0x6771, 0x7E23], lc_districts = [
    district ''46-4601'' [0x53F0, 0x6771, 0x5E02]
      [0x53F0, 0x6771, 0x7E23, 0x30FB, 0x53F0, 0x6771, 0x5E02],
    district ''46-4602'' [0x6210, 0x529F, 0x93AE]
      [0x53F0, 0x6771, 0x7E23, 0x30FB, 0x6210, 0x529F, 0x93AE],
    district ''46-4603'' [0x95DC, 0x5C71, 0x93AE]
      [0x53F0, 0x6771, 0x7E23, 0x30FB, 0x95DC, 0x5C71, 0x93AE],
    district ''46-4604'' [0x5351, 0x5357, 0x9109]
      [0x53F0, 0x6771, 0x7E23, 0x30FB, 0x5351, 0x5357, 0x9109],
    district ''46-4605'' [0x5927, 0x6B66, 0x9109]
      [0x53F0, 0x6771, 0x7E23, 0x30FB, 0x5927, 0x6B66, 0x9109],
    district ''46-4606'' [0x592A, 0x9EBB, 0x91CC, 0x9109]
      [0x53F0, 0x6771, 0x7E23, 0x30FB, 0x592A, 0x9EBB, 0x91CC, 0x9109],
    district ''46-4607'' [0x6771, 0x6CB3, 0x9109]
      [0x53F0, 0x6771, 0x7E23, 0x30FB, 0x6771, 0x6CB3, 0x9109],
    district ''46-4608'' [0x9577, 0x6FF1, 0x9109]
      [0x53F0, 0x6771, 0x7E23, 0x30FB, 0x9577, 0x6FF1, 0x9109],
    district ''46-4609'' [0x9E7F, 0x91CE, 0x9109]
      [0x53F0, 0x6771, 0x7E23, 0x30FB, 0x9E7F, 0x91CE, 0x9109],
    district ''46-4610'' [0x6C60, 0x4E0A, 0x9109]
      [0x53F0, 0x6771, 0x7E23, 0x30FB, 0x6C60, 0x4E0A, 0x9109],
    district ''46-4611'' [0x7DA0, 0x5CF6, 0x9109]
      [0x53F0, 0x6771, 0x7E23, 0x30FB, 0x7DA0, 0x5CF6, 0x9109],
    district ''46-4612'' [0x5EF6, 0x5E73, 0x9109]
      [0x53F0, 0x6771, 0x7E23, 0x30FB, 0x5EF6, 0x5E73, 0x9109],
    district ''46-4613'' [0x6D77, 0x7AEF, 0x9109]
      [0x53F0, 0x6771, 0x7E23, 0x30FB, 0x6D77, 0x7AEF, 0x9109],
    district ''46-4614'' [0x9054, 0x4EC1, 0x9109]
      [0x53F0, 0x6771, 0x7E23, 0x30FB, 0x9054, 0x4EC1, 0x9109],
    district ''46-4615'' [0x91D1, 0x5CF0, 0x9109]
      [0x53F0, 0x6771, 0x7E23, 0x30FB, 0x91D1, 0x5CF0, 0x9109],
    district ''46-4616'' [0x862D, 0x5DBC, 0x9109]
      [0x53F0, 0x6771, 0x7E23, 0x30FB, 0x862D, 0x5DBC, 0x9109]]\<rparr>"

definition city_44 :: location_city where
  [city_defs]: "city_44 = \<lparr>lc_cityCode = js ''44'', lc_cityLabel = [0x6F8E, 0x6E56, 0x7E23], lc_districts = [
    district ''44-4401'' [0x99AC, 0x516C, 0x5E02]
      [0x6F8E, 0x6E56, 0x7E23, 0x30FB, 0x99AC, 0x516C, 0x5E02],
    district ''44-4402'' [0x6E56, 0x897F, 0x9109]
      [0x6F8E, 0x6E56, 0x7E23, 0x30FB, 0x6E56, 0x897F, 0x9109],
    district ''44-4403'' [0x767D, 0x6C99, 0x9109]
      [0x6F8E, 0x6E56, 0x7E23, 0x30FB, 0x767D, 0x6C99, 0x9109],
    district ''44-4404'' [0x897F, 0x5DBC, 0x9109]
      [0x6F8E, 0x6E56, 0x7E23, 0x30FB, 0x897F, 0x5DBC, 0x9109],
    district ''44-4405'' [0x671B, 0x5B89, 0x9109]
      [0x6F8E, 0x6E56, 0x7E23, 0x30FB, 0x671B, 0x5B89, 0x9109],
    district ''44-4406'' [0x4E03, 0x7F8E, 0x9109]
      [0x6F8E, 0x6E56, 0x7E23, 0x30FB, 0x4E03, 0x7F8E, 0x9109]]\<rparr>"

definition city_90 :: location_city where
  [city_defs]: "city_90 = \<lparr>lc_cityCode = js ''90'', lc_cityLabel = [0x91D1, 0x9580, 0x7E23], lc_districts = [
    district ''90-9001'' [0x91D1, 0x57CE, 0x93AE]
      [0x91D1, 0x9580, 0x7E23, 0x30FB, 0x91D1, 0x57CE, 0x93AE],
    district ''90-9002'' [0x91D1, 0x6C99, 0x93AE]
      [0x91D1, 0x9580, 0x7E23, 0x30FB, 0x91D1, 0x6C99, 0x93AE],
    district ''90-9003'' [0x91D1, 0x6E56, 0x93AE]
      [0x91D1, 0x9580, 0x7E23, 0x30FB, 0x91D1, 0x6E56, 0x93AE],
    district ''90-9004'' [0x91D1, 0x5BE7, 0x9109]
      [0x91D1, 0x9580, 0x7E23, 0x30FB, 0x91D1, 0x5BE7, 0x9109],
    district ''90-9005'' [0x70C8, 0x5DBC, 0x9109]
      [0x91D1, 0x9580, 0x7E23, 0x30FB, 0x70C8, 0x5DBC, 0x9109],
    district ''90-9006'' [0x70CF, 0x5775, 0x9109]
      [0x91D1, 0x9580, 0x7E23, 0x30FB, 0x70CF, 0x5775, 0x9109]]\<rparr>"

definition city_91 :: location_city where
  [city_defs]: "city_91 = \<lparr>lc_cityCode = js ''91'', lc_cityLabel = [0x9023, 0x6C5F, 0x7E23], lc_districts = [
    district ''91-9101'' [0x5357, 0x7AFF, 0x9109]
      [0x9023, 0x6C5F, 0x7E23, 0x30FB, 0x5357, 0x7AFF, 0x9109],
    district ''91-9102'' [0x5317, 0x7AFF, 0x9109]
      [0x9023, 0x6C5F, 0x7E23, 0x30FB, 0x5317, 0x7AFF, 0x9109],
    district ''91-9103'' [0x8392, 0x5149, 0x9109]
      [0x9023, 0x6C5F, 0x7E23, 0x30FB, 0x8392, 0x5149, 0x9109],
    district ''91-9104'' [0x6771, 0x5F15, 0x9109]
      [0x9023, 0x6C5F, 0x7E23, 0x30FB, 0x6771, 0x5F15, 0x9109]]\<rparr>"

definition LOCATION_GROUPS :: "location_city list" where
  "LOCATION_GROUPS = [city_01, city_31, city_32, city_12, city_33, city_35, city_03, city_37, city_38, city_39, city_22, city_40, city_05, city_07, city_43, city_11, city_34, city_45, city_46, city_44, city_90, city_91]"

end
