(* ===== verification/Types.thy ===== *)
theory Types
  imports Prelude
begin

text \<open>
  The records the web client exchanges with the API, \<open>src/apps/web/types/index.ts\<close>: one record per
  interface, its fields in the interface's order and with its names behind a prefix. A field that may
  be absent or null is an option, a number an integer (a rational where the API's type is \<open>float64\<close>: areas
  and coordinates), an object used as a dictionary an association
  list. (\<open>ApiFieldError\<close> is \<open>field_error\<close> in ApiClient; the location types are in Locations.)
\<close>

datatype viewing_status = Confirmed | Completed | Cancelled | CancelledLandlord

datatype attendance = NotRecorded | Attended | Absent

record me_response =
  me_id :: jstr
  me_email :: jstr
  me_name :: jstr
  me_avatar_url :: jstr
  me_contact_info :: jstr
  me_roles :: "jstr list"
  me_created_at :: jstr

record tenant_profile =
  tp_id :: jstr
  tp_tenant_id :: jstr
  tp_name :: jstr
  tp_budget_min :: int
  tp_budget_max :: int
  tp_locations :: "jstr list"
  tp_preferred_room_types :: "jstr list"
  tp_available_from :: jstr
  tp_min_lease_months :: int
  tp_min_area_ping :: "rat option"
  tp_has_pets :: bool
  tp_pet_description :: "jstr option"
  tp_needs_subsidy :: bool
  tp_needs_tax_receipt :: bool
  tp_needs_household_registration :: bool
  tp_needs_cooking :: bool
  tp_needs_parking :: bool
  tp_smoking :: bool
  tp_occupation :: "jstr option"
  tp_age :: "int option"
  tp_description :: "jstr option"
  tp_contact_info :: "jstr option"
  tp_is_active :: bool
  tp_created_at :: jstr
  tp_updated_at :: jstr

record viewing_availability =
  va_enabled :: bool
  va_slot_minutes :: int
  va_slot_capacity :: int
  va_weekly :: "(jstr \<times> (jstr \<times> jstr) list) list"
  va_booking_range_days :: int
  va_exceptions :: "jstr list"

record viewing_slot =
  vs_start :: jstr
  vs_end :: jstr
  vs_booked_count :: int
  vs_capacity :: int

record viewing =
  vw_id :: jstr
  vw_match_id :: jstr
  vw_match_active :: bool
  vw_tenant_profile_id :: jstr
  vw_listing_id :: jstr
  vw_profile_name :: jstr
  vw_listing_name :: jstr
  vw_starts_at :: jstr
  vw_ends_at :: jstr
  vw_status :: viewing_status
  vw_attendance :: attendance
  vw_landlord_notes :: jstr
  vw_contact_info :: jstr
  vw_address :: jstr
  vw_location_id :: jstr
  vw_rent :: int
  vw_room_type :: jstr
  vw_area_ping :: rat
  vw_management_fee :: int
  vw_available_from :: jstr
  vw_allow_pets :: bool
  vw_allow_subsidy :: bool
  vw_allow_tax_receipt :: bool
  vw_allow_household_registration :: bool
  vw_allow_cooking :: bool
  vw_has_parking :: bool
  vw_allow_smoking :: bool
  vw_num_bedrooms :: "int option"
  vw_num_living_rooms :: "int option"
  vw_num_bathrooms :: "int option"
  vw_num_balconies :: "int option"
  vw_description :: jstr
  vw_lat :: "rat option"
  vw_lng :: "rat option"
  vw_photos :: "jstr list"

record listing =
  li_id :: jstr
  li_landlord_id :: jstr
  li_location_id :: jstr
  li_address :: "jstr option"
  li_name :: jstr
  li_rent :: int
  li_management_fee :: int
  li_room_type :: jstr
  li_area_ping :: rat
  li_num_bedrooms :: "int option"
  li_num_living_rooms :: "int option"
  li_num_bathrooms :: "int option"
  li_num_balconies :: "int option"
  li_available_from :: jstr
  li_min_lease_months :: int
  li_allow_pets :: bool
  li_allow_subsidy :: bool
  li_allow_tax_receipt :: bool
  li_allow_household_registration :: bool
  li_allow_cooking :: bool
  li_has_parking :: bool
  li_allow_smoking :: bool
  li_description :: "jstr option"
  li_contact_info :: "jstr option"
  li_status :: jstr
  li_photos :: "jstr list"
  li_lat :: "rat option"
  li_lng :: "rat option"
  li_created_at :: jstr
  li_updated_at :: jstr

record matched_listing_card =
  mc_id :: jstr
  mc_location_id :: jstr
  mc_name :: jstr
  mc_rent :: int
  mc_management_fee :: int
  mc_room_type :: jstr
  mc_area_ping :: rat
  mc_num_bedrooms :: "int option"
  mc_num_living_rooms :: "int option"
  mc_num_bathrooms :: "int option"
  mc_num_balconies :: "int option"
  mc_available_from :: jstr
  mc_allow_pets :: bool
  mc_allow_subsidy :: bool
  mc_allow_tax_receipt :: bool
  mc_allow_household_registration :: bool
  mc_allow_cooking :: bool
  mc_has_parking :: bool
  mc_allow_smoking :: bool
  mc_photos :: "jstr list"
  mc_interest_sent :: bool
  mc_address :: "jstr option"
  mc_description :: "jstr option"
  mc_lat :: "rat option"
  mc_lng :: "rat option"
  mc_landlord_id :: "jstr option"

record matched_tenant_profile_card =
  tc_id :: jstr
  tc_name :: jstr
  tc_account_name :: jstr
  tc_preferred_room_types :: "jstr list"
  tc_available_from :: jstr
  tc_min_lease_months :: int
  tc_has_pets :: bool
  tc_needs_subsidy :: bool
  tc_needs_tax_receipt :: bool
  tc_needs_household_registration :: bool
  tc_needs_cooking :: bool
  tc_needs_parking :: bool
  tc_smoking :: bool
  tc_occupation :: "jstr option"
  tc_age :: "int option"
  tc_description :: "jstr option"
  tc_interest_sent :: bool
  tc_tenant_id :: "jstr option"

record mutual_match =
  mm_match_id :: jstr
  mm_tenant_profile_id :: jstr
  mm_listing_id :: jstr
  mm_listing_name :: "jstr option"
  mm_contact_info :: jstr
  mm_matched_at :: jstr
  mm_tenant_occupation :: "jstr option"
  mm_tenant_age :: "int option"
  mm_tenant_has_pets :: "bool option"
  mm_tenant_description :: "jstr option"
  mm_landlord_id :: "jstr option"
  mm_tenant_id :: "jstr option"

record interest =
  it_tenant_profile_id :: jstr
  it_listing_id :: jstr
  it_created_at :: jstr

end
