(* ===== verification/Locations.thy ===== *)
theory Locations
  imports LocationTable Types
begin

text \<open>
  The lookups over the location table, \<open>LOCATION_LABELS\<close>, \<open>LOCATIONS\<close>,
  \<open>RECOMMENDED_LOCATION_IDS\<close> and \<open>LOCATION_CITY_DISTRICT\<close> of \<open>src/apps/web/types/index.ts\<close>, and the
  facts about the table that its users rely on: ids are unique, a district's city can be read off its
  id, and the pair of labels sent to the API names one location.
\<close>

definition ROOM_TYPE_LABELS :: "(jstr \<times> jstr) list" where
  "ROOM_TYPE_LABELS = [(js ''suite'', [0x5957, 0x623F]), (js ''shared'', [0x96C5, 0x623F]),
     (js ''whole_floor'', [0x6574, 0x5C64])]"

definition LOCATIONS :: "location_district list" where
  "LOCATIONS = concat (map lc_districts LOCATION_GROUPS)"

definition LOCATION_LABELS :: "(jstr \<times> jstr) list" where
  "LOCATION_LABELS =
     from_entries (concat (map (\<lambda>c. map (\<lambda>d. (ld_id d, ld_label d)) (lc_districts c)) LOCATION_GROUPS))"

definition RECOMMENDED_LOCATION_IDS :: "jstr list" where
  "RECOMMENDED_LOCATION_IDS = [js ''01-0102'', js ''01-0118'', js ''01-0110'', js ''01-0117'',
     js ''31-3101'', js ''31-3104'', js ''31-3105'', js ''31-3102'']"

record city_district =
  cd_city :: jstr
  cd_district :: jstr

definition LOCATION_CITY_DISTRICT :: "(jstr \<times> city_district) list" where
  "LOCATION_CITY_DISTRICT =
     from_entries (concat (map (\<lambda>c. map (\<lambda>d.
       (ld_id d, \<lparr>cd_city = lc_cityLabel c, cd_district = ld_districtLabel d\<rparr>)) (lc_districts c)) LOCATION_GROUPS))"

section \<open>Checking the table\<close>

definition dash :: nat where "dash = 45"
definition middle_dot :: nat where "middle_dot = 0x30FB"

text \<open>
  A city's entry is well formed: its ids are its code, a dash and something; its labels are the city's
  label, a middle dot and the district's; ids and district labels do not repeat.
\<close>

definition district_ok :: "location_city \<Rightarrow> location_district \<Rightarrow> bool" where
  "district_ok c d \<longleftrightarrow> starts_with (ld_id d) (lc_cityCode c @ [dash]) \<and>
     ld_label d = lc_cityLabel c @ middle_dot # ld_districtLabel d"

definition city_ok :: "location_city \<Rightarrow> bool" where
  "city_ok c \<longleftrightarrow> length (lc_cityCode c) = 2 \<and> lc_districts c \<noteq> [] \<and> list_all (district_ok c) (lc_districts c) \<and>
     distinct (map ld_id (lc_districts c)) \<and> distinct (map ld_districtLabel (lc_districts c))"

definition groups_ok :: "location_city list \<Rightarrow> bool" where
  "groups_ok cs \<longleftrightarrow> list_all city_ok cs \<and> distinct (map lc_cityCode cs) \<and> distinct (map lc_cityLabel cs)"

lemma table_ok: "groups_ok LOCATION_GROUPS"
proof -
  have "list_all city_ok LOCATION_GROUPS"
    by (simp add: LOCATION_GROUPS_def city_defs city_ok_def district_ok_def js_def dash_def middle_dot_def)
  moreover have "distinct (map lc_cityCode LOCATION_GROUPS)" "distinct (map lc_cityLabel LOCATION_GROUPS)"
    by (simp_all add: LOCATION_GROUPS_def city_defs)
  ultimately show ?thesis by (simp add: groups_ok_def)
qed

section \<open>A well-formed table\<close>

text \<open>What the clients of a table use, proved once from \<open>groups_ok\<close>.\<close>

locale location_table =
  fixes groups :: "location_city list"
  assumes ok: "groups_ok groups"
begin

lemma district_okD: "c \<in> set groups \<Longrightarrow> d \<in> set (lc_districts c) \<Longrightarrow> district_ok c d"
  using ok by (auto simp: groups_ok_def list_all_iff city_ok_def)

lemma city_distinct:
  "c \<in> set groups \<Longrightarrow> distinct (map ld_id (lc_districts c)) \<and> distinct (map ld_districtLabel (lc_districts c))"
  using ok by (auto simp: groups_ok_def list_all_iff city_ok_def)

lemma code_of_id: "c \<in> set groups \<Longrightarrow> d \<in> set (lc_districts c) \<Longrightarrow> take 2 (ld_id d) = lc_cityCode c"
proof -
  assume "c \<in> set groups" "d \<in> set (lc_districts c)"
  then have "length (lc_cityCode c) = 2" "\<exists>r. ld_id d = (lc_cityCode c @ [dash]) @ r"
    using ok district_okD [of c d]
    by (auto simp: groups_ok_def list_all_iff city_ok_def district_ok_def starts_with_iff)
  then show ?thesis by auto
qed

lemma same_code: "c \<in> set groups \<Longrightarrow> c' \<in> set groups \<Longrightarrow> lc_cityCode c = lc_cityCode c' \<Longrightarrow> c = c'"
  using ok by (auto simp: groups_ok_def distinct_map inj_on_def)

lemma same_label: "c \<in> set groups \<Longrightarrow> c' \<in> set groups \<Longrightarrow> lc_cityLabel c = lc_cityLabel c' \<Longrightarrow> c = c'"
  using ok by (auto simp: groups_ok_def distinct_map inj_on_def)

lemma same_id:
  assumes "c \<in> set groups" "d \<in> set (lc_districts c)" "c' \<in> set groups" "d' \<in> set (lc_districts c')"
    and "ld_id d = ld_id d'"
  shows "c = c' \<and> d = d'"
proof -
  have "c = c'" using assms code_of_id same_code by metis
  moreover have "d = d'"
    using assms(2,4,5) city_distinct [OF assms(1)] unfolding \<open>c = c'\<close>
    by (auto simp: distinct_map inj_on_def)
  ultimately show ?thesis ..
qed

text \<open>A list of pairs, one per district, keyed by the district's id: a lookup finds exactly its pair.\<close>

lemma lookup_by_id:
  assumes c: "c \<in> set groups" and d: "d \<in> set (lc_districts c)"
  shows "map_of (from_entries (concat (map (\<lambda>c. map (\<lambda>d. (ld_id d, f c d)) (lc_districts c)) groups))) (ld_id d)
           = Some (f c d)"
proof -
  let ?es = "concat (map (\<lambda>c. map (\<lambda>d. (ld_id d, f c d)) (lc_districts c)) groups)"
  have "ld_id d \<in> dom (map_of (rev ?es))"
    using c d by (auto simp: dom_map_of_conv_image_fst intro!: image_eqI [of _ fst "(ld_id d, f c d)"] bexI [of _ c])
  then obtain v where v: "map_of (rev ?es) (ld_id d) = Some v" by blast
  then have "(ld_id d, v) \<in> set ?es" by (metis map_of_SomeD set_rev)
  then obtain c' d' where "c' \<in> set groups" "d' \<in> set (lc_districts c')" "ld_id d = ld_id d'" "v = f c' d'"
    by auto
  then have "v = f c d" using same_id [OF c d] by metis
  with v show ?thesis by (simp only: map_of_from_entries)
qed

lemma lookup_by_id_iff:
  "map_of (from_entries (concat (map (\<lambda>c. map (\<lambda>d. (ld_id d, f c d)) (lc_districts c)) groups))) i = Some v
     \<longleftrightarrow> (\<exists>c \<in> set groups. \<exists>d \<in> set (lc_districts c). i = ld_id d \<and> v = f c d)"
  (is "?l \<longleftrightarrow> ?r")
proof
  assume ?l
  then have "(i, v) \<in> set (concat (map (\<lambda>c. map (\<lambda>d. (ld_id d, f c d)) (lc_districts c)) groups))"
    unfolding map_of_from_entries by (metis map_of_SomeD set_rev)
  then show ?r by auto
qed (auto simp: lookup_by_id)

end

interpretation table: location_table LOCATION_GROUPS
  by unfold_locales (rule table_ok)

lemma ids_distinct_concat:
  "distinct (map ld_id LOCATIONS)"
proof -
  have "distinct (map ld_id (concat (map lc_districts cs)))"
    if "set cs \<subseteq> set LOCATION_GROUPS" "distinct cs" for cs
    using that
  proof (induction cs)
    case (Cons c cs)
    moreover have "ld_id ` set (lc_districts c) \<inter> ld_id ` (\<Union>x \<in> set cs. set (lc_districts x)) = {}"
    proof (rule ccontr)
      assume "\<not> ?thesis"
      then obtain d c' d' where "d \<in> set (lc_districts c)" "c' \<in> set cs" "d' \<in> set (lc_districts c')" "ld_id d = ld_id d'"
        by (auto simp: set_eq_iff)
      with Cons.prems table.same_id [of c d c' d'] show False by auto
    qed
    ultimately show ?case using table.city_distinct [of c] by (simp add: image_UN)
  qed simp
  moreover have "distinct LOCATION_GROUPS"
    using table_ok by (auto simp: groups_ok_def distinct_map)
  ultimately show ?thesis by (simp add: LOCATIONS_def)
qed

lemma recommended_in_table: "set RECOMMENDED_LOCATION_IDS \<subseteq> ld_id ` set LOCATIONS"
proof -
  have "list_all (\<lambda>i. list_ex (\<lambda>d. ld_id d = i) (lc_districts city_01 @ lc_districts city_31)) RECOMMENDED_LOCATION_IDS"
    by (simp add: RECOMMENDED_LOCATION_IDS_def city_01_def city_31_def)
  moreover have "{city_01, city_31} \<subseteq> set LOCATION_GROUPS" by (simp add: LOCATION_GROUPS_def)
  ultimately show ?thesis by (force simp: list_all_iff list_ex_iff LOCATIONS_def)
qed

lemma location_key_inject:
  assumes "map_of LOCATION_CITY_DISTRICT i = Some x" and "map_of LOCATION_CITY_DISTRICT j = Some x"
  shows "i = j"
proof -
  from assms obtain c d c' d' where "c \<in> set LOCATION_GROUPS" "d \<in> set (lc_districts c)" "i = ld_id d"
    "c' \<in> set LOCATION_GROUPS" "d' \<in> set (lc_districts c')" "j = ld_id d'"
    "lc_cityLabel c = lc_cityLabel c'" "ld_districtLabel d = ld_districtLabel d'"
    unfolding LOCATION_CITY_DISTRICT_def table.lookup_by_id_iff by auto
  then show "i = j"
    using table.same_label [of c c'] table.city_distinct [of c] by (auto simp: distinct_map inj_on_def)
qed

text \<open>
  C14. The natural key sent to the API: every known location id has a city and district, they come from
  the table entry of that id, and two ids with the same city and district are the same id. So the API
  can recover the location from the pair.
\<close>

theorem city_district_natural_key:
  "(map_of LOCATION_CITY_DISTRICT i = Some x \<longleftrightarrow>
     (\<exists>c \<in> set LOCATION_GROUPS. \<exists>d \<in> set (lc_districts c).
        i = ld_id d \<and> x = \<lparr>cd_city = lc_cityLabel c, cd_district = ld_districtLabel d\<rparr>)) \<and>
   (\<forall>j. map_of LOCATION_CITY_DISTRICT i = Some x \<and> map_of LOCATION_CITY_DISTRICT j = Some x \<longrightarrow> i = j)"
proof (intro conjI allI impI)
  show "i = j" if "map_of LOCATION_CITY_DISTRICT i = Some x \<and> map_of LOCATION_CITY_DISTRICT j = Some x" for j
    using that location_key_inject by blast
qed (simp add: LOCATION_CITY_DISTRICT_def table.lookup_by_id_iff)

lemma city_district_natural_key_witness:
  "map_of LOCATION_CITY_DISTRICT (js ''01-0101'') =
     Some \<lparr>cd_city = lc_cityLabel city_01, cd_district = ld_districtLabel (hd (lc_districts city_01))\<rparr>"
proof -
  have "city_01 \<in> set LOCATION_GROUPS" by (simp add: LOCATION_GROUPS_def)
  moreover have "hd (lc_districts city_01) \<in> set (lc_districts city_01)"
    "js ''01-0101'' = ld_id (hd (lc_districts city_01))"
    by (simp_all add: city_01_def)
  ultimately show ?thesis
    by (intro city_district_natural_key [THEN conjunct1, THEN iffD2]) blast
qed

end
