(* ===== verification/Texts.thy ===== *)
theory Texts
  imports Prelude
begin

text \<open>
  The texts the components show, as lists of UTF-16 code units, each under an English name. A template
  literal is split at its holes.
\<close>

named_theorems text_defs \<open>the texts, for evaluation\<close>


section \<open>\<open>src/apps/web/lib/listingTags.ts\<close>\<close>

definition t_tag_pets :: jstr where
  [text_defs]: "t_tag_pets = [0x5BF5, 0x7269]"

definition t_tag_subsidy :: jstr where
  [text_defs]: "t_tag_subsidy = [0x79DF, 0x5C4B, 0x88DC, 0x52A9]"

definition t_tag_tax_receipt :: jstr where
  [text_defs]: "t_tag_tax_receipt = [0x5831, 0x7A05]"

definition t_tag_household :: jstr where
  [text_defs]: "t_tag_household = [0x5165, 0x7C4D]"

definition t_tag_cooking :: jstr where
  [text_defs]: "t_tag_cooking = [0x958B, 0x4F19]"

definition t_tag_has_pets :: jstr where
  [text_defs]: "t_tag_has_pets = [0x990A, 0x5BF5, 0x7269]"

definition t_tag_smoking :: jstr where
  [text_defs]: "t_tag_smoking = [0x5438, 0x83F8]"

definition t_tag_parking :: jstr where
  [text_defs]: "t_tag_parking = [0x505C, 0x8ECA]"

definition t_unit_bedrooms :: jstr where
  [text_defs]: "t_unit_bedrooms = [0x623F]"

definition t_unit_living_rooms :: jstr where
  [text_defs]: "t_unit_living_rooms = [0x5EF3]"

definition t_unit_bathrooms :: jstr where
  [text_defs]: "t_unit_bathrooms = [0x885B]"

definition t_unit_balconies :: jstr where
  [text_defs]: "t_unit_balconies = [0x967D, 0x53F0]"


section \<open>\<open>src/apps/web/lib/viewings.ts\<close>\<close>

definition t_sunday :: jstr where
  [text_defs]: "t_sunday = [0x9031, 0x65E5]"

definition t_monday :: jstr where
  [text_defs]: "t_monday = [0x9031, 0x4E00]"

definition t_tuesday :: jstr where
  [text_defs]: "t_tuesday = [0x9031, 0x4E8C]"

definition t_wednesday :: jstr where
  [text_defs]: "t_wednesday = [0x9031, 0x4E09]"

definition t_thursday :: jstr where
  [text_defs]: "t_thursday = [0x9031, 0x56DB]"

definition t_friday :: jstr where
  [text_defs]: "t_friday = [0x9031, 0x4E94]"

definition t_saturday :: jstr where
  [text_defs]: "t_saturday = [0x9031, 0x516D]"

definition t_viewing_confirmed :: jstr where
  [text_defs]: "t_viewing_confirmed = [0x5DF2, 0x78BA, 0x8A8D]"

definition t_viewing_completed :: jstr where
  [text_defs]: "t_viewing_completed = [0x5DF2, 0x5B8C, 0x6210]"

definition t_viewing_cancelled :: jstr where
  [text_defs]: "t_viewing_cancelled = [0x5DF2, 0x53D6, 0x6D88]"

definition t_viewing_cancelled_landlord :: jstr where
  [text_defs]: "t_viewing_cancelled_landlord = [0x623F, 0x6771, 0x5DF2, 0x53D6, 0x6D88]"


section \<open>\<open>src/apps/web/components/LocationPicker.tsx\<close>\<close>

definition t_picker_title :: jstr where
  [text_defs]: "t_picker_title = [0x5730, 0x5340, 0x985E, 0x5225, 0x9078, 0x55AE]"

definition t_picker_close :: jstr where
  [text_defs]: "t_picker_close = [0x95DC, 0x9589]"

definition t_picker_selected :: jstr where
  [text_defs]: "t_picker_selected = [0x5DF2, 0x9078, 0x64C7, 0xFF1A]"

definition t_picker_clear :: jstr where
  [text_defs]: "t_picker_clear = [0x6E05, 0x9664, 0x5168, 0x90E8]"

definition t_picker_recommended :: jstr where
  [text_defs]: "t_picker_recommended = [0x63A8, 0x85A6, 0x5730, 0x5340]"

definition t_picker_no_result :: jstr where
  [text_defs]: "t_picker_no_result = [0x627E, 0x4E0D, 0x5230, 0x7B26, 0x5408, 0x7684, 0x5730, 0x5340]"

definition t_picker_confirm :: jstr where
  [text_defs]: "t_picker_confirm = [0x78BA, 0x5B9A]"


section \<open>\<open>src/apps/web/components/ContactInfoField.tsx\<close>\<close>

definition t_landlord_word :: jstr where
  [text_defs]: "t_landlord_word = [0x623F, 0x6771]"

definition t_tenant_word :: jstr where
  [text_defs]: "t_tenant_word = [0x79DF, 0x5BA2]"

definition t_contact_label_1 :: jstr where
  [text_defs]: "t_contact_label_1 = [0x806F, 0x7D61, 0x65B9, 0x5F0F, 0xFF08, 0x5A92, 0x5408, 0x6210, 0x529F, 0x5F8C, 0x624D, 0x5C0D]"

definition t_contact_label_2 :: jstr where
  [text_defs]: "t_contact_label_2 = [0x986F, 0x793A, 0xFF09]"

definition t_contact_edit :: jstr where
  [text_defs]: "t_contact_edit = [0x7DE8, 0x8F2F]"

definition t_contact_missing :: jstr where
  [text_defs]: "t_contact_missing = [0x60A8, 0x5C1A, 0x672A, 0x586B, 0x5BEB, 0x806F, 0x7D61, 0x65B9, 0x5F0F, 0xFF0C, 0x5A92, 0x5408, 0x6210, 0x529F, 0x5F8C, 0x9700, 0x8981, 0x5B83, 0x624D, 0x80FD, 0x8B93, 0x5C0D, 0x65B9, 0x806F, 0x7D61, 0x60A8, 0x3002]"

definition t_contact_go :: jstr where
  [text_defs]: "t_contact_go = [0x524D, 0x5F80, 0x586B, 0x5BEB, 0x806F, 0x7D61, 0x65B9, 0x5F0F, 0x20, 0x203A]"


section \<open>\<open>src/apps/web/components/ui/ExpandableText.tsx\<close>\<close>

definition t_collapse :: jstr where
  [text_defs]: "t_collapse = [0x6536, 0x5408]"

definition t_expand :: jstr where
  [text_defs]: "t_expand = [0x986F, 0x793A, 0x66F4, 0x591A]"


section \<open>\<open>src/apps/web/components/ui/Loading.tsx\<close>\<close>

definition t_loading :: jstr where
  [text_defs]: "t_loading = [0x8F09, 0x5165, 0x4E2D, 0x2026]"


section \<open>\<open>src/apps/web/components/RoleGuard.tsx\<close>\<close>

definition t_no_permission :: jstr where
  [text_defs]: "t_no_permission = [0x60A8, 0x6C92, 0x6709, 0x6B0A, 0x9650, 0x5B58, 0x53D6, 0x6B64, 0x9801, 0x9762]"


section \<open>\<open>src/apps/web/components/ConfirmDialog.tsx\<close>\<close>

definition t_confirm_cancel :: jstr where
  [text_defs]: "t_confirm_cancel = [0x53D6, 0x6D88]"

definition t_confirm_ok :: jstr where
  [text_defs]: "t_confirm_ok = [0x78BA, 0x5B9A]"


section \<open>\<open>src/apps/web/features/listings/ListingFormModal.tsx\<close>\<close>

definition t_selected_1 :: jstr where
  [text_defs]: "t_selected_1 = [0x5DF2, 0x9078, 0x20]"

definition t_selected_2 :: jstr where
  [text_defs]: "t_selected_2 = [0x20, 0x5F35, 0xFF0C, 0x50C5, 0x4E0A, 0x50B3, 0x524D, 0x20]"

definition t_selected_3 :: jstr where
  [text_defs]: "t_selected_3 = [0x20, 0x5F35, 0xFF08, 0x4E0A, 0x9650, 0x20, 0x31, 0x30, 0x20, 0x5F35, 0xFF09]"

definition t_upload_failed :: jstr where
  [text_defs]: "t_upload_failed = [0x4E0A, 0x50B3, 0x5931, 0x6557]"

definition t_photos_title :: jstr where
  [text_defs]: "t_photos_title = [0x7167, 0x7247, 0xFF08, 0x6700, 0x591A, 0x20, 0x31, 0x30, 0x20, 0x5F35, 0xFF0C, 0x53EF, 0x62D6, 0x66F3, 0x8ABF, 0x6574, 0x9806, 0x5E8F, 0xFF09]"

definition t_photos_add :: jstr where
  [text_defs]: "t_photos_add = [0x2B, 0x20, 0x65B0, 0x589E]"

definition t_photos_hint :: jstr where
  [text_defs]: "t_photos_hint = [0x63A5, 0x53D7, 0x20, 0x4A, 0x50, 0x45, 0x47, 0x20, 0x2F, 0x20, 0x50, 0x4E, 0x47, 0x20, 0x2F, 0x20, 0x57, 0x65, 0x62, 0x50, 0xFF0C, 0x6BCF, 0x5F35, 0x6700, 0x5927, 0x20, 0x35, 0x4D, 0x42, 0x3002]"

definition t_city_label :: jstr where
  [text_defs]: "t_city_label = [0x7E23, 0x5E02]"

definition t_city_required :: jstr where
  [text_defs]: "t_city_required = [0x8ACB, 0x9078, 0x64C7, 0x7E23, 0x5E02]"

definition t_district_label :: jstr where
  [text_defs]: "t_district_label = [0x5730, 0x5340]"

definition t_district_required :: jstr where
  [text_defs]: "t_district_required = [0x8ACB, 0x9078, 0x64C7, 0x5730, 0x5340]"

definition t_room_type_label :: jstr where
  [text_defs]: "t_room_type_label = [0x623F, 0x578B]"

definition t_room_type_required :: jstr where
  [text_defs]: "t_room_type_required = [0x8ACB, 0x9078, 0x64C7, 0x623F, 0x578B]"

definition t_layout_label :: jstr where
  [text_defs]: "t_layout_label = [0x683C, 0x5C40]"

definition t_layout_living :: jstr where
  [text_defs]: "t_layout_living = [0x5EF3]"

definition t_layout_bath :: jstr where
  [text_defs]: "t_layout_bath = [0x885B]"

definition t_compliance_title :: jstr where
  [text_defs]: "t_compliance_title = [0x5408, 0x898F, 0x78BA, 0x8A8D]"

definition t_compliance_text :: jstr where
  [text_defs]: "t_compliance_text = [0x5EFA, 0x7ACB, 0x623F, 0x6E90, 0x524D, 0xFF0C, 0x8ACB, 0x78BA, 0x8A8D, 0x6B64, 0x623F, 0x6E90, 0x4E0D, 0x662F, 0x9802, 0x6A13, 0x52A0, 0x84CB, 0x3001, 0x9055, 0x5EFA, 0x6216, 0x4F9D, 0x6CD5, 0x4E0D, 0x5F97, 0x51FA, 0x79DF, 0x4E4B, 0x7A7A, 0x9593, 0xFF0C, 0x4E14, 0x520A, 0x767B, 0x5167, 0x5BB9, 0x4E0D, 0x5305, 0x542B, 0x6027, 0x5225, 0x6216, 0x5176, 0x4ED6, 0x654F, 0x611F, 0x5C6C, 0x6027, 0x9650, 0x5236, 0x3002]"

definition t_compliance_required :: jstr where
  [text_defs]: "t_compliance_required = [0x8ACB, 0x52FE, 0x9078, 0x5408, 0x898F, 0x78BA, 0x8A8D, 0x624D, 0x80FD, 0x5EFA, 0x7ACB, 0x623F, 0x6E90]"

definition t_compliance_check :: jstr where
  [text_defs]: "t_compliance_check = [0x6211, 0x78BA, 0x8A8D, 0x6B64, 0x623F, 0x6E90, 0x7B26, 0x5408, 0x4E0A, 0x8FF0, 0x5408, 0x898F, 0x689D, 0x4EF6]"

definition t_fix_fields :: jstr where
  [text_defs]: "t_fix_fields = [0x8ACB, 0x4FEE, 0x6B63, 0x6B04, 0x4F4D, 0x932F, 0x8AA4]"

definition t_error_occurred :: jstr where
  [text_defs]: "t_error_occurred = [0x767C, 0x751F, 0x932F, 0x8AA4]"

definition t_edit_listing :: jstr where
  [text_defs]: "t_edit_listing = [0x7DE8, 0x8F2F, 0x623F, 0x6E90]"

definition t_upload_photos :: jstr where
  [text_defs]: "t_upload_photos = [0x4E0A, 0x50B3, 0x7167, 0x7247]"

definition t_new_listing :: jstr where
  [text_defs]: "t_new_listing = [0x65B0, 0x589E, 0x623F, 0x6E90]"

definition t_listing_created :: jstr where
  [text_defs]: "t_listing_created = [0x623F, 0x6E90, 0x5DF2, 0x5EFA, 0x7ACB, 0xFF0C, 0x53EF, 0x4EE5, 0x4E0A, 0x50B3, 0x7167, 0x7247, 0xFF08, 0x9078, 0x586B, 0xFF09, 0x3002, 0x78BA, 0x8A8D, 0x5F8C, 0x518D, 0x6309, 0x4E0B, 0x65B9, 0x95DC, 0x9589, 0x3002]"

definition t_close :: jstr where
  [text_defs]: "t_close = [0x95DC, 0x9589]"

definition t_listing_name :: jstr where
  [text_defs]: "t_listing_name = [0x623F, 0x6E90, 0x540D, 0x7A31, 0xFF08, 0x9078, 0x586B, 0xFF09]"

definition t_address_label :: jstr where
  [text_defs]: "t_address_label = [0x8A73, 0x7D30, 0x5730, 0x5740]"

definition t_address_hint :: jstr where
  [text_defs]: "t_address_hint = [0x5A92, 0x5408, 0x6210, 0x529F, 0x5F8C, 0x624D, 0x6703, 0x986F, 0x793A, 0x7D66, 0x79DF, 0x5BA2, 0x3002]"

definition t_rent_label :: jstr where
  [text_defs]: "t_rent_label = [0x79DF, 0x91D1, 0xFF08, 0x5143, 0x2F, 0x6708, 0xFF09]"

definition t_rent_required :: jstr where
  [text_defs]: "t_rent_required = [0x8ACB, 0x586B, 0x5BEB, 0x79DF, 0x91D1]"

definition t_rent_max :: jstr where
  [text_defs]: "t_rent_max = [0x79DF, 0x91D1, 0x4E0D, 0x5F97, 0x8D85, 0x904E, 0x20, 0x39, 0x39, 0x39, 0x2C, 0x39, 0x39, 0x39, 0x20, 0x5143]"

definition t_fee_label :: jstr where
  [text_defs]: "t_fee_label = [0x7BA1, 0x7406, 0x8CBB, 0xFF08, 0x5143, 0x2F, 0x6708, 0xFF09]"

definition t_fee_range :: jstr where
  [text_defs]: "t_fee_range = [0x7BA1, 0x7406, 0x8CBB, 0x9700, 0x4ECB, 0x65BC, 0x20, 0x30, 0x20, 0x7E, 0x20, 0x39, 0x39, 0x39, 0x2C, 0x39, 0x39, 0x39, 0x20, 0x5143]"

definition t_area_label :: jstr where
  [text_defs]: "t_area_label = [0x576A, 0x6578]"

definition t_area_required :: jstr where
  [text_defs]: "t_area_required = [0x8ACB, 0x586B, 0x5BEB, 0x576A, 0x6578]"

definition t_area_max :: jstr where
  [text_defs]: "t_area_max = [0x576A, 0x6578, 0x4E0D, 0x5F97, 0x8D85, 0x904E, 0x20, 0x39, 0x39, 0x39, 0x2E, 0x39, 0x39]"

definition t_date_label :: jstr where
  [text_defs]: "t_date_label = [0x53EF, 0x5165, 0x4F4F, 0x65E5]"

definition t_date_required :: jstr where
  [text_defs]: "t_date_required = [0x8ACB, 0x586B, 0x5BEB, 0x53EF, 0x5165, 0x4F4F, 0x65E5]"

definition t_lease_label :: jstr where
  [text_defs]: "t_lease_label = [0x6700, 0x77ED, 0x79DF, 0x671F, 0xFF08, 0x6708, 0xFF09]"

definition t_lease_required :: jstr where
  [text_defs]: "t_lease_required = [0x8ACB, 0x586B, 0x5BEB, 0x6700, 0x77ED, 0x79DF, 0x671F]"

definition t_conditions :: jstr where
  [text_defs]: "t_conditions = [0x623F, 0x6E90, 0x689D, 0x4EF6]"

definition t_cond_pets :: jstr where
  [text_defs]: "t_cond_pets = [0x53EF, 0x990A, 0x5BF5, 0x7269]"

definition t_cond_subsidy :: jstr where
  [text_defs]: "t_cond_subsidy = [0x53EF, 0x7533, 0x8ACB, 0x79DF, 0x5C4B, 0x88DC, 0x52A9]"

definition t_cond_tax :: jstr where
  [text_defs]: "t_cond_tax = [0x53EF, 0x5831, 0x7A05]"

definition t_cond_household :: jstr where
  [text_defs]: "t_cond_household = [0x53EF, 0x9077, 0x5165, 0x6236, 0x7C4D]"

definition t_cond_cooking :: jstr where
  [text_defs]: "t_cond_cooking = [0x53EF, 0x958B, 0x4F19]"

definition t_description_label :: jstr where
  [text_defs]: "t_description_label = [0x623F, 0x6E90, 0x8AAA, 0x660E, 0xFF08, 0x9078, 0x586B, 0xFF09]"

definition t_saving :: jstr where
  [text_defs]: "t_saving = [0x5132, 0x5B58, 0x4E2D, 0x2026]"

definition t_save_and_close :: jstr where
  [text_defs]: "t_save_and_close = [0x5132, 0x5B58, 0x4E26, 0x95DC, 0x9589]"

definition t_create_listing :: jstr where
  [text_defs]: "t_create_listing = [0x5EFA, 0x7ACB, 0x623F, 0x6E90]"

definition t_cancel :: jstr where
  [text_defs]: "t_cancel = [0x53D6, 0x6D88]"


section \<open>\<open>src/apps/web/features/profiles/ProfileFormModal.tsx\<close>\<close>

definition t_budget_1 :: jstr where
  [text_defs]: "t_budget_1 = [0x31, 0x2013, 0x31, 0x2E, 0x35, 0x20, 0x842C]"

definition t_budget_2 :: jstr where
  [text_defs]: "t_budget_2 = [0x31, 0x2E, 0x35, 0x2013, 0x32, 0x20, 0x842C]"

definition t_budget_3 :: jstr where
  [text_defs]: "t_budget_3 = [0x32, 0x2013, 0x33, 0x20, 0x842C]"

definition t_budget_4 :: jstr where
  [text_defs]: "t_budget_4 = [0x33, 0x2013, 0x35, 0x20, 0x842C]"

definition t_budget_5 :: jstr where
  [text_defs]: "t_budget_5 = [0x35, 0x20, 0x842C, 0x4EE5, 0x4E0A]"

definition t_pf_locations :: jstr where
  [text_defs]: "t_pf_locations = [0x53EF, 0x63A5, 0x53D7, 0x5730, 0x5340, 0xFF08, 0x591A, 0x9078, 0xFF09]"

definition t_pf_locations_required :: jstr where
  [text_defs]: "t_pf_locations_required = [0x8ACB, 0x81F3, 0x5C11, 0x9078, 0x64C7, 0x4E00, 0x500B, 0x5730, 0x5340]"

definition t_pf_selected_1 :: jstr where
  [text_defs]: "t_pf_selected_1 = [0x5DF2, 0x9078, 0x20]"

definition t_pf_selected_2 :: jstr where
  [text_defs]: "t_pf_selected_2 = [0x20, 0x500B, 0x5730, 0x5340]"

definition t_pf_choose :: jstr where
  [text_defs]: "t_pf_choose = [0x9078, 0x64C7, 0x5730, 0x5340, 0x20, 0x203A]"

definition t_pf_room_types :: jstr where
  [text_defs]: "t_pf_room_types = [0x504F, 0x597D, 0x623F, 0x578B, 0xFF08, 0x591A, 0x9078, 0xFF09]"

definition t_pf_room_types_required :: jstr where
  [text_defs]: "t_pf_room_types_required = [0x8ACB, 0x81F3, 0x5C11, 0x9078, 0x64C7, 0x4E00, 0x7A2E, 0x504F, 0x597D, 0x623F, 0x578B]"

definition t_pf_edit :: jstr where
  [text_defs]: "t_pf_edit = [0x7DE8, 0x8F2F, 0x9700, 0x6C42, 0x5361]"

definition t_pf_new :: jstr where
  [text_defs]: "t_pf_new = [0x65B0, 0x589E, 0x9700, 0x6C42, 0x5361]"

definition t_pf_name :: jstr where
  [text_defs]: "t_pf_name = [0x9700, 0x6C42, 0x540D, 0x7A31, 0xFF08, 0x5982, 0xFF1A, 0x53F0, 0x5317, 0x5957, 0x623F, 0xFF09]"

definition t_pf_name_required :: jstr where
  [text_defs]: "t_pf_name_required = [0x8ACB, 0x586B, 0x5BEB, 0x9700, 0x6C42, 0x540D, 0x7A31]"

definition t_pf_budget_min :: jstr where
  [text_defs]: "t_pf_budget_min = [0x6700, 0x4F4E, 0x9810, 0x7B97, 0xFF08, 0x5143, 0xFF09]"

definition t_pf_budget_min_required :: jstr where
  [text_defs]: "t_pf_budget_min_required = [0x8ACB, 0x586B, 0x5BEB, 0x6700, 0x4F4E, 0x9810, 0x7B97]"

definition t_pf_budget_max :: jstr where
  [text_defs]: "t_pf_budget_max = [0x6700, 0x9AD8, 0x9810, 0x7B97, 0xFF08, 0x5143, 0xFF09]"

definition t_pf_budget_max_required :: jstr where
  [text_defs]: "t_pf_budget_max_required = [0x8ACB, 0x586B, 0x5BEB, 0x6700, 0x9AD8, 0x9810, 0x7B97]"

definition t_pf_budget_order :: jstr where
  [text_defs]: "t_pf_budget_order = [0x6700, 0x4F4E, 0x9810, 0x7B97, 0x4E0D, 0x80FD, 0x9AD8, 0x65BC, 0x6700, 0x9AD8, 0x9810, 0x7B97]"

definition t_pf_date :: jstr where
  [text_defs]: "t_pf_date = [0x6700, 0x5FEB, 0x5165, 0x4F4F, 0x65E5]"

definition t_pf_date_required :: jstr where
  [text_defs]: "t_pf_date_required = [0x8ACB, 0x586B, 0x5BEB, 0x6700, 0x5FEB, 0x5165, 0x4F4F, 0x65E5]"

definition t_pf_lease :: jstr where
  [text_defs]: "t_pf_lease = [0x6700, 0x77ED, 0x79DF, 0x671F, 0xFF08, 0x6708, 0xFF09]"

definition t_pf_lease_required :: jstr where
  [text_defs]: "t_pf_lease_required = [0x8ACB, 0x586B, 0x5BEB, 0x6700, 0x77ED, 0x79DF, 0x671F]"

definition t_pf_area :: jstr where
  [text_defs]: "t_pf_area = [0x6700, 0x5C0F, 0x576A, 0x6578, 0xFF08, 0x9078, 0x586B, 0xFF09]"

definition t_pf_area_max :: jstr where
  [text_defs]: "t_pf_area_max = [0x6700, 0x5927, 0x576A, 0x6578, 0x4E0D, 0x5F97, 0x8D85, 0x904E, 0x20, 0x39, 0x39, 0x39, 0x2E, 0x39, 0x39]"

definition t_pf_conditions :: jstr where
  [text_defs]: "t_pf_conditions = [0x689D, 0x4EF6]"

definition t_pf_pets :: jstr where
  [text_defs]: "t_pf_pets = [0x6211, 0x6709, 0x990A, 0x5BF5, 0x7269]"

definition t_pf_subsidy :: jstr where
  [text_defs]: "t_pf_subsidy = [0x9700, 0x8981, 0x79DF, 0x88DC]"

definition t_pf_tax :: jstr where
  [text_defs]: "t_pf_tax = [0x9700, 0x8981, 0x5831, 0x7A05, 0x6536, 0x64DA]"

definition t_pf_household :: jstr where
  [text_defs]: "t_pf_household = [0x9700, 0x8981, 0x5165, 0x7C4D]"

definition t_pf_cooking :: jstr where
  [text_defs]: "t_pf_cooking = [0x9700, 0x8981, 0x958B, 0x4F19]"

definition t_pf_parking :: jstr where
  [text_defs]: "t_pf_parking = [0x9700, 0x8981, 0x8ECA, 0x4F4D]"

definition t_pf_smoking :: jstr where
  [text_defs]: "t_pf_smoking = [0x6703, 0x62BD, 0x83F8]"

definition t_pf_pet_description :: jstr where
  [text_defs]: "t_pf_pet_description = [0x5BF5, 0x7269, 0x63CF, 0x8FF0, 0xFF08, 0x9078, 0x586B, 0xFF09]"

definition t_pf_occupation :: jstr where
  [text_defs]: "t_pf_occupation = [0x8077, 0x696D, 0xFF08, 0x9078, 0x586B, 0xFF09]"

definition t_pf_age :: jstr where
  [text_defs]: "t_pf_age = [0x5E74, 0x9F61, 0xFF08, 0x9078, 0x586B, 0xFF09]"

definition t_pf_description :: jstr where
  [text_defs]: "t_pf_description = [0x81EA, 0x6211, 0x4ECB, 0x7D39, 0xFF08, 0x9078, 0x586B, 0xFF09]"

definition t_pf_saving :: jstr where
  [text_defs]: "t_pf_saving = [0x5132, 0x5B58, 0x4E2D, 0x2026]"

definition t_pf_saved :: jstr where
  [text_defs]: "t_pf_saved = [0x5DF2, 0x5132, 0x5B58, 0x20, 0x2713]"

definition t_pf_save :: jstr where
  [text_defs]: "t_pf_save = [0x5132, 0x5B58]"

definition t_pf_create :: jstr where
  [text_defs]: "t_pf_create = [0x5EFA, 0x7ACB, 0x9700, 0x6C42, 0x5361]"

definition t_pf_close :: jstr where
  [text_defs]: "t_pf_close = [0x95DC, 0x9589]"

definition t_pf_fix_fields :: jstr where
  [text_defs]: "t_pf_fix_fields = [0x8ACB, 0x4FEE, 0x6B63, 0x6B04, 0x4F4D, 0x932F, 0x8AA4]"

definition t_pf_error_occurred :: jstr where
  [text_defs]: "t_pf_error_occurred = [0x767C, 0x751F, 0x932F, 0x8AA4]"


section \<open>\<open>src/apps/web/features/listings/TenantListingCard.tsx\<close>\<close>

definition t_ping :: jstr where
  [text_defs]: "t_ping = [0x20, 0x576A]"

definition t_per_ping_1 :: jstr where
  [text_defs]: "t_per_ping_1 = [0xFF08, 0x6BCF, 0x576A, 0x20, 0x24]"

definition t_per_ping_2 :: jstr where
  [text_defs]: "t_per_ping_2 = [0xFF09]"

definition t_rent_1 :: jstr where
  [text_defs]: "t_rent_1 = [0x623F, 0x79DF, 0x20, 0x24]"

definition t_rent_2 :: jstr where
  [text_defs]: "t_rent_2 = [0x2B, 0x20, 0x7BA1, 0x7406, 0x8CBB, 0x20, 0x24]"

definition t_available :: jstr where
  [text_defs]: "t_available = [0x53EF, 0x5165, 0x4F4F, 0xFF1A]"

definition t_self_reported :: jstr where
  [text_defs]: "t_self_reported = [0x4EE5, 0x4E0B, 0x70BA, 0x5C0D, 0x65B9, 0x81EA, 0x586B, 0x8CC7, 0x6599, 0xFF0C, 0x5E73, 0x53F0, 0x4E0D, 0x4FDD, 0x8B49, 0x771F, 0x5BE6, 0x6027, 0xFF0C, 0x8ACB, 0x81EA, 0x884C, 0x78BA, 0x8A8D, 0x3002]"

definition t_report_landlord :: jstr where
  [text_defs]: "t_report_landlord = [0x6AA2, 0x8209, 0x6B64, 0x623F, 0x6771]"

definition t_report :: jstr where
  [text_defs]: "t_report = [0x6AA2, 0x8209]"

definition t_approx_range :: jstr where
  [text_defs]: "t_approx_range = [0x50C5, 0x986F, 0x793A, 0x5927, 0x7D04, 0x7BC4, 0x570D, 0xFF0C, 0x975E, 0x7CBE, 0x78BA, 0x4F4D, 0x7F6E]"

definition t_no_photos :: jstr where
  [text_defs]: "t_no_photos = [0x66AB, 0x7121, 0x7167, 0x7247]"

definition t_book_title :: jstr where
  [text_defs]: "t_book_title = [0x9810, 0x7D04, 0x770B, 0x623F]"

definition t_this_listing :: jstr where
  [text_defs]: "t_this_listing = [0x6B64, 0x623F, 0x6E90]"

definition t_book_hint :: jstr where
  [text_defs]: "t_book_hint = [0xFF5C, 0x9078, 0x64C7, 0x623F, 0x6771, 0x958B, 0x653E, 0x7684, 0x5E36, 0x770B, 0x6642, 0x6BB5, 0x3002]"

definition t_book_cancel :: jstr where
  [text_defs]: "t_book_cancel = [0x53D6, 0x6D88]"

definition t_book_confirm :: jstr where
  [text_defs]: "t_book_confirm = [0x78BA, 0x8A8D, 0x9810, 0x7D04]"


section \<open>\<open>src/apps/web/components/SlotPicker.tsx\<close>\<close>

definition t_slots_loading :: jstr where
  [text_defs]: "t_slots_loading = [0x8F09, 0x5165, 0x53EF, 0x9810, 0x7D04, 0x6642, 0x6BB5, 0x2026]"

definition t_slots_none :: jstr where
  [text_defs]: "t_slots_none = [0x76EE, 0x524D, 0x6C92, 0x6709, 0x53EF, 0x9810, 0x7D04, 0x7684, 0x5E36, 0x770B, 0x6642, 0x6BB5, 0x3002]"

definition t_slots_hint :: jstr where
  [text_defs]: "t_slots_hint = [0x96D9, 0x65B9, 0x78BA, 0x8A8D, 0x5A92, 0x5408, 0x5F8C, 0x624D, 0x6703, 0x4EA4, 0x63DB, 0x806F, 0x7D61, 0x65B9, 0x5F0F, 0xFF1B, 0x5E36, 0x770B, 0x6642, 0x6BB5, 0x4E0D, 0x6703, 0x984D, 0x5916, 0x63ED, 0x9732, 0x806F, 0x7D61, 0x8CC7, 0x8A0A, 0x3002]"


section \<open>\<open>src/apps/web/components/ViewingList.tsx\<close>\<close>

definition t_vl_none_landlord :: jstr where
  [text_defs]: "t_vl_none_landlord = [0x5C1A, 0x7121, 0x5E36, 0x770B, 0x5B89, 0x6392, 0x3002]"

definition t_vl_none_tenant :: jstr where
  [text_defs]: "t_vl_none_tenant = [0x5C1A, 0x7121, 0x5E36, 0x770B, 0x884C, 0x7A0B, 0x3002, 0x5A92, 0x5408, 0x6210, 0x529F, 0x4E26, 0x9078, 0x64C7, 0x6642, 0x6BB5, 0x5F8C, 0x6703, 0x51FA, 0x73FE, 0x5728, 0x9019, 0x88E1, 0x3002]"

definition t_vl_attended :: jstr where
  [text_defs]: "t_vl_attended = [0x5DF2, 0x5230, 0x5834]"

definition t_vl_absent :: jstr where
  [text_defs]: "t_vl_absent = [0x672A, 0x5230, 0x5834]"

definition t_vl_address :: jstr where
  [text_defs]: "t_vl_address = [0x5E36, 0x770B, 0x5730, 0x5740, 0xFF1A]"

definition t_vl_contact :: jstr where
  [text_defs]: "t_vl_contact = [0x623F, 0x6771, 0x806F, 0x7D61, 0x65B9, 0x5F0F, 0xFF1A]"

definition t_vl_cancel_slot :: jstr where
  [text_defs]: "t_vl_cancel_slot = [0x53D6, 0x6D88, 0x6B64, 0x6642, 0x6BB5]"

definition t_vl_reschedule :: jstr where
  [text_defs]: "t_vl_reschedule = [0x6539, 0x671F]"

definition t_vl_cancel_booking :: jstr where
  [text_defs]: "t_vl_cancel_booking = [0x53D6, 0x6D88, 0x9810, 0x7D04]"

definition t_vl_rebook :: jstr where
  [text_defs]: "t_vl_rebook = [0x91CD, 0x65B0, 0x9810, 0x7D04]"

definition t_vl_reschedule_title :: jstr where
  [text_defs]: "t_vl_reschedule_title = [0x6539, 0x671F, 0x20, 0x2014, 0x20, 0x9078, 0x64C7, 0x65B0, 0x7684, 0x5E36, 0x770B, 0x6642, 0x6BB5]"

definition t_vl_rebook_title :: jstr where
  [text_defs]: "t_vl_rebook_title = [0x91CD, 0x65B0, 0x9810, 0x7D04, 0x20, 0x2014, 0x20, 0x9078, 0x64C7, 0x5E36, 0x770B, 0x6642, 0x6BB5]"

definition t_vl_cancel :: jstr where
  [text_defs]: "t_vl_cancel = [0x53D6, 0x6D88]"

definition t_vl_confirm_reschedule :: jstr where
  [text_defs]: "t_vl_confirm_reschedule = [0x78BA, 0x8A8D, 0x6539, 0x671F]"

definition t_vl_confirm_booking :: jstr where
  [text_defs]: "t_vl_confirm_booking = [0x78BA, 0x8A8D, 0x9810, 0x7D04]"


section \<open>\<open>src/apps/web/features/viewings/LandlordViewingsView.tsx\<close>\<close>

definition t_av_schedule :: jstr where
  [text_defs]: "t_av_schedule = [0x6642, 0x6BB5, 0x8A2D, 0x5B9A]"

definition t_av_list :: jstr where
  [text_defs]: "t_av_list = [0x5E36, 0x770B, 0x6E05, 0x55AE]"

definition t_av_choose :: jstr where
  [text_defs]: "t_av_choose = [0x9078, 0x64C7, 0x623F, 0x6E90]"

definition t_av_choose_hint :: jstr where
  [text_defs]: "t_av_choose_hint = [0x9078, 0x64C7, 0x8981, 0x8A2D, 0x5B9A, 0x5E36, 0x770B, 0x6642, 0x6BB5, 0x7684, 0x623F, 0x6E90]"

definition t_av_open :: jstr where
  [text_defs]: "t_av_open = [0x958B, 0x653E, 0x79DF, 0x5BA2, 0x9810, 0x7D04, 0x5E36, 0x770B]"

definition t_av_length_label :: jstr where
  [text_defs]: "t_av_length_label = [0x5E36, 0x770B, 0x9577, 0x5EA6, 0xFF08, 0x5206, 0x9418, 0xFF09]"

definition t_av_length :: jstr where
  [text_defs]: "t_av_length = [0x5E36, 0x770B, 0x9577, 0x5EA6]"

definition t_av_minutes :: jstr where
  [text_defs]: "t_av_minutes = [0x20, 0x5206, 0x9418]"

definition t_av_range :: jstr where
  [text_defs]: "t_av_range = [0x53EF, 0x9810, 0x7D04, 0x5929, 0x6578]"

definition t_av_capacity :: jstr where
  [text_defs]: "t_av_capacity = [0x6BCF, 0x6642, 0x6BB5, 0x53EF, 0x9810, 0x7D04, 0x7D44, 0x6578]"

definition t_av_group_hint :: jstr where
  [text_defs]: "t_av_group_hint = [0x5927, 0x65BC, 0x20, 0x31, 0x20, 0x5373, 0x958B, 0x653E, 0x591A, 0x7D44, 0x540C, 0x6642, 0x5E36, 0x770B, 0xFF08, 0x5718, 0x9AD4, 0x5E36, 0x770B, 0xFF09, 0x3002]"

definition t_av_weekly :: jstr where
  [text_defs]: "t_av_weekly = [0x6BCF, 0x9031, 0x53EF, 0x5E36, 0x770B, 0x6642, 0x6BB5]"

definition t_av_exceptions :: jstr where
  [text_defs]: "t_av_exceptions = [0x4F8B, 0x5916, 0x65E5, 0x671F, 0xFF08, 0x4E0D, 0x53EF, 0x9810, 0x7D04, 0xFF09]"

definition t_av_no_exceptions :: jstr where
  [text_defs]: "t_av_no_exceptions = [0x5C1A, 0x672A, 0x8A2D, 0x5B9A, 0x4F8B, 0x5916, 0x65E5, 0x671F]"

definition t_av_add :: jstr where
  [text_defs]: "t_av_add = [0x65B0, 0x589E]"

definition t_av_saved :: jstr where
  [text_defs]: "t_av_saved = [0x5DF2, 0x5132, 0x5B58, 0x20, 0x2713]"

definition t_av_save :: jstr where
  [text_defs]: "t_av_save = [0x5132, 0x5B58, 0x8A2D, 0x5B9A]"


section \<open>\<open>src/apps/web/features/reports/ReportModal.tsx\<close>\<close>

definition t_rp_fraud :: jstr where
  [text_defs]: "t_rp_fraud = [0x8A50, 0x9A19, 0x2F, 0x865B, 0x5047, 0x8CC7, 0x8A0A]"

definition t_rp_fraud_label :: jstr where
  [text_defs]: "t_rp_fraud_label = [0x8A50, 0x9A19, 0x20, 0x2F, 0x20, 0x865B, 0x5047, 0x8CC7, 0x8A0A]"

definition t_rp_speech :: jstr where
  [text_defs]: "t_rp_speech = [0x4E0D, 0x7576, 0x8A00, 0x8AD6, 0x6216, 0x5167, 0x5BB9]"

definition t_rp_harass :: jstr where
  [text_defs]: "t_rp_harass = [0x9A37, 0x64FE]"

definition t_rp_other :: jstr where
  [text_defs]: "t_rp_other = [0x5176, 0x4ED6]"

definition t_rp_title :: jstr where
  [text_defs]: "t_rp_title = [0x6AA2, 0x8209]"

definition t_rp_choose :: jstr where
  [text_defs]: "t_rp_choose = [0x8ACB, 0x9078, 0x64C7, 0x6AA2, 0x8209, 0x539F, 0x56E0]"

definition t_rp_note :: jstr where
  [text_defs]: "t_rp_note = [0x88DC, 0x5145, 0x8AAA, 0x660E, 0xFF08, 0x9078, 0x586B, 0xFF09]"

definition t_rp_failed :: jstr where
  [text_defs]: "t_rp_failed = [0x9001, 0x51FA, 0x5931, 0x6557, 0xFF0C, 0x8ACB, 0x7A0D, 0x5F8C, 0x518D, 0x8A66, 0x3002]"

definition t_rp_cancel :: jstr where
  [text_defs]: "t_rp_cancel = [0x53D6, 0x6D88]"

definition t_rp_sending :: jstr where
  [text_defs]: "t_rp_sending = [0x9001, 0x51FA, 0x4E2D, 0x2026]"

definition t_rp_send :: jstr where
  [text_defs]: "t_rp_send = [0x9001, 0x51FA, 0x6AA2, 0x8209]"

definition t_rp_done :: jstr where
  [text_defs]: "t_rp_done = [0x5DF2, 0x9001, 0x51FA, 0x6AA2, 0x8209, 0xFF0C, 0x6211, 0x5011, 0x5C07, 0x76E1, 0x5FEB, 0x5BE9, 0x6838, 0x3002]"


section \<open>\<open>src/apps/web/features/profiles/TenantSummary.tsx\<close>\<close>

definition t_ts_age :: jstr where
  [text_defs]: "t_ts_age = [0x20, 0x6B72]"

definition t_ts_dot :: jstr where
  [text_defs]: "t_ts_dot = [0x20, 0xB7, 0x20]"

definition t_ts_now :: jstr where
  [text_defs]: "t_ts_now = [0x53EF, 0x7ACB, 0x5373, 0x5165, 0x4F4F]"

definition t_ts_move_in :: jstr where
  [text_defs]: "t_ts_move_in = [0x20, 0x53EF, 0x5165, 0x4F4F]"

definition t_ts_tenant :: jstr where
  [text_defs]: "t_ts_tenant = [0x79DF, 0x5BA2]"

definition t_ts_slash :: jstr where
  [text_defs]: "t_ts_slash = [0xFF0F]"

definition t_ts_least :: jstr where
  [text_defs]: "t_ts_least = [0x81F3, 0x5C11, 0x20]"

definition t_ts_months :: jstr where
  [text_defs]: "t_ts_months = [0x20, 0x500B, 0x6708]"

definition t_ts_need :: jstr where
  [text_defs]: "t_ts_need = [0x9700]"


section \<open>\<open>src/apps/web/features/profiles/TenantProfileCard.tsx\<close>\<close>

definition t_tpc_report :: jstr where
  [text_defs]: "t_tpc_report = [0x6AA2, 0x8209, 0x6B64, 0x79DF, 0x5BA2]"

definition t_tpc_sent :: jstr where
  [text_defs]: "t_tpc_sent = [0x5DF2, 0x9001, 0x51FA]"

definition t_tpc_interest :: jstr where
  [text_defs]: "t_tpc_interest = [0x6709, 0x8208, 0x8DA3]"


section \<open>\<open>src/apps/web/features/matches/TenantMatches.tsx\<close>\<close>

definition t_tm_no_profile :: jstr where
  [text_defs]: "t_tm_no_profile = [0x5C1A, 0x7121, 0x9700, 0x6C42, 0x5361]"

definition t_tm_no_profile_hint :: jstr where
  [text_defs]: "t_tm_no_profile_hint = [0x5EFA, 0x7ACB, 0x9700, 0x6C42, 0x5361, 0x5F8C, 0xFF0C, 0x624D, 0x80FD, 0x63A5, 0x6536, 0x623F, 0x6771, 0x7684, 0x5A92, 0x5408, 0x8208, 0x8DA3]"

definition t_tm_no_incoming :: jstr where
  [text_defs]: "t_tm_no_incoming = [0x76EE, 0x524D, 0x7121, 0x623F, 0x6771, 0x8868, 0x793A, 0x8208, 0x8DA3]"

definition t_tm_sent :: jstr where
  [text_defs]: "t_tm_sent = [0x5DF2, 0x9001, 0x51FA]"

definition t_tm_answer :: jstr where
  [text_defs]: "t_tm_answer = [0x56DE, 0x61C9, 0x8208, 0x8DA3]"

definition t_tm_sent_waiting :: jstr where
  [text_defs]: "t_tm_sent_waiting = [0x5DF2, 0x9001, 0x51FA, 0x8208, 0x8DA3, 0xFF0C, 0x7B49, 0x5F85, 0x623F, 0x6771, 0x56DE, 0x61C9]"

definition t_tm_no_outgoing :: jstr where
  [text_defs]: "t_tm_no_outgoing = [0x5C1A, 0x672A, 0x9001, 0x51FA, 0x4EFB, 0x4F55, 0x8208, 0x8DA3]"

definition t_tm_no_outgoing_hint :: jstr where
  [text_defs]: "t_tm_no_outgoing_hint = [0x524D, 0x5F80, 0x627E, 0x623F, 0x6E90, 0xFF0C, 0x5C0D, 0x611F, 0x8208, 0x8DA3, 0x7684, 0x623F, 0x6E90, 0x6309, 0x300C, 0x6709, 0x8208, 0x8DA3, 0x300D]"

definition t_tm_withdraw_ask :: jstr where
  [text_defs]: "t_tm_withdraw_ask = [0x78BA, 0x5B9A, 0x6536, 0x56DE, 0x5C0D, 0x9019, 0x7B46, 0x623F, 0x6E90, 0x7684, 0x8208, 0x8DA3, 0xFF1F]"

definition t_tm_withdraw :: jstr where
  [text_defs]: "t_tm_withdraw = [0x6536, 0x56DE, 0x8208, 0x8DA3]"

definition t_tm_no_match :: jstr where
  [text_defs]: "t_tm_no_match = [0x5C1A, 0x7121, 0x5A92, 0x5408, 0x7D50, 0x679C]"

definition t_tm_no_match_hint :: jstr where
  [text_defs]: "t_tm_no_match_hint = [0x7E7C, 0x7E8C, 0x700F, 0x89BD, 0x623F, 0x6E90, 0xFF0C, 0x6216, 0x7B49, 0x5F85, 0x623F, 0x6771, 0x5C0D, 0x4F60, 0x7684, 0x9700, 0x6C42, 0x5361, 0x8868, 0x793A, 0x8208, 0x8DA3]"

definition t_tm_rented :: jstr where
  [text_defs]: "t_tm_rented = [0x623F, 0x6771, 0x5DF2, 0x6A19, 0x8A18, 0x51FA, 0x79DF]"

definition t_tm_booked :: jstr where
  [text_defs]: "t_tm_booked = [0x5DF2, 0x9810, 0x7D04, 0x20]"

definition t_tm_book :: jstr where
  [text_defs]: "t_tm_book = [0x9810, 0x7D04, 0x770B, 0x623F]"


section \<open>\<open>src/apps/web/features/matches/LandlordMatches.tsx\<close>\<close>

definition t_lm_no_incoming :: jstr where
  [text_defs]: "t_lm_no_incoming = [0x5C1A, 0x7121, 0x6536, 0x5230, 0x8208, 0x8DA3]"

definition t_lm_no_incoming_hint :: jstr where
  [text_defs]: "t_lm_no_incoming_hint = [0x79DF, 0x5BA2, 0x5C0D, 0x4F60, 0x7684, 0x623F, 0x6E90, 0x8868, 0x793A, 0x8208, 0x8DA3, 0x5F8C, 0x6703, 0x986F, 0x793A, 0x5728, 0x9019, 0x88E1]"

definition t_lm_report :: jstr where
  [text_defs]: "t_lm_report = [0x6AA2, 0x8209, 0x6B64, 0x79DF, 0x5BA2]"

definition t_lm_sent :: jstr where
  [text_defs]: "t_lm_sent = [0x5DF2, 0x9001, 0x51FA]"

definition t_lm_answer :: jstr where
  [text_defs]: "t_lm_answer = [0x56DE, 0x61C9, 0x8208, 0x8DA3]"

definition t_lm_no_outgoing :: jstr where
  [text_defs]: "t_lm_no_outgoing = [0x5C1A, 0x672A, 0x9001, 0x51FA, 0x4EFB, 0x4F55, 0x8208, 0x8DA3]"

definition t_lm_no_outgoing_hint :: jstr where
  [text_defs]: "t_lm_no_outgoing_hint = [0x524D, 0x5F80, 0x627E, 0x79DF, 0x5BA2, 0xFF0C, 0x5C0D, 0x611F, 0x8208, 0x8DA3, 0x7684, 0x9700, 0x6C42, 0x5361, 0x6309, 0x300C, 0x6709, 0x8208, 0x8DA3, 0x300D]"

definition t_lm_withdraw_ask :: jstr where
  [text_defs]: "t_lm_withdraw_ask = [0x78BA, 0x5B9A, 0x6536, 0x56DE, 0x5C0D, 0x9019, 0x5F35, 0x9700, 0x6C42, 0x5361, 0x7684, 0x8208, 0x8DA3, 0xFF1F]"

definition t_lm_withdraw :: jstr where
  [text_defs]: "t_lm_withdraw = [0x6536, 0x56DE]"

definition t_lm_no_match :: jstr where
  [text_defs]: "t_lm_no_match = [0x5C1A, 0x7121, 0x5A92, 0x5408, 0x7D50, 0x679C]"

definition t_lm_no_match_hint :: jstr where
  [text_defs]: "t_lm_no_match_hint = [0x7E7C, 0x7E8C, 0x700F, 0x89BD, 0x79DF, 0x5BA2, 0x9700, 0x6C42, 0x5361, 0xFF0C, 0x6216, 0x7B49, 0x5F85, 0x79DF, 0x5BA2, 0x5C0D, 0x4F60, 0x7684, 0x623F, 0x6E90, 0x8868, 0x793A, 0x8208, 0x8DA3]"

definition t_lm_matched :: jstr where
  [text_defs]: "t_lm_matched = [0x5A92, 0x5408, 0x6210, 0x529F]"

definition t_lm_listing :: jstr where
  [text_defs]: "t_lm_listing = [0x623F, 0x6E90, 0xFF1A]"

definition t_lm_self_reported :: jstr where
  [text_defs]: "t_lm_self_reported = [0x4EE5, 0x4E0B, 0x70BA, 0x5C0D, 0x65B9, 0x81EA, 0x586B, 0x8CC7, 0x6599, 0xFF0C, 0x5E73, 0x53F0, 0x4E0D, 0x4FDD, 0x8B49, 0x771F, 0x5BE6, 0x6027, 0xFF0C, 0x8ACB, 0x81EA, 0x884C, 0x78BA, 0x8A8D, 0x3002]"


section \<open>\<open>src/apps/web/features/matches/MatchesView.tsx\<close>\<close>

definition t_mv_incoming :: jstr where
  [text_defs]: "t_mv_incoming = [0x5F85, 0x78BA, 0x8A8D]"

definition t_mv_outgoing :: jstr where
  [text_defs]: "t_mv_outgoing = [0x7B49, 0x5F85, 0x4E2D]"

definition t_mv_matched :: jstr where
  [text_defs]: "t_mv_matched = [0x5DF2, 0x5A92, 0x5408]"


section \<open>\<open>src/apps/web/features/listings/ListingMgmtCard.tsx\<close>\<close>

definition t_ls_draft :: jstr where
  [text_defs]: "t_ls_draft = [0x8349, 0x7A3F]"

definition t_ls_active :: jstr where
  [text_defs]: "t_ls_active = [0x520A, 0x767B, 0x4E2D]"

definition t_ls_paused :: jstr where
  [text_defs]: "t_ls_paused = [0x66AB, 0x505C]"

definition t_ls_rented :: jstr where
  [text_defs]: "t_ls_rented = [0x5DF2, 0x51FA, 0x79DF]"

definition t_lg_available :: jstr where
  [text_defs]: "t_lg_available = [0x53EF, 0x5165, 0x4F4F, 0xFF1A]"

definition t_lg_slash :: jstr where
  [text_defs]: "t_lg_slash = [0x20, 0xFF0F]"

definition t_lg_photos :: jstr where
  [text_defs]: "t_lg_photos = [0x20, 0x5F35, 0x7167, 0x7247]"

definition t_lg_ping :: jstr where
  [text_defs]: "t_lg_ping = [0x576A]"

definition t_lg_publish :: jstr where
  [text_defs]: "t_lg_publish = [0x767C, 0x5E03, 0x4E0A, 0x67B6]"

definition t_lg_browse :: jstr where
  [text_defs]: "t_lg_browse = [0x627E, 0x79DF, 0x5BA2]"

definition t_lg_edit :: jstr where
  [text_defs]: "t_lg_edit = [0x7DE8, 0x8F2F]"

definition t_lg_pause :: jstr where
  [text_defs]: "t_lg_pause = [0x66AB, 0x505C, 0x66DD, 0x5149]"

definition t_lg_rented :: jstr where
  [text_defs]: "t_lg_rented = [0x6A19, 0x8A18, 0x5DF2, 0x51FA, 0x79DF]"

definition t_lg_delete_ask :: jstr where
  [text_defs]: "t_lg_delete_ask = [0x78BA, 0x5B9A, 0x522A, 0x9664, 0x9019, 0x7B46, 0x623F, 0x6E90, 0xFF1F]"

definition t_lg_delete :: jstr where
  [text_defs]: "t_lg_delete = [0x522A, 0x9664]"


section \<open>\<open>src/apps/web/features/listings/ListingsTab.tsx\<close>\<close>

definition t_lt_none :: jstr where
  [text_defs]: "t_lt_none = [0x5C1A, 0x7121, 0x623F, 0x6E90]"

definition t_lt_none_hint :: jstr where
  [text_defs]: "t_lt_none_hint = [0x5EFA, 0x7ACB, 0x7B2C, 0x4E00, 0x7B46, 0x623F, 0x6E90, 0xFF0C, 0x5C31, 0x80FD, 0x958B, 0x59CB, 0x627E, 0x7B26, 0x5408, 0x689D, 0x4EF6, 0x7684, 0x79DF, 0x5BA2]"

definition t_lt_first :: jstr where
  [text_defs]: "t_lt_first = [0x65B0, 0x589E, 0x7B2C, 0x4E00, 0x7B46, 0x623F, 0x6E90]"

definition t_lt_all :: jstr where
  [text_defs]: "t_lt_all = [0x5168, 0x90E8]"

definition t_lt_active :: jstr where
  [text_defs]: "t_lt_active = [0x520A, 0x767B, 0x4E2D]"

definition t_lt_rented :: jstr where
  [text_defs]: "t_lt_rented = [0x5DF2, 0x51FA, 0x79DF]"

definition t_lt_new :: jstr where
  [text_defs]: "t_lt_new = [0x2B, 0x20, 0x65B0, 0x589E, 0x623F, 0x6E90]"

definition t_lt_empty :: jstr where
  [text_defs]: "t_lt_empty = [0x6B64, 0x5206, 0x985E, 0x6C92, 0x6709, 0x623F, 0x6E90]"


section \<open>\<open>src/apps/web/features/profiles/MyProfileCard.tsx\<close>\<close>

definition t_mp_active :: jstr where
  [text_defs]: "t_mp_active = [0x555F, 0x7528, 0x4E2D]"

definition t_mp_inactive :: jstr where
  [text_defs]: "t_mp_inactive = [0x5DF2, 0x505C, 0x7528]"

definition t_mp_budget :: jstr where
  [text_defs]: "t_mp_budget = [0x9810, 0x7B97, 0x20]"

definition t_mp_dash :: jstr where
  [text_defs]: "t_mp_dash = [0x2013]"

definition t_mp_slash :: jstr where
  [text_defs]: "t_mp_slash = [0x20, 0xFF0F]"

definition t_mp_comma :: jstr where
  [text_defs]: "t_mp_comma = [0x3001]"

definition t_mp_browse :: jstr where
  [text_defs]: "t_mp_browse = [0x627E, 0x623F, 0x6E90]"

definition t_mp_edit :: jstr where
  [text_defs]: "t_mp_edit = [0x7DE8, 0x8F2F]"

definition t_mp_disable :: jstr where
  [text_defs]: "t_mp_disable = [0x505C, 0x7528]"

definition t_mp_enable :: jstr where
  [text_defs]: "t_mp_enable = [0x555F, 0x7528]"

definition t_mp_delete_ask :: jstr where
  [text_defs]: "t_mp_delete_ask = [0x78BA, 0x5B9A, 0x522A, 0x9664, 0x9019, 0x5F35, 0x9700, 0x6C42, 0x5361, 0xFF1F]"

definition t_mp_delete :: jstr where
  [text_defs]: "t_mp_delete = [0x522A, 0x9664]"


section \<open>\<open>src/apps/web/features/profiles/ProfilesTab.tsx\<close>\<close>

definition t_pt_none :: jstr where
  [text_defs]: "t_pt_none = [0x5C1A, 0x7121, 0x9700, 0x6C42, 0x5361]"

definition t_pt_none_hint :: jstr where
  [text_defs]: "t_pt_none_hint = [0x5EFA, 0x7ACB, 0x4E00, 0x5F35, 0x9700, 0x6C42, 0x5361, 0xFF0C, 0x7CFB, 0x7D71, 0x5C31, 0x80FD, 0x70BA, 0x4F60, 0x5A92, 0x5408, 0x7B26, 0x5408, 0x689D, 0x4EF6, 0x7684, 0x623F, 0x6E90]"

definition t_pt_first :: jstr where
  [text_defs]: "t_pt_first = [0x65B0, 0x589E, 0x7B2C, 0x4E00, 0x5F35, 0x9700, 0x6C42, 0x5361]"

definition t_pt_title :: jstr where
  [text_defs]: "t_pt_title = [0x6211, 0x7684, 0x627E, 0x623F, 0x9700, 0x6C42, 0x5361]"

definition t_pt_full :: jstr where
  [text_defs]: "t_pt_full = [0x5DF2, 0x9054, 0x4E0A, 0x9650, 0x20, 0x28, 0x33, 0x2F, 0x33, 0x29]"

definition t_pt_new :: jstr where
  [text_defs]: "t_pt_new = [0x2B, 0x20, 0x65B0, 0x589E, 0x9700, 0x6C42, 0x5361]"


section \<open>\<open>src/apps/web/features/listings/TenantBrowseTab.tsx\<close>\<close>

definition t_tb_no_profile :: jstr where
  [text_defs]: "t_tb_no_profile = [0x8ACB, 0x5148, 0x555F, 0x7528, 0x4E00, 0x5F35, 0x9700, 0x6C42, 0x5361]"

definition t_tb_no_profile_hint :: jstr where
  [text_defs]: "t_tb_no_profile_hint = [0x555F, 0x7528, 0x9700, 0x6C42, 0x5361, 0x5F8C, 0xFF0C, 0x7CFB, 0x7D71, 0x624D, 0x80FD, 0x70BA, 0x4F60, 0x5A92, 0x5408, 0x7B26, 0x5408, 0x689D, 0x4EF6, 0x7684, 0x623F, 0x6E90]"

definition t_tb_go :: jstr where
  [text_defs]: "t_tb_go = [0x524D, 0x5F80, 0x6211, 0x7684, 0x9700, 0x6C42, 0x5361]"

definition t_tb_using :: jstr where
  [text_defs]: "t_tb_using = [0x4F7F, 0x7528, 0x9700, 0x6C42, 0x5361]"

definition t_tb_choose :: jstr where
  [text_defs]: "t_tb_choose = [0x8ACB, 0x9078, 0x64C7, 0x9700, 0x6C42, 0x5361]"

definition t_tb_all :: jstr where
  [text_defs]: "t_tb_all = [0x5168, 0x90E8]"

definition t_tb_open :: jstr where
  [text_defs]: "t_tb_open = [0x6709, 0x8208, 0x8DA3]"

definition t_tb_sent :: jstr where
  [text_defs]: "t_tb_sent = [0x5DF2, 0x9001, 0x51FA]"

definition t_tb_none :: jstr where
  [text_defs]: "t_tb_none = [0x76EE, 0x524D, 0x7121, 0x7B26, 0x5408, 0x689D, 0x4EF6, 0x7684, 0x623F, 0x6E90]"

definition t_tb_none_hint :: jstr where
  [text_defs]: "t_tb_none_hint = [0x689D, 0x4EF6, 0x53EF, 0x80FD, 0x8F03, 0x56B4, 0x683C, 0xFF0C, 0x53EF, 0x5617, 0x8A66, 0x8ABF, 0x6574, 0x9700, 0x6C42, 0x5361, 0x4E2D, 0x7684, 0x9810, 0x7B97, 0x6216, 0x5730, 0x5340, 0x7BC4, 0x570D]"

definition t_tb_empty :: jstr where
  [text_defs]: "t_tb_empty = [0x6B64, 0x5206, 0x985E, 0x6C92, 0x6709, 0x623F, 0x6E90]"

definition t_tb_interest :: jstr where
  [text_defs]: "t_tb_interest = [0x6709, 0x8208, 0x8DA3]"

definition t_tb_sent_waiting :: jstr where
  [text_defs]: "t_tb_sent_waiting = [0x5DF2, 0x9001, 0x51FA, 0x8208, 0x8DA3, 0xFF0C, 0x7B49, 0x5F85, 0x623F, 0x6771, 0x56DE, 0x61C9]"


section \<open>\<open>src/apps/web/features/profiles/LandlordBrowseTab.tsx\<close>\<close>

definition t_bb_no_listing :: jstr where
  [text_defs]: "t_bb_no_listing = [0x8ACB, 0x5148, 0x5C07, 0x623F, 0x6E90, 0x8A2D, 0x70BA, 0x520A, 0x767B, 0x4E2D]"

definition t_bb_no_listing_hint :: jstr where
  [text_defs]: "t_bb_no_listing_hint = [0x4E0A, 0x67B6, 0x623F, 0x6E90, 0x5F8C, 0xFF0C, 0x7CFB, 0x7D71, 0x624D, 0x80FD, 0x70BA, 0x4F60, 0x5A92, 0x5408, 0x7B26, 0x5408, 0x689D, 0x4EF6, 0x7684, 0x79DF, 0x5BA2]"

definition t_bb_go :: jstr where
  [text_defs]: "t_bb_go = [0x524D, 0x5F80, 0x6211, 0x7684, 0x623F, 0x6E90]"

definition t_bb_using :: jstr where
  [text_defs]: "t_bb_using = [0x4F7F, 0x7528, 0x623F, 0x6E90]"

definition t_bb_choose :: jstr where
  [text_defs]: "t_bb_choose = [0x8ACB, 0x9078, 0x64C7, 0x623F, 0x6E90]"

definition t_bb_none :: jstr where
  [text_defs]: "t_bb_none = [0x76EE, 0x524D, 0x7121, 0x7B26, 0x5408, 0x689D, 0x4EF6, 0x7684, 0x79DF, 0x5BA2, 0x9700, 0x6C42, 0x5361]"

definition t_bb_none_hint :: jstr where
  [text_defs]: "t_bb_none_hint = [0x7B26, 0x5408, 0x689D, 0x4EF6, 0x7684, 0x79DF, 0x5BA2, 0x5C1A, 0x672A, 0x520A, 0x767B, 0x9700, 0x6C42, 0xFF0C, 0x53EF, 0x7A0D, 0x5F8C, 0x518D, 0x67E5, 0x770B]"


section \<open>\<open>src/apps/web/components/layout/DashboardHeader.tsx\<close>\<close>

definition t_dh_account :: jstr where
  [text_defs]: "t_dh_account = [0x5E33, 0x865F, 0x8A2D, 0x5B9A]"

definition t_dh_logout :: jstr where
  [text_defs]: "t_dh_logout = [0x767B, 0x51FA]"


section \<open>\<open>src/apps/web/app/account/page.tsx\<close>\<close>

definition t_ac_failed :: jstr where
  [text_defs]: "t_ac_failed = [0x5132, 0x5B58, 0x5931, 0x6557, 0xFF0C, 0x8ACB, 0x7A0D, 0x5F8C, 0x518D, 0x8A66]"

definition t_ac_title :: jstr where
  [text_defs]: "t_ac_title = [0x5E33, 0x865F, 0x8A2D, 0x5B9A]"

definition t_ac_hint :: jstr where
  [text_defs]: "t_ac_hint = [0x806F, 0x7D61, 0x65B9, 0x5F0F, 0x53EA, 0x9700, 0x586B, 0x4E00, 0x6B21, 0xFF0C, 0x6240, 0x6709, 0x9700, 0x6C42, 0x5361, 0x8207, 0x623F, 0x6E90, 0x5171, 0x7528, 0x3002, 0x5A92, 0x5408, 0x6210, 0x529F, 0x5F8C, 0x624D, 0x6703, 0x986F, 0x793A, 0x7D66, 0x5C0D, 0x65B9, 0x3002]"

definition t_ac_name :: jstr where
  [text_defs]: "t_ac_name = [0x7A31, 0x8B02]"

definition t_ac_name_required :: jstr where
  [text_defs]: "t_ac_name_required = [0x8ACB, 0x586B, 0x5BEB, 0x7A31, 0x8B02]"

definition t_ac_contact :: jstr where
  [text_defs]: "t_ac_contact = [0x806F, 0x7D61, 0x65B9, 0x5F0F]"

definition t_ac_contact_required :: jstr where
  [text_defs]: "t_ac_contact_required = [0x8ACB, 0x586B, 0x5BEB, 0x806F, 0x7D61, 0x65B9, 0x5F0F]"

definition t_ac_contact_hint :: jstr where
  [text_defs]: "t_ac_contact_hint = [0x5A92, 0x5408, 0x6210, 0x529F, 0x5F8C, 0x624D, 0x6703, 0x986F, 0x793A, 0xFF0C, 0x8ACB, 0x586B, 0x771F, 0x5BE6, 0x806F, 0x7D61, 0x65B9, 0x5F0F, 0x3002]"

definition t_ac_saved :: jstr where
  [text_defs]: "t_ac_saved = [0x5DF2, 0x5132, 0x5B58, 0x20, 0x2713, 0x20, 0x53EF, 0x95DC, 0x9589, 0x6B64, 0x5206, 0x9801, 0x8FD4, 0x56DE, 0x7E7C, 0x7E8C, 0x586B, 0x5BEB, 0x3002]"

definition t_ac_saving :: jstr where
  [text_defs]: "t_ac_saving = [0x5132, 0x5B58, 0x4E2D, 0x2026]"

definition t_ac_save :: jstr where
  [text_defs]: "t_ac_save = [0x5132, 0x5B58]"


section \<open>\<open>src/apps/web/app/onboarding/page.tsx\<close>\<close>

definition t_ob_no_state :: jstr where
  [text_defs]: "t_ob_no_state = [0x7F3A, 0x5C11, 0x767B, 0x5165, 0x72C0, 0x614B, 0xFF0C, 0x8ACB, 0x91CD, 0x65B0, 0x4EE5, 0x20, 0x47, 0x6F, 0x6F, 0x67, 0x6C, 0x65, 0x20, 0x767B, 0x5165]"

definition t_ob_failed :: jstr where
  [text_defs]: "t_ob_failed = [0x767C, 0x751F, 0x932F, 0x8AA4, 0xFF0C, 0x8ACB, 0x7A0D, 0x5F8C, 0x518D, 0x8A66]"

definition t_ob_title :: jstr where
  [text_defs]: "t_ob_title = [0x6B61, 0x8FCE, 0x52A0, 0x5165, 0x20, 0x5A, 0x75, 0x6D, 0x65, 0x65, 0x74]"

definition t_ob_hint :: jstr where
  [text_defs]: "t_ob_hint = [0x8ACB, 0x5B8C, 0x6210, 0x4EE5, 0x4E0B, 0x8A2D, 0x5B9A, 0x5F8C, 0x5373, 0x53EF, 0x958B, 0x59CB, 0x4F7F, 0x7528]"

definition t_ob_role :: jstr where
  [text_defs]: "t_ob_role = [0x60A8, 0x7684, 0x8EAB, 0x4EFD]"

definition t_ob_tenant :: jstr where
  [text_defs]: "t_ob_tenant = [0x79DF, 0x5BA2]"

definition t_ob_tenant_desc :: jstr where
  [text_defs]: "t_ob_tenant_desc = [0x6211, 0x5728, 0x627E, 0x623F, 0x5B50]"

definition t_ob_landlord :: jstr where
  [text_defs]: "t_ob_landlord = [0x623F, 0x6771]"

definition t_ob_landlord_desc :: jstr where
  [text_defs]: "t_ob_landlord_desc = [0x6211, 0x6709, 0x623F, 0x5B50, 0x51FA, 0x79DF]"

definition t_ob_tos :: jstr where
  [text_defs]: "t_ob_tos = [0x670D, 0x52D9, 0x689D, 0x6B3E]"

definition t_ob_agree :: jstr where
  [text_defs]: "t_ob_agree = [0x6211, 0x5DF2, 0x95B1, 0x8B80, 0x4E26, 0x540C, 0x610F, 0x4E0A, 0x8FF0, 0x670D, 0x52D9, 0x689D, 0x6B3E, 0x8207, 0x5E73, 0x53F0, 0x514D, 0x8CAC, 0x8072, 0x660E]"

definition t_ob_wait :: jstr where
  [text_defs]: "t_ob_wait = [0x8ACB, 0x7A0D, 0x5019, 0x2026]"

definition t_ob_done :: jstr where
  [text_defs]: "t_ob_done = [0x5B8C, 0x6210, 0x8A2D, 0x5B9A, 0xFF0C, 0x958B, 0x59CB, 0x4F7F, 0x7528]"


section \<open>\<open>src/apps/web/app/dashboard/tenant/page.tsx\<close>\<close>

definition t_dt_profiles :: jstr where
  [text_defs]: "t_dt_profiles = [0x6211, 0x7684, 0x9700, 0x6C42, 0x5361]"

definition t_dt_listings :: jstr where
  [text_defs]: "t_dt_listings = [0x627E, 0x623F, 0x6E90]"

definition t_dt_matches :: jstr where
  [text_defs]: "t_dt_matches = [0x5A92, 0x5408, 0x72C0, 0x614B]"

definition t_dt_viewings :: jstr where
  [text_defs]: "t_dt_viewings = [0x5E36, 0x770B, 0x884C, 0x7A0B]"

definition t_dt_profiles_short :: jstr where
  [text_defs]: "t_dt_profiles_short = [0x9700, 0x6C42, 0x5361]"

definition t_dt_viewings_short :: jstr where
  [text_defs]: "t_dt_viewings_short = [0x5E36, 0x770B]"


section \<open>\<open>src/apps/web/app/dashboard/landlord/page.tsx\<close>\<close>

definition t_dl_listings :: jstr where
  [text_defs]: "t_dl_listings = [0x6211, 0x7684, 0x623F, 0x6E90]"

definition t_dl_browse :: jstr where
  [text_defs]: "t_dl_browse = [0x627E, 0x79DF, 0x5BA2]"

definition t_dl_matches :: jstr where
  [text_defs]: "t_dl_matches = [0x5A92, 0x5408, 0x72C0, 0x614B]"

definition t_dl_viewings :: jstr where
  [text_defs]: "t_dl_viewings = [0x5E36, 0x770B]"


section \<open>\<open>src/apps/web/app/page.tsx\<close>\<close>

definition t_lp_tagline :: jstr where
  [text_defs]: "t_lp_tagline = [0x79DF, 0x5BA2, 0x8207, 0x623F, 0x6771, 0x689D, 0x4EF6, 0x96D9, 0x5411, 0x5A92, 0x5408, 0x5E73, 0x53F0]"

definition t_lp_title :: jstr where
  [text_defs]: "t_lp_title = [0x767B, 0x5165, 0x20, 0x2F, 0x20, 0x8A3B, 0x518A]"

definition t_lp_google_only :: jstr where
  [text_defs]: "t_lp_google_only = [0x76EE, 0x524D, 0x50C5, 0x652F, 0x63F4, 0x20, 0x47, 0x6F, 0x6F, 0x67, 0x6C, 0x65, 0x20, 0x767B, 0x5165, 0x3002, 0x9996, 0x6B21, 0x767B, 0x5165, 0x5F8C, 0x9700, 0x5B8C, 0x6210, 0x500B, 0x4EBA, 0x8A2D, 0x5B9A, 0x3002]"

definition t_lp_continue :: jstr where
  [text_defs]: "t_lp_continue = [0x4EE5, 0x20, 0x47, 0x6F, 0x6F, 0x67, 0x6C, 0x65, 0x20, 0x5E33, 0x865F, 0x7E7C, 0x7E8C]"

definition t_lp_disclaimer_1 :: jstr where
  [text_defs]: "t_lp_disclaimer_1 = [0x5E73, 0x53F0, 0x50C5, 0x63D0, 0x4F9B, 0x689D, 0x4EF6, 0x5A92, 0x5408, 0x529F, 0x80FD, 0xFF0C, 0x4E0D, 0x53C3, 0x8207, 0x79DF, 0x8CC3, 0x4EA4, 0x6613, 0xFF0C, 0x4E0D, 0x4FDD, 0x8B49, 0x8CC7, 0x8A0A, 0x771F, 0x5BE6, 0x6027, 0x3002]"

definition t_lp_disclaimer_2 :: jstr where
  [text_defs]: "t_lp_disclaimer_2 = [0x5BE6, 0x969B, 0x79DF, 0x8CC3, 0x95DC, 0x4FC2, 0x7531, 0x96D9, 0x65B9, 0x81EA, 0x884C, 0x78BA, 0x8A8D, 0x8207, 0x627F, 0x64D4, 0x3002]"


section \<open>\<open>src/apps/admin/features/admin/components/ActionConfirmDialog.tsx\<close>\<close>

definition t_aa_note :: jstr where
  [text_defs]: "t_aa_note = [0x539F, 0x56E0, 0x5099, 0x8A3B]"

definition t_aa_type_1 :: jstr where
  [text_defs]: "t_aa_type_1 = [0x8ACB, 0x8F38, 0x5165]"

definition t_aa_type_2 :: jstr where
  [text_defs]: "t_aa_type_2 = [0x4EE5, 0x78BA, 0x8A8D]"

definition t_aa_irreversible :: jstr where
  [text_defs]: "t_aa_irreversible = [0x6B64, 0x64CD, 0x4F5C, 0x7121, 0x6CD5, 0x5FA9, 0x539F, 0x3002, 0x7A3D, 0x6838, 0x8A18, 0x9304, 0x5C07, 0x6C38, 0x4E45, 0x4FDD, 0x7559, 0x3002]"

definition t_aa_cancel :: jstr where
  [text_defs]: "t_aa_cancel = [0x53D6, 0x6D88]"

definition t_aa_ok :: jstr where
  [text_defs]: "t_aa_ok = [0x78BA, 0x8A8D]"


section \<open>\<open>src/apps/admin/features/admin/components/AdminShell.tsx\<close>\<close>

definition t_as_reports :: jstr where
  [text_defs]: "t_as_reports = [0x6AA2, 0x8209, 0x4F47, 0x5217]"

definition t_as_actions :: jstr where
  [text_defs]: "t_as_actions = [0x7A3D, 0x6838, 0x7D00, 0x9304]"

definition t_as_logout :: jstr where
  [text_defs]: "t_as_logout = [0x767B, 0x51FA]"


section \<open>\<open>src/apps/admin/features/admin/components/DataTable.tsx\<close>\<close>

definition t_dtb_empty :: jstr where
  [text_defs]: "t_dtb_empty = [0x6C92, 0x6709, 0x8CC7, 0x6599]"


section \<open>\<open>src/apps/admin/features/admin/components/StatusBadge.tsx\<close>\<close>

definition t_sb_pending :: jstr where
  [text_defs]: "t_sb_pending = [0x5F85, 0x8655, 0x7406]"

definition t_sb_reviewing :: jstr where
  [text_defs]: "t_sb_reviewing = [0x5BE9, 0x6838, 0x4E2D]"

definition t_sb_resolved :: jstr where
  [text_defs]: "t_sb_resolved = [0x5DF2, 0x8655, 0x7406]"

definition t_sb_dismissed :: jstr where
  [text_defs]: "t_sb_dismissed = [0x5DF2, 0x5FFD, 0x7565]"

definition t_sb_active :: jstr where
  [text_defs]: "t_sb_active = [0x6B63, 0x5E38]"

definition t_sb_suspended :: jstr where
  [text_defs]: "t_sb_suspended = [0x5DF2, 0x505C, 0x7528]"

definition t_sb_deleted :: jstr where
  [text_defs]: "t_sb_deleted = [0x5DF2, 0x522A, 0x9664]"

definition t_sb_removed :: jstr where
  [text_defs]: "t_sb_removed = [0x5DF2, 0x4E0B, 0x67B6]"

definition t_sb_live :: jstr where
  [text_defs]: "t_sb_live = [0x4E0A, 0x67B6, 0x4E2D]"


section \<open>\<open>src/apps/admin/features/admin/types.ts\<close>\<close>

definition t_al_suspend :: jstr where
  [text_defs]: "t_al_suspend = [0x5E33, 0x865F, 0x505C, 0x7528]"

definition t_al_unsuspend :: jstr where
  [text_defs]: "t_al_unsuspend = [0x5E33, 0x865F, 0x5FA9, 0x539F]"

definition t_al_delete :: jstr where
  [text_defs]: "t_al_delete = [0x5E33, 0x865F, 0x522A, 0x9664]"

definition t_al_remove :: jstr where
  [text_defs]: "t_al_remove = [0x623F, 0x6E90, 0x4E0B, 0x67B6]"

definition t_al_restore :: jstr where
  [text_defs]: "t_al_restore = [0x623F, 0x6E90, 0x5FA9, 0x539F]"

definition t_al_resolve :: jstr where
  [text_defs]: "t_al_resolve = [0x6AA2, 0x8209, 0x8655, 0x7406]"

definition t_al_dismiss :: jstr where
  [text_defs]: "t_al_dismiss = [0x6AA2, 0x8209, 0x5FFD, 0x7565]"


section \<open>\<open>src/apps/admin/src/pages/Actions.tsx\<close>\<close>

definition t_an_action :: jstr where
  [text_defs]: "t_an_action = [0x64CD, 0x4F5C]"

definition t_an_target_type :: jstr where
  [text_defs]: "t_an_target_type = [0x76EE, 0x6A19, 0x985E, 0x578B]"

definition t_an_target_id :: jstr where
  [text_defs]: "t_an_target_id = [0x76EE, 0x6A19, 0x20, 0x49, 0x44]"

definition t_an_admin :: jstr where
  [text_defs]: "t_an_admin = [0x64CD, 0x4F5C, 0x4EBA]"

definition t_an_note :: jstr where
  [text_defs]: "t_an_note = [0x5099, 0x8A3B]"

definition t_an_time :: jstr where
  [text_defs]: "t_an_time = [0x6642, 0x9593]"

definition t_an_title :: jstr where
  [text_defs]: "t_an_title = [0x7A3D, 0x6838, 0x7D00, 0x9304]"

definition t_an_empty :: jstr where
  [text_defs]: "t_an_empty = [0x5C1A, 0x7121, 0x64CD, 0x4F5C, 0x7D00, 0x9304]"


section \<open>\<open>src/apps/admin/src/pages/Callback.tsx\<close>\<close>

definition t_cb_invalid :: jstr where
  [text_defs]: "t_cb_invalid = [0x9023, 0x7D50, 0x7121, 0x6548, 0x6216, 0x5DF2, 0x904E, 0x671F]"

definition t_cb_again :: jstr where
  [text_defs]: "t_cb_again = [0x91CD, 0x65B0, 0x53D6, 0x5F97, 0x767B, 0x5165, 0x9023, 0x7D50]"

definition t_cb_verifying :: jstr where
  [text_defs]: "t_cb_verifying = [0x9A57, 0x8B49, 0x4E2D, 0x2026]"


section \<open>\<open>src/apps/admin/src/pages/Login.tsx\<close>\<close>

definition t_lg2_hint :: jstr where
  [text_defs]: "t_lg2_hint = [0x8ACB, 0x8F38, 0x5165, 0x7BA1, 0x7406, 0x54E1, 0x4FE1, 0x7BB1, 0x4EE5, 0x53D6, 0x5F97, 0x767B, 0x5165, 0x9023, 0x7D50]"

definition t_lg2_sent :: jstr where
  [text_defs]: "t_lg2_sent = [0x82E5, 0x6B64, 0x4FE1, 0x7BB1, 0x70BA, 0x7BA1, 0x7406, 0x54E1, 0x5E33, 0x865F, 0xFF0C, 0x767B, 0x5165, 0x9023, 0x7D50, 0x5DF2, 0x5BC4, 0x51FA, 0xFF0C, 0x8ACB, 0x67E5, 0x6536, 0x4FE1, 0x4EF6, 0x3002]"

definition t_lg2_dev :: jstr where
  [text_defs]: "t_lg2_dev = [0x44, 0x45, 0x56, 0x20, 0x6A21, 0x5F0F, 0x20, 0x2014, 0x20, 0x76F4, 0x63A5, 0x9EDE, 0x64CA, 0x767B, 0x5165, 0xFF1A]"

definition t_lg2_again :: jstr where
  [text_defs]: "t_lg2_again = [0x91CD, 0x65B0, 0x767C, 0x9001]"

definition t_lg2_sending :: jstr where
  [text_defs]: "t_lg2_sending = [0x50B3, 0x9001, 0x4E2D, 0x2026]"

definition t_lg2_get :: jstr where
  [text_defs]: "t_lg2_get = [0x53D6, 0x5F97, 0x767B, 0x5165, 0x9023, 0x7D50]"


section \<open>\<open>src/apps/admin/src/pages/ReportDetail.tsx\<close>\<close>

definition t_rd_resolve :: jstr where
  [text_defs]: "t_rd_resolve = [0x8655, 0x7406]"

definition t_rd_dismiss :: jstr where
  [text_defs]: "t_rd_dismiss = [0x5FFD, 0x7565]"

definition t_rd_this :: jstr where
  [text_defs]: "t_rd_this = [0x6B64, 0x6AA2, 0x8209]"

definition t_rd_ask :: jstr where
  [text_defs]: "t_rd_ask = [0x8ACB, 0x8F38, 0x5165, 0x8655, 0x7406, 0x539F, 0x56E0, 0xFF08, 0x5C07, 0x8A18, 0x9304, 0x65BC, 0x7A3D, 0x6838, 0x7D00, 0x9304, 0xFF09, 0x3002]"

definition t_rd_remove_title :: jstr where
  [text_defs]: "t_rd_remove_title = [0x4E0B, 0x67B6, 0x6B64, 0x623F, 0x6E90]"

definition t_rd_remove_ask :: jstr where
  [text_defs]: "t_rd_remove_ask = [0x623F, 0x6E90, 0x5C07, 0x7ACB, 0x5373, 0x5F9E, 0x5A92, 0x5408, 0x700F, 0x89BD, 0x4E2D, 0x79FB, 0x9664, 0xFF0C, 0x53EF, 0x96A8, 0x6642, 0x5FA9, 0x539F, 0x3002]"

definition t_rd_remove :: jstr where
  [text_defs]: "t_rd_remove = [0x4E0B, 0x67B6]"

definition t_rd_status :: jstr where
  [text_defs]: "t_rd_status = [0x72C0, 0x614B]"

definition t_rd_id :: jstr where
  [text_defs]: "t_rd_id = [0x6AA2, 0x8209, 0x20, 0x49, 0x44]"

definition t_rd_reason :: jstr where
  [text_defs]: "t_rd_reason = [0x539F, 0x56E0]"

definition t_rd_reporter :: jstr where
  [text_defs]: "t_rd_reporter = [0x6AA2, 0x8209, 0x4EBA]"

definition t_rd_view_account :: jstr where
  [text_defs]: "t_rd_view_account = [0x67E5, 0x770B, 0x5E33, 0x865F, 0x20, 0x2192]"

definition t_rd_reported :: jstr where
  [text_defs]: "t_rd_reported = [0x88AB, 0x6AA2, 0x8209, 0x4EBA]"

definition t_rd_listing :: jstr where
  [text_defs]: "t_rd_listing = [0x76F8, 0x95DC, 0x623F, 0x6E90]"

definition t_rd_time :: jstr where
  [text_defs]: "t_rd_time = [0x6642, 0x9593]"

definition t_rd_mark_resolved :: jstr where
  [text_defs]: "t_rd_mark_resolved = [0x6A19, 0x8A18, 0x5DF2, 0x8655, 0x7406]"

definition t_rd_remove_listing :: jstr where
  [text_defs]: "t_rd_remove_listing = [0x4E0B, 0x67B6, 0x76F8, 0x95DC, 0x623F, 0x6E90]"


section \<open>\<open>src/apps/admin/src/pages/Reports.tsx\<close>\<close>

definition t_rq_pending :: jstr where
  [text_defs]: "t_rq_pending = [0x5F85, 0x8655, 0x7406]"

definition t_rq_resolved :: jstr where
  [text_defs]: "t_rq_resolved = [0x5DF2, 0x8655, 0x7406]"

definition t_rq_dismissed :: jstr where
  [text_defs]: "t_rq_dismissed = [0x5DF2, 0x5FFD, 0x7565]"

definition t_rq_title :: jstr where
  [text_defs]: "t_rq_title = [0x6AA2, 0x8209, 0x4F47, 0x5217]"

definition t_rq_none_1 :: jstr where
  [text_defs]: "t_rq_none_1 = [0x76EE, 0x524D, 0x6C92, 0x6709]"

definition t_rq_none_2 :: jstr where
  [text_defs]: "t_rq_none_2 = [0x7684, 0x6AA2, 0x8209, 0x20, 0xD83C, 0xDF89]"

definition t_rq_detail :: jstr where
  [text_defs]: "t_rq_detail = [0x6AA2, 0x8209, 0x8A73, 0x60C5]"


section \<open>\<open>src/apps/admin/src/pages/UserDetail.tsx\<close>\<close>

definition t_ud_suspend_title :: jstr where
  [text_defs]: "t_ud_suspend_title = [0x505C, 0x7528, 0x5E33, 0x865F]"

definition t_ud_suspend_ask :: jstr where
  [text_defs]: "t_ud_suspend_ask = [0x505C, 0x7528, 0x5F8C, 0xFF0C, 0x8A72, 0x7528, 0x6236, 0x5C07, 0x7121, 0x6CD5, 0x51FA, 0x73FE, 0x5728, 0x5A92, 0x5408, 0x700F, 0x89BD, 0x4E2D, 0x3002, 0x53EF, 0x96A8, 0x6642, 0x5FA9, 0x539F, 0x3002]"

definition t_ud_suspend :: jstr where
  [text_defs]: "t_ud_suspend = [0x505C, 0x7528]"

definition t_ud_delete_title :: jstr where
  [text_defs]: "t_ud_delete_title = [0x522A, 0x9664, 0x5E33, 0x865F]"

definition t_ud_delete_ask :: jstr where
  [text_defs]: "t_ud_delete_ask = [0x6B64, 0x64CD, 0x4F5C, 0x5C07, 0x8EDF, 0x522A, 0x9664, 0x7528, 0x6236, 0x5E33, 0x865F, 0x53CA, 0x6240, 0x6709, 0x76F8, 0x95DC, 0x8CC7, 0x6599, 0x3002, 0x7A3D, 0x6838, 0x7D00, 0x9304, 0x5C07, 0x6C38, 0x4E45, 0x4FDD, 0x7559, 0x3002]"

definition t_ud_delete :: jstr where
  [text_defs]: "t_ud_delete = [0x78BA, 0x8A8D, 0x522A, 0x9664]"

definition t_ud_missing :: jstr where
  [text_defs]: "t_ud_missing = [0x627E, 0x4E0D, 0x5230, 0x7528, 0x6236]"

definition t_ud_title :: jstr where
  [text_defs]: "t_ud_title = [0x7528, 0x6236, 0x8A73, 0x60C5]"

definition t_ud_listings :: jstr where
  [text_defs]: "t_ud_listings = [0x623F, 0x6E90, 0x6578]"

definition t_ud_profiles :: jstr where
  [text_defs]: "t_ud_profiles = [0x79DF, 0x5BA2, 0x8CC7, 0x6599, 0x6578]"

definition t_ud_suspended_at :: jstr where
  [text_defs]: "t_ud_suspended_at = [0x505C, 0x7528, 0x6642, 0x9593]"

definition t_ud_deleted_at :: jstr where
  [text_defs]: "t_ud_deleted_at = [0x522A, 0x9664, 0x6642, 0x9593]"

definition t_ud_restore :: jstr where
  [text_defs]: "t_ud_restore = [0x5FA9, 0x539F, 0x5E33, 0x865F]"

definition t_ud_log :: jstr where
  [text_defs]: "t_ud_log = [0x7A3D, 0x6838, 0x7D00, 0x9304]"

end
