(* ===== verification/Format.thy ===== *)
theory Format
  imports Types Texts
begin

text \<open>
  The pure helpers of \<open>src/apps/web/lib\<close>: \<open>groupBy.ts\<close>, \<open>listingTags.ts\<close> and the tables of
  \<open>viewings.ts\<close>. (\<open>formatSlot\<close> and \<open>dateKey\<close> only call the browser's date formatting; their users
  take them as parameters.)
\<close>

section \<open>\<open>groupBy\<close>\<close>

text \<open>\<open>(map.get(k) ?? map.set(k, []).get(k)!).push(item)\<close>: a Map lists its keys in insertion order.\<close>

fun push_to :: "'k \<Rightarrow> 'a \<Rightarrow> ('k \<times> 'a list) list \<Rightarrow> ('k \<times> 'a list) list" where
  "push_to k x [] = [(k, [x])]"
| "push_to k x ((j, ys) # m) = (if j = k then (j, ys @ [x]) # m else (j, ys) # push_to k x m)"

definition groupBy :: "'a list \<Rightarrow> ('a \<Rightarrow> 'k) \<Rightarrow> ('k \<times> 'a list) list" where
  "groupBy items keyFn = foldl (\<lambda>m item. push_to (keyFn item) item m) [] items"

text \<open>
  The contract of a grouping, which other grouping loops of the client share: keys in the order of
  their first occurrence, each with its items in order.
\<close>

definition grouped :: "'a list \<Rightarrow> ('a \<Rightarrow> 'k) \<Rightarrow> ('k \<times> 'a list) list" where
  "grouped items key = map (\<lambda>k. (k, filter (\<lambda>x. key x = k) items)) (uniq (map key items))"

locale grouping =
  fixes group :: "'a list \<Rightarrow> ('a \<Rightarrow> 'k) \<Rightarrow> ('k \<times> 'a list) list"
  assumes group_spec: "group items key = grouped items key"
begin

lemma keys: "map fst (group items key) = uniq (map key items)"
  by (simp add: group_spec grouped_def comp_def)

lemma distinct_keys: "distinct (map fst (group items key))"
  by (simp add: keys)

lemma members: "(k, xs) \<in> set (group items key) \<Longrightarrow> xs = filter (\<lambda>x. key x = k) items \<and> xs \<noteq> []"
  by (auto simp: group_spec grouped_def filter_empty_conv)

lemma covers: "x \<in> set items \<longleftrightarrow> (\<exists>g \<in> set (group items key). x \<in> set (snd g))"
  by (auto simp: group_spec grouped_def)

lemma lookup: "k \<in> key ` set items \<Longrightarrow> map_of (group items key) k = Some (filter (\<lambda>x. key x = k) items)"
  by (simp add: group_spec grouped_def map_of_map_restrict restrict_map_def)

lemma nonempty: "group items key = [] \<longleftrightarrow> items = []"
  by (cases items) (simp_all add: group_spec grouped_def)

end

lemma uniq_snoc: "uniq (xs @ [x]) = (if x \<in> set xs then uniq xs else uniq xs @ [x])"
  by (induction xs) auto

lemma push_to_keys: "map fst (push_to k x m) = (if k \<in> fst ` set m then map fst m else map fst m @ [k])"
  by (induction k x m rule: push_to.induct) (auto simp: image_iff)

lemma push_to_grouped: "push_to (key x) x (grouped xs key) = grouped (xs @ [x]) key"
proof -
  have new: "push_to k x (map (\<lambda>k. (k, f k)) ks) = map (\<lambda>k. (k, f k)) ks @ [(k, [x])]"
    if "k \<notin> set ks" for k ks and f :: "'a \<Rightarrow> 'b list"
    using that by (induction ks) auto
  have old: "push_to k x (map (\<lambda>k. (k, f k)) ks) = map (\<lambda>j. (j, f j @ (if j = k then [x] else []))) ks"
    if "k \<in> set ks" "distinct ks" for k ks and f :: "'a \<Rightarrow> 'b list"
    using that by (induction ks) auto
  show ?thesis
  proof (cases "key x \<in> key ` set xs")
    case True
    then show ?thesis
      by (auto simp: grouped_def uniq_snoc old intro!: map_cong)
  next
    case False
    have "filter (\<lambda>y. key y = key x) xs = []" using False by (auto simp: filter_empty_conv image_iff eq_commute)
    with False show ?thesis
      by (auto simp: grouped_def uniq_snoc new intro!: map_cong)
  qed
qed

lemma groupBy_grouped: "groupBy items key = grouped items key"
proof (induction items rule: rev_induct)
  case (snoc x xs)
  then show ?case by (simp add: groupBy_def push_to_grouped)
qed (simp add: groupBy_def grouped_def)

interpretation gb: grouping groupBy
  by unfold_locales (rule groupBy_grouped)

text \<open>Changing the items without changing their keys changes the groups item by item.\<close>

lemma groupBy_map:
  "groupBy (map h xs) key = map (\<lambda>(k, ys). (k, map h ys)) (groupBy xs (\<lambda>x. key (h x)))"
  by (simp add: groupBy_grouped grouped_def comp_def filter_map)

section \<open>Tags\<close>

record listing_tag_flags =
  lf_allow_pets :: "bool option"
  lf_allow_subsidy :: "bool option"
  lf_allow_tax_receipt :: "bool option"
  lf_allow_household_registration :: "bool option"
  lf_allow_cooking :: "bool option"

record profile_tag_flags =
  pf_has_pets :: "bool option"
  pf_smoking :: "bool option"
  pf_needs_subsidy :: "bool option"
  pf_needs_tax_receipt :: "bool option"
  pf_needs_household_registration :: "bool option"
  pf_needs_cooking :: "bool option"
  pf_needs_parking :: "bool option"

datatype profile_tag_kind = Lifestyle | Need

text \<open>A tag's \<open>key\<close> is the selector of its flag.\<close>

record listing_tag =
  lt_key :: "listing_tag_flags \<Rightarrow> bool option"
  lt_label :: jstr

record profile_tag =
  pt_key :: "profile_tag_flags \<Rightarrow> bool option"
  pt_label :: jstr
  pt_kind :: profile_tag_kind

definition LISTING_TAGS :: "listing_tag list" where
  "LISTING_TAGS = [
     \<lparr>lt_key = lf_allow_pets, lt_label = t_tag_pets\<rparr>,
     \<lparr>lt_key = lf_allow_subsidy, lt_label = t_tag_subsidy\<rparr>,
     \<lparr>lt_key = lf_allow_tax_receipt, lt_label = t_tag_tax_receipt\<rparr>,
     \<lparr>lt_key = lf_allow_household_registration, lt_label = t_tag_household\<rparr>,
     \<lparr>lt_key = lf_allow_cooking, lt_label = t_tag_cooking\<rparr>]"

definition PROFILE_TAGS :: "profile_tag list" where
  "PROFILE_TAGS = [
     \<lparr>pt_key = pf_has_pets, pt_label = t_tag_has_pets, pt_kind = Lifestyle\<rparr>,
     \<lparr>pt_key = pf_smoking, pt_label = t_tag_smoking, pt_kind = Lifestyle\<rparr>,
     \<lparr>pt_key = pf_needs_subsidy, pt_label = t_tag_subsidy, pt_kind = Need\<rparr>,
     \<lparr>pt_key = pf_needs_tax_receipt, pt_label = t_tag_tax_receipt, pt_kind = Need\<rparr>,
     \<lparr>pt_key = pf_needs_household_registration, pt_label = t_tag_household, pt_kind = Need\<rparr>,
     \<lparr>pt_key = pf_needs_cooking, pt_label = t_tag_cooking, pt_kind = Need\<rparr>,
     \<lparr>pt_key = pf_needs_parking, pt_label = t_tag_parking, pt_kind = Need\<rparr>]"

definition getListingTags :: "listing_tag_flags \<Rightarrow> jstr list" where
  "getListingTags l = map lt_label (filter (\<lambda>t. lt_key t l = Some True) LISTING_TAGS)"

definition getProfileTags :: "profile_tag_flags \<Rightarrow> profile_tag list" where
  "getProfileTags p = filter (\<lambda>t. pt_key t p = Some True) PROFILE_TAGS"

section \<open>Layout and prices\<close>

record layout =
  ly_num_bedrooms :: "int option"
  ly_num_living_rooms :: "int option"
  ly_num_bathrooms :: "int option"
  ly_num_balconies :: "int option"

definition formatLayout :: "layout \<Rightarrow> jstr option" where
  "formatLayout l =
     (case (ly_num_bedrooms l, ly_num_living_rooms l, ly_num_bathrooms l, ly_num_balconies l) of
        (Some b, Some li, Some ba, Some bc) \<Rightarrow>
          Some (show_int b @ t_unit_bedrooms @ show_int li @ t_unit_living_rooms @
                show_int ba @ t_unit_bathrooms @ show_int bc @ t_unit_balconies)
      | _ \<Rightarrow> None)"

definition totalMonthly :: "int \<Rightarrow> int option \<Rightarrow> int" where
  "totalMonthly rent fee = rent + (case fee of None \<Rightarrow> 0 | Some f \<Rightarrow> f)"

definition pricePerPing :: "int \<Rightarrow> rat \<Rightarrow> int option" where
  "pricePerPing rent area = (if area = 0 \<or> area \<le> 0 then None else Some (math_round (of_int rent / area)))"

text \<open>The rounded price misses the exact one by at most half a dollar per ping.\<close>

lemma pricePerPing_error:
  assumes "pricePerPing rent area = Some p"
  shows "0 < area \<and> \<bar>of_int p * area - of_int rent\<bar> \<le> area / 2"
proof -
  from assms have a: "0 < area" and p: "p = math_round (of_int rent / area)"
    by (auto simp: pricePerPing_def split: if_splits)
  have "\<bar>of_int p * area - of_int rent\<bar> = \<bar>of_int p - of_int rent / area\<bar> * area"
    using a abs_mult [of "of_int p - of_int rent / area" area] by (simp add: left_diff_distrib)
  also have "\<dots> \<le> 1 / 2 * area"
    unfolding p using a math_round_error by (intro mult_right_mono) auto
  finally show ?thesis using a by simp
qed

section \<open>Viewings\<close>

definition WEEKDAY_LABELS :: "jstr list" where
  "WEEKDAY_LABELS = [t_sunday, t_monday, t_tuesday, t_wednesday, t_thursday, t_friday, t_saturday]"

definition VIEWING_STATUS_BADGE :: "viewing_status \<Rightarrow> jstr" where
  "VIEWING_STATUS_BADGE s = (case s of
     Confirmed \<Rightarrow> t_viewing_confirmed
   | Completed \<Rightarrow> t_viewing_completed
   | Cancelled \<Rightarrow> t_viewing_cancelled
   | CancelledLandlord \<Rightarrow> t_viewing_cancelled_landlord)"

end
