(* ===== verification/Queries.thy ===== *)
theory Queries
  imports View
begin

text \<open>
  Requests and the query cache: the cache keys of \<open>src/apps/web/features/queryKeys.ts\<close> and the query
  every data hook declares (\<open>useListings.ts\<close>, \<open>useTenantProfiles.ts\<close>, \<open>useMatches.ts\<close>, and the
  inline \<open>useQuery\<close> calls of the components). TanStack Query runs them: it keeps one cache entry per
  key, and invalidating a key refetches every entry whose key starts with it.
\<close>

section \<open>Cache keys\<close>

type_synonym query_key = "jstr list"

definition qk_me :: query_key where "qk_me = [js ''me'']"
definition qk_listings :: query_key where "qk_listings = [js ''listings'']"
definition qk_listingDetail :: "jstr \<Rightarrow> query_key" where "qk_listingDetail i = [js ''listing-detail'', i]"
definition qk_listingEdit :: "jstr \<Rightarrow> query_key" where "qk_listingEdit i = [js ''listing-edit'', i]"
definition qk_listingsBrowse :: "jstr \<Rightarrow> query_key" where "qk_listingsBrowse i = [js ''listings-browse'', i]"
definition qk_tenantProfiles :: query_key where "qk_tenantProfiles = [js ''tenant-profiles'']"
definition qk_profilesBrowse :: "jstr \<Rightarrow> query_key" where "qk_profilesBrowse i = [js ''profiles-browse'', i]"
definition qk_incoming :: "jstr \<Rightarrow> query_key" where "qk_incoming i = [js ''incoming'', i]"
definition qk_incomingListing :: "jstr \<Rightarrow> query_key" where "qk_incomingListing i = [js ''incoming-listing'', i]"
definition qk_allIncoming :: query_key where "qk_allIncoming = [js ''all-incoming'']"
definition qk_outgoing :: query_key where "qk_outgoing = [js ''outgoing'']"
definition qk_matched :: query_key where "qk_matched = [js ''matched'']"

definition qk_viewings :: "jstr option \<Rightarrow> query_key" where
  "qk_viewings role = (case role of
     Some r \<Rightarrow> (if r \<noteq> [] then [js ''viewings'', r] else [js ''viewings''])
   | None \<Rightarrow> [js ''viewings''])"

definition qk_viewingAvailability :: "jstr \<Rightarrow> query_key" where
  "qk_viewingAvailability i = [js ''viewing-availability'', i]"

definition qk_viewingSlots :: "jstr option \<Rightarrow> query_key" where
  "qk_viewingSlots l = (case l of
     Some i \<Rightarrow> (if i \<noteq> [] then [js ''viewing-slots'', i] else [js ''viewing-slots''])
   | None \<Rightarrow> [js ''viewing-slots''])"

lemmas qk_defs = qk_me_def qk_listings_def qk_listingDetail_def qk_listingEdit_def qk_listingsBrowse_def
  qk_tenantProfiles_def qk_profilesBrowse_def qk_incoming_def qk_incomingListing_def qk_allIncoming_def
  qk_outgoing_def qk_matched_def qk_viewings_def qk_viewingAvailability_def qk_viewingSlots_def

text \<open>Which entries an invalidation reaches.\<close>

definition invalidates :: "query_key \<Rightarrow> query_key \<Rightarrow> bool" where
  "invalidates k entry \<longleftrightarrow> take (length k) entry = k"

section \<open>Hooks\<close>

record query =
  q_key :: query_key
  q_url :: jstr
  q_enabled :: bool

definition useListings :: query where
  "useListings = \<lparr>q_key = qk_listings, q_url = js ''/listings'', q_enabled = True\<rparr>"

definition useListingDetail :: "jstr \<Rightarrow> query" where
  "useListingDetail i = \<lparr>q_key = qk_listingDetail i, q_url = js ''/listings/'' @ i, q_enabled = (i \<noteq> [])\<rparr>"

definition useListingEdit :: "jstr \<Rightarrow> query" where
  "useListingEdit i = \<lparr>q_key = qk_listingEdit i, q_url = js ''/listings/'' @ i, q_enabled = (i \<noteq> [])\<rparr>"

definition useProfilesBrowse :: "jstr \<Rightarrow> query" where
  "useProfilesBrowse i = \<lparr>q_key = qk_profilesBrowse i,
     q_url = js ''/listings/'' @ i @ js ''/tenant-profiles?limit=50'', q_enabled = (i \<noteq> [])\<rparr>"

text \<open>\<open>enabled: opts?.enabled\<close>: an absent option leaves the query enabled.\<close>

definition enabled_opt :: "bool option \<Rightarrow> bool" where
  "enabled_opt e \<longleftrightarrow> e \<noteq> Some False"

definition useIncomingListing :: "jstr \<Rightarrow> bool option \<Rightarrow> query" where
  "useIncomingListing i e = \<lparr>q_key = qk_incomingListing i,
     q_url = js ''/listings/'' @ i @ js ''/tenant-profiles?limit=50'', q_enabled = enabled_opt e\<rparr>"

definition useViewingAvailability :: "jstr \<Rightarrow> query" where
  "useViewingAvailability i = \<lparr>q_key = qk_viewingAvailability i,
     q_url = js ''/listings/'' @ i @ js ''/viewing-availability'', q_enabled = (i \<noteq> [])\<rparr>"

definition useTenantProfiles :: query where
  "useTenantProfiles = \<lparr>q_key = qk_tenantProfiles, q_url = js ''/tenant-profiles'', q_enabled = True\<rparr>"

definition useListingsBrowse :: "jstr \<Rightarrow> query" where
  "useListingsBrowse i = \<lparr>q_key = qk_listingsBrowse i,
     q_url = js ''/tenant-profiles/'' @ i @ js ''/listings?limit=50'', q_enabled = (i \<noteq> [])\<rparr>"

definition useIncoming :: "jstr \<Rightarrow> bool option \<Rightarrow> query" where
  "useIncoming i e = \<lparr>q_key = qk_incoming i,
     q_url = js ''/tenant-profiles/'' @ i @ js ''/interests/incoming?limit=50'', q_enabled = enabled_opt e\<rparr>"

definition useOutgoing :: query where
  "useOutgoing = \<lparr>q_key = qk_outgoing, q_url = js ''/matches/outgoing?limit=50'', q_enabled = True\<rparr>"

definition useMatched :: query where
  "useMatched = \<lparr>q_key = qk_matched, q_url = js ''/matches/mutual?limit=50'', q_enabled = True\<rparr>"

definition useAllIncoming :: query where
  "useAllIncoming = \<lparr>q_key = qk_allIncoming, q_url = js ''/matches/incoming?limit=200'', q_enabled = True\<rparr>"

definition useContactInfo :: query where
  "useContactInfo = \<lparr>q_key = qk_me, q_url = js ''/profile/me'', q_enabled = True\<rparr>"

definition slots_query :: "jstr \<Rightarrow> query" where
  "slots_query i = \<lparr>q_key = qk_viewingSlots (Some i),
     q_url = js ''/listings/'' @ i @ js ''/viewing-slots'', q_enabled = True\<rparr>"

definition viewings_query :: "jstr \<Rightarrow> query" where
  "viewings_query role = \<lparr>q_key = qk_viewings (Some role),
     q_url = js ''/viewings?role='' @ role, q_enabled = True\<rparr>"

lemmas hook_defs = useListings_def useListingDetail_def useListingEdit_def useProfilesBrowse_def
  useIncomingListing_def useViewingAvailability_def useTenantProfiles_def useListingsBrowse_def
  useIncoming_def useOutgoing_def useMatched_def useAllIncoming_def useContactInfo_def
  slots_query_def viewings_query_def

text \<open>Every query the client makes.\<close>

definition client_queries :: "query set" where
  "client_queries = {useListings, useTenantProfiles, useOutgoing, useMatched, useAllIncoming, useContactInfo}
     \<union> range useListingDetail \<union> range useListingEdit \<union> range useProfilesBrowse
     \<union> (\<Union>e. range (\<lambda>i. useIncomingListing i e)) \<union> range useViewingAvailability
     \<union> range useListingsBrowse \<union> (\<Union>e. range (\<lambda>i. useIncoming i e)) \<union> range slots_query
     \<union> range viewings_query"

lemma client_queries_cases:
  assumes "q \<in> client_queries"
  obtains "q = useListings" | "q = useTenantProfiles" | "q = useOutgoing" | "q = useMatched"
  | "q = useAllIncoming" | "q = useContactInfo" | i where "q = useListingDetail i"
  | i where "q = useListingEdit i" | i where "q = useProfilesBrowse i"
  | i e where "q = useIncomingListing i e" | i where "q = useViewingAvailability i"
  | i where "q = useListingsBrowse i" | i e where "q = useIncoming i e"
  | i where "q = slots_query i" | i where "q = viewings_query i"
  using assms unfolding client_queries_def by blast

text \<open>The URL that belongs to a key, read off the key alone.\<close>

definition url_of_key :: "query_key \<Rightarrow> jstr" where
  "url_of_key k = (let h = hd k; i = (if tl k = [] then [] else hd (tl k)) in
     if h = js ''listing-detail'' \<or> h = js ''listing-edit'' then js ''/listings/'' @ i
     else if h = js ''profiles-browse'' \<or> h = js ''incoming-listing''
       then js ''/listings/'' @ i @ js ''/tenant-profiles?limit=50''
     else if h = js ''viewing-availability'' then js ''/listings/'' @ i @ js ''/viewing-availability''
     else if h = js ''viewing-slots'' then js ''/listings/'' @ i @ js ''/viewing-slots''
     else if h = js ''viewings'' then js ''/viewings?role='' @ i
     else if h = js ''listings-browse'' then js ''/tenant-profiles/'' @ i @ js ''/listings?limit=50''
     else if h = js ''incoming'' then js ''/tenant-profiles/'' @ i @ js ''/interests/incoming?limit=50''
     else if h = js ''listings'' then js ''/listings''
     else if h = js ''tenant-profiles'' then js ''/tenant-profiles''
     else if h = js ''outgoing'' then js ''/matches/outgoing?limit=50''
     else if h = js ''matched'' then js ''/matches/mutual?limit=50''
     else if h = js ''all-incoming'' then js ''/matches/incoming?limit=200''
     else js ''/profile/me'')"

lemma url_of_query_key: "q \<in> client_queries \<Longrightarrow> q_url q = url_of_key (q_key q)"
  by (erule client_queries_cases) (simp_all add: hook_defs qk_defs url_of_key_def)

text \<open>A key without its last part reaches every entry of its kind.\<close>

lemma invalidates_all:
  "invalidates (qk_viewings None) (q_key (viewings_query r))"
  "invalidates (qk_viewingSlots None) (q_key (slots_query i))"
  by (simp_all add: invalidates_def viewings_query_def slots_query_def qk_viewings_def qk_viewingSlots_def)

text \<open>Which of the client's queries a key reaches: a full key its own query, a kind every query of it.\<close>

lemma reach_viewings:
  "q \<in> client_queries \<Longrightarrow> r \<noteq> [] \<Longrightarrow> invalidates (qk_viewings (Some r)) (q_key q) \<longleftrightarrow> q = viewings_query r"
  by (erule client_queries_cases) (auto simp: invalidates_def hook_defs qk_defs js_def)

lemma reach_slots:
  "q \<in> client_queries \<Longrightarrow> invalidates (qk_viewingSlots None) (q_key q) \<longleftrightarrow> (\<exists>i. q = slots_query i)"
  by (erule client_queries_cases) (auto simp: invalidates_def hook_defs qk_defs js_def)

lemma reach_listingsBrowse:
  "q \<in> client_queries \<Longrightarrow> invalidates (qk_listingsBrowse i) (q_key q) \<longleftrightarrow> q = useListingsBrowse i"
  by (erule client_queries_cases) (auto simp: invalidates_def hook_defs qk_defs js_def)

lemma reach_profilesBrowse:
  "q \<in> client_queries \<Longrightarrow> invalidates (qk_profilesBrowse i) (q_key q) \<longleftrightarrow> q = useProfilesBrowse i"
  by (erule client_queries_cases) (auto simp: invalidates_def hook_defs qk_defs js_def)

lemma reach_matched: "q \<in> client_queries \<Longrightarrow> invalidates qk_matched (q_key q) \<longleftrightarrow> q = useMatched"
  by (erule client_queries_cases) (auto simp: invalidates_def hook_defs qk_defs js_def)

lemma in_client_queries:
  "useOutgoing \<in> client_queries" "useMatched \<in> client_queries" "useListingsBrowse i \<in> client_queries"
  "useProfilesBrowse i \<in> client_queries" "slots_query i \<in> client_queries" "viewings_query r \<in> client_queries"
  by (simp_all add: client_queries_def)

end
