(* ===== verification/Ui.thy ===== *)
theory Ui
  imports View Queries Texts Types
begin

text \<open>
  The shared building blocks of the web client's views (\<open>src/apps/web/components\<close> and its \<open>ui\<close>
  directory): the modal with its focus trap, the drop-down list, the small stateless pieces, the
  contact-information field and the role guard.
\<close>

section \<open>Modal\<close>

text \<open>
  An open modal can always be dismissed, by Escape or a press on the backdrop, both calling
  \<open>onClose\<close>; that way out is the first element of the node.
\<close>

definition modal :: "bool \<Rightarrow> 'e \<Rightarrow> 'e node list \<Rightarrow> 'e node" where
  "modal opened onClose children = Box (shown opened [Btn False onClose [], Box children])"

text \<open>
  Its key handler: Escape closes, Tab on the last focusable element wraps to the first and Shift-Tab
  on the first wraps to the last. Elements are numbered in document order; the browser moves focus
  where the handler does not.
\<close>

datatype modal_key = Escape | Tab bool | OtherKey

datatype modal_action = CloseModal | FocusOn nat | BrowserDefault

definition modal_onKeyDown :: "nat \<Rightarrow> nat option \<Rightarrow> modal_key \<Rightarrow> modal_action" where
  "modal_onKeyDown n active k = (case k of
     Escape \<Rightarrow> CloseModal
   | OtherKey \<Rightarrow> BrowserDefault
   | Tab shift \<Rightarrow>
       (if n = 0 then BrowserDefault
        else if shift \<and> active = Some 0 then FocusOn (n - 1)
        else if \<not> shift \<and> active = Some (n - 1) then FocusOn 0
        else BrowserDefault))"

text \<open>The browser's own Tab: the neighbouring element, leaving the dialog beyond either end.\<close>

definition browser_tab :: "nat \<Rightarrow> bool \<Rightarrow> nat \<Rightarrow> nat option" where
  "browser_tab n shift i = (if shift then (if i = 0 then None else Some (i - 1))
                            else if Suc i < n then Some (Suc i) else None)"

lemma focus_trap:
  assumes "i < n"
  shows "case modal_onKeyDown n (Some i) (Tab shift) of
           FocusOn j \<Rightarrow> j < n \<and> browser_tab n shift i = None
         | BrowserDefault \<Rightarrow> (\<exists>j < n. browser_tab n shift i = Some j)
         | CloseModal \<Rightarrow> False"
  using assms by (auto simp: modal_onKeyDown_def browser_tab_def)

lemma texts_modal [simp]: "texts (modal b e cs) = (if b then concat (map texts cs) else [])"
  by (simp add: modal_def shown_def)

lemma offers_modal [simp]: "offers (modal b a cs) e \<longleftrightarrow> b \<and> (e = a \<or> list_ex (\<lambda>c. offers c e) cs)"
  by (simp add: modal_def shown_def)

lemma no_bubble_modal [simp]: "no_bubble False (modal b a cs) \<longleftrightarrow> (b \<longrightarrow> list_all (no_bubble False) cs)"
  by (simp add: modal_def shown_def)

section \<open>Drop-down\<close>

record option_item =
  oi_value :: jstr
  oi_label :: jstr

text \<open>\<open>activeIdx\<close> is \<open>None\<close> for the source's \<open>-1\<close>.\<close>

record dropdown =
  dd_open :: bool
  dd_activeIdx :: "nat option"

datatype dropdown_key = KEnter | KSpace | KArrowDown | KArrowUp | KHome | KEnd | KEscape | KOther

datatype dropdown_event = KeyDown dropdown_key | ClickTrigger | Hover nat | ClickOption nat | OutsideClick

definition dd_init :: dropdown where
  "dd_init = \<lparr>dd_open = False, dd_activeIdx = None\<rparr>"

definition dd_close :: "dropdown \<Rightarrow> dropdown" where
  "dd_close s = s\<lparr>dd_open := False, dd_activeIdx := None\<rparr>"

text \<open>\<open>Math.min(i + 1, n - 1)\<close>, \<open>Math.max(i - 1, 0)\<close> and \<open>n - 1\<close>, from -1 on.\<close>

definition dd_next :: "nat \<Rightarrow> nat option \<Rightarrow> nat option" where
  "dd_next n i = (if n = 0 then None else Some (min (case i of None \<Rightarrow> 0 | Some k \<Rightarrow> Suc k) (n - 1)))"

definition dd_prev :: "nat option \<Rightarrow> nat option" where
  "dd_prev i = Some (case i of None \<Rightarrow> 0 | Some k \<Rightarrow> k - 1)"

definition dd_last :: "nat \<Rightarrow> nat option" where
  "dd_last n = (if n = 0 then None else Some (n - 1))"

text \<open>A step yields the new state and the value passed to \<open>onChange\<close>, if any.\<close>

definition dd_key :: "option_item list \<Rightarrow> jstr \<Rightarrow> bool \<Rightarrow> dropdown_key \<Rightarrow> dropdown \<Rightarrow> dropdown \<times> jstr option" where
  "dd_key options value disabled k s =
     (if disabled then (s, None)
      else if \<not> dd_open s then
        (if k = KEnter \<or> k = KSpace \<or> k = KArrowDown
         then (s\<lparr>dd_open := True, dd_activeIdx := index_of (map oi_value options) value\<rparr>, None)
         else (s, None))
      else (case k of
          KEscape \<Rightarrow> (dd_close s, None)
        | KArrowDown \<Rightarrow> (s\<lparr>dd_activeIdx := dd_next (length options) (dd_activeIdx s)\<rparr>, None)
        | KArrowUp \<Rightarrow> (s\<lparr>dd_activeIdx := dd_prev (dd_activeIdx s)\<rparr>, None)
        | KHome \<Rightarrow> (s\<lparr>dd_activeIdx := Some 0\<rparr>, None)
        | KEnd \<Rightarrow> (s\<lparr>dd_activeIdx := dd_last (length options)\<rparr>, None)
        | KOther \<Rightarrow> (s, None)
        | _ \<Rightarrow> (case dd_activeIdx s of
              None \<Rightarrow> (s, None)
            | Some i \<Rightarrow> (if i < length options then (dd_close s, Some (oi_value (options ! i))) else (s, None)))))"

fun dd_step :: "option_item list \<Rightarrow> jstr \<Rightarrow> bool \<Rightarrow> dropdown \<Rightarrow> dropdown_event \<Rightarrow> dropdown \<times> jstr option" where
  "dd_step options value disabled s (KeyDown k) = dd_key options value disabled k s"
| "dd_step options value disabled s ClickTrigger =
     (if dd_open s then dd_close s else s\<lparr>dd_open := True\<rparr>, None)"
| "dd_step options value disabled s (Hover i) = (s\<lparr>dd_activeIdx := Some i\<rparr>, None)"
| "dd_step options value disabled s (ClickOption i) = (dd_close s, Some (oi_value (options ! i)))"
| "dd_step options value disabled s OutsideClick =
     (if dd_open s then s\<lparr>dd_open := False, dd_activeIdx := None\<rparr> else s, None)"

text \<open>What the user can do: keys reach the list anyway, the rest needs the element to be there.\<close>

fun dd_can :: "option_item list \<Rightarrow> bool \<Rightarrow> dropdown \<Rightarrow> dropdown_event \<Rightarrow> bool" where
  "dd_can options disabled s ClickTrigger = (\<not> disabled)"
| "dd_can options disabled s (Hover i) = (dd_open s \<and> i < length options)"
| "dd_can options disabled s (ClickOption i) = (dd_open s \<and> i < length options)"
| "dd_can options disabled s _ = True"

definition dd_view :: "option_item list \<Rightarrow> jstr \<Rightarrow> jstr \<Rightarrow> bool \<Rightarrow> dropdown \<Rightarrow> dropdown_event node" where
  "dd_view options value placeholder disabled s = Box (
     Btn disabled ClickTrigger [Mark (value \<noteq> []) [Txt
        (if value = [] then placeholder
         else (case find (\<lambda>o'. oi_value o' = value) options of None \<Rightarrow> value | Some o' \<Rightarrow> oi_label o'))]]
     # shown (dd_open s) (map (\<lambda>(i, o'). Mark (dd_activeIdx s = Some i \<or> oi_value o' = value)
          [Tap (ClickOption i) [Txt (oi_label o')]]) (enumerate 0 options)))"

text \<open>
  While the list is closed nothing is highlighted, and \<open>onChange\<close> only ever receives the value of an
  option. (Arrow keys on an empty list can leave index 0 active; the bounds check in front of
  \<open>select\<close> covers that case.)
\<close>

definition dd_ok :: "dropdown \<Rightarrow> bool" where
  "dd_ok s \<longleftrightarrow> (dd_activeIdx s \<noteq> None \<longrightarrow> dd_open s)"

lemma dd_ok_init: "dd_ok dd_init"
  by (simp add: dd_ok_def dd_init_def)

lemma dd_ok_step: "dd_ok s \<Longrightarrow> dd_can os d s e \<Longrightarrow> dd_ok (fst (dd_step os v d s e))"
  by (cases e) (auto simp: dd_ok_def dd_close_def dd_key_def dd_next_def dd_prev_def dd_last_def
      split: dropdown_key.splits option.splits)

interpretation dd: guarded_machine "\<lambda>s. s = dd_init" "dd_can os d" "\<lambda>s e. fst (dd_step os v d s e)" dd_ok
  for os d v
  by unfold_locales (auto intro: dd_ok_step dd_ok_init)

lemma dd_output: "dd_can os d s e \<Longrightarrow> snd (dd_step os v d s e) = Some x \<Longrightarrow> x \<in> oi_value ` set os"
  by (cases e) (auto simp: dd_key_def split: dropdown_key.splits option.splits if_splits)

lemma dd_disabled: "dd_can os True dd_init e \<Longrightarrow> dd_step os v True dd_init e = (dd_init, None)"
  by (cases e) (auto simp: dd_key_def dd_init_def)

text \<open>
  What a drop-down offers the form around it: the text on its trigger and, unless disabled, one choice
  per option (\<open>dd_output\<close>, \<open>dd_disabled\<close>).
\<close>

definition dropdown_field :: "jstr \<Rightarrow> jstr \<Rightarrow> option_item list \<Rightarrow> bool \<Rightarrow> (jstr \<Rightarrow> 'e) \<Rightarrow> 'e node" where
  "dropdown_field value placeholder options disabled onChange = Box (
     Txt (if value = [] then placeholder
          else (case find (\<lambda>o'. oi_value o' = value) options of None \<Rightarrow> value | Some o' \<Rightarrow> oi_label o'))
     # shown (\<not> disabled) (map (\<lambda>o'. Tap (onChange (oi_value o')) [Txt (oi_label o')]) options))"

section \<open>Small pieces\<close>

definition tab_button :: "bool \<Rightarrow> 'e \<Rightarrow> jstr \<Rightarrow> 'e node" where
  "tab_button active onClick label = Btn False onClick [Mark active [Txt label]]"

definition bottom_tab_item :: "bool \<Rightarrow> 'e \<Rightarrow> jstr \<Rightarrow> 'e node" where
  "bottom_tab_item active onClick label = Btn False onClick [Mark active [Txt label]]"

definition empty_state :: "jstr \<Rightarrow> jstr option \<Rightarrow> (jstr \<times> 'e) option \<Rightarrow> 'e node" where
  "empty_state title description action = Box (Txt title
     # (case description of None \<Rightarrow> [] | Some d \<Rightarrow> shown (d \<noteq> []) [Txt d])
     @ (case action of None \<Rightarrow> [] | Some (l, e) \<Rightarrow> [Btn False e [Txt l]]))"

text \<open>Both arrows stop the click from reaching the card they sit on.\<close>

definition carousel_arrows :: "'e \<Rightarrow> 'e \<Rightarrow> 'e node list" where
  "carousel_arrows onPrev onNext = [Stop [Btn False onPrev []], Stop [Btn False onNext []]]"

definition loading :: "'e node" where
  "loading = Txt t_loading"

definition expandable_text :: "jstr \<Rightarrow> bool \<Rightarrow> 'e \<Rightarrow> 'e node list" where
  "expandable_text text opened toggle = shown (text \<noteq> [])
     [Box ([Mark (opened \<or> \<not> length text > 50) [Txt text]]
        @ shown (length text > 50) [Btn False toggle [Txt (if opened then t_collapse else t_expand)]])]"

definition checkbox_group :: "jstr \<Rightarrow> ('k \<times> jstr) list \<Rightarrow> ('k \<Rightarrow> bool) \<Rightarrow> ('k \<Rightarrow> bool \<Rightarrow> 'e) \<Rightarrow> 'e node" where
  "checkbox_group label items values register = Box (Txt label
     # map (\<lambda>(key, text). Chk (values key) (register key) [Txt text]) items)"

text \<open>The menu of a card: the toggle and, when open, its items; every click stays inside.\<close>

datatype 'e menu_event = MenuToggle | MenuOutside | MenuItem 'e

definition card_menu :: "(jstr \<times> 'e) list \<Rightarrow> bool \<Rightarrow> 'e menu_event node" where
  "card_menu items opened = Box (
     Stop [Btn False MenuToggle []]
     # shown opened (map (\<lambda>(l, e). Stop [Btn False (MenuItem e) [Txt l]]) items))"

fun menu_step :: "bool \<Rightarrow> 'e menu_event \<Rightarrow> bool \<times> 'e option" where
  "menu_step opened MenuToggle = (\<not> opened, None)"
| "menu_step opened MenuOutside = (False, None)"
| "menu_step opened (MenuItem e) = (False, Some e)"

text \<open>What a card menu offers the card around it.\<close>

definition menu_field :: "(jstr \<times> 'e) list \<Rightarrow> 'e node" where
  "menu_field items = Stop (map (\<lambda>(l, e). Btn False e [Txt l]) items)"

lemma menu_field_offers [simp]: "offers (menu_field items) e \<longleftrightarrow> e \<in> snd ` set items"
  by (force simp: menu_field_def list_ex_iff)

lemma dropdown_field_offers [simp]:
  "offers (dropdown_field val ph os d f) e \<longleftrightarrow> \<not> d \<and> (\<exists>o' \<in> set os. e = f (oi_value o'))"
  by (auto simp: dropdown_field_def list_ex_iff)

lemma empty_state_offers [simp]: "offers (empty_state t d a) e \<longleftrightarrow> (\<exists>l. a = Some (l, e))"
  by (auto simp: empty_state_def shown_def split: option.splits)

section \<open>Toggling a selection\<close>

text \<open>
  The interface of a selection that the picker, the forms and the collapsible lists share; a JavaScript
  Set is listed in insertion order.
\<close>

text \<open>\<open>prev.includes(id) ? prev.filter((x) => x !== id) : [...prev, id]\<close>\<close>

definition toggle_id :: "'a \<Rightarrow> 'a list \<Rightarrow> 'a list" where
  "toggle_id i prev = (if i \<in> set prev then filter (\<lambda>x. x \<noteq> i) prev else prev @ [i])"

locale selection_toggle =
  fixes toggle :: "'a \<Rightarrow> 'a list \<Rightarrow> 'a list"
  assumes set_toggle: "set (toggle i xs) = (if i \<in> set xs then set xs - {i} else insert i (set xs))"
    and distinct_toggle: "distinct xs \<Longrightarrow> distinct (toggle i xs)"
    and order_toggle: "filter (\<lambda>x. x \<noteq> i) (toggle i xs) = filter (\<lambda>x. x \<noteq> i) xs"
begin

lemma member: "j \<in> set (toggle i xs) \<longleftrightarrow> (if j = i then i \<notin> set xs else j \<in> set xs)"
  by (auto simp: set_toggle)

lemma twice: "set (toggle i (toggle i xs)) = set xs"
  by (simp add: set_toggle insert_absorb)

lemma within: "set xs \<subseteq> A \<Longrightarrow> i \<in> A \<Longrightarrow> set (toggle i xs) \<subseteq> A"
  by (auto simp: set_toggle)

lemma commute: "set (toggle i (toggle j xs)) = set (toggle j (toggle i xs))"
  by (auto simp: member)

end

interpretation tog: selection_toggle toggle_id
  by unfold_locales (auto simp: toggle_id_def)

text \<open>\<open>if (next.has(id)) next.delete(id); else next.add(id)\<close>\<close>

definition toggle_section :: "jstr \<Rightarrow> jstr list \<Rightarrow> jstr list" where
  "toggle_section i prev = (if i \<in> set prev then removeAll i prev else prev @ [i])"

interpretation sec: selection_toggle toggle_section
  by unfold_locales (auto simp: toggle_section_def removeAll_filter_not_eq intro: filter_cong)

section \<open>Contact information and roles\<close>

definition contact_info_field :: "bool \<Rightarrow> me_response option \<Rightarrow> 'e node" where
  "contact_info_field landlord_audience me =
     (let who = (if landlord_audience then t_landlord_word else t_tenant_word);
          contact = (case me of None \<Rightarrow> [] | Some m \<Rightarrow> me_contact_info m)
      in Box [Txt (t_contact_label_1 @ who @ t_contact_label_2), Txt (js ''*''),
           if contact \<noteq> [] then Box [Txt contact, Link (js ''/account'') [Txt t_contact_edit]]
           else Box [Txt t_contact_missing, Link (js ''/account'') [Txt t_contact_go]]])"

text \<open>\<open>!me?.contact_info\<close>, which disables the submit button of both forms.\<close>

definition contact_missing :: "me_response option \<Rightarrow> bool" where
  "contact_missing me = (case me of None \<Rightarrow> True | Some m \<Rightarrow> me_contact_info m = [])"

datatype 'a fetched = Loading | Failed | Loaded 'a

datatype guard_outcome = Blank | Forbidden | Children

definition role_guard :: "jstr \<Rightarrow> jstr list option fetched \<Rightarrow> guard_outcome" where
  "role_guard role me = (case me of
     Loading \<Rightarrow> Blank
   | Failed \<Rightarrow> Forbidden
   | Loaded None \<Rightarrow> Forbidden
   | Loaded (Some roles) \<Rightarrow> (if role \<in> set roles then Children else Forbidden))"

definition role_guard_view :: "guard_outcome \<Rightarrow> 'e node list \<Rightarrow> 'e node list" where
  "role_guard_view g children = (case g of
     Blank \<Rightarrow> [] | Forbidden \<Rightarrow> [Txt (js ''403''), Txt t_no_permission] | Children \<Rightarrow> children)"

end
