(* ===== verification/LocationPicker.thy ===== *)
theory LocationPicker
  imports Locations Ui
begin

text \<open>
  The location picker dialog, \<open>src/apps/web/components/LocationPicker.tsx\<close>: its state (the draft
  selection, the search text, the active city), the toggles, the view, and the machine of its reachable
  states. Its toggle is an instance of \<open>selection_toggle\<close>.
\<close>

section \<open>State\<close>

datatype city_state = CSNone | CSPartial | CSAll

definition cityState :: "location_city \<Rightarrow> jstr set \<Rightarrow> city_state" where
  "cityState city selected =
     (let ids = map ld_id (lc_districts city); count = length (filter (\<lambda>i. i \<in> selected) ids)
      in if count = 0 then CSNone else if count = length ids then CSAll else CSPartial)"

record picker =
  pk_open :: bool
  pk_draft :: "jstr list"
  pk_query :: jstr
  pk_activeCityCode :: jstr
  pk_recommendedExpanded :: bool

definition first_city_code :: jstr where
  "first_city_code = (case LOCATION_GROUPS of [] \<Rightarrow> [] | c # _ \<Rightarrow> lc_cityCode c)"

definition picker_init :: picker where
  "picker_init = \<lparr>pk_open = False, pk_draft = [], pk_query = [], pk_activeCityCode = first_city_code,
     pk_recommendedExpanded = True\<rparr>"

section \<open>Operations\<close>

text \<open>The effect that runs when the dialog opens with the form's value.\<close>

definition open_with :: "jstr list \<Rightarrow> picker \<Rightarrow> picker" where
  "open_with value s = s\<lparr>pk_open := True, pk_draft := value, pk_query := [], pk_activeCityCode := first_city_code\<rparr>"

definition toggleDistrict :: "jstr \<Rightarrow> picker \<Rightarrow> picker" where
  "toggleDistrict i s = s\<lparr>pk_draft := toggle_id i (pk_draft s)\<rparr>"

definition toggleCity :: "location_city \<Rightarrow> picker \<Rightarrow> picker" where
  "toggleCity city s =
     (let ids = map ld_id (lc_districts city)
      in if list_all (\<lambda>i. i \<in> set (pk_draft s)) ids
         then s\<lparr>pk_draft := filter (\<lambda>i. i \<notin> set ids) (pk_draft s)\<rparr>
         else s\<lparr>pk_draft := uniq (pk_draft s @ ids)\<rparr>)"

definition searchResults :: "jstr \<Rightarrow> location_district list" where
  "searchResults query =
     (let q = trim query
      in if q \<noteq> [] then concat (map (\<lambda>city. filter (\<lambda>d. includes_str (ld_districtLabel d) q
             \<or> includes_str (lc_cityLabel city) q) (lc_districts city)) LOCATION_GROUPS)
         else [])"

definition activeCity :: "jstr \<Rightarrow> location_city option" where
  "activeCity code = find (\<lambda>c. lc_cityCode c = code) LOCATION_GROUPS"

definition recommendedDistricts :: "location_district list" where
  "recommendedDistricts = concat (map (\<lambda>c. filter (\<lambda>d. ld_id d \<in> set RECOMMENDED_LOCATION_IDS) (lc_districts c))
     LOCATION_GROUPS)"

section \<open>View\<close>

datatype picker_event =
    OpenWith "jstr list" | Closed
  | Query jstr | Dismiss | ClearAll | ToggleRecommended
  | ToggleDistrict jstr | ActivateCity jstr | ToggleCity location_city | ConfirmPick

definition city_checkbox :: "city_state \<Rightarrow> 'e node" where
  "city_checkbox st = (case st of
     CSAll \<Rightarrow> Mark True [] | CSPartial \<Rightarrow> Mark True [Box []] | CSNone \<Rightarrow> Mark False [])"

definition district_checkbox :: "bool \<Rightarrow> 'e node" where
  "district_checkbox checked = Mark checked []"

text \<open>The search bar, the counter line and the recommended districts.\<close>

definition picker_header :: "picker \<Rightarrow> picker_event node list" where
  "picker_header s = [
     Box [Inp False (pk_query s) Query, Txt t_picker_title, Btn False Dismiss [Txt t_picker_close]],
     Box [Txt (t_picker_selected @ show_nat (length (pk_draft s))),
          Box (shown (length (pk_draft s) > 0) [Btn False ClearAll [Txt t_picker_clear]]),
          Btn False ToggleRecommended [Txt t_picker_recommended, Mark (pk_recommendedExpanded s) []]],
     Box (shown (pk_recommendedExpanded s) (map (\<lambda>d. Btn False (ToggleDistrict (ld_id d))
            [Mark (ld_id d \<in> set (pk_draft s)) [Txt (ld_label d)]]) recommendedDistricts))]"

text \<open>The search results, or the two panels: the cities with their counts, the districts of the active one.\<close>

definition picker_body :: "picker \<Rightarrow> picker_event node" where
  "picker_body s =
     (let draftSet = set (pk_draft s); results = searchResults (pk_query s)
      in if trim (pk_query s) \<noteq> [] then
           Box (if results = [] then [Txt t_picker_no_result]
                else map (\<lambda>d. Box [district_checkbox (ld_id d \<in> draftSet),
                       Btn False (ToggleDistrict (ld_id d)) [Txt (ld_label d)]]) results)
         else
           Box [Box (map (\<lambda>city.
                  let count = length (filter (\<lambda>d. ld_id d \<in> draftSet) (lc_districts city))
                  in Btn False (ActivateCity (lc_cityCode city))
                       [Mark (pk_activeCityCode s = lc_cityCode city) (Txt (lc_cityLabel city)
                          # shown (count > 0) [Mark (cityState city draftSet = CSAll) [Txt (show_nat count)]])])
                  LOCATION_GROUPS),
                Box (case activeCity (pk_activeCityCode s) of None \<Rightarrow> []
                   | Some city \<Rightarrow>
                       Btn False (ToggleCity city) [city_checkbox (cityState city draftSet), Txt (lc_cityLabel city)]
                       # map (\<lambda>d. Btn False (ToggleDistrict (ld_id d)) [Mark (ld_id d \<in> draftSet)
                            [district_checkbox (ld_id d \<in> draftSet), Txt (ld_districtLabel d)]]) (lc_districts city))])"

definition picker_view :: "picker \<Rightarrow> picker_event node" where
  "picker_view s = modal (pk_open s) Dismiss
     (picker_header s @ [picker_body s, Btn False ConfirmPick [Txt t_picker_confirm]])"

section \<open>The machine\<close>

text \<open>
  A step yields the selection handed to the form's \<open>onChange\<close>, if any. The parent opens the dialog with
  the form's current value and closes it when \<open>onClose\<close> is called (\<open>Dismiss\<close>, \<open>ConfirmPick\<close>).
\<close>

fun picker_step :: "picker \<Rightarrow> picker_event \<Rightarrow> picker \<times> jstr list option" where
  "picker_step s (OpenWith v) = (open_with v s, None)"
| "picker_step s Closed = (s\<lparr>pk_open := False\<rparr>, None)"
| "picker_step s (Query q) = (s\<lparr>pk_query := q\<rparr>, None)"
| "picker_step s Dismiss = (s\<lparr>pk_open := False\<rparr>, None)"
| "picker_step s ClearAll = (s\<lparr>pk_draft := []\<rparr>, None)"
| "picker_step s ToggleRecommended = (s\<lparr>pk_recommendedExpanded := \<not> pk_recommendedExpanded s\<rparr>, None)"
| "picker_step s (ToggleDistrict i) = (toggleDistrict i s, None)"
| "picker_step s (ActivateCity c) = (s\<lparr>pk_activeCityCode := c\<rparr>, None)"
| "picker_step s (ToggleCity c) = (toggleCity c s, None)"
| "picker_step s ConfirmPick = (s\<lparr>pk_open := False\<rparr>, Some (pk_draft s))"

definition known_ids :: "jstr list \<Rightarrow> bool" where
  "known_ids xs \<longleftrightarrow> distinct xs \<and> set xs \<subseteq> ld_id ` set LOCATIONS"

fun picker_can :: "picker \<Rightarrow> picker_event \<Rightarrow> bool" where
  "picker_can s (OpenWith v) = (\<not> pk_open s \<and> known_ids v)"
| "picker_can s Closed = True"
| "picker_can s e = offers (picker_view s) e"

definition picker_inv :: "picker \<Rightarrow> bool" where
  "picker_inv s \<longleftrightarrow> known_ids (pk_draft s) \<and> activeCity (pk_activeCityCode s) \<noteq> None"

section \<open>Search\<close>

lemma searchResults_iff:
  "d \<in> set (searchResults q) \<longleftrightarrow> trim q \<noteq> [] \<and>
     (\<exists>c \<in> set LOCATION_GROUPS. d \<in> set (lc_districts c) \<and>
        (includes_str (ld_districtLabel d) (trim q) \<or> includes_str (lc_cityLabel c) (trim q)))"
  by (auto simp: searchResults_def Let_def)

lemma searchResults_in_table: "d \<in> set (searchResults q) \<Longrightarrow> ld_id d \<in> ld_id ` set LOCATIONS"
  by (auto simp: searchResults_iff LOCATIONS_def)

lemma recommended_iff: "d \<in> set recommendedDistricts \<longleftrightarrow> d \<in> set LOCATIONS \<and> ld_id d \<in> set RECOMMENDED_LOCATION_IDS"
  by (auto simp: recommendedDistricts_def LOCATIONS_def)

section \<open>Toggling a city\<close>

lemma length_filter_all: "length (filter P xs) = length xs \<longleftrightarrow> (\<forall>x \<in> set xs. P x)"
  using length_filter_less [of _ xs P] by (metis filter_True nat_neq_iff)

lemma cityState_All: "lc_districts c \<noteq> [] \<Longrightarrow> cityState c S = CSAll \<longleftrightarrow> ld_id ` set (lc_districts c) \<subseteq> S"
  using length_filter_all [of "\<lambda>i. i \<in> S" "map ld_id (lc_districts c)"]
  by (auto simp: cityState_def Let_def filter_empty_conv simp del: filter_map)

lemma cityState_None: "cityState c S = CSNone \<longleftrightarrow> ld_id ` set (lc_districts c) \<inter> S = {}"
  by (auto simp: cityState_def Let_def filter_empty_conv)

lemma toggleCity_set:
  "set (pk_draft (toggleCity c s)) =
     (if ld_id ` set (lc_districts c) \<subseteq> set (pk_draft s) then set (pk_draft s) - ld_id ` set (lc_districts c)
      else set (pk_draft s) \<union> ld_id ` set (lc_districts c))"
  by (auto simp: toggleCity_def Let_def list_all_iff)

lemma toggleCity_known:
  "known_ids (pk_draft s) \<Longrightarrow> c \<in> set LOCATION_GROUPS \<Longrightarrow> known_ids (pk_draft (toggleCity c s))"
  unfolding known_ids_def toggleCity_set
  by (auto simp: toggleCity_def Let_def LOCATIONS_def)

lemma toggleDistrict_known:
  "known_ids (pk_draft s) \<Longrightarrow> i \<in> ld_id ` set LOCATIONS \<Longrightarrow> known_ids (pk_draft (toggleDistrict i s))"
  by (auto simp: known_ids_def toggleDistrict_def tog.set_toggle intro: tog.distinct_toggle)

section \<open>What the view offers\<close>

lemma offers_checkboxes [simp]: "\<not> offers (city_checkbox st) e" "\<not> offers (district_checkbox b) e"
  by (auto simp: city_checkbox_def district_checkbox_def split: city_state.splits)

lemma in_LOCATIONS: "d \<in> set LOCATIONS \<longleftrightarrow> (\<exists>c \<in> set LOCATION_GROUPS. d \<in> set (lc_districts c))"
  by (auto simp: LOCATIONS_def)

lemma activeCity_SomeD: "activeCity k = Some c \<Longrightarrow> c \<in> set LOCATION_GROUPS"
  by (auto simp: activeCity_def dest: find_SomeD)

lemmas picker_view_simps = picker_view_def picker_header_def picker_body_def Let_def list_ex_iff shown_def

lemma offers_ToggleDistrict: "offers (picker_view s) (ToggleDistrict i) \<Longrightarrow> i \<in> ld_id ` set LOCATIONS"
  by (auto simp: picker_view_simps recommended_iff in_LOCATIONS searchResults_iff intro!: imageI
      dest!: activeCity_SomeD activeCity_SomeD [OF sym] split: if_splits option.splits) blast+

lemma offers_ToggleCity: "offers (picker_view s) (ToggleCity c) \<Longrightarrow> c \<in> set LOCATION_GROUPS"
  by (auto simp: picker_view_simps dest!: activeCity_SomeD activeCity_SomeD [OF sym] split: if_splits option.splits)

lemma offers_ActivateCity: "offers (picker_view s) (ActivateCity k) \<Longrightarrow> k \<in> lc_cityCode ` set LOCATION_GROUPS"
  by (auto simp: picker_view_simps dest!: activeCity_SomeD activeCity_SomeD [OF sym] split: if_splits option.splits)

lemma activeCity_known: "k \<in> lc_cityCode ` set LOCATION_GROUPS \<Longrightarrow> activeCity k \<noteq> None"
  by (auto simp: activeCity_def find_map_None)

lemma first_city_known: "activeCity first_city_code \<noteq> None"
  by (rule activeCity_known) (simp add: first_city_code_def LOCATION_GROUPS_def)

lemma picker_inv_init: "picker_inv picker_init"
  using first_city_known by (simp add: picker_inv_def picker_init_def known_ids_def)

lemma picker_inv_step: "picker_inv s \<Longrightarrow> picker_can s e \<Longrightarrow> picker_inv (fst (picker_step s e))"
proof (cases e)
  case (ToggleDistrict i)
  then show "picker_inv s \<Longrightarrow> picker_can s e \<Longrightarrow> ?thesis"
    using offers_ToggleDistrict toggleDistrict_known by (auto simp: picker_inv_def toggleDistrict_def)
next
  case (ToggleCity c)
  then show "picker_inv s \<Longrightarrow> picker_can s e \<Longrightarrow> ?thesis"
    using offers_ToggleCity toggleCity_known by (auto simp: picker_inv_def) (auto simp: toggleCity_def Let_def)
next
  case (ActivateCity k)
  then show "picker_inv s \<Longrightarrow> picker_can s e \<Longrightarrow> ?thesis"
    using offers_ActivateCity activeCity_known by (auto simp: picker_inv_def)
qed (use first_city_known in \<open>auto simp: picker_inv_def open_with_def known_ids_def\<close>)

interpretation picker: guarded_machine "\<lambda>s. s = picker_init" picker_can "\<lambda>s e. fst (picker_step s e)" picker_inv
  by unfold_locales (auto intro: picker_inv_init picker_inv_step)

section \<open>Properties\<close>

abbreviation picker_reach :: "picker \<Rightarrow> bool" where
  "picker_reach \<equiv> reach (\<lambda>s. s = picker_init) picker_can (\<lambda>s e. fst (picker_step s e))"

lemma known_example: "known_ids [js ''01-0102'']"
  using recommended_in_table by (auto simp: known_ids_def RECOMMENDED_LOCATION_IDS_def)

text \<open>
  C15. Whatever the user does in the picker, the selection it hands to the form is the draft, has no
  duplicates and names only locations of the table, and the city shown on the right exists.
\<close>

theorem picker_confirms_known_ids:
  assumes "picker_reach s" and "picker_can s e" and "snd (picker_step s e) = Some ids"
  shows "ids = pk_draft s \<and> distinct ids \<and> set ids \<subseteq> ld_id ` set LOCATIONS
       \<and> (\<exists>c \<in> set LOCATION_GROUPS. activeCity (pk_activeCityCode s) = Some c)"
proof -
  from assms(1) have "picker_inv s" by (rule picker.reach_inv)
  with assms(3) show ?thesis
    by (cases e) (auto simp: picker_inv_def known_ids_def dest: activeCity_SomeD)
qed

lemma picker_confirms_known_ids_witness:
  "let s = fst (picker_step (fst (picker_step picker_init (OpenWith [js ''01-0102'']))) ToggleRecommended)
   in picker_reach s \<and> picker_can s ConfirmPick \<and> snd (picker_step s ConfirmPick) = Some [js ''01-0102'']
      \<and> distinct [js ''01-0102'']"
proof -
  let ?s1 = "fst (picker_step picker_init (OpenWith [js ''01-0102'']))"
  let ?s = "fst (picker_step ?s1 ToggleRecommended)"
  have r0: "picker_reach picker_init" by (rule picker.reach_init) (rule refl)
  have c0: "picker_can picker_init (OpenWith [js ''01-0102''])"
    using known_example by (simp add: picker_init_def)
  have r1: "picker_reach ?s1" by (rule picker.reach_next [OF r0 c0])
  have c1: "picker_can ?s1 ToggleRecommended"
    by (simp add: picker_view_simps open_with_def)
  have r: "picker_reach ?s" by (rule picker.reach_next [OF r1 c1])
  have c: "picker_can ?s ConfirmPick" by (simp add: picker_view_simps open_with_def)
  have o: "snd (picker_step ?s ConfirmPick) = Some [js ''01-0102'']" by (simp add: open_with_def)
  from picker_confirms_known_ids [OF r c o] r c o show ?thesis by (simp only: Let_def)
qed

text \<open>
  C16. The select-all row of a city: if every district of the city is selected it clears them all,
  otherwise it selects them all; the other cities keep their state, and the rest of the draft keeps its
  order.
\<close>

theorem toggleCity_all_or_nothing:
  assumes "c \<in> set LOCATION_GROUPS" and "known_ids (pk_draft s)"
  shows "cityState c (set (pk_draft (toggleCity c s)))
           = (if cityState c (set (pk_draft s)) = CSAll then CSNone else CSAll) \<and>
         (\<forall>c' \<in> set LOCATION_GROUPS. c' \<noteq> c \<longrightarrow>
            cityState c' (set (pk_draft (toggleCity c s))) = cityState c' (set (pk_draft s))) \<and>
         filter (\<lambda>i. i \<notin> ld_id ` set (lc_districts c)) (pk_draft (toggleCity c s))
           = filter (\<lambda>i. i \<notin> ld_id ` set (lc_districts c)) (pk_draft s)"
proof (intro conjI ballI impI)
  have ne: "lc_districts c \<noteq> []"
    using table_ok assms(1) by (auto simp: groups_ok_def list_all_iff city_ok_def)
  then show "cityState c (set (pk_draft (toggleCity c s)))
       = (if cityState c (set (pk_draft s)) = CSAll then CSNone else CSAll)"
    using cityState_All [OF ne] by (auto simp: cityState_None toggleCity_set)
next
  fix c' assume c': "c' \<in> set LOCATION_GROUPS" "c' \<noteq> c"
  then have "i \<notin> ld_id ` set (lc_districts c)" if "i \<in> ld_id ` set (lc_districts c')" for i
    using that table.same_id [OF assms(1)] by fastforce
  then have "filter (\<lambda>i. i \<in> set (pk_draft (toggleCity c s))) (map ld_id (lc_districts c'))
      = filter (\<lambda>i. i \<in> set (pk_draft s)) (map ld_id (lc_districts c'))"
    by (intro filter_cong) (auto simp: toggleCity_set)
  then show "cityState c' (set (pk_draft (toggleCity c s))) = cityState c' (set (pk_draft s))"
    by (simp only: cityState_def Let_def)
next
  have "filter (\<lambda>i. i \<notin> A) (uniq (xs @ ys)) = filter (\<lambda>i. i \<notin> A) xs" if "distinct xs" "set ys \<subseteq> A" for xs ys :: "jstr list" and A
    using that by (simp add: filter_uniq filter_empty_conv [THEN iffD2] subset_iff)
  then show "filter (\<lambda>i. i \<notin> ld_id ` set (lc_districts c)) (pk_draft (toggleCity c s))
           = filter (\<lambda>i. i \<notin> ld_id ` set (lc_districts c)) (pk_draft s)"
    using assms(2) by (simp add: toggleCity_def Let_def known_ids_def)
qed

lemma toggleCity_all_or_nothing_witness:
  "cityState city_01 (set (pk_draft (toggleCity city_01 (picker_init\<lparr>pk_draft := [js ''01-0102'']\<rparr>))))
     = (if cityState city_01 (set (pk_draft (picker_init\<lparr>pk_draft := [js ''01-0102'']\<rparr>))) = CSAll then CSNone else CSAll)"
proof -
  have "city_01 \<in> set LOCATION_GROUPS" by (simp add: LOCATION_GROUPS_def)
  moreover have "known_ids (pk_draft (picker_init\<lparr>pk_draft := [js ''01-0102'']\<rparr>))"
    using known_example by simp
  ultimately show ?thesis by (rule toggleCity_all_or_nothing [THEN conjunct1])
qed

text \<open>
  C29. The search finds exactly the districts whose own label or whose city's label contains the trimmed
  query, each once and in the order of the table; a blank query finds nothing.
\<close>

theorem search_sound_and_complete:
  "set (searchResults q) = {d. trim q \<noteq> [] \<and> (\<exists>c \<in> set LOCATION_GROUPS. d \<in> set (lc_districts c) \<and>
      ((\<exists>a b. ld_districtLabel d = a @ trim q @ b) \<or> (\<exists>a b. lc_cityLabel c = a @ trim q @ b)))} \<and>
   subseq (searchResults q) LOCATIONS \<and> distinct (map ld_id (searchResults q))"
proof (intro conjI)
  have sub0: "subseq (concat (map (\<lambda>c. filter (P c) (lc_districts c)) cs)) (concat (map lc_districts cs))" for P cs
    by (induction cs) (auto intro: list_emb_append_mono)
  show sub: "subseq (searchResults q) LOCATIONS"
    by (simp add: searchResults_def Let_def LOCATIONS_def sub0)
  show "distinct (map ld_id (searchResults q))"
    using subseq_map [OF sub] ids_distinct_concat by (rule distinct_subseq)
qed (auto simp: searchResults_iff includes_str_iff, blast+)

end
