(* ===== verification/ApiProps.thy ===== *)
theory ApiProps
  imports ApiClient Queries
begin

text \<open>
  The properties of the HTTP layer, over the reachable states of the machine of \<open>ApiClient\<close>, and of the
  query cache. Each is read off the invariant \<open>api_inv\<close> that every reachable state has.
\<close>

text \<open>
  A concrete history for the witnesses: on a dashboard page two requests go out, both are refused with
  401, the shared refresh succeeds and both are sent again.
\<close>

definition two_401s :: "api_event list" where
  "two_401s = [Send (Some (js ''/a'')), Send None, Fail 0 (Some 401) True, Fail 0 (Some 401) True]"

definition example_state :: "api_event list \<Rightarrow> client" where
  "example_state es = (case run api_enabled api_step (api_init True (js ''/account'')) es of
     Some s \<Rightarrow> s | None \<Rightarrow> api_init True [])"

lemmas api_eval = example_state_def two_401s_def api_init_def send_def fulfil_def fail_def refresh_ok_def
  refresh_fail_def resend_def on_error_def splice_out_def root_path_def refresh_url_def refresh_config_def
  js_def includes_str_def starts_with_def

lemma example_reach:
  "run api_enabled api_step (api_init True (js ''/account'')) es \<noteq> None \<Longrightarrow> api_reach (example_state es)"
proof -
  have "api_start (api_init True (js ''/account''))" by blast
  from reach_from_start [where start = api_start, OF _ this]
  show "run api_enabled api_step (api_init True (js ''/account'')) es \<noteq> None \<Longrightarrow> ?thesis"
    by (auto simp: example_state_def)
qed

text \<open>
  C1. No promise is lost and none is settled twice: at every moment, the requests issued so far are
  exactly those in flight, suspended behind a refresh, or settled, each once.
\<close>

theorem promises_conserved:
  assumes "api_reach s"
  shows "mset (map cfg_id (in_flight s)) + mset (map fst (waiting s)) + mset (map fst (settled s))
           = mset_set {0..<issued s}"
  using api.reach_inv [OF assms] by (simp add: api_inv_def open_ids_def)

lemma two_401s_runs: "run api_enabled api_step (api_init True (js ''/account'')) two_401s \<noteq> None"
  by (simp add: api_eval)

lemma promises_conserved_witness:
  "mset (map cfg_id (in_flight (example_state two_401s))) + mset (map fst (waiting (example_state two_401s)))
     + mset (map fst (settled (example_state two_401s))) = mset_set {0..<issued (example_state two_401s)}
   \<and> map fst (waiting (example_state two_401s)) = [0, 1]"
  using promises_conserved [OF example_reach [OF two_401s_runs]] by (simp add: api_eval)

text \<open>
  C2. At most one refresh call is running at any time; one is running exactly when some request waits
  for it; and a waiting request that has its config is one that has been sent once and not yet retried.
\<close>

theorem single_shared_refresh:
  assumes "api_reach s"
  shows "refresh_calls s - refresh_ends s \<le> 1 \<and> refresh_ends s \<le> refresh_calls s \<and>
         (refreshing s \<longleftrightarrow> refresh_calls s = Suc (refresh_ends s)) \<and>
         (refreshing s \<longleftrightarrow> waiting s \<noteq> []) \<and>
         (\<forall>(i, c) \<in> set (waiting s). \<forall>d. c = Some d \<longrightarrow>
            count (mset (sent s)) i = 1 \<and> cfg_id d = i \<and> \<not> cfg_retry d)"
  using api.reach_inv [OF assms] by (auto simp: api_inv_def waiter_ok_def attempts_def)

lemma single_shared_refresh_witness:
  "refresh_calls (example_state two_401s) = 1 \<and> refreshing (example_state two_401s)
   \<and> (refreshing (example_state two_401s) \<longleftrightarrow> waiting (example_state two_401s) \<noteq> [])"
  using single_shared_refresh [OF example_reach [OF two_401s_runs]] by (simp add: api_eval)

text \<open>
  C3. Every request is sent at most twice: the original attempt and one retry after a refresh. A
  request in flight that is marked as a retry is its second attempt, and its failure is final.
\<close>

theorem at_most_one_retry:
  assumes "api_reach s"
  shows "count (mset (sent s)) i \<le> 2 \<and>
         (\<forall>k < length (in_flight s). cfg_retry (in_flight s ! k) \<longrightarrow>
            count (mset (sent s)) (cfg_id (in_flight s ! k)) = 2 \<and>
            (cfg_id (in_flight s ! k), False) \<in> set (settled (api_step s (Fail k st True))))"
proof -
  have inv: "api_inv s" by (rule api.reach_inv [OF assms])
  then have "\<forall>c \<in> set (in_flight s). flight_ok s c" "budget_ok s" by (auto simp: api_inv_def)
  moreover have "on_error w p st (Some c) \<noteq> Await" if "cfg_retry c" for w p c
    using that on_error_Await by blast
  then have "(cfg_id (in_flight s ! k), False) \<in> set (settled (api_step s (Fail k st True)))"
    if "cfg_retry (in_flight s ! k)" for k
    using that by (auto simp: fail_def Let_def split: verdict.split)
  ultimately show ?thesis by (auto simp: flight_ok_def budget_ok_def attempts_def)
qed

lemma retried_runs: "run api_enabled api_step (api_init True (js ''/account'')) (two_401s @ [RefreshOk]) \<noteq> None"
  by (simp add: api_eval)

lemma at_most_one_retry_witness:
  "cfg_retry (in_flight (example_state (two_401s @ [RefreshOk])) ! 0)
   \<and> count (mset (sent (example_state (two_401s @ [RefreshOk])))) 0 \<le> 2"
  using at_most_one_retry [OF example_reach [OF retried_runs], of 0] by (simp add: api_eval)

text \<open>
  C5. When the refresh call fails, with whatever status, every request that waited for it is rejected,
  nothing waits any longer, nothing is sent again, and, unless the user is already on the landing page,
  each of them sends the user there. In particular the refresh never waits for itself.
\<close>

theorem refresh_failure_rejects_all:
  assumes "api_reach s"
  shows "waiting (refresh_fail st s) = [] \<and> \<not> refreshing (refresh_fail st s) \<and>
         in_flight (refresh_fail st s) = in_flight s \<and>
         settled (refresh_fail st s) = settled s @ map (\<lambda>w. (fst w, False)) (waiting s) \<and>
         (pathname s \<noteq> root_path \<longrightarrow> redirects s + length (waiting s) \<le> redirects (refresh_fail st s)) \<and>
         (pathname s = root_path \<longrightarrow> redirects (refresh_fail st s) = redirects s)"
proof -
  obtain r where r: "on_error (browser s) (pathname s) st (Some (refresh_config (issued s))) = Reject r"
    using refresh_config_rejects by blast
  then have "pathname s = root_path \<Longrightarrow> \<not> r" by (auto simp: on_error_def split: if_splits)
  with r show ?thesis by (auto simp: refresh_fail_def resume_fail_frame)
qed

lemma refresh_failure_rejects_all_witness:
  "settled (refresh_fail (Some 401) (example_state two_401s)) = [(0, False), (1, False)]"
  using refresh_failure_rejects_all [OF example_reach [OF two_401s_runs], of "Some 401"]
  by (simp add: api_eval)

text \<open>
  C4. The client settles. From any reachable state, at most four answers per issued request can arrive
  if no new request is sent; as long as anything is open some answer can still arrive; and once nothing
  is in flight and no refresh is running every issued promise has been settled exactly once.
\<close>

theorem every_promise_settles:
  assumes "api_reach s" and "run api_enabled api_step s es = Some t" and "list_all is_answer es"
  shows "length es \<le> 4 * issued s \<and>
         (if quiet t then mset (map fst (settled t)) = mset_set {0..<issued t}
          else \<exists>e. is_answer e \<and> api_enabled t e)"
proof -
  have inv: "api_inv s" by (rule api.reach_inv [OF assms(1)])
  have "api_inv t" "potential t + length es \<le> potential s"
    using answers_bounded [OF assms(2,3) inv] by auto
  then show ?thesis
    using potential_bound [OF inv] quiet_settled [of t] not_quiet_answer [of t] by auto
qed

lemma every_promise_settles_witness:
  "let s = example_state two_401s; t = the (run api_enabled api_step s [RefreshOk, Fulfil 0, Fail 0 (Some 500) True])
   in quiet t \<and> mset (map fst (settled t)) = mset_set {0..<issued t} \<and> settled t = [(0, True), (1, False)]"
proof -
  let ?s = "example_state two_401s" and ?es = "[RefreshOk, Fulfil 0, Fail 0 (Some 500) True]"
  let ?t = "the (run api_enabled api_step ?s ?es)"
  have r: "run api_enabled api_step ?s ?es = Some ?t" by (simp add: api_eval)
  have q: "quiet ?t" "settled ?t = [(0, True), (1, False)]" by (simp_all add: api_eval quiet_def)
  from every_promise_settles [OF example_reach [OF two_401s_runs] r] q show ?thesis by simp
qed

text \<open>
  C13. The cache never mixes two resources: any two queries of the client that share a cache key fetch
  the same URL.
\<close>

theorem cache_coherent:
  assumes "q \<in> client_queries" and "q' \<in> client_queries" and "q_key q = q_key q'"
  shows "q_url q = q_url q'"
  using assms url_of_query_key by metis

lemma cache_coherent_witness:
  "q_url (slots_query (js ''a'')) = q_url (slots_query (js ''a'')) \<and> slots_query (js ''a'') \<in> client_queries"
  using cache_coherent [of "slots_query (js ''a'')" "slots_query (js ''a'')"]
  by (auto simp: client_queries_def)

text \<open>
  C12. Field errors of a failed request: the record the forms iterate over has one entry per field the
  server named, each with the last message given for it; without field errors the form shows the
  server's error text or the default, never both.
\<close>

theorem field_errors_reported:
  "distinct (map fst (extractFieldErrors err)) \<and>
   (\<forall>b fs. response_body err = Some b \<and> eb_fields b = Some fs \<longrightarrow>
      map_of (extractFieldErrors err) = map_of (rev (map (\<lambda>f. (fe_field f, fe_message f)) fs))) \<and>
   (case submit_error fix other err of (fe, banner) \<Rightarrow>
      fe = extractFieldErrors err \<and>
      banner = (if extractFieldErrors err \<noteq> [] then fix else error_or other err))"
  by (auto simp: distinct_from_entries extractFieldErrors_def map_of_from_entries submit_error_def
      Let_def split: option.splits)

lemma field_errors_reported_witness:
  "let err = HasResponse (Some (Some \<lparr>eb_fields = Some [\<lparr>fe_field = js ''rent'', fe_message = js ''a''\<rparr>,
       \<lparr>fe_field = js ''rent'', fe_message = js ''b''\<rparr>], eb_error = None\<rparr>))
   in map_of (extractFieldErrors err) (js ''rent'') = Some (js ''b'')"
  using field_errors_reported [of "HasResponse (Some (Some \<lparr>eb_fields = Some [\<lparr>fe_field = js ''rent'', fe_message = js ''a''\<rparr>,
       \<lparr>fe_field = js ''rent'', fe_message = js ''b''\<rparr>], eb_error = None\<rparr>))" "[]" "[]"]
  by (simp add: response_body_def)

end
