(* ===== verification/PhotoSection.thy ===== *)
theory PhotoSection
  imports Ui ApiClient
begin

text \<open>
  The photos of a listing, \<open>PhotoSection\<close> in \<open>src/apps/web/features/listings/ListingFormModal.tsx\<close>:
  sequential upload with the cap of ten, deletion, and reordering by drag and drop on a local order
  that overrides the server's until the server reports the same order.
\<close>

section \<open>State\<close>

record photo_record =
  ph_id :: jstr
  ph_public_url :: jstr
  ph_position :: int

text \<open>
  \<open>ps_server\<close> is \<open>listing?.photo_list ?? []\<close> of the listing-detail query. A running \<open>upload\<close> is the
  files still to be posted (the head is being posted), the number of posts answered, the total and
  \<open>succeeded\<close>; a file is represented by its name.
\<close>

record upload_run =
  ur_files :: "jstr list"
  ur_index :: nat
  ur_total :: nat
  ur_succeeded :: nat

record photos =
  ps_listing :: jstr
  ps_server :: "photo_record list"
  ps_progress :: "(nat \<times> nat) option"
  ps_error :: jstr
  ps_localOrder :: "jstr list option"
  ps_dragId :: "jstr option"
  ps_upload :: "upload_run option"

datatype photo_out =
    PostPhoto jstr jstr           \<comment> \<open>path, file\<close>
  | DeletePhoto jstr
  | PatchOrder jstr "jstr list"   \<comment> \<open>path, \<open>photo_ids\<close>\<close>
  | InvalidateQuery query_key
  | OnChanged

definition server_ids :: "photos \<Rightarrow> jstr list" where
  "server_ids s = map ph_id (ps_server s)"

text \<open>The photos on display.\<close>

definition shown_photos :: "photos \<Rightarrow> photo_record list" where
  "shown_photos s = (case ps_localOrder s of
     None \<Rightarrow> ps_server s
   | Some order \<Rightarrow> List.map_filter (\<lambda>i. find (\<lambda>p. ph_id p = i) (ps_server s)) order)"

definition photos_init :: "jstr \<Rightarrow> photo_record list \<Rightarrow> photos" where
  "photos_init listing server = \<lparr>ps_listing = listing, ps_server = server, ps_progress = None, ps_error = [],
     ps_localOrder = None, ps_dragId = None, ps_upload = None\<rparr>"

definition photos_path :: "photos \<Rightarrow> jstr" where
  "photos_path s = js ''/listings/'' @ ps_listing s @ js ''/photos''"

section \<open>Upload\<close>

text \<open>The \<open>finally\<close> block.\<close>

definition finish_upload :: "nat \<Rightarrow> photos \<Rightarrow> photos \<times> photo_out list" where
  "finish_upload succeeded s =
     (s\<lparr>ps_progress := None, ps_upload := None\<rparr>,
      shown (succeeded > 0) [InvalidateQuery (qk_listingDetail (ps_listing s)), OnChanged])"

definition upload :: "jstr list \<Rightarrow> photos \<Rightarrow> photos \<times> photo_out list" where
  "upload chosen s =
     (let remaining = 10 - int (length (shown_photos s));
          files = slice_to remaining chosen
      in if files = [] then (s, [])
         else (s\<lparr>ps_progress := Some (0, length files),
                 ps_error := (if int (length chosen) > remaining
                   then t_selected_1 @ show_nat (length chosen) @ t_selected_2 @ show_int remaining @ t_selected_3
                   else []),
                 ps_upload := Some \<lparr>ur_files = files, ur_index = 0, ur_total = length files, ur_succeeded = 0\<rparr>\<rparr>,
               [PostPhoto (photos_path s) (hd files)]))"

definition upload_ok :: "photos \<Rightarrow> photos \<times> photo_out list" where
  "upload_ok s = (case ps_upload s of
     None \<Rightarrow> (s, [])
   | Some u \<Rightarrow>
       (let rest = tl (ur_files u); n = Suc (ur_succeeded u);
            s' = s\<lparr>ps_progress := Some (Suc (ur_index u), ur_total u)\<rparr>
        in if rest = [] then finish_upload n s'
           else (s'\<lparr>ps_upload := Some \<lparr>ur_files = rest, ur_index = Suc (ur_index u), ur_total = ur_total u,
                   ur_succeeded = n\<rparr>\<rparr>,
                 [PostPhoto (photos_path s) (hd rest)])))"

definition upload_err :: "thrown \<Rightarrow> photos \<Rightarrow> photos \<times> photo_out list" where
  "upload_err err s = (case ps_upload s of
     None \<Rightarrow> (s, [])
   | Some u \<Rightarrow> finish_upload (ur_succeeded u) (s\<lparr>ps_error := error_or t_upload_failed err\<rparr>))"

section \<open>Reordering\<close>

text \<open>\<open>localOrder ?? serverPhotos.map((p) => p.id)\<close>\<close>

definition current_order :: "photos \<Rightarrow> jstr list" where
  "current_order s = (case ps_localOrder s of Some l \<Rightarrow> l | None \<Rightarrow> server_ids s)"

definition onDragOver :: "jstr \<Rightarrow> photos \<Rightarrow> photos" where
  "onDragOver over s = (case ps_dragId s of
     None \<Rightarrow> s
   | Some d \<Rightarrow>
       (if d = [] \<or> d = over then s
        else let current = current_order s
          in case (index_of current d, index_of current over) of
               (Some from, Some to) \<Rightarrow> s\<lparr>ps_localOrder := Some (splice_in to d (splice_out from current))\<rparr>
             | _ \<Rightarrow> s))"

definition onDragEnd :: "photos \<Rightarrow> photos \<times> photo_out list" where
  "onDragEnd s =
     (s\<lparr>ps_dragId := None\<rparr>,
      case ps_localOrder s of
        None \<Rightarrow> []
      | Some order \<Rightarrow>
          (if join (js '','') order = join (js '','') (server_ids s) then []
           else [PatchOrder (photos_path s @ js ''/order'') order]))"

text \<open>The effect that drops the local order once the server has it.\<close>

definition settle_order :: "photos \<Rightarrow> photos" where
  "settle_order s = (case ps_localOrder s of
     None \<Rightarrow> s
   | Some order \<Rightarrow>
       (if join (js '','') (server_ids s) = join (js '','') order then s\<lparr>ps_localOrder := None\<rparr> else s))"

section \<open>The component\<close>

datatype photo_event =
    Choose "jstr list" | UploadOk | UploadErr thrown
  | DeleteClick jstr | DeleteOk
  | DragStart jstr | DragOver jstr | DragEnd | ReorderOk
  | ServerPhotos "photo_record list"

definition refresh_listing :: "photos \<Rightarrow> photo_out list" where
  "refresh_listing s = [InvalidateQuery (qk_listingDetail (ps_listing s)), OnChanged]"

fun photo_handler :: "photos \<Rightarrow> photo_event \<Rightarrow> photos \<times> photo_out list" where
  "photo_handler s (Choose fs) = upload fs s"
| "photo_handler s UploadOk = upload_ok s"
| "photo_handler s (UploadErr err) = upload_err err s"
| "photo_handler s (DeleteClick i) = (s, [DeletePhoto (photos_path s @ js ''/'' @ i)])"
| "photo_handler s DeleteOk = (s, refresh_listing s)"
| "photo_handler s (DragStart i) = (s\<lparr>ps_dragId := Some i\<rparr>, [])"
| "photo_handler s (DragOver i) = (onDragOver i s, [])"
| "photo_handler s DragEnd = onDragEnd s"
| "photo_handler s ReorderOk = (s, refresh_listing s)"
| "photo_handler s (ServerPhotos ps) = (s\<lparr>ps_server := ps\<rparr>, [])"

definition photo_step :: "photos \<Rightarrow> photo_event \<Rightarrow> photos \<times> photo_out list" where
  "photo_step s e = (case photo_handler s e of (t, out) \<Rightarrow> (settle_order t, out))"

definition photos_view :: "photos \<Rightarrow> photo_event node" where
  "photos_view s = Box (Txt t_photos_title
     # map (\<lambda>p. Mark (ps_dragId s = Some (ph_id p)) [Img (ph_public_url p), Btn False (DeleteClick (ph_id p)) []])
         (shown_photos s)
     @ shown (length (shown_photos s) < 10)
         [Mark (ps_progress s \<noteq> None) [
            Txt (case ps_progress s of Some (d, t) \<Rightarrow> show_nat d @ js ''/'' @ show_nat t | None \<Rightarrow> t_photos_add)]]
     @ [Txt t_photos_hint] @ shown (ps_error s \<noteq> []) [Txt (ps_error s)])"

text \<open>
  The file dialog opens from a button that is there only below ten photos and enabled only while no
  upload runs; drags start and end on the displayed photos; the rest are answers.
\<close>

fun photo_can :: "photos \<Rightarrow> photo_event \<Rightarrow> bool" where
  "photo_can s (Choose fs) = (length (shown_photos s) < 10 \<and> ps_progress s = None)"
| "photo_can s UploadOk = (ps_upload s \<noteq> None)"
| "photo_can s (UploadErr err) = (ps_upload s \<noteq> None)"
| "photo_can s (DeleteClick i) = (i \<in> ph_id ` set (shown_photos s))"
| "photo_can s (DragStart i) = (i \<in> ph_id ` set (shown_photos s))"
| "photo_can s (DragOver i) = (i \<in> ph_id ` set (shown_photos s))"
| "photo_can s (ServerPhotos ps) = (length ps \<le> 10 \<and> distinct (map ph_id ps))"
| "photo_can s _ = True"

section \<open>Invariant\<close>

text \<open>
  The running upload and the progress shown agree, every post but the last has succeeded, and no list of
  photos has a duplicate.
\<close>

definition upload_inv :: "photos \<Rightarrow> bool" where
  "upload_inv s \<longleftrightarrow> (case ps_upload s of
     None \<Rightarrow> ps_progress s = None
   | Some u \<Rightarrow> ps_progress s = Some (ur_index u, ur_total u) \<and> ur_files u \<noteq> [] \<and>
       ur_index u + length (ur_files u) = ur_total u \<and> ur_succeeded u = ur_index u \<and> ur_total u \<le> 10)"

definition photos_inv :: "photos \<Rightarrow> bool" where
  "photos_inv s \<longleftrightarrow> upload_inv s \<and> length (ps_server s) \<le> 10 \<and> distinct (server_ids s) \<and>
     (\<forall>l. ps_localOrder s = Some l \<longrightarrow> distinct l)"

lemma settle_order_frame [simp]:
  "ps_upload (settle_order s) = ps_upload s" "ps_progress (settle_order s) = ps_progress s"
  "ps_server (settle_order s) = ps_server s" "ps_error (settle_order s) = ps_error s"
  "ps_dragId (settle_order s) = ps_dragId s" "ps_listing (settle_order s) = ps_listing s"
  by (auto simp: settle_order_def split: option.splits)

lemma settle_order_inv: "photos_inv s \<Longrightarrow> photos_inv (settle_order s)"
  by (auto simp: photos_inv_def upload_inv_def server_ids_def settle_order_def split: option.splits)

lemma map_filter_find:
  "distinct is \<Longrightarrow> distinct (map ph_id (List.map_filter (\<lambda>i. find (\<lambda>p. ph_id p = i) ps) is))
     \<and> set (map ph_id (List.map_filter (\<lambda>i. find (\<lambda>p. ph_id p = i) ps) is)) \<subseteq> set is \<inter> ph_id ` set ps"
  by (induction "is") (auto simp: map_filter_simps dest: find_SomeD split: option.splits)

lemma fst_photo_step: "fst (photo_step s e) = settle_order (fst (photo_handler s e))"
  by (simp add: photo_step_def split: prod.splits)

lemma shown_in_order: "ps_localOrder s = Some l \<Longrightarrow> ph_id ` set (shown_photos s) \<subseteq> set l"
proof -
  have "ph_id ` set (List.map_filter (\<lambda>i. find (\<lambda>p. ph_id p = i) ps) xs) \<subseteq> set xs" for ps xs
    by (induction xs) (auto simp: map_filter_simps dest: find_SomeD split: option.splits)
  then show "ps_localOrder s = Some l \<Longrightarrow> ?thesis" by (simp add: shown_photos_def)
qed

lemma shown_photos_ids:
  "photos_inv s \<Longrightarrow> distinct (map ph_id (shown_photos s)) \<and> ph_id ` set (shown_photos s) \<subseteq> set (server_ids s)"
proof (cases "ps_localOrder s")
  case (Some l)
  show "photos_inv s \<Longrightarrow> ?thesis"
    using map_filter_find [of l "ps_server s"] Some by (simp add: photos_inv_def shown_photos_def server_ids_def)
qed (simp add: photos_inv_def shown_photos_def server_ids_def)

lemma shown_photos_length: "photos_inv s \<Longrightarrow> length (shown_photos s) \<le> 10"
proof -
  assume inv: "photos_inv s"
  then have "card (ph_id ` set (shown_photos s)) \<le> card (set (server_ids s))"
    using shown_photos_ids by (intro card_mono) auto
  also have "\<dots> \<le> 10" using inv by (metis card_length length_map le_trans photos_inv_def server_ids_def)
  finally show ?thesis using shown_photos_ids [OF inv] by (metis distinct_card length_map list.set_map)
qed

section \<open>Every event keeps it\<close>

lemma upload_inv_frame [simp]:
  "upload_inv (s\<lparr>ps_localOrder := l\<rparr>) = upload_inv s" "upload_inv (s\<lparr>ps_dragId := d\<rparr>) = upload_inv s"
  "upload_inv (s\<lparr>ps_server := ps\<rparr>) = upload_inv s"
  by (simp_all add: upload_inv_def cong: option.case_cong)

lemma settle_order_invD: "photos_inv t \<Longrightarrow> photo_handler s e = (t, out) \<Longrightarrow> photos_inv (fst (photo_step s e))"
  by (simp add: photo_step_def settle_order_inv)

lemma length_slice_to_le: "length (slice_to k xs) \<le> length xs"
  by (simp add: slice_to_def)

lemma inv_upload: "photos_inv s \<Longrightarrow> photo_can s (Choose fs) \<Longrightarrow> photos_inv (fst (upload fs s))"
proof (cases "slice_to (10 - int (length (shown_photos s))) fs = []")
  case False
  then show "photos_inv s \<Longrightarrow> photo_can s (Choose fs) \<Longrightarrow> ?thesis"
    by (auto simp: upload_def Let_def photos_inv_def upload_inv_def length_slice_to server_ids_def)
qed (simp add: upload_def)

lemma inv_upload_ok: "photos_inv s \<Longrightarrow> photos_inv (fst (upload_ok s))"
  by (cases "ps_upload s") (auto simp: upload_ok_def Let_def finish_upload_def photos_inv_def upload_inv_def
      server_ids_def neq_Nil_conv)

lemma inv_upload_err: "photos_inv s \<Longrightarrow> photos_inv (fst (upload_err err s))"
  by (cases "ps_upload s") (auto simp: upload_err_def finish_upload_def photos_inv_def upload_inv_def server_ids_def)

lemma distinct_mset: "mset xs = mset ys \<Longrightarrow> distinct xs = distinct ys"
  by (metis mset_eq_imp_distinct_iff)

lemma mset_splice_move:
  assumes "index_of xs d = Some i" shows "mset (splice_in j d (splice_out i xs)) = mset xs"
proof -
  have "i < length xs" "xs ! i = d" using index_of_Some [OF assms] by auto
  then show ?thesis using mset_splice_out [of i xs] by (simp add: mset_splice_in)
qed

lemma onDragOver_cases:
  obtains (same) "onDragOver over s = s"
  | (moved) d i j where "ps_dragId s = Some d" "d \<noteq> over"
      "index_of (current_order s) d = Some i" "index_of (current_order s) over = Some j"
      "onDragOver over s = s\<lparr>ps_localOrder := Some (splice_in j d (splice_out i (current_order s)))\<rparr>"
proof (cases "onDragOver over s = s")
  case False
  then show ?thesis
    by (intro moved [of "the (ps_dragId s)" "the (index_of (current_order s) (the (ps_dragId s)))"
          "the (index_of (current_order s) over)"])
       (auto simp: onDragOver_def Let_def split: option.splits if_splits)
qed

lemma current_order_distinct: "photos_inv s \<Longrightarrow> distinct (current_order s)"
  by (auto simp: photos_inv_def current_order_def split: option.splits)

lemma inv_onDragOver: "photos_inv s \<Longrightarrow> photos_inv (onDragOver over s)"
proof (cases rule: onDragOver_cases [of over s])
  case (moved d i j)
  assume inv: "photos_inv s"
  then have "distinct (splice_in j d (splice_out i (current_order s)))"
    using distinct_mset [OF mset_splice_move [OF moved(3)]] current_order_distinct by simp
  with inv moved(5) show ?thesis by (simp add: photos_inv_def server_ids_def)
qed simp

lemma photos_inv_step: "photos_inv s \<Longrightarrow> photo_can s e \<Longrightarrow> photos_inv (fst (photo_step s e))"
proof -
  assume inv: "photos_inv s" and can: "photo_can s e"
  have "photos_inv (fst (photo_handler s e))"
  proof (cases e)
    case (Choose fs) with inv can show ?thesis using inv_upload by simp
  next
    case UploadOk with inv show ?thesis using inv_upload_ok by simp
  next
    case (UploadErr err) with inv show ?thesis using inv_upload_err by simp
  next
    case (DragOver i) with inv show ?thesis using inv_onDragOver by simp
  qed (use inv can in \<open>auto simp: onDragEnd_def photos_inv_def server_ids_def\<close>)
  then show ?thesis by (cases "photo_handler s e") (simp add: settle_order_invD)
qed

abbreviation photos_start :: "photos \<Rightarrow> bool" where
  "photos_start s \<equiv> \<exists>l ps. s = photos_init l ps \<and> length ps \<le> 10 \<and> distinct (map ph_id ps)"

lemma photos_inv_init: "photos_start s \<Longrightarrow> photos_inv s"
  by (auto simp: photos_init_def photos_inv_def upload_inv_def server_ids_def)

interpretation photos: guarded_machine photos_start photo_can "\<lambda>s e. fst (photo_step s e)" photos_inv
  by unfold_locales (rule photos_inv_init, assumption, rule photos_inv_step)

section \<open>Uploading in turn\<close>

lemma upload_oks:
  assumes "ps_upload s = Some u" and "k < length (ur_files u)"
  shows "\<exists>t u'. steps photo_step s (replicate k UploadOk)
        = (t, map (PostPhoto (photos_path s)) (take k (tl (ur_files u)))) \<and>
      ps_upload t = Some u' \<and> ur_files u' = drop k (ur_files u) \<and> ur_succeeded u' = ur_succeeded u + k \<and>
      ps_listing t = ps_listing s"
  using assms
proof (induction k arbitrary: s u)
  case (Suc k)
  obtain f g fs where f: "ur_files u = f # g # fs"
    using Suc.prems(2) by (cases "ur_files u"; cases "tl (ur_files u)") auto
  define v where "v = \<lparr>ur_files = g # fs, ur_index = Suc (ur_index u), ur_total = ur_total u, ur_succeeded = Suc (ur_succeeded u)\<rparr>"
  define w where "w = settle_order (s\<lparr>ps_progress := Some (Suc (ur_index u), ur_total u), ps_upload := Some v\<rparr>)"
  have st: "photo_step s UploadOk = (w, [PostPhoto (photos_path s) g])"
    using Suc.prems(1) f by (simp add: photo_step_def upload_ok_def Let_def v_def w_def)
  have w: "ps_upload w = Some v" "ps_listing w = ps_listing s" "photos_path w = photos_path s"
    by (simp_all add: w_def photos_path_def)
  have "k < length (ur_files v)" using Suc.prems(2) f by (simp add: v_def)
  from Suc.IH [OF w(1) this] st w f show ?case by (auto simp: v_def)
qed simp

lemma photo_step_upload_err:
  "ps_upload s = Some u \<Longrightarrow> photo_step s (UploadErr err)
     = (settle_order (s\<lparr>ps_error := error_or t_upload_failed err, ps_progress := None, ps_upload := None\<rparr>),
        shown (ur_succeeded u > 0) (refresh_listing s))"
  by (simp add: photo_step_def upload_err_def finish_upload_def refresh_listing_def)

lemma photo_step_last_ok:
  "ps_upload s = Some u \<Longrightarrow> ur_files u = [f] \<Longrightarrow> photo_step s UploadOk
     = (settle_order (s\<lparr>ps_progress := None, ps_upload := None\<rparr>), refresh_listing s)"
  by (simp add: photo_step_def upload_ok_def finish_upload_def refresh_listing_def Let_def shown_def)

lemma refresh_listing_cong: "ps_listing t = ps_listing s \<Longrightarrow> refresh_listing t = refresh_listing s"
  by (simp add: refresh_listing_def)

text \<open>Choosing files starts a run over the files that fit under the cap.\<close>

lemma upload_starts:
  assumes "files = slice_to (10 - int (length (shown_photos s))) chosen" and "files \<noteq> []"
  obtains s1 u where "photo_step s (Choose chosen) = (s1, [PostPhoto (photos_path s) (hd files)])"
    "ps_upload s1 = Some u" "ur_files u = files" "ur_succeeded u = 0" "ps_listing s1 = ps_listing s"
  using assms by (auto simp: photo_step_def upload_def Let_def)

lemma upload_then_oks:
  assumes "files = slice_to (10 - int (length (shown_photos s))) chosen" and "k < length files"
  obtains t u where "steps photo_step s (Choose chosen # replicate k UploadOk)
      = (t, map (PostPhoto (photos_path s)) (take (Suc k) files))"
    "ps_upload t = Some u" "ur_files u = drop k files" "ur_succeeded u = k" "ps_listing t = ps_listing s"
proof -
  from assms(2) have "files \<noteq> []" by auto
  from upload_starts [OF assms(1) this] obtain s1 u1 where
    a: "photo_step s (Choose chosen) = (s1, [PostPhoto (photos_path s) (hd files)])"
    "ps_upload s1 = Some u1" "ur_files u1 = files" "ur_succeeded u1 = 0" "ps_listing s1 = ps_listing s" .
  then have "photos_path s1 = photos_path s" by (simp add: photos_path_def)
  moreover from a assms(2) have "k < length (ur_files u1)" by simp
  ultimately show ?thesis
    using upload_oks [OF a(2), of k] a \<open>files \<noteq> []\<close> by (auto intro!: that simp: neq_Nil_conv)
qed

text \<open>What a running upload posts: the rest of its files in turn, until it ends or fails.\<close>

fun is_post :: "photo_out \<Rightarrow> bool" where
  "is_post (PostPhoto path f) = True"
| "is_post _ = False"

lemma no_post [simp]: "filter is_post (refresh_listing s) = []" "filter is_post (snd (onDragEnd s)) = []"
    "filter is_post (snd (finish_upload k s)) = []"
  by (auto simp: refresh_listing_def onDragEnd_def finish_upload_def shown_def split: option.split)

lemma onDragOver_frame [simp]: "ps_upload (onDragOver i s) = ps_upload s" "ps_listing (onDragOver i s) = ps_listing s"
  by (auto simp: onDragOver_def Let_def split: option.splits)

lemma photo_step_split:
  "photo_step s e = (settle_order (fst (photo_handler s e)), snd (photo_handler s e))"
  by (simp add: photo_step_def split: prod.split)

lemma idle_step:
  assumes "ps_upload s = None" and "\<forall>fs. e \<noteq> Choose fs"
  shows "ps_upload (fst (photo_step s e)) = None \<and> filter is_post (snd (photo_step s e)) = []"
  using assms by (cases e) (auto simp: photo_step_split upload_ok_def upload_err_def, simp add: onDragEnd_def)

lemma posts_idle:
  "ps_upload s = None \<Longrightarrow> \<forall>fs. Choose fs \<notin> set es \<Longrightarrow>
     ps_upload (fst (steps photo_step s es)) = None \<and> filter is_post (snd (steps photo_step s es)) = []"
proof (induction es arbitrary: s)
  case (Cons e es)
  then have "ps_upload (fst (photo_step s e)) = None \<and> filter is_post (snd (photo_step s e)) = []"
    by (intro idle_step) auto
  with Cons.IH [of "fst (photo_step s e)"] Cons.prems(2) show ?case by (auto split: prod.split)
qed simp

lemma running_step:
  assumes "ps_upload s = Some u" and "\<forall>fs. e \<noteq> Choose fs"
  shows "photos_path (fst (photo_step s e)) = photos_path s \<and>
    (ps_upload (fst (photo_step s e)) = Some u \<and> filter is_post (snd (photo_step s e)) = [] \<or>
     (\<exists>u' g fs. tl (ur_files u) = g # fs \<and> ur_files u' = g # fs \<and> ps_upload (fst (photo_step s e)) = Some u' \<and>
        filter is_post (snd (photo_step s e)) = [PostPhoto (photos_path s) g]) \<or>
     ps_upload (fst (photo_step s e)) = None \<and> filter is_post (snd (photo_step s e)) = [] \<and>
        (tl (ur_files u) = [] \<or> (\<exists>err. e = UploadErr err)))"
proof (cases e)
  case UploadOk
  then show ?thesis using assms(1)
    by (cases "tl (ur_files u)") (auto simp: photo_step_split upload_ok_def photos_path_def Let_def, simp_all add: finish_upload_def)
next
  case (UploadErr err)
  then show ?thesis using assms(1) by (auto simp: photo_step_split upload_err_def photos_path_def) (simp_all add: finish_upload_def)
next
  case DragEnd
  then show ?thesis using assms(1) by (auto simp: photo_step_split photos_path_def) (simp_all add: onDragEnd_def)
qed (use assms in \<open>auto simp: photo_step_split photos_path_def\<close>)

lemma posts_running:
  "ps_upload s = Some u \<Longrightarrow> \<forall>fs. Choose fs \<notin> set es \<Longrightarrow>
     prefix (filter is_post (snd (steps photo_step s es))) (map (PostPhoto (photos_path s)) (tl (ur_files u))) \<and>
     (ps_upload (fst (steps photo_step s es)) = None \<and> (\<forall>err. UploadErr err \<notin> set es) \<longrightarrow>
        filter is_post (snd (steps photo_step s es)) = map (PostPhoto (photos_path s)) (tl (ur_files u)))"
proof (induction es arbitrary: s u)
  case (Cons e es)
  let ?s = "fst (photo_step s e)"
  have all: "snd (steps photo_step s (e # es)) = snd (photo_step s e) @ snd (steps photo_step ?s es)"
    "fst (steps photo_step s (e # es)) = fst (steps photo_step ?s es)"
    by (simp_all split: prod.split)
  have rest: "\<forall>fs. Choose fs \<notin> set es" using Cons.prems(2) by auto
  have "\<forall>fs. e \<noteq> Choose fs" using Cons.prems(2) by auto
  from running_step [OF Cons.prems(1) this] show ?case
  proof (elim conjE disjE exE)
    assume "ps_upload ?s = Some u" "filter is_post (snd (photo_step s e)) = []" "photos_path ?s = photos_path s"
    then show ?thesis unfolding all using Cons.IH [OF _ rest, of ?s u] by simp
  next
    fix u' g fs
    assume "tl (ur_files u) = g # fs" "ur_files u' = g # fs" "ps_upload ?s = Some u'"
      "filter is_post (snd (photo_step s e)) = [PostPhoto (photos_path s) g]" "photos_path ?s = photos_path s"
    then show ?thesis unfolding all using Cons.IH [OF _ rest, of ?s u'] by simp
  next
    assume "ps_upload ?s = None" "filter is_post (snd (photo_step s e)) = []" "tl (ur_files u) = []"
    then show ?thesis unfolding all using posts_idle [OF _ rest, of ?s] by simp
  next
    fix err assume "ps_upload ?s = None" "filter is_post (snd (photo_step s e)) = []" "e = UploadErr err"
    then show ?thesis unfolding all using posts_idle [OF _ rest, of ?s] by auto
  qed
qed simp

section \<open>Properties\<close>

text \<open>
  C25. The upload never exceeds the cap, and does not fall short of it: whatever happens after a selection of
  files, up to the next selection, the files posted are, in the order chosen, a beginning of those that
  fit beside the photos on display at the time, so that both together are at most ten; and unless a post
  fails, all of these have been posted when the upload is over. (The number of photos the server reports is
  not assumed to be within the cap.)
\<close>

theorem photo_cap:
  assumes "reach photos_start photo_can (\<lambda>s e. fst (photo_step s e)) s"
    and "photo_can s (Choose chosen)" and "\<forall>fs. Choose fs \<notin> set es"
  shows "let (t, outs) = steps photo_step s (Choose chosen # es);
             fitting = take (10 - length (shown_photos s)) chosen
         in prefix (filter is_post outs) (map (PostPhoto (photos_path s)) fitting) \<and>
            length (shown_photos s) + length (filter is_post outs) \<le> 10 \<and>
            (ps_upload t = None \<and> (\<forall>err. UploadErr err \<notin> set es)
               \<longrightarrow> filter is_post outs = map (PostPhoto (photos_path s)) fitting)"
proof -
  let ?files = "take (10 - length (shown_photos s)) chosen"
  obtain s1 out t rest where run: "photo_step s (Choose chosen) = (s1, out)" "steps photo_step s1 es = (t, rest)"
    by fastforce
  have cap: "length (shown_photos s) < 10" and idle: "ps_progress s = None" using assms(2) by simp_all
  have off: "ps_upload s = None"
    using photos.reach_inv [OF assms(1)] idle by (auto simp: photos_inv_def upload_inv_def split: option.splits)
  have fit: "?files = slice_to (10 - int (length (shown_photos s))) chosen"
    using cap by (auto simp: slice_to_def nat_diff_distrib')
  have "prefix (filter is_post (out @ rest)) (map (PostPhoto (photos_path s)) ?files) \<and>
      (ps_upload t = None \<and> (\<forall>err. UploadErr err \<notin> set es) \<longrightarrow>
        filter is_post (out @ rest) = map (PostPhoto (photos_path s)) ?files)"
  proof (cases "?files = []")
    case True
    then have "slice_to (10 - int (length (shown_photos s))) chosen = []" using fit by simp
    then have "s1 = settle_order s" "out = []" using run(1) by (auto simp: photo_step_def upload_def)
    then show ?thesis using posts_idle [of s1 es] run(2) off assms(3) True by simp
  next
    case False
    from upload_starts [OF fit False] obtain u where
      u: "out = [PostPhoto (photos_path s) (hd ?files)]" "ps_upload s1 = Some u" "ur_files u = ?files" "ps_listing s1 = ps_listing s"
      using run(1) by (metis prod.inject)
    then have "photos_path s1 = photos_path s" by (simp add: photos_path_def)
    then have "prefix (filter is_post rest) (map (PostPhoto (photos_path s)) (tl ?files)) \<and>
      (ps_upload t = None \<and> (\<forall>err. UploadErr err \<notin> set es) \<longrightarrow>
        filter is_post rest = map (PostPhoto (photos_path s)) (tl ?files))"
      using posts_running [OF u(2), of es] assms(3) run(2) u(3) by simp
    moreover have "map (PostPhoto (photos_path s)) ?files = out @ map (PostPhoto (photos_path s)) (tl ?files)"
      using False u(1) by (cases ?files) simp_all
    ultimately show ?thesis using u(1) by simp
  qed
  moreover from this have "length (filter is_post (out @ rest)) \<le> length ?files"
    by (metis prefix_length_le length_map)
  then have "length (shown_photos s) + length (filter is_post (out @ rest)) \<le> 10"
    using cap by simp arith
  ultimately show ?thesis using run by (simp add: Let_def)
qed

definition example_photos :: photos where
  "example_photos = photos_init (js ''L'') [\<lparr>ph_id = js ''a'', ph_public_url = [], ph_position = 0\<rparr>,
     \<lparr>ph_id = js ''b'', ph_public_url = [], ph_position = 1\<rparr>]"

lemma example_photos_reach: "reach photos_start photo_can (\<lambda>s e. fst (photo_step s e)) example_photos"
  by (rule photos.reach_init) (simp add: example_photos_def, intro exI conjI, rule refl, simp_all)

text \<open>Nine files for a listing of two photos: eight are posted.\<close>

lemma photo_cap_witness:
  "length (filter is_post (snd (steps photo_step example_photos
       (Choose (replicate 9 (js ''x'')) # replicate 8 UploadOk)))) = 8"
proof -
  have can: "photo_can example_photos (Choose (replicate 9 (js ''x'')))"
    by (simp add: example_photos_def photos_init_def shown_photos_def)
  have two: "length (shown_photos example_photos) = 2" by (simp add: example_photos_def photos_init_def shown_photos_def)
  obtain t outs where run: "steps photo_step example_photos (Choose (replicate 9 (js ''x'')) # replicate 8 UploadOk) = (t, outs)"
    by fastforce
  have "ps_upload t = None"
    using run by (simp add: numeral_eq_Suc photo_step_def upload_def upload_ok_def finish_upload_def settle_order_def
        example_photos_def photos_init_def shown_photos_def slice_to_def Let_def) auto
  then have "filter is_post outs = map (PostPhoto (photos_path example_photos)) (take 8 (replicate 9 (js ''x'')))"
    using photo_cap [OF example_photos_reach can, of "replicate 8 UploadOk"] run two by (simp del: steps.simps)
  then show ?thesis using run by simp
qed

text \<open>
  C23. The files are posted one after the other in the order chosen, up to the first failure: after k
  successes and one failure exactly the first k + 1 files have been posted, the error is shown, the
  progress is gone, and the listing is refetched if and only if something was uploaded.
\<close>

theorem upload_stops_at_first_failure:
  assumes "files = slice_to (10 - int (length (shown_photos s))) chosen" and "k < length files"
  shows "\<exists>t. steps photo_step s (Choose chosen # replicate k UploadOk @ [UploadErr err])
      = (t, map (PostPhoto (photos_path s)) (take (Suc k) files) @ shown (k > 0) (refresh_listing s)) \<and>
    ps_upload t = None \<and> ps_progress t = None \<and> ps_error t = error_or t_upload_failed err"
proof -
  obtain t u where t: "steps photo_step s (Choose chosen # replicate k UploadOk)
      = (t, map (PostPhoto (photos_path s)) (take (Suc k) files))"
    "ps_upload t = Some u" "ur_succeeded u = k" "ps_listing t = ps_listing s"
    using upload_then_oks [OF assms] by metis
  show ?thesis
    using steps_append [of photo_step s "Choose chosen # replicate k UploadOk" "[UploadErr err]"] t
      photo_step_upload_err [OF t(2), of err] refresh_listing_cong [OF t(4)]
    by (simp add: steps.simps(2) [symmetric] del: steps.simps(2)) simp
qed

lemma upload_stops_at_first_failure_witness:
  "\<exists>t. steps photo_step example_photos [Choose [js ''x'', js ''y'', js ''z''], UploadOk, UploadErr NoResponse]
     = (t, [PostPhoto (js ''/listings/L/photos'') (js ''x''), PostPhoto (js ''/listings/L/photos'') (js ''y''),
            InvalidateQuery (qk_listingDetail (js ''L'')), OnChanged])
     \<and> ps_upload t = None \<and> ps_progress t = None \<and> ps_error t = t_upload_failed"
  using upload_stops_at_first_failure [of "[js ''x'', js ''y'', js ''z'']" example_photos
      "[js ''x'', js ''y'', js ''z'']" 1 NoResponse]
  by (simp add: example_photos_def photos_init_def shown_photos_def slice_to_def photos_path_def
      shown_def refresh_listing_def error_or_def response_body_def js_def)

text \<open>The posts of the running upload that are still to be answered.\<close>

definition upload_left :: "photos \<Rightarrow> nat" where
  "upload_left s = (case ps_upload s of None \<Rightarrow> 0 | Some u \<Rightarrow> length (ur_files u))"

fun upload_answer :: "photo_event \<Rightarrow> bool" where
  "upload_answer UploadOk = True"
| "upload_answer (UploadErr err) = True"
| "upload_answer _ = False"

lemma upload_left_step:
  assumes "upload_inv s" and "photo_can s e" and "\<forall>fs. e \<noteq> Choose fs"
  shows "upload_left (fst (photo_step s e)) + (if upload_answer e then 1 else 0) \<le> upload_left s"
  using assms by (cases e)
    (auto simp: fst_photo_step upload_left_def upload_ok_def upload_err_def finish_upload_def onDragEnd_def Let_def
      upload_inv_def Suc_le_eq split: option.splits)

lemma upload_left_run:
  assumes "photos_inv s" and "run photo_can (\<lambda>s e. fst (photo_step s e)) s es = Some t" and "\<forall>fs. Choose fs \<notin> set es"
  shows "upload_left t + length (filter upload_answer es) \<le> upload_left s"
  using assms
proof (induction es arbitrary: s)
  case (Cons e es)
  then have e: "photo_can s e" "run photo_can (\<lambda>s e. fst (photo_step s e)) (fst (photo_step s e)) es = Some t"
    by (auto split: if_splits)
  have "upload_left t + length (filter upload_answer es) \<le> upload_left (fst (photo_step s e))"
    using Cons.prems(3) photos_inv_step [OF Cons.prems(1) e(1)] e(2) by (intro Cons.IH) auto
  moreover have "upload_left (fst (photo_step s e)) + (if upload_answer e then 1 else 0) \<le> upload_left s"
    using Cons.prems e(1) by (intro upload_left_step) (auto simp: photos_inv_def)
  ultimately show ?case by (auto split: if_splits)
qed simp

text \<open>
  C24. The upload loop ends: whatever else happens meanwhile, a running upload takes at most as many answers
  as it has files left, which are never more than ten, and while it runs an answer can come and no other
  upload can start; with no files left nothing is running, and the button is free again.
\<close>

theorem upload_terminates:
  assumes "reach photos_start photo_can (\<lambda>s e. fst (photo_step s e)) s"
    and "run photo_can (\<lambda>s e. fst (photo_step s e)) s es = Some t" and "\<forall>fs. Choose fs \<notin> set es"
  shows "upload_left t + length (filter upload_answer es) \<le> upload_left s \<and> upload_left s \<le> 10 \<and>
    (upload_left t = 0 \<longleftrightarrow> ps_upload t = None) \<and> (upload_left t = 0 \<longleftrightarrow> ps_progress t = None) \<and>
    (upload_left t \<noteq> 0 \<longrightarrow> photo_can t UploadOk \<and> (\<forall>fs. \<not> photo_can t (Choose fs)))"
proof -
  have inv: "photos_inv s" by (rule photos.reach_inv [OF assms(1)])
  have "photos_inv t" by (rule photos.reach_inv [OF reach_run [OF assms(2,1)]])
  then show ?thesis using upload_left_run [OF inv assms(2,3)] inv
    by (auto simp: photos_inv_def upload_inv_def upload_left_def split: option.splits)
qed

lemma upload_terminates_witness:
  "\<exists>s t. upload_left s = 2 \<and> run photo_can (\<lambda>s e. fst (photo_step s e)) s [UploadOk, UploadErr NoResponse] = Some t \<and>
     ps_upload t = None"
proof -
  define s where "s = fst (photo_step example_photos (Choose [js ''x'', js ''y'']))"
  have r: "reach photos_start photo_can (\<lambda>s e. fst (photo_step s e)) s"
    unfolding s_def by (rule photos.reach_next [OF example_photos_reach])
      (simp add: example_photos_def photos_init_def shown_photos_def)
  have two: "upload_left s = 2"
    by (simp add: s_def upload_left_def photo_step_def upload_def example_photos_def photos_init_def shown_photos_def
        slice_to_def js_def)
  obtain t where t: "run photo_can (\<lambda>s e. fst (photo_step s e)) s [UploadOk, UploadErr NoResponse] = Some t"
    by (simp add: s_def photo_step_def upload_def upload_ok_def example_photos_def photos_init_def shown_photos_def
        slice_to_def js_def settle_order_def Let_def)
  have "upload_left t + length (filter upload_answer [UploadOk, UploadErr NoResponse]) \<le> upload_left s \<and>
      (upload_left t = 0 \<longleftrightarrow> ps_upload t = None)"
    using upload_terminates [OF r t] by simp
  moreover from this have "upload_left t = 0" using two by simp
  ultimately have "ps_upload t = None" by blast
  with two t show ?thesis by blast
qed

text \<open>
  When every post succeeds, all accepted files are posted in order, and then the listing is
  refetched once.
\<close>

theorem upload_all:
  assumes "files = slice_to (10 - int (length (shown_photos s))) chosen" and "files \<noteq> []"
  shows "\<exists>t. steps photo_step s (Choose chosen # replicate (length files) UploadOk)
      = (t, map (PostPhoto (photos_path s)) files @ refresh_listing s) \<and>
    ps_upload t = None \<and> ps_progress t = None"
proof -
  define k where "k = length files - 1"
  have k: "k < length files" "Suc k = length files" using assms(2) by (auto simp: k_def)
  obtain t u where t: "steps photo_step s (Choose chosen # replicate k UploadOk)
      = (t, map (PostPhoto (photos_path s)) (take (Suc k) files))"
    "ps_upload t = Some u" "ur_files u = drop k files" "ps_listing t = ps_listing s"
    using upload_then_oks [OF assms(1) k(1)] by metis
  obtain f where f: "drop k files = [f]"
    using k by (metis One_nat_def Suc_diff_le diff_self_eq_0 le_refl length_0_conv length_Suc_conv length_drop)
  have "replicate (length files) UploadOk = replicate k UploadOk @ [UploadOk]"
    using k(2) by (metis replicate_Suc replicate_append_same)
  then show ?thesis
    using steps_append [of photo_step s "Choose chosen # replicate k UploadOk" "[UploadOk]"] t k(2)
      photo_step_last_ok [OF t(2), of f] f refresh_listing_cong [OF t(4)]
    by (simp add: steps.simps(2) [symmetric] del: steps.simps(2)) simp
qed

lemma upload_all_witness:
  "\<exists>t. steps photo_step example_photos [Choose [js ''x''], UploadOk]
     = (t, [PostPhoto (js ''/listings/L/photos'') (js ''x''), InvalidateQuery (qk_listingDetail (js ''L'')), OnChanged])
     \<and> ps_upload t = None \<and> ps_progress t = None"
  using upload_all [of "[js ''x'']" example_photos "[js ''x'']"]
  by (simp add: example_photos_def photos_init_def shown_photos_def slice_to_def photos_path_def
      refresh_listing_def js_def)

text \<open>
  C26. Dragging a photo over another one permutes the order: the dragged photo takes the place the other
  one had, the rest keep their relative order, and no photo is lost or duplicated.
\<close>

theorem drag_moves_photo:
  assumes "ps_dragId s = Some d" and "d \<noteq> []" and "d \<noteq> over"
    and "index_of (current_order s) d = Some i" and "index_of (current_order s) over = Some j"
  shows "\<exists>l. ps_localOrder (onDragOver over s) = Some l \<and> l ! j = d \<and> mset l = mset (current_order s) \<and>
           filter (\<lambda>x. x \<noteq> d) l = filter (\<lambda>x. x \<noteq> d) (current_order s)"
proof -
  let ?l = "splice_in j d (splice_out i (current_order s))"
  have i: "i < length (current_order s)" "current_order s ! i = d"
    and j: "j < length (current_order s)" using index_of_Some assms(4,5) by fast+
  then have "?l ! j = d" by (intro splice_in_nth) (simp add: length_splice_out)
  moreover have "filter (\<lambda>x. x \<noteq> d) ?l = filter (\<lambda>x. x \<noteq> d) (current_order s)"
    using filter_splice_in [of "\<lambda>x. x \<noteq> d" d] filter_splice_out [of i "current_order s" "\<lambda>x. x \<noteq> d"] i by simp
  ultimately show ?thesis
    using assms mset_splice_move [OF assms(4)] by (simp add: onDragOver_def)
qed

definition dragging_b :: photos where
  "dragging_b = fst (photo_step example_photos (DragStart (js ''b'')))"

lemmas photo_eval = example_photos_def photos_init_def photo_step_def settle_order_def onDragOver_def
  onDragEnd_def current_order_def server_ids_def splice_in_def splice_out_def upload_def upload_ok_def
  finish_upload_def slice_to_def shown_photos_def map_filter_simps refresh_listing_def photos_path_def

lemma drag_moves_photo_witness:
  "ps_localOrder (onDragOver (js ''a'') dragging_b) = Some [js ''b'', js ''a'']"
  using drag_moves_photo [of dragging_b "js ''b''" "js ''a''" 1 0]
  by (simp add: dragging_b_def photo_eval js_def)

text \<open>Photo ids, as the API issues them: non-empty and without a comma.\<close>

definition plain_ids :: "jstr list \<Rightarrow> bool" where
  "plain_ids l \<longleftrightarrow> (\<forall>x \<in> set l. x \<noteq> [] \<and> 44 \<notin> set x)"

lemma join_plain: "plain_ids xs \<Longrightarrow> plain_ids ys \<Longrightarrow> join (js '','') xs = join (js '','') ys \<longleftrightarrow> xs = ys"
  using join_inject [of xs 44 ys] by (simp add: plain_ids_def js_def)

text \<open>
  C27. A drop sends the reorder request exactly when the local order differs from the server's, and the
  request carries the local order. (Photo ids are non-empty and contain no comma.)
\<close>

theorem reorder_sent_iff_changed:
  assumes "plain_ids (current_order s)" and "plain_ids (server_ids s)"
  shows "snd (photo_step s DragEnd)
     = (if current_order s = server_ids s then [] else [PatchOrder (photos_path s @ js ''/order'') (current_order s)])"
  using assms join_plain [of "current_order s" "server_ids s"]
  by (auto simp: photo_step_def onDragEnd_def current_order_def split: option.splits)

lemma reorder_sent_iff_changed_witness:
  "snd (photo_step (fst (photo_step dragging_b (DragOver (js ''a'')))) DragEnd)
     = [PatchOrder (js ''/listings/L/photos/order'') [js ''b'', js ''a'']]"
  using reorder_sent_iff_changed [of "fst (photo_step dragging_b (DragOver (js ''a'')))"]
  by (simp add: dragging_b_def photo_eval plain_ids_def js_def)

section \<open>A reorder that fails\<close>

text \<open>
  Nothing resets the local order when the request fails: the component keeps showing the photos of that
  order only.
\<close>

lemma local_order_kept:
  assumes "ps_localOrder s = Some l" and "n \<notin> set l" and "n \<in> set (server_ids s)"
    and "plain_ids l" and "plain_ids (server_ids s)"
    and "case e of ServerPhotos ps \<Rightarrow> n \<in> ph_id ` set ps \<and> plain_ids (map ph_id ps) | _ \<Rightarrow> True"
  shows "\<exists>l'. ps_localOrder (fst (photo_step s e)) = Some l' \<and> set l' = set l"
proof -
  have frame: "ps_localOrder (fst (finish_upload k t)) = ps_localOrder t" "ps_server (fst (finish_upload k t)) = ps_server t" for k t
    by (simp_all add: finish_upload_def)
  have h: "\<exists>l'. ps_localOrder (fst (photo_handler s e)) = Some l' \<and> set l' = set l"
  proof (cases e)
    case (DragOver over)
    show ?thesis
    proof (cases rule: onDragOver_cases [of over s])
      case (moved d i j)
      have "mset (splice_in j d (splice_out i l)) = mset l"
        using moved(3) assms(1) by (intro mset_splice_move) (simp add: current_order_def)
      then show ?thesis using moved DragOver assms(1) by (auto simp: current_order_def dest: mset_eq_setD)
    qed (use DragOver assms(1) in simp)
  qed (use assms(1) in \<open>auto simp: upload_def Let_def upload_ok_def upload_err_def frame onDragEnd_def split: option.splits\<close>)
  have srv: "n \<in> set (server_ids (fst (photo_handler s e))) \<and> plain_ids (server_ids (fst (photo_handler s e)))"
    using assms by (cases e) (auto simp: upload_def Let_def upload_ok_def upload_err_def frame onDragEnd_def
        onDragOver_def server_ids_def split: option.splits)
  from h obtain l' where l': "ps_localOrder (fst (photo_handler s e)) = Some l'" "set l' = set l" by blast
  then have "join (js '','') (server_ids (fst (photo_handler s e))) \<noteq> join (js '','') l'"
    using join_plain [of "server_ids (fst (photo_handler s e))" l'] srv assms(2,4) by (auto simp: plain_ids_def)
  with l' show ?thesis by (simp add: fst_photo_step settle_order_def)
qed

text \<open>
  C28. A photo that reaches the server while a local order without it is in force is never shown, however
  the user and the server go on, as long as the server keeps the photo: uploads made after a failed
  reorder stay invisible.
\<close>

theorem upload_hidden_after_failed_reorder:
  assumes "ps_localOrder s = Some l" and "n \<notin> set l" and "n \<in> set (server_ids s)"
    and "plain_ids l" and "plain_ids (server_ids s)"
    and "\<forall>ps. ServerPhotos ps \<in> set es \<longrightarrow> n \<in> ph_id ` set ps \<and> plain_ids (map ph_id ps)"
  shows "n \<notin> ph_id ` set (shown_photos (fst (steps photo_step s es))) \<and>
         ps_localOrder (fst (steps photo_step s es)) \<noteq> None"
  using assms
proof (induction es arbitrary: s l)
  case Nil
  then show ?case
    using shown_in_order [of s l] by auto
next
  case (Cons e es)
  have e: "case e of ServerPhotos ps \<Rightarrow> n \<in> ph_id ` set ps \<and> plain_ids (map ph_id ps) | _ \<Rightarrow> True"
    using Cons.prems(6) by (cases e) auto
  obtain l' where l': "ps_localOrder (fst (photo_step s e)) = Some l'" "set l' = set l"
    using local_order_kept [OF Cons.prems(1-5) e] by blast
  have srv: "n \<in> set (server_ids (fst (photo_step s e))) \<and> plain_ids (server_ids (fst (photo_step s e)))"
    using Cons.prems(3,5) e by (cases e) (auto simp: photo_step_def upload_def Let_def upload_ok_def upload_err_def
        onDragEnd_def onDragOver_def finish_upload_def server_ids_def split: option.splits prod.splits)
  have "n \<notin> ph_id ` set (shown_photos (fst (steps photo_step (fst (photo_step s e)) es))) \<and>
         ps_localOrder (fst (steps photo_step (fst (photo_step s e)) es)) \<noteq> None"
    using l' srv Cons.prems(2,4,6) by (intro Cons.IH [OF l'(1)]) (auto simp: plain_ids_def)
  then show ?case unfolding fst_steps_Cons .
qed

lemma upload_hidden_after_failed_reorder_witness:
  "let after_drop = fst (steps photo_step dragging_b [DragOver (js ''a''), DragEnd]);
       c = \<lparr>ph_id = js ''c'', ph_public_url = [], ph_position = 2\<rparr>;
       s = fst (steps photo_step after_drop [Choose [js ''c.png''], UploadOk, ServerPhotos (ps_server example_photos @ [c])])
   in reach photos_start photo_can (\<lambda>s e. fst (photo_step s e)) example_photos \<and>
      js ''c'' \<in> set (server_ids s) \<and> js ''c'' \<notin> ph_id ` set (shown_photos (fst (steps photo_step s [ServerPhotos (ps_server s)])))"
  using upload_hidden_after_failed_reorder [of "fst (steps photo_step (fst (steps photo_step dragging_b [DragOver (js ''a''), DragEnd]))
      [Choose [js ''c.png''], UploadOk, ServerPhotos (ps_server example_photos @ [\<lparr>ph_id = js ''c'', ph_public_url = [], ph_position = 2\<rparr>])])"
      "[js ''b'', js ''a'']" "js ''c''"
      "[ServerPhotos (ps_server example_photos @ [\<lparr>ph_id = js ''c'', ph_public_url = [], ph_position = 2\<rparr>])]"]
    example_photos_reach
  by (simp add: dragging_b_def photo_eval plain_ids_def js_def Let_def)

end
