(* ===== verification/Forms.thy ===== *)
theory Forms
  imports ApiClient Ui
begin

text \<open>
  What the two big forms (\<open>ListingFormModal.tsx\<close>, \<open>ProfileFormModal.tsx\<close>) share: the rules they
  register with react-hook-form, and what they rely on it for. The library itself is a parameter
  \<open>validate\<close>: given every registered field with its value and rules, it yields the errors by field
  name. Its documented contract is \<open>validates\<close>: no errors means that every rule holds. Also how the API
  reads the numbers that the forms send.
\<close>

datatype fvalue = VStr jstr | VNum jnum | VBool bool | VList "jstr list"

text \<open>
  A rule with its message; \<open>Check\<close> is the outcome of a \<open>validate\<close> function on the current values,
  \<open>None\<close> for \<open>true\<close>.
\<close>

datatype rule = Required jstr | AtLeast rat jstr | AtMost rat jstr | Check "jstr option"

text \<open>\<open>required\<close> fails on an empty input (a number input that is empty yields NaN); \<open>min\<close> and \<open>max\<close> skip empty ones.\<close>

fun rule_error :: "rule \<Rightarrow> fvalue \<Rightarrow> jstr option" where
  "rule_error (Required m) (VStr s) = (if s = [] then Some m else None)"
| "rule_error (Required m) (VNum n) = (if n = NaN then Some m else None)"
| "rule_error (Required m) (VBool b) = (if b then None else Some m)"
| "rule_error (Required m) (VList l) = None"
| "rule_error (AtLeast q m) (VNum (Num x)) = (if x < q then Some m else None)"
| "rule_error (AtMost q m) (VNum (Num x)) = (if q < x then Some m else None)"
| "rule_error (Check c) v = c"
| "rule_error _ _ = None"

type_synonym field_rules = "(jstr \<times> fvalue \<times> rule list) list"
type_synonym validator = "field_rules \<Rightarrow> (jstr \<times> jstr) list"

definition rules_hold :: "field_rules \<Rightarrow> bool" where
  "rules_hold fs \<longleftrightarrow> list_all (\<lambda>(n, v, rs). list_all (\<lambda>r. rule_error r v = None) rs) fs"

definition validates :: "validator \<Rightarrow> bool" where
  "validates validate \<longleftrightarrow> (\<forall>fs. validate fs = [] \<longrightarrow> rules_hold fs)"

text \<open>A validator that reports the first error of every field; it satisfies the contract.\<close>

definition first_errors :: validator where
  "first_errors fs = List.map_filter (\<lambda>(n, v, rs).
     (case List.map_filter (\<lambda>r. rule_error r v) rs of [] \<Rightarrow> None | m # _ \<Rightarrow> Some (n, m))) fs"

lemma map_filter_Nil: "List.map_filter f xs = [] \<longleftrightarrow> (\<forall>x \<in> set xs. f x = None)"
  by (induction xs) (auto simp: map_filter_simps split: option.splits)

lemma first_error_None:
  "(case List.map_filter f rs of [] \<Rightarrow> None | m # _ \<Rightarrow> Some (n, m)) = None \<longleftrightarrow> list_all (\<lambda>r. f r = None) rs"
  by (induction rs) (auto simp: map_filter_simps split: option.splits)

lemma first_errors_Nil: "first_errors fs = [] \<longleftrightarrow> rules_hold fs"
  unfolding first_errors_def rules_hold_def map_filter_Nil list_all_iff [of _ fs]
  by (simp add: case_prod_beta first_error_None)

lemma first_errors_validates: "validates first_errors"
  by (simp add: validates_def first_errors_Nil)

lemma validatesD:
  "validates validate \<Longrightarrow> validate fs = [] \<Longrightarrow> (n, v, rs) \<in> set fs \<Longrightarrow> r \<in> set rs \<Longrightarrow> rule_error r v = None"
  by (fastforce simp: validates_def rules_hold_def list_all_iff)

text \<open>\<open>errors.f && <p>{errors.f.message}</p>\<close>, and a required field's star.\<close>

definition field_error_node :: "(jstr \<times> jstr) list \<Rightarrow> jstr \<Rightarrow> 'e node list" where
  "field_error_node errors f = (case map_of errors f of None \<Rightarrow> [] | Some m \<Rightarrow> [Txt m])"

definition star :: "'e node" where "star = Txt (js ''*'')"

text \<open>\<open>setError\<close> for every entry, on top of the errors there are.\<close>

definition set_errors :: "(jstr \<times> jstr) list \<Rightarrow> (jstr \<times> jstr) list \<Rightarrow> (jstr \<times> jstr) list" where
  "set_errors fe errors = foldl (\<lambda>es (f, m). put f m es) errors fe"

lemma map_of_set_errors: "map_of (set_errors fe errors) = map_of errors ++ map_of (rev fe)"
proof (induction fe arbitrary: errors)
  case (Cons e fe)
  have "set_errors (e # fe) errors = set_errors fe (put (fst e) (snd e) errors)"
    by (cases e) (simp add: set_errors_def)
  with Cons show ?case by (cases e) (simp add: map_of_put map_add_def fun_eq_iff split: option.split)
qed (simp add: set_errors_def)

text \<open>What the browser does for the inputs: reading a number field, formatting a date for a date field, today.\<close>

record browser =
  br_number :: "jstr \<Rightarrow> jnum"
  br_text :: "jnum \<Rightarrow> jstr"
  br_date :: "jstr \<Rightarrow> jstr"
  br_today :: jstr

section \<open>Numbers on the wire\<close>

text \<open>
  How the API's request structs read the numbers of a form: \<open>JSON.stringify\<close> writes NaN as \<open>null\<close>, which
  \<open>encoding/json\<close> takes as the zero value, or as nil behind a pointer; a number with a fraction, or outside
  64 bits, is no Go \<open>int\<close> and the request is malformed (\<open>None\<close>).
\<close>

fun decode_int :: "jnum \<Rightarrow> int option" where
  "decode_int NaN = Some 0"
| "decode_int (Num q) = (if q = of_int \<lfloor>q\<rfloor> \<and> - (2 ^ 63) \<le> \<lfloor>q\<rfloor> \<and> \<lfloor>q\<rfloor> < 2 ^ 63 then Some \<lfloor>q\<rfloor> else None)"

fun decode_float :: "jnum \<Rightarrow> rat" where
  "decode_float NaN = 0"
| "decode_float (Num q) = q"

definition decoded :: "jnum \<Rightarrow> int" where
  "decoded n = or_else 0 (decode_int n)"

definition is_null :: "jnum option \<Rightarrow> bool" where
  "is_null n \<longleftrightarrow> n = None \<or> n = Some NaN"

text \<open>Why a handler turns a request down.\<close>

datatype refusal = InvalidFormat | ValidationFailed | ComplianceMissing | InvalidRoomType | InvalidRent
  | InvalidArea | InvalidFee | LayoutMissing | InvalidLocation | LimitReached

lemma decoded_range:
  assumes "decode_int (Num q) \<noteq> None"
  shows "of_int (decoded (Num q)) = q"
  using assms by (auto simp: decoded_def or_else_def split: if_splits)

section \<open>What the shared pieces offer\<close>

lemma offers_shown [simp]: "list_ex (\<lambda>c. offers c e) (shown b cs) \<longleftrightarrow> b \<and> list_ex (\<lambda>c. offers c e) cs"
  by (simp add: shown_def)

lemma offers_field_error [simp]: "\<not> list_ex (\<lambda>c. offers c e) (field_error_node es f)"
  by (simp add: field_error_node_def split: option.splits)

lemma can_submit_field_error [simp]: "\<not> list_ex can_submit (field_error_node es f)"
  by (simp add: field_error_node_def split: option.splits)

lemma field_error_passive [simp]:
  "c \<in> set (field_error_node es f) \<Longrightarrow> \<not> offers c e" "c \<in> set (field_error_node es f) \<Longrightarrow> \<not> can_submit c"
  by (auto simp: field_error_node_def split: option.splits)

lemma contact_field_passive [simp]: "\<not> offers (contact_info_field a me) e" "\<not> can_submit (contact_info_field a me)"
  by (simp_all add: contact_info_field_def Let_def)

lemma star_passive [simp]: "\<not> offers star e" "\<not> can_submit star"
  by (simp_all add: star_def)

lemma list_ex_map [simp]: "list_ex P (map f xs) \<longleftrightarrow> list_ex (\<lambda>x. P (f x)) xs"
  by (simp add: list_ex_iff)

lemma dropdown_field_simps [simp]:
  "\<not> can_submit (dropdown_field v p os d f)"
  by (auto simp: dropdown_field_def list_ex_iff shown_def)

lemma checkbox_group_simps [simp]:
  "offers (checkbox_group l items vs r) e \<longleftrightarrow> (\<exists>(k, t) \<in> set items. e = r k (\<not> vs k))"
  "\<not> can_submit (checkbox_group l items vs r)"
  by (force simp: checkbox_group_def list_ex_iff)+

end
