(* ===== verification/ListingForm.thy ===== *)
theory ListingForm
  imports Forms Locations Types
begin

text \<open>
  The listing form, \<open>ListingFormModal\<close> in \<open>src/apps/web/features/listings/ListingFormModal.tsx\<close>: its
  values, the rules every field registers, loading a listing into the form, the payload of a
  submission, the dialog's life cycle and its view; and the checks the API makes of such a payload, to
  compare the two. The photo part is \<open>PhotoSection\<close>.
\<close>

section \<open>Values\<close>

text \<open>
  react-hook-form keeps the values by field name; the names are split by the type of their value
  (\<open>FormValues\<close>).
\<close>

datatype sfield = FCity | FDistrict | FAddress | FName | FRoomType | FAvailableFrom | FDescription | FContactInfo

datatype nfield = FRent | FManagementFee | FAreaPing | FNumBedrooms | FNumLivingRooms | FNumBathrooms
  | FNumBalconies | FMinLeaseMonths

datatype bfield = FAllowPets | FAllowSubsidy | FAllowTaxReceipt | FAllowHousehold | FAllowCooking
  | FHasParking | FAllowSmoking | FComplianceConfirmed

record listing_values =
  lv_str :: "sfield \<Rightarrow> jstr"
  lv_num :: "nfield \<Rightarrow> jnum"
  lv_flag :: "bfield \<Rightarrow> bool"

definition listing_defaults :: "browser \<Rightarrow> listing_values" where
  "listing_defaults b = \<lparr>lv_str = (\<lambda>f. if f = FAvailableFrom then br_today b else []),
     lv_num = (\<lambda>f. if f = FMinLeaseMonths then Num 12 else Num 0), lv_flag = (\<lambda>f. False)\<rparr>"

text \<open>Loading an existing listing. \<open>reset\<close> leaves \<open>compliance_confirmed\<close> undefined, which is falsy.\<close>

definition location_of :: "jstr \<Rightarrow> city_district option" where
  "location_of i = map_of LOCATION_CITY_DISTRICT i"

definition hydrate_address :: "jstr \<Rightarrow> jstr option \<Rightarrow> jstr" where
  "hydrate_address location_id address =
     (let prefix = (case location_of location_id of None \<Rightarrow> [] | Some cd \<Rightarrow> cd_city cd @ cd_district cd);
          full = (case address of None \<Rightarrow> [] | Some a \<Rightarrow> a)
      in if prefix \<noteq> [] \<and> starts_with full prefix then drop (length prefix) full else full)"

definition hydrate :: "browser \<Rightarrow> listing \<Rightarrow> listing_values" where
  "hydrate b l = \<lparr>
     lv_str = (\<lambda>f. case f of
         FCity \<Rightarrow> (case location_of (li_location_id l) of None \<Rightarrow> [] | Some cd \<Rightarrow> cd_city cd)
       | FDistrict \<Rightarrow> (case location_of (li_location_id l) of None \<Rightarrow> [] | Some cd \<Rightarrow> cd_district cd)
       | FAddress \<Rightarrow> hydrate_address (li_location_id l) (li_address l)
       | FName \<Rightarrow> li_name l
       | FRoomType \<Rightarrow> li_room_type l
       | FAvailableFrom \<Rightarrow> (if li_available_from l \<noteq> [] then br_date b (li_available_from l) else [])
       | FDescription \<Rightarrow> or_else [] (li_description l)
       | FContactInfo \<Rightarrow> or_else [] (li_contact_info l)),
     lv_num = (\<lambda>f. case f of
         FRent \<Rightarrow> Num (of_int (li_rent l))
       | FManagementFee \<Rightarrow> Num (of_int (li_management_fee l))
       | FAreaPing \<Rightarrow> Num (li_area_ping l)
       | FNumBedrooms \<Rightarrow> Num (of_int (or_else 0 (li_num_bedrooms l)))
       | FNumLivingRooms \<Rightarrow> Num (of_int (or_else 0 (li_num_living_rooms l)))
       | FNumBathrooms \<Rightarrow> Num (of_int (or_else 0 (li_num_bathrooms l)))
       | FNumBalconies \<Rightarrow> Num (of_int (or_else 0 (li_num_balconies l)))
       | FMinLeaseMonths \<Rightarrow> Num (of_int (li_min_lease_months l))),
     lv_flag = (\<lambda>f. case f of
         FAllowPets \<Rightarrow> li_allow_pets l
       | FAllowSubsidy \<Rightarrow> li_allow_subsidy l
       | FAllowTaxReceipt \<Rightarrow> li_allow_tax_receipt l
       | FAllowHousehold \<Rightarrow> li_allow_household_registration l
       | FAllowCooking \<Rightarrow> li_allow_cooking l
       | FHasParking \<Rightarrow> li_has_parking l
       | FAllowSmoking \<Rightarrow> li_allow_smoking l
       | FComplianceConfirmed \<Rightarrow> False)\<rparr>"

section \<open>Rules\<close>

text \<open>The rules the fields register; the layout fields and the unruled ones cannot fail and are left out.\<close>

definition listing_rules :: "jstr option \<Rightarrow> listing_values \<Rightarrow> field_rules" where
  "listing_rules editing v = [
     (js ''city'', VStr (lv_str v FCity), [Required t_city_required]),
     (js ''district'', VStr (lv_str v FDistrict), [Required t_district_required]),
     (js ''rent'', VNum (lv_num v FRent),
        [Required t_rent_required, AtLeast 1 t_rent_required, AtMost 999999 t_rent_max]),
     (js ''management_fee'', VNum (lv_num v FManagementFee), [AtLeast 0 t_fee_range, AtMost 999999 t_fee_range]),
     (js ''area_ping'', VNum (lv_num v FAreaPing),
        [Required t_area_required, AtLeast (1 / 10) t_area_required, AtMost (99999 / 100) t_area_max]),
     (js ''room_type'', VStr (lv_str v FRoomType), [Required t_room_type_required]),
     (js ''available_from'', VStr (lv_str v FAvailableFrom), [Required t_date_required]),
     (js ''min_lease_months'', VNum (lv_num v FMinLeaseMonths), [Required t_lease_required, AtLeast 1 t_lease_required])]
     @ (if editing = None
        then [(js ''compliance_confirmed'', VBool (lv_flag v FComplianceConfirmed),
               [Check (if lv_flag v FComplianceConfirmed then None else Some t_compliance_required)])]
        else [])"

section \<open>Payload\<close>

record listing_payload =
  lp_city :: jstr
  lp_district :: jstr
  lp_address :: jstr
  lp_name :: jstr
  lp_rent :: jnum
  lp_management_fee :: jnum
  lp_room_type :: jstr
  lp_area_ping :: jnum
  lp_num_bedrooms :: "jnum option"
  lp_num_living_rooms :: "jnum option"
  lp_num_bathrooms :: "jnum option"
  lp_num_balconies :: "jnum option"
  lp_available_from :: jstr
  lp_min_lease_months :: jnum
  lp_description :: jstr
  lp_contact_info :: jstr
  lp_flags :: "bfield \<Rightarrow> bool"

definition whole_floor :: jstr where
  "whole_floor = js ''whole_floor''"

text \<open>\<open>Number(x)\<close> of a number is the number.\<close>

definition listing_payload_of :: "me_response option \<Rightarrow> listing_values \<Rightarrow> listing_payload" where
  "listing_payload_of me v =
     (let isWholeFloor = (lv_str v FRoomType = whole_floor);
          place = lv_str v FCity @ lv_str v FDistrict;
          layout = (\<lambda>f. if isWholeFloor then Some (lv_num v f) else None)
      in \<lparr>lp_city = lv_str v FCity, lp_district = lv_str v FDistrict,
          lp_address = (if trim (lv_str v FAddress) \<noteq> [] then place @ trim (lv_str v FAddress) else place),
          lp_name = lv_str v FName, lp_rent = lv_num v FRent,
          lp_management_fee = or_zero (lv_num v FManagementFee),
          lp_room_type = lv_str v FRoomType, lp_area_ping = lv_num v FAreaPing,
          lp_num_bedrooms = layout FNumBedrooms, lp_num_living_rooms = layout FNumLivingRooms,
          lp_num_bathrooms = layout FNumBathrooms, lp_num_balconies = layout FNumBalconies,
          lp_available_from = (if lv_str v FAvailableFrom \<noteq> [] then lv_str v FAvailableFrom @ js ''T00:00:00Z''
                               else lv_str v FAvailableFrom),
          lp_min_lease_months = lv_num v FMinLeaseMonths, lp_description = lv_str v FDescription,
          lp_contact_info = (case me of None \<Rightarrow> [] | Some m \<Rightarrow> me_contact_info m),
          lp_flags = lv_flag v\<rparr>)"

section \<open>What the API checks\<close>

text \<open>
  The checks that \<open>CreateListing\<close> and \<open>UpdateListing\<close> of \<open>src/apps/api/handler/listings.go\<close> make before they
  write, in their order. \<open>is_time\<close>: what \<open>encoding/json\<close> reads as a time other than the zero time;
  \<open>resolves\<close>: the pairs of the table \<open>locations\<close>.
\<close>

definition listing_ints :: "listing_payload \<Rightarrow> jnum list" where
  "listing_ints p = [lp_rent p, lp_management_fee p, lp_min_lease_months p]"

definition listing_layout :: "listing_payload \<Rightarrow> jnum option list" where
  "listing_layout p = [lp_num_bedrooms p, lp_num_living_rooms p, lp_num_bathrooms p, lp_num_balconies p]"

definition listing_malformed :: "(jstr \<Rightarrow> bool) \<Rightarrow> listing_payload \<Rightarrow> bool" where
  "listing_malformed is_time p \<longleftrightarrow> \<not> is_time (lp_available_from p) \<or>
     list_ex (\<lambda>n. decode_int n = None) (listing_ints p) \<or>
     list_ex (\<lambda>n. case n of None \<Rightarrow> False | Some x \<Rightarrow> decode_int x = None) (listing_layout p)"

definition validRoomType :: "jstr \<Rightarrow> bool" where
  "validRoomType rt \<longleftrightarrow> rt \<in> {js ''suite'', js ''shared'', js ''whole_floor''}"

definition listing_unbound :: "bool \<Rightarrow> listing_payload \<Rightarrow> bool" where
  "listing_unbound contactRequired p \<longleftrightarrow> lp_city p = [] \<or> lp_district p = [] \<or> decoded (lp_rent p) < 1 \<or>
     lp_room_type p = [] \<or> decode_float (lp_area_ping p) < 1 \<or> decoded (lp_min_lease_months p) < 1 \<or>
     contactRequired \<and> lp_contact_info p = []"

text \<open>The part that both handlers share, after binding.\<close>

definition listing_checks :: "(jstr \<Rightarrow> jstr \<Rightarrow> bool) \<Rightarrow> listing_payload \<Rightarrow> refusal option" where
  "listing_checks resolves p =
     (if \<not> validRoomType (lp_room_type p) then Some InvalidRoomType
      else if decoded (lp_rent p) > 999999 then Some InvalidRent
      else if decode_float (lp_area_ping p) \<ge> 1000 then Some InvalidArea
      else if decoded (lp_management_fee p) < 0 \<or> decoded (lp_management_fee p) > 999999 then Some InvalidFee
      else if lp_room_type p = js ''whole_floor'' \<and> list_ex is_null (listing_layout p) then Some LayoutMissing
      else if \<not> resolves (lp_city p) (lp_district p) then Some InvalidLocation
      else None)"

definition createListing :: "(jstr \<Rightarrow> bool) \<Rightarrow> (jstr \<Rightarrow> jstr \<Rightarrow> bool) \<Rightarrow> listing_payload \<Rightarrow> refusal option" where
  "createListing is_time resolves p =
     (if listing_malformed is_time p then Some InvalidFormat
      else if listing_unbound True p then Some ValidationFailed
      else if \<not> lp_flags p FComplianceConfirmed then Some ComplianceMissing
      else listing_checks resolves p)"

definition updateListing :: "(jstr \<Rightarrow> bool) \<Rightarrow> (jstr \<Rightarrow> jstr \<Rightarrow> bool) \<Rightarrow> listing_payload \<Rightarrow> refusal option" where
  "updateListing is_time resolves p =
     (if listing_malformed is_time p then Some InvalidFormat
      else if listing_unbound False p then Some ValidationFailed
      else listing_checks resolves p)"

section \<open>The dialog\<close>

record listing_form =
  lf_editing :: "jstr option"
  lf_me :: "me_response option"
  lf_values :: listing_values
  lf_errors :: "(jstr \<times> jstr) list"
  lf_submitting :: bool
  lf_savedId :: "jstr option"
  lf_globalError :: jstr

datatype listing_form_event =
    EditS sfield jstr | EditN nfield jnum | EditB bfield bool
  | SubmitForm | CloseForm
  | Hydrate listing | MeLoaded me_response
  | Stored jstr | StoreFailed thrown

datatype listing_form_out =
    PostListing listing_payload
  | PutListing jstr listing_payload
  | OnSaved | OnClose

definition listing_form_init :: "browser \<Rightarrow> jstr option \<Rightarrow> me_response option \<Rightarrow> listing_form" where
  "listing_form_init b editing me = \<lparr>lf_editing = editing, lf_me = me, lf_values = listing_defaults b,
     lf_errors = [], lf_submitting = False, lf_savedId = None, lf_globalError = []\<rparr>"

text \<open>\<open>handleSubmit(onSubmit)\<close>: validate, and only without errors build the payload and send it.\<close>

definition submit_listing :: "validator \<Rightarrow> listing_form \<Rightarrow> listing_form \<times> listing_form_out list" where
  "submit_listing validate s =
     (let errors = validate (listing_rules (lf_editing s) (lf_values s));
          payload = listing_payload_of (lf_me s) (lf_values s)
      in if errors \<noteq> [] then (s\<lparr>lf_errors := errors\<rparr>, [])
         else (s\<lparr>lf_errors := [], lf_globalError := [], lf_submitting := True\<rparr>,
               [case lf_editing s of Some i \<Rightarrow> PutListing i payload | None \<Rightarrow> PostListing payload]))"

text \<open>The request succeeds (an update closes the dialog, a creation goes on to the photos) or fails.\<close>

definition listing_stored :: "jstr \<Rightarrow> listing_form \<Rightarrow> listing_form \<times> listing_form_out list" where
  "listing_stored i s = (case lf_editing s of
     Some e \<Rightarrow> (s\<lparr>lf_submitting := False\<rparr>, [OnSaved])
   | None \<Rightarrow> (s\<lparr>lf_submitting := False, lf_savedId := Some i\<rparr>, []))"

definition listing_store_failed :: "thrown \<Rightarrow> listing_form \<Rightarrow> listing_form" where
  "listing_store_failed err s =
     (case submit_error t_fix_fields t_error_occurred err of (fe, banner) \<Rightarrow>
        s\<lparr>lf_submitting := False, lf_errors := set_errors fe (lf_errors s), lf_globalError := banner\<rparr>)"

definition active_id :: "listing_form \<Rightarrow> jstr option" where
  "active_id s = (case lf_editing s of Some i \<Rightarrow> Some i | None \<Rightarrow> lf_savedId s)"

fun listing_form_step ::
  "validator \<Rightarrow> browser \<Rightarrow> listing_form \<Rightarrow> listing_form_event \<Rightarrow> listing_form \<times> listing_form_out list" where
  "listing_form_step validate b s (EditS f x) =
     (s\<lparr>lf_values := (lf_values s)\<lparr>lv_str := (lv_str (lf_values s))(f := x)\<rparr>\<rparr>, [])"
| "listing_form_step validate b s (EditN f x) =
     (s\<lparr>lf_values := (lf_values s)\<lparr>lv_num := (lv_num (lf_values s))(f := x)\<rparr>\<rparr>, [])"
| "listing_form_step validate b s (EditB f x) =
     (s\<lparr>lf_values := (lf_values s)\<lparr>lv_flag := (lv_flag (lf_values s))(f := x)\<rparr>\<rparr>, [])"
| "listing_form_step validate b s SubmitForm = submit_listing validate s"
| "listing_form_step validate b s CloseForm = (s, [if active_id s \<noteq> None then OnSaved else OnClose])"
| "listing_form_step validate b s (Hydrate l) = (s\<lparr>lf_values := hydrate b l, lf_errors := []\<rparr>, [])"
| "listing_form_step validate b s (MeLoaded me) = (s\<lparr>lf_me := Some me\<rparr>, [])"
| "listing_form_step validate b s (Stored i) = listing_stored i s"
| "listing_form_step validate b s (StoreFailed err) = (listing_store_failed err s, [])"

section \<open>View\<close>

definition districts_of :: "jstr \<Rightarrow> location_district list" where
  "districts_of city = (case find (\<lambda>g. lc_cityLabel g = city) LOCATION_GROUPS of None \<Rightarrow> [] | Some g \<Rightarrow> lc_districts g)"

definition location_selector :: "listing_values \<Rightarrow> (jstr \<times> jstr) list \<Rightarrow> listing_form_event node" where
  "location_selector v errors = Box [
     Box ([Txt t_city_label, star,
       dropdown_field (lv_str v FCity) t_city_required
         (map (\<lambda>g. \<lparr>oi_value = lc_cityLabel g, oi_label = lc_cityLabel g\<rparr>) LOCATION_GROUPS) False (EditS FCity)]
       @ field_error_node errors (js ''city'')),
     Box ([Txt t_district_label, star,
       dropdown_field (lv_str v FDistrict) t_district_required
         (map (\<lambda>d. \<lparr>oi_value = ld_districtLabel d, oi_label = ld_districtLabel d\<rparr>) (districts_of (lv_str v FCity)))
         (lv_str v FCity = []) (EditS FDistrict)]
       @ field_error_node errors (js ''district''))]"

definition room_type_selector :: "listing_values \<Rightarrow> (jstr \<times> jstr) list \<Rightarrow> listing_form_event node" where
  "room_type_selector v errors = Box ([Txt t_room_type_label, star,
     Box (map (\<lambda>(rt, label). Btn False (EditS FRoomType rt) [Mark (lv_str v FRoomType = rt) [Txt label]]) ROOM_TYPE_LABELS)]
     @ field_error_node errors (js ''room_type''))"

definition number_input :: "browser \<Rightarrow> listing_values \<Rightarrow> nfield \<Rightarrow> listing_form_event node" where
  "number_input b v f = Inp False (br_text b (lv_num v f)) (\<lambda>s. EditN f (br_number b s))"

definition text_input :: "listing_values \<Rightarrow> sfield \<Rightarrow> listing_form_event node" where
  "text_input v f = Inp False (lv_str v f) (EditS f)"

definition layout_grid :: "browser \<Rightarrow> listing_values \<Rightarrow> listing_form_event node" where
  "layout_grid b v = Box [Txt t_layout_label, Box (map (\<lambda>(f, l). Box [number_input b v f, Txt l])
     [(FNumBedrooms, t_unit_bedrooms), (FNumLivingRooms, t_layout_living), (FNumBathrooms, t_layout_bath),
      (FNumBalconies, t_unit_balconies)])]"

definition compliance_box :: "jstr option \<Rightarrow> listing_values \<Rightarrow> (jstr \<times> jstr) list \<Rightarrow> listing_form_event node list" where
  "compliance_box editing v errors = (if editing \<noteq> None then []
     else [Box ([Txt t_compliance_title, Txt t_compliance_text,
       Chk (lv_flag v FComplianceConfirmed) (EditB FComplianceConfirmed) [Txt t_compliance_check]]
       @ field_error_node errors (js ''compliance_confirmed''))])"

text \<open>The form in three parts: name, place and prices; terms; what comes before and with the buttons.\<close>

definition place_fields :: "browser \<Rightarrow> listing_values \<Rightarrow> (jstr \<times> jstr) list \<Rightarrow> listing_form_event node list" where
  "place_fields b v errors =
     (let err = field_error_node errors in [
        Txt t_listing_name, text_input v FName,
        location_selector v errors,
        Txt t_address_label, text_input v FAddress, Txt t_address_hint,
        Box ([Txt t_rent_label, star, number_input b v FRent] @ err (js ''rent'')),
        Box ([Txt t_fee_label, number_input b v FManagementFee] @ err (js ''management_fee'')),
        Box ([Txt t_area_label, star, number_input b v FAreaPing] @ err (js ''area_ping''))])"

definition terms_fields :: "browser \<Rightarrow> listing_values \<Rightarrow> (jstr \<times> jstr) list \<Rightarrow> listing_form_event node list" where
  "terms_fields b v errors =
     (let err = field_error_node errors in [
        room_type_selector v errors,
        Box (shown (lv_str v FRoomType = whole_floor) [layout_grid b v]),
        Box ([Txt t_date_label, star, text_input v FAvailableFrom] @ err (js ''available_from'')),
        Box ([Txt t_lease_label, star, number_input b v FMinLeaseMonths] @ err (js ''min_lease_months'')),
        checkbox_group t_conditions [(FAllowPets, t_cond_pets), (FAllowSubsidy, t_cond_subsidy),
          (FAllowTaxReceipt, t_cond_tax), (FAllowHousehold, t_cond_household), (FAllowCooking, t_cond_cooking)]
          (lv_flag v) EditB,
        Txt t_description_label, text_input v FDescription])"

definition form_footer :: "listing_form \<Rightarrow> listing_form_event node list" where
  "form_footer s =
     (let editing = lf_editing s in
        [contact_info_field False (lf_me s)]
        @ compliance_box editing (lf_values s) (lf_errors s)
        @ shown (lf_globalError s \<noteq> []) [Txt (lf_globalError s)]
        @ [Submit (lf_submitting s \<or> contact_missing (lf_me s))
             [Txt (if lf_submitting s then t_saving else if editing \<noteq> None then t_save_and_close else t_create_listing)]]
        @ shown (editing \<noteq> None) [Btn False CloseForm [Txt t_cancel]])"

definition listing_form_body :: "browser \<Rightarrow> listing_form \<Rightarrow> listing_form_event node" where
  "listing_form_body b s = Form SubmitForm
     (place_fields b (lf_values s) (lf_errors s) @ terms_fields b (lf_values s) (lf_errors s) @ form_footer s)"

text \<open>The photo section of the dialog is a component of its own and not repeated here.\<close>

definition listing_form_view :: "browser \<Rightarrow> listing_form \<Rightarrow> listing_form_event node" where
  "listing_form_view b s = modal True CloseForm [
     Txt (if lf_editing s \<noteq> None then t_edit_listing else if lf_savedId s \<noteq> None then t_upload_photos else t_new_listing),
     Btn False CloseForm [],
     (if lf_savedId s \<noteq> None then Box [Txt t_listing_created, Btn False CloseForm [Txt t_close]]
      else listing_form_body b s)]"

section \<open>The machine\<close>

text \<open>
  The user acts on the view; the server answers a running submission; the listing under edit arrives
  (with its id), as does the user's own record.
\<close>

fun listing_form_can :: "browser \<Rightarrow> listing_form \<Rightarrow> listing_form_event \<Rightarrow> bool" where
  "listing_form_can b s (Hydrate l) = (lf_editing s = Some (li_id l))"
| "listing_form_can b s (MeLoaded me) = True"
| "listing_form_can b s (Stored i) = lf_submitting s"
| "listing_form_can b s (StoreFailed err) = lf_submitting s"
| "listing_form_can b s e = offers (listing_form_view b s) e"

text \<open>What the view offers: submission needs contact information and no running request.\<close>

lemma selectors_no_submit [simp]:
  "\<not> can_submit (location_selector v es)" "\<not> can_submit (room_type_selector v es)"
  "\<not> can_submit (text_input v f)" "\<not> can_submit (number_input b v g)" "\<not> can_submit (layout_grid b v)"
  by (auto simp: location_selector_def room_type_selector_def text_input_def number_input_def layout_grid_def list_ex_iff
      split: prod.splits)

lemma compliance_box_no_submit [simp]: "\<not> list_ex can_submit (compliance_box ed v es)"
  by (simp add: compliance_box_def)

text \<open>Which events each part can raise.\<close>

lemma selector_events:
  "offers (location_selector v es) e \<Longrightarrow> (\<exists>x. e = EditS FCity x) \<or> (\<exists>x. e = EditS FDistrict x)"
  "offers (room_type_selector v es) e \<Longrightarrow> \<exists>x. e = EditS FRoomType x"
  "offers (text_input v f) e \<Longrightarrow> \<exists>x. e = EditS f x"
  "offers (number_input b v g) e \<Longrightarrow> \<exists>x. e = EditN g x"
  "offers (layout_grid b v) e \<Longrightarrow> \<exists>g x. e = EditN g x"
  by (auto simp: location_selector_def room_type_selector_def text_input_def number_input_def layout_grid_def list_ex_iff
      split: prod.splits)

lemma compliance_box_events: "list_ex (\<lambda>c. offers c e) (compliance_box ed v es) \<Longrightarrow> \<exists>x. e = EditB FComplianceConfirmed x"
  by (auto simp: compliance_box_def split: if_splits)

lemmas form_part_defs = place_fields_def terms_fields_def form_footer_def

lemma can_submit_body: "list_ex can_submit cs \<longleftrightarrow> \<not> lf_submitting s \<and> \<not> contact_missing (lf_me s)"
  if "listing_form_body b s = Form SubmitForm cs"
  using that by (auto simp: listing_form_body_def form_part_defs Let_def)

lemma offers_SubmitForm:
  "offers (listing_form_view b s) SubmitForm \<Longrightarrow> lf_savedId s = None \<and> \<not> lf_submitting s \<and> \<not> contact_missing (lf_me s)"
  by (auto simp: listing_form_view_def listing_form_body_def form_part_defs Let_def dest!: selector_events compliance_box_events
      split: if_splits)

lemma offers_EditB:
  "offers (listing_form_view b s) (EditB f x) \<Longrightarrow>
     f \<in> {FAllowPets, FAllowSubsidy, FAllowTaxReceipt, FAllowHousehold, FAllowCooking, FComplianceConfirmed}"
  by (auto simp: listing_form_view_def listing_form_body_def form_part_defs Let_def dest!: selector_events compliance_box_events
      split: if_splits)

section \<open>Properties\<close>

text \<open>What the form's own rules make of a request. (They are not the API's: see \<open>createListing\<close> above.)\<close>

definition in_range :: "rat \<Rightarrow> rat \<Rightarrow> jnum \<Rightarrow> bool" where
  "in_range lo hi x = (case x of NaN \<Rightarrow> False | Num q \<Rightarrow> lo \<le> q \<and> q \<le> hi)"

definition ruled_payload :: "listing_payload \<Rightarrow> bool" where
  "ruled_payload p \<longleftrightarrow>
     lp_city p \<noteq> [] \<and> lp_district p \<noteq> [] \<and> lp_room_type p \<noteq> [] \<and> lp_contact_info p \<noteq> [] \<and>
     starts_with (lp_address p) (lp_city p @ lp_district p) \<and>
     in_range 1 999999 (lp_rent p) \<and> in_range 0 999999 (lp_management_fee p) \<and>
     in_range (1 / 10) (99999 / 100) (lp_area_ping p) \<and>
     (\<exists>m. lp_min_lease_months p = Num m \<and> 1 \<le> m) \<and>
     (\<exists>day. day \<noteq> [] \<and> lp_available_from p = day @ js ''T00:00:00Z'') \<and>
     (lp_room_type p = whole_floor \<longleftrightarrow> lp_num_bedrooms p \<noteq> None) \<and>
     (lp_room_type p = whole_floor \<longleftrightarrow> lp_num_living_rooms p \<noteq> None) \<and>
     (lp_room_type p = whole_floor \<longleftrightarrow> lp_num_bathrooms p \<noteq> None) \<and>
     (lp_room_type p = whole_floor \<longleftrightarrow> lp_num_balconies p \<noteq> None)"

lemma payload_ruled:
  assumes "rules_hold (listing_rules ed v)" and "\<not> contact_missing me"
  shows "ruled_payload (listing_payload_of me v)"
proof -
  have r: "rule_error (Required t_rent_required) (VNum (lv_num v FRent)) = None"
    "rule_error (AtLeast 1 t_rent_required) (VNum (lv_num v FRent)) = None"
    "rule_error (AtMost 999999 t_rent_max) (VNum (lv_num v FRent)) = None"
    "rule_error (AtLeast 0 t_fee_range) (VNum (lv_num v FManagementFee)) = None"
    "rule_error (AtMost 999999 t_fee_range) (VNum (lv_num v FManagementFee)) = None"
    "rule_error (Required t_area_required) (VNum (lv_num v FAreaPing)) = None"
    "rule_error (AtLeast (1 / 10) t_area_required) (VNum (lv_num v FAreaPing)) = None"
    "rule_error (AtMost (99999 / 100) t_area_max) (VNum (lv_num v FAreaPing)) = None"
    "rule_error (Required t_lease_required) (VNum (lv_num v FMinLeaseMonths)) = None"
    "rule_error (AtLeast 1 t_lease_required) (VNum (lv_num v FMinLeaseMonths)) = None"
    and s: "lv_str v FCity \<noteq> []" "lv_str v FDistrict \<noteq> []" "lv_str v FRoomType \<noteq> []" "lv_str v FAvailableFrom \<noteq> []"
    using assms(1) by (simp_all add: rules_hold_def listing_rules_def split: if_splits)
  have fee: "in_range 0 999999 (or_zero (lv_num v FManagementFee))"
    using r(4,5) by (cases "lv_num v FManagementFee") (auto simp: in_range_def or_zero_def split: if_splits)
  have nums: "in_range 1 999999 (lv_num v FRent)" "in_range (1 / 10) (99999 / 100) (lv_num v FAreaPing)"
    "\<exists>m. lv_num v FMinLeaseMonths = Num m \<and> 1 \<le> m"
    using r by (cases "lv_num v FRent"; cases "lv_num v FAreaPing"; cases "lv_num v FMinLeaseMonths";
        auto simp: in_range_def split: if_splits)+
  have addr: "starts_with (c @ d @ x) (c @ d)" for c d x :: jstr
    using starts_with_append [of "c @ d" x] by simp
  show ?thesis
    unfolding ruled_payload_def using s fee nums assms(2) addr [of _ _ "[]"] addr
    by (auto simp: listing_payload_of_def Let_def contact_missing_def split: option.splits)
qed

text \<open>
  Where the rules of the form and the checks of the API part: a request that obeys the rules passes the
  checks exactly under these conditions.
\<close>

definition passes_api :: "(jstr \<Rightarrow> bool) \<Rightarrow> (jstr \<Rightarrow> jstr \<Rightarrow> bool) \<Rightarrow> listing_payload \<Rightarrow> bool" where
  "passes_api is_time resolves p \<longleftrightarrow>
     in_range 1 (99999 / 100) (lp_area_ping p) \<and>
     (\<forall>n \<in> set (listing_ints p). decode_int n \<noteq> None) \<and>
     (\<forall>n \<in> set (listing_layout p). n \<noteq> Some NaN \<and> (\<forall>x. n = Some x \<longrightarrow> decode_int x \<noteq> None)) \<and>
     lp_room_type p \<in> fst ` set ROOM_TYPE_LABELS \<and> is_time (lp_available_from p) \<and> resolves (lp_city p) (lp_district p)"

lemma ruled_ints:
  assumes "ruled_payload p" and "\<forall>n \<in> set (listing_ints p). decode_int n \<noteq> None"
  shows "1 \<le> decoded (lp_rent p)" "decoded (lp_rent p) \<le> 999999" "0 \<le> decoded (lp_management_fee p)"
    "decoded (lp_management_fee p) \<le> 999999" "1 \<le> decoded (lp_min_lease_months p)"
proof -
  obtain r where r: "lp_rent p = Num r" "1 \<le> r" "r \<le> 999999"
    using assms(1) by (cases "lp_rent p") (auto simp: ruled_payload_def in_range_def)
  obtain f where f: "lp_management_fee p = Num f" "0 \<le> f" "f \<le> 999999"
    using assms(1) by (cases "lp_management_fee p") (auto simp: ruled_payload_def in_range_def)
  obtain m where m: "lp_min_lease_months p = Num m" "1 \<le> m"
    using assms(1) by (auto simp: ruled_payload_def)
  have "of_int (decoded (Num r)) = r" "of_int (decoded (Num f)) = f" "of_int (decoded (Num m)) = m"
    using assms(2) r f m by (auto simp: listing_ints_def intro!: decoded_range)
  then show "1 \<le> decoded (lp_rent p)" "decoded (lp_rent p) \<le> 999999" "0 \<le> decoded (lp_management_fee p)"
    "decoded (lp_management_fee p) \<le> 999999" "1 \<le> decoded (lp_min_lease_months p)"
    unfolding r(1) f(1) m(1) using r f m by linarith+
qed

lemma malformed_iff:
  "\<not> listing_malformed is_time p \<longleftrightarrow> is_time (lp_available_from p) \<and> (\<forall>n \<in> set (listing_ints p). decode_int n \<noteq> None) \<and>
     (\<forall>n \<in> set (listing_layout p). \<forall>x. n = Some x \<longrightarrow> decode_int x \<noteq> None)"
  by (auto simp: listing_malformed_def list_ex_iff split: option.splits)

lemma ruled_layout:
  assumes "ruled_payload p"
  shows "lp_room_type p = js ''whole_floor'' \<and> list_ex is_null (listing_layout p) \<longleftrightarrow> Some NaN \<in> set (listing_layout p)"
  using assms by (auto simp: ruled_payload_def listing_layout_def is_null_def whole_floor_def)

lemma room_types: "validRoomType rt \<longleftrightarrow> rt \<in> fst ` set ROOM_TYPE_LABELS"
  by (auto simp: validRoomType_def ROOM_TYPE_LABELS_def)

lemma ruled_area:
  assumes "ruled_payload p"
  shows "in_range 1 (99999 / 100) (lp_area_ping p) \<longleftrightarrow> 1 \<le> decode_float (lp_area_ping p)"
    and "decode_float (lp_area_ping p) < 1000"
  using assms by (cases "lp_area_ping p"; simp add: ruled_payload_def in_range_def)+

lemma ruled_checks:
  assumes "ruled_payload p" and "\<not> listing_malformed is_time p"
  shows "listing_unbound c p \<longleftrightarrow> \<not> in_range 1 (99999 / 100) (lp_area_ping p)"
    and "listing_checks resolves p = None \<longleftrightarrow>
      lp_room_type p \<in> fst ` set ROOM_TYPE_LABELS \<and> Some NaN \<notin> set (listing_layout p) \<and> resolves (lp_city p) (lp_district p)"
proof -
  have "\<forall>n \<in> set (listing_ints p). decode_int n \<noteq> None" using assms(2) unfolding malformed_iff by blast
  note ints = ruled_ints [OF assms(1) this]
  show "listing_unbound c p \<longleftrightarrow> \<not> in_range 1 (99999 / 100) (lp_area_ping p)"
    using ints assms(1) unfolding ruled_area [OF assms(1)] by (auto simp: listing_unbound_def ruled_payload_def)
  show "listing_checks resolves p = None \<longleftrightarrow>
      lp_room_type p \<in> fst ` set ROOM_TYPE_LABELS \<and> Some NaN \<notin> set (listing_layout p) \<and> resolves (lp_city p) (lp_district p)"
    unfolding listing_checks_def ruled_layout [OF assms(1)] room_types
    using ints ruled_area(2) [OF assms(1)] by (simp add: not_le not_less)
qed

lemma ruled_accepted:
  assumes "ruled_payload p"
  shows "updateListing is_time resolves p = None \<longleftrightarrow> passes_api is_time resolves p"
    and "lp_flags p FComplianceConfirmed \<Longrightarrow> createListing is_time resolves p = None \<longleftrightarrow> passes_api is_time resolves p"
proof -
  have "passes_api is_time resolves p \<longleftrightarrow> \<not> listing_malformed is_time p \<and> in_range 1 (99999 / 100) (lp_area_ping p) \<and>
      lp_room_type p \<in> fst ` set ROOM_TYPE_LABELS \<and> Some NaN \<notin> set (listing_layout p) \<and> resolves (lp_city p) (lp_district p)"
    unfolding passes_api_def malformed_iff by blast
  then show "updateListing is_time resolves p = None \<longleftrightarrow> passes_api is_time resolves p"
    and "lp_flags p FComplianceConfirmed \<Longrightarrow> createListing is_time resolves p = None \<longleftrightarrow> passes_api is_time resolves p"
    using ruled_checks [OF assms, of is_time] by (auto simp: updateListing_def createListing_def)
qed

text \<open>
  C17. What the listing form sends, and when the API takes it. Relying on the form library for nothing but
  its contract, whatever a submission from the dialog sends obeys the form's rules: every number inside
  its range (an empty management fee counts as zero), every required text filled, contact information
  present, layout numbers exactly for whole-floor listings, and, for a new listing, the compliance box
  ticked; an edit is sent to the listing under edit. The API's own checks are stricter: such a request
  passes them exactly if also the area is at least one ping, every other number is a whole one, no layout
  number of a whole floor was left empty (it is sent as \<open>null\<close>), and room type, date and place are known.
\<close>

theorem submitted_listing_valid:
  assumes "validates validate" and "listing_form_can b s SubmitForm"
    and "out \<in> set (snd (listing_form_step validate b s SubmitForm))"
  shows "\<exists>p. ruled_payload p \<and>
     (case lf_editing s of
        None \<Rightarrow> out = PostListing p \<and> lp_flags p FComplianceConfirmed \<and>
          (createListing is_time resolves p = None \<longleftrightarrow> passes_api is_time resolves p)
      | Some i \<Rightarrow> out = PutListing i p \<and> (updateListing is_time resolves p = None \<longleftrightarrow> passes_api is_time resolves p))"
proof -
  let ?rules = "listing_rules (lf_editing s) (lf_values s)" and ?p = "listing_payload_of (lf_me s) (lf_values s)"
  from assms(3) have "validate ?rules = []" by (auto simp: submit_listing_def Let_def split: if_splits)
  with assms(1) have hold: "rules_hold ?rules" by (simp add: validates_def)
  have "offers (listing_form_view b s) SubmitForm" using assms(2) by simp
  then have ruled: "ruled_payload ?p"
    using payload_ruled [OF hold] offers_SubmitForm by blast
  moreover have "lf_editing s = None \<Longrightarrow> lp_flags ?p FComplianceConfirmed"
    using hold by (auto simp: rules_hold_def listing_rules_def listing_payload_of_def Let_def split: if_splits)
  moreover have "out = (case lf_editing s of Some i \<Rightarrow> PutListing i ?p | None \<Rightarrow> PostListing ?p)"
    using assms(3) \<open>validate ?rules = []\<close> by (auto simp: submit_listing_def Let_def)
  ultimately show ?thesis
    using ruled_accepted [OF ruled, of is_time resolves] by (intro exI [of _ ?p]) (simp split: option.split)
qed

text \<open>A complete form, for the examples.\<close>

definition example_browser :: browser where
  "example_browser = \<lparr>br_number = (\<lambda>s. NaN), br_text = (\<lambda>n. []), br_date = (\<lambda>s. take 10 s), br_today = js ''2025-01-01''\<rparr>"

definition example_me :: me_response where
  "example_me = \<lparr>me_id = [], me_email = [], me_name = [], me_avatar_url = [], me_contact_info = js ''line'',
     me_roles = [], me_created_at = []\<rparr>"

definition example_values :: "jstr \<Rightarrow> jstr \<Rightarrow> listing_values" where
  "example_values c d = (listing_defaults example_browser)\<lparr>
     lv_str := (lv_str (listing_defaults example_browser))(FCity := c, FDistrict := d, FRoomType := js ''suite''),
     lv_num := (lv_num (listing_defaults example_browser))(FRent := Num 12000, FAreaPing := Num 8),
     lv_flag := (\<lambda>f. f = FComplianceConfirmed)\<rparr>"

definition example_form :: "jstr \<Rightarrow> jstr \<Rightarrow> listing_form" where
  "example_form c d = (listing_form_init example_browser None (Some example_me))\<lparr>lf_values := example_values c d\<rparr>"

lemma example_rules: "c \<noteq> [] \<Longrightarrow> d \<noteq> [] \<Longrightarrow> rules_hold (listing_rules None (example_values c d))"
  by (simp add: rules_hold_def listing_rules_def example_values_def listing_defaults_def example_browser_def js_def)

lemma example_can_submit: "listing_form_can example_browser (example_form c d) SubmitForm"
  by (simp add: listing_form_view_def listing_form_body_def form_part_defs Let_def example_form_def listing_form_init_def
      contact_missing_def example_me_def js_def)

lemma example_submits:
  "c \<noteq> [] \<Longrightarrow> d \<noteq> [] \<Longrightarrow> snd (listing_form_step first_errors b (example_form c d) SubmitForm)
     = [PostListing (listing_payload_of (Some example_me) (example_values c d))]"
  using example_rules [of c d] first_errors_Nil
  by (simp add: submit_listing_def Let_def example_form_def listing_form_init_def)

text \<open>The same form with an area of half a ping.\<close>

definition half_ping_form :: listing_form where
  "half_ping_form = (example_form [1] [2])\<lparr>lf_values := (example_values [1] [2])\<lparr>lv_num :=
     (lv_num (example_values [1] [2]))(FAreaPing := Num (1 / 2))\<rparr>\<rparr>"

lemma half_ping_submits:
  "snd (listing_form_step first_errors b half_ping_form SubmitForm) =
     [PostListing (listing_payload_of (Some example_me) (lf_values half_ping_form))]"
proof -
  have "rules_hold (listing_rules None (lf_values half_ping_form))"
    using example_rules [of "[1]" "[2]"] by (simp add: half_ping_form_def rules_hold_def listing_rules_def)
  then show ?thesis
    by (simp add: submit_listing_def Let_def first_errors_Nil)
      (simp add: half_ping_form_def example_form_def listing_form_init_def first_errors_Nil)
qed

lemma submitted_listing_valid_witness:
  "(\<exists>p. snd (listing_form_step first_errors example_browser (example_form [1] [2]) SubmitForm) = [PostListing p] \<and>
      createListing (\<lambda>t. True) (\<lambda>c d. True) p = None) \<and>
   (\<exists>p. snd (listing_form_step first_errors example_browser half_ping_form SubmitForm) = [PostListing p] \<and>
      ruled_payload p \<and> createListing (\<lambda>t. True) (\<lambda>c d. True) p = Some ValidationFailed)"
proof
  let ?p = "listing_payload_of (Some example_me) (example_values [1] [2])"
  have out: "snd (listing_form_step first_errors example_browser (example_form [1] [2]) SubmitForm) = [PostListing ?p]"
    by (rule example_submits) simp_all
  have "lf_editing (example_form [1] [2]) = None" by (simp add: example_form_def listing_form_init_def)
  then have "createListing (\<lambda>t. True) (\<lambda>c d. True) ?p = None \<longleftrightarrow> passes_api (\<lambda>t. True) (\<lambda>c d. True) ?p"
    using submitted_listing_valid [OF first_errors_validates example_can_submit, of "PostListing ?p" "[1]" "[2]"]
    unfolding out by auto
  moreover have "passes_api (\<lambda>t. True) (\<lambda>c d. True) ?p"
    by (simp add: passes_api_def listing_payload_of_def Let_def example_values_def listing_defaults_def in_range_def
        listing_ints_def listing_layout_def ROOM_TYPE_LABELS_def or_zero_def whole_floor_def)
  ultimately show "\<exists>p. snd (listing_form_step first_errors example_browser (example_form [1] [2]) SubmitForm) = [PostListing p] \<and>
      createListing (\<lambda>t. True) (\<lambda>c d. True) p = None" using out by blast
  let ?q = "listing_payload_of (Some example_me) (lf_values half_ping_form)"
  have "listing_form_can example_browser half_ping_form SubmitForm"
    by (simp add: half_ping_form_def listing_form_view_def listing_form_body_def form_part_defs Let_def example_form_def
        listing_form_init_def contact_missing_def example_me_def js_def)
  from submitted_listing_valid [OF first_errors_validates this, unfolded half_ping_submits, of "PostListing ?q"]
  have "ruled_payload ?q" by (auto simp: half_ping_form_def example_form_def listing_form_init_def)
  moreover have "createListing (\<lambda>t. True) (\<lambda>c d. True) ?q = Some ValidationFailed"
    by (simp add: createListing_def listing_malformed_def listing_unbound_def listing_ints_def listing_layout_def
        listing_payload_of_def Let_def half_ping_form_def example_values_def listing_defaults_def or_zero_def whole_floor_def)
  ultimately show "\<exists>p. snd (listing_form_step first_errors example_browser half_ping_form SubmitForm) = [PostListing p] \<and>
      ruled_payload p \<and> createListing (\<lambda>t. True) (\<lambda>c d. True) p = Some ValidationFailed"
    using half_ping_submits by blast
qed

text \<open>The place a listing's address is about, and what the form makes of the address.\<close>

lemma place_of_payload:
  assumes "location_of (li_location_id l) = Some cd"
  shows "lp_city (listing_payload_of me (hydrate b l)) = cd_city cd"
    "lp_district (listing_payload_of me (hydrate b l)) = cd_district cd"
    "lp_address (listing_payload_of me (hydrate b l)) =
       cd_city cd @ cd_district cd @ trim (hydrate_address (li_location_id l) (li_address l))"
  by (auto simp: assms listing_payload_of_def hydrate_def Let_def)

lemma hydrate_prefixed:
  assumes "location_of i = Some cd"
  shows "hydrate_address i (Some (cd_city cd @ cd_district cd @ rest)) = rest"
  using starts_with_append [of "cd_city cd @ cd_district cd" rest] by (auto simp: hydrate_address_def assms Let_def)

lemma hydrate_other:
  assumes "location_of i = Some cd" and "\<nexists>rest. a = Some (cd_city cd @ cd_district cd @ rest)"
  shows "hydrate_address i a = or_else [] a"
proof -
  have "starts_with x y \<longleftrightarrow> (\<exists>z. x = y @ z)" for x y :: jstr
    by (metis append_take_drop_id starts_with_append starts_with_def)
  then show ?thesis using assms by (auto simp: hydrate_address_def Let_def or_else_def split: option.splits)
qed

text \<open>
  C20. Editing keeps the place, and when it keeps the address. A listing of a known location, loaded into
  the form and sent back unchanged, goes out with the city and district that identify this location. Its
  address goes out unchanged exactly if it begins with the city and district and what follows has no
  white space at its ends; without an address it gets the city and district as one, and an address
  without them gets them in front. An address the form has sent once comes back unchanged from then on.
\<close>

theorem edit_keeps_address:
  assumes "c \<in> set LOCATION_GROUPS" and "d \<in> set (lc_districts c)" and "li_location_id l = ld_id d"
  shows "let p = listing_payload_of me (hydrate b l); place = lc_cityLabel c @ ld_districtLabel d
         in map_of LOCATION_CITY_DISTRICT (li_location_id l) = Some \<lparr>cd_city = lp_city p, cd_district = lp_district p\<rparr> \<and>
            (Some (lp_address p) = li_address l \<longleftrightarrow> (\<exists>rest. li_address l = Some (place @ rest) \<and> trim rest = rest)) \<and>
            (\<forall>rest. li_address l = Some (place @ rest) \<longrightarrow> lp_address p = place @ trim rest) \<and>
            (\<not> (\<exists>rest. li_address l = Some (place @ rest)) \<longrightarrow>
               lp_address p = place @ trim (case li_address l of None \<Rightarrow> [] | Some a \<Rightarrow> a)) \<and>
            lp_address (listing_payload_of me (hydrate b (l\<lparr>li_address := Some (lp_address p)\<rparr>))) = lp_address p"
proof -
  define cd where "cd = \<lparr>cd_city = lc_cityLabel c, cd_district = ld_districtLabel d\<rparr>"
  define place where "place = lc_cityLabel c @ ld_districtLabel d"
  let ?p = "listing_payload_of me (hydrate b l)"
  have loc: "location_of (li_location_id l) = Some cd"
    unfolding location_of_def LOCATION_CITY_DISTRICT_def assms(3) cd_def by (rule table.lookup_by_id [OF assms(1,2)])
  have pre: "hydrate_address (li_location_id l) (Some (place @ rest)) = rest" for rest
    using hydrate_prefixed [OF loc] by (simp add: cd_def place_def)
  have addr: "lp_address (listing_payload_of me (hydrate b m)) = place @ trim (hydrate_address (li_location_id l) (li_address m))"
    if "li_location_id m = li_location_id l" for m
    using place_of_payload [of m cd me b] loc that by (simp add: cd_def place_def)
  have known: "li_address l = Some (place @ rest) \<Longrightarrow> lp_address ?p = place @ trim rest" for rest
    using addr [of l] pre by simp
  have other: "\<not> (\<exists>rest. li_address l = Some (place @ rest)) \<Longrightarrow>
      lp_address ?p = place @ trim (case li_address l of None \<Rightarrow> [] | Some a \<Rightarrow> a)"
    using addr [of l] hydrate_other [OF loc, of "li_address l"]
    by (simp add: cd_def place_def or_else_def split: option.splits)
  have "Some (lp_address ?p) = li_address l \<longleftrightarrow> (\<exists>rest. li_address l = Some (place @ rest) \<and> trim rest = rest)"
    using known other by (cases "\<exists>rest. li_address l = Some (place @ rest)") (auto, metis)
  moreover have "map_of LOCATION_CITY_DISTRICT (li_location_id l) = Some \<lparr>cd_city = lp_city ?p, cd_district = lp_district ?p\<rparr>"
    using loc place_of_payload [OF loc] by (simp add: location_of_def cd_def)
  moreover have "lp_address (listing_payload_of me (hydrate b (l\<lparr>li_address := Some (lp_address ?p)\<rparr>))) = lp_address ?p"
    using addr [of "l\<lparr>li_address := Some (lp_address ?p)\<rparr>"] addr [of l] by (simp add: pre)
  ultimately show ?thesis using known other unfolding Let_def place_def [symmetric] by blast
qed

definition example_listing :: listing where
  "example_listing = \<lparr>li_id = js ''L'', li_landlord_id = [], li_location_id = js ''01-0101'',
     li_address = Some (lc_cityLabel city_01 @ ld_districtLabel (hd (lc_districts city_01)) @ js ''1''),
     li_name = [], li_rent = 12000, li_management_fee = 0, li_room_type = js ''suite'', li_area_ping = 8,
     li_num_bedrooms = None, li_num_living_rooms = None, li_num_bathrooms = None, li_num_balconies = None,
     li_available_from = [], li_min_lease_months = 12, li_allow_pets = False, li_allow_subsidy = False,
     li_allow_tax_receipt = False, li_allow_household_registration = False, li_allow_cooking = False,
     li_has_parking = False, li_allow_smoking = False, li_description = None, li_contact_info = None,
     li_status = [], li_photos = [], li_lat = None, li_lng = None, li_created_at = [], li_updated_at = []\<rparr>"

lemma edit_keeps_address_witness:
  "Some (lp_address (listing_payload_of None (hydrate example_browser example_listing))) = li_address example_listing \<and>
   lp_address (listing_payload_of None (hydrate example_browser (example_listing\<lparr>li_address := None\<rparr>))) =
     lc_cityLabel city_01 @ ld_districtLabel (hd (lc_districts city_01))"
proof -
  let ?d = "hd (lc_districts city_01)"
  have h: "city_01 \<in> set LOCATION_GROUPS" "?d \<in> set (lc_districts city_01)" "li_location_id example_listing = ld_id ?d"
    by (simp_all add: LOCATION_GROUPS_def city_01_def example_listing_def)
  have "li_address example_listing = Some ((lc_cityLabel city_01 @ ld_districtLabel ?d) @ js ''1'')"
    by (simp add: example_listing_def)
  moreover have "trim (js ''1'') = js ''1''" by (simp add: js_defs)
  ultimately have "Some (lp_address (listing_payload_of None (hydrate example_browser example_listing))) = li_address example_listing"
    using edit_keeps_address [OF h, of None example_browser] unfolding Let_def by blast
  moreover have "li_location_id (example_listing\<lparr>li_address := None\<rparr>) = ld_id ?d" using h(3) by simp
  from edit_keeps_address [OF h(1,2) this, of None example_browser]
  have "lp_address (listing_payload_of None (hydrate example_browser (example_listing\<lparr>li_address := None\<rparr>))) =
     lc_cityLabel city_01 @ ld_districtLabel ?d" by (simp add: Let_def)
  ultimately show ?thesis by blast
qed

section \<open>What the form cannot say\<close>

abbreviation new_listing_start :: "browser \<Rightarrow> listing_form \<Rightarrow> bool" where
  "new_listing_start b s \<equiv> \<exists>me. s = listing_form_init b None me"

definition no_parking_inv :: "listing_form \<Rightarrow> bool" where
  "no_parking_inv s \<longleftrightarrow> lf_editing s = None \<and> \<not> lv_flag (lf_values s) FHasParking \<and> \<not> lv_flag (lf_values s) FAllowSmoking"

lemma no_parking_step:
  "no_parking_inv s \<Longrightarrow> listing_form_can b s e \<Longrightarrow> no_parking_inv (fst (listing_form_step validate b s e))"
proof (cases e)
  case (EditB f x)
  then show "no_parking_inv s \<Longrightarrow> listing_form_can b s e \<Longrightarrow> ?thesis"
    using offers_EditB [of b s f x] by (auto simp: no_parking_inv_def)
qed (auto simp: no_parking_inv_def submit_listing_def Let_def listing_stored_def listing_store_failed_def
      split: prod.splits)

lemma no_parking_init: "no_parking_inv (listing_form_init b None me)"
  by (simp add: no_parking_inv_def listing_form_init_def listing_defaults_def)

interpretation new_listing: guarded_machine "new_listing_start b" "listing_form_can b"
    "\<lambda>s e. fst (listing_form_step validate b s e)" no_parking_inv for b validate
  by unfold_locales (auto intro: no_parking_init no_parking_step)

text \<open>
  C22. A listing created with this form never offers parking and never allows smoking: the values carry
  both flags, but no control of the dialog sets them, so every creation request says no to both. (The
  API matches tenants who smoke or need parking only with listings that say yes.)
\<close>

theorem new_listing_without_parking_or_smoking:
  assumes "reach (new_listing_start b) (listing_form_can b) (\<lambda>s e. fst (listing_form_step validate b s e)) s"
    and "PostListing p \<in> set (snd (listing_form_step validate b s e))"
  shows "\<not> lp_flags p FHasParking \<and> \<not> lp_flags p FAllowSmoking"
proof -
  have "no_parking_inv s" by (rule new_listing.reach_inv [OF assms(1)])
  with assms(2) show ?thesis
    by (cases e) (auto simp: no_parking_inv_def submit_listing_def Let_def listing_payload_of_def listing_stored_def
        split: if_splits)
qed

lemma new_listing_without_parking_or_smoking_witness:
  "\<exists>p. PostListing p \<in> set (snd (listing_form_step (\<lambda>fs. []) example_browser
        (listing_form_init example_browser None None) SubmitForm)) \<and> \<not> lp_flags p FHasParking"
proof -
  let ?s = "listing_form_init example_browser None None"
  let ?p = "listing_payload_of None (lf_values ?s)"
  have r: "reach (new_listing_start example_browser) (listing_form_can example_browser)
      (\<lambda>s e. fst (listing_form_step (\<lambda>fs. []) example_browser s e)) ?s"
    by (rule new_listing.reach_init) blast
  have "PostListing ?p \<in> set (snd (listing_form_step (\<lambda>fs. []) example_browser ?s SubmitForm))"
    by (simp add: submit_listing_def Let_def listing_form_init_def)
  with new_listing_without_parking_or_smoking [OF r this] show ?thesis by blast
qed

text \<open>
  C21. Changing the city keeps the district. A complete form for a district of one city, whose city is
  then changed in the drop-down to one without a district of that name, still satisfies every rule and
  is submitted, with a city and district that belong to no location.
\<close>

theorem stale_district_submitted:
  assumes "c \<in> set LOCATION_GROUPS" and "c' \<in> set LOCATION_GROUPS" and "d \<in> set (lc_districts c)"
    and "ld_districtLabel d \<notin> ld_districtLabel ` set (lc_districts c')"
    and "lf_editing s = None" and "lf_savedId s = None" and "lc_cityLabel c' \<noteq> []"
    and "rules_hold (listing_rules None (lf_values s))" and "lv_str (lf_values s) FDistrict = ld_districtLabel d"
  shows "listing_form_can b s (EditS FCity (lc_cityLabel c')) \<and>
    (\<exists>p. snd (listing_form_step first_errors b (fst (listing_form_step first_errors b s (EditS FCity (lc_cityLabel c')))) SubmitForm)
           = [PostListing p] \<and>
         (\<forall>i. map_of LOCATION_CITY_DISTRICT i \<noteq> Some \<lparr>cd_city = lp_city p, cd_district = lp_district p\<rparr>))"
proof -
  let ?s = "fst (listing_form_step first_errors b s (EditS FCity (lc_cityLabel c')))"
  let ?p = "listing_payload_of (lf_me s) (lf_values ?s)"
  have "listing_form_can b s (EditS FCity (lc_cityLabel c'))"
    using assms(2,6) by (auto simp: listing_form_view_def listing_form_body_def form_part_defs Let_def location_selector_def)
  moreover have "rules_hold (listing_rules None (lf_values ?s))"
    using assms(7,8) by (simp add: rules_hold_def listing_rules_def)
  then have "snd (listing_form_step first_errors b ?s SubmitForm) = [PostListing ?p]"
    using assms(5) first_errors_Nil by (simp add: submit_listing_def Let_def)
  moreover have "map_of LOCATION_CITY_DISTRICT i \<noteq> Some \<lparr>cd_city = lp_city ?p, cd_district = lp_district ?p\<rparr>" for i
  proof
    assume "map_of LOCATION_CITY_DISTRICT i = Some \<lparr>cd_city = lp_city ?p, cd_district = lp_district ?p\<rparr>"
    then obtain g e where "g \<in> set LOCATION_GROUPS" "e \<in> set (lc_districts g)" "lc_cityLabel g = lc_cityLabel c'"
      "ld_districtLabel e = ld_districtLabel d"
      unfolding LOCATION_CITY_DISTRICT_def table.lookup_by_id_iff
      using assms(9) by (auto simp: listing_payload_of_def Let_def)
    moreover from this have "g = c'" using table.same_label [OF _ assms(2)] by blast
    ultimately show False using assms(4) by (metis imageI)
  qed
  ultimately show ?thesis by blast
qed

lemma stale_district_submitted_witness:
  "let d = hd (lc_districts city_01); s = example_form (lc_cityLabel city_01) (ld_districtLabel d)
   in \<exists>p. snd (listing_form_step first_errors example_browser
            (fst (listing_form_step first_errors example_browser s (EditS FCity (lc_cityLabel city_31)))) SubmitForm)
          = [PostListing p] \<and>
        (\<forall>i. map_of LOCATION_CITY_DISTRICT i \<noteq> Some \<lparr>cd_city = lp_city p, cd_district = lp_district p\<rparr>)"
proof -
  let ?d = "hd (lc_districts city_01)"
  let ?s = "example_form (lc_cityLabel city_01) (ld_districtLabel ?d)"
  have h: "city_01 \<in> set LOCATION_GROUPS" "city_31 \<in> set LOCATION_GROUPS" by (simp_all add: LOCATION_GROUPS_def)
  moreover have "?d \<in> set (lc_districts city_01)" by (simp add: city_01_def)
  moreover have "ld_districtLabel ?d \<notin> ld_districtLabel ` set (lc_districts city_31)"
    by (simp add: city_01_def city_31_def)
  moreover have "lf_editing ?s = None" "lf_savedId ?s = None"
    by (simp_all add: example_form_def listing_form_init_def)
  moreover have "lc_cityLabel city_31 \<noteq> []" by (simp add: city_31_def)
  moreover have "rules_hold (listing_rules None (lf_values ?s))"
    using example_rules [of "lc_cityLabel city_01" "ld_districtLabel ?d"] by (simp add: example_form_def city_01_def)
  moreover have "lv_str (lf_values ?s) FDistrict = ld_districtLabel ?d"
    by (simp add: example_form_def example_values_def)
  ultimately show ?thesis
    using stale_district_submitted [of city_01 city_31 ?d ?s example_browser] unfolding Let_def by blast
qed

end
