(* ===== verification/ProfileForm.thy ===== *)
theory ProfileForm
  imports Forms LocationPicker
begin

text \<open>
  The tenant's profile form, \<open>src/apps/web/features/profiles/ProfileFormModal.tsx\<close>: values, rules,
  the location and room-type selections, payload, life cycle and view. The location picker it embeds is
  \<open>LocationPicker\<close>. The checks the API makes of the payload are here too, to compare the two.
\<close>

section \<open>Values\<close>

record profile_values =
  pv_name :: jstr
  pv_budget_min :: jnum
  pv_budget_max :: jnum
  pv_locations :: "jstr list"
  pv_room_types :: "jstr list"
  pv_available_from :: jstr
  pv_min_lease_months :: jnum
  pv_min_area_ping :: jstr
  pv_has_pets :: bool
  pv_pet_description :: jstr
  pv_needs_subsidy :: bool
  pv_needs_tax_receipt :: bool
  pv_needs_household_registration :: bool
  pv_needs_cooking :: bool
  pv_needs_parking :: bool
  pv_smoking :: bool
  pv_occupation :: jstr
  pv_age :: jstr
  pv_description :: jstr
  pv_contact_info :: jstr

text \<open>
  \<open>br_text\<close> is also \<open>String(n)\<close> of a number, and \<open>br_number\<close> the conversion \<open>Number(s)\<close>.
\<close>

definition profile_defaults :: "browser \<Rightarrow> me_response option \<Rightarrow> tenant_profile option \<Rightarrow> profile_values" where
  "profile_defaults b me ed = (case ed of
     None \<Rightarrow> \<lparr>pv_name = [], pv_budget_min = Num 0, pv_budget_max = Num 0, pv_locations = [], pv_room_types = [],
       pv_available_from = br_today b, pv_min_lease_months = Num 12, pv_min_area_ping = [], pv_has_pets = False,
       pv_pet_description = [], pv_needs_subsidy = False, pv_needs_tax_receipt = False,
       pv_needs_household_registration = False, pv_needs_cooking = False, pv_needs_parking = False,
       pv_smoking = False, pv_occupation = [], pv_age = [], pv_description = [],
       pv_contact_info = (case me of None \<Rightarrow> [] | Some m \<Rightarrow> me_contact_info m)\<rparr>
   | Some p \<Rightarrow> \<lparr>pv_name = tp_name p, pv_budget_min = Num (of_int (tp_budget_min p)),
       pv_budget_max = Num (of_int (tp_budget_max p)), pv_locations = tp_locations p,
       pv_room_types = tp_preferred_room_types p,
       pv_available_from = (if tp_available_from p \<noteq> [] then br_date b (tp_available_from p) else br_today b),
       pv_min_lease_months = Num (of_int (tp_min_lease_months p)),
       pv_min_area_ping = (case tp_min_area_ping p of None \<Rightarrow> []
         | Some a \<Rightarrow> if a \<noteq> 0 then br_text b (Num a) else []),
       pv_has_pets = tp_has_pets p,
       pv_pet_description = (case tp_pet_description p of None \<Rightarrow> [] | Some d \<Rightarrow> d),
       pv_needs_subsidy = tp_needs_subsidy p, pv_needs_tax_receipt = tp_needs_tax_receipt p,
       pv_needs_household_registration = tp_needs_household_registration p,
       pv_needs_cooking = tp_needs_cooking p, pv_needs_parking = tp_needs_parking p, pv_smoking = tp_smoking p,
       pv_occupation = (case tp_occupation p of None \<Rightarrow> [] | Some x \<Rightarrow> x),
       pv_age = (case tp_age p of None \<Rightarrow> [] | Some a \<Rightarrow> if a \<noteq> 0 then br_text b (Num (of_int a)) else []),
       pv_description = (case tp_description p of None \<Rightarrow> [] | Some x \<Rightarrow> x),
       pv_contact_info = (case tp_contact_info p of Some x \<Rightarrow> x
         | None \<Rightarrow> (case me of None \<Rightarrow> [] | Some m \<Rightarrow> me_contact_info m))\<rparr>)"

section \<open>Rules\<close>

text \<open>Comparisons with NaN are false.\<close>

definition num_le :: "jnum \<Rightarrow> jnum \<Rightarrow> bool" where
  "num_le x y = (case (x, y) of (Num a, Num b) \<Rightarrow> a \<le> b | _ \<Rightarrow> False)"

definition num_less :: "jnum \<Rightarrow> jnum \<Rightarrow> bool" where
  "num_less x y = (case (x, y) of (Num a, Num b) \<Rightarrow> a < b | _ \<Rightarrow> False)"

definition profile_rules :: "browser \<Rightarrow> profile_values \<Rightarrow> field_rules" where
  "profile_rules b v = [
     (js ''name'', VStr (pv_name v), [Required t_pf_name_required]),
     (js ''budget_min'', VNum (pv_budget_min v), [Required t_pf_budget_min_required, AtLeast 1 t_pf_budget_min_required]),
     (js ''budget_max'', VNum (pv_budget_max v), [Required t_pf_budget_max_required, AtLeast 1 t_pf_budget_max_required,
        Check (if num_le (pv_budget_min v) (pv_budget_max v) then None else Some t_pf_budget_order)]),
     (js ''locations'', VList (pv_locations v),
        [Check (if length (pv_locations v) > 0 then None else Some t_pf_locations_required)]),
     (js ''preferred_room_types'', VList (pv_room_types v),
        [Check (if length (pv_room_types v) > 0 then None else Some t_pf_room_types_required)]),
     (js ''available_from'', VStr (pv_available_from v), [Required t_pf_date_required]),
     (js ''min_lease_months'', VNum (pv_min_lease_months v), [Required t_pf_lease_required, AtLeast 1 t_pf_lease_required]),
     (js ''min_area_ping'', VStr (pv_min_area_ping v),
        [Check (if pv_min_area_ping v = [] \<or> num_less (br_number b (pv_min_area_ping v)) (Num 1000) then None
                else Some t_pf_area_max)])]"

section \<open>Payload\<close>

record profile_payload =
  pp_values :: profile_values
  pp_locations :: "city_district list"
  pp_budget_min :: jnum
  pp_budget_max :: jnum
  pp_min_lease_months :: jnum
  pp_min_area_ping :: "jnum option"
  pp_age :: "jnum option"
  pp_available_from :: jstr
  pp_contact_info :: jstr

text \<open>\<open>{...data, \<dots>}\<close>: the form's values, with the listed properties replaced.\<close>

definition profile_payload_of :: "browser \<Rightarrow> me_response option \<Rightarrow> profile_values \<Rightarrow> profile_payload" where
  "profile_payload_of b me v = \<lparr>pp_values = v,
     pp_locations = List.map_filter (map_of LOCATION_CITY_DISTRICT) (pv_locations v),
     pp_budget_min = pv_budget_min v, pp_budget_max = pv_budget_max v,
     pp_min_lease_months = pv_min_lease_months v,
     pp_min_area_ping = (if pv_min_area_ping v \<noteq> [] then Some (br_number b (pv_min_area_ping v)) else None),
     pp_age = (if pv_age v \<noteq> [] then Some (br_number b (pv_age v)) else None),
     pp_available_from = (if pv_available_from v \<noteq> [] then pv_available_from v @ js ''T00:00:00Z''
                          else pv_available_from v),
     pp_contact_info = (case me of None \<Rightarrow> [] | Some m \<Rightarrow> me_contact_info m)\<rparr>"

section \<open>What the API checks\<close>

text \<open>
  The checks that \<open>CreateTenantProfile\<close> and \<open>UpdateTenantProfile\<close> of
  \<open>src/apps/api/handler/tenant_profiles.go\<close> make before they write, in their order; \<open>is_time\<close> and
  \<open>resolves\<close> as for listings, \<open>stored\<close> the number of profiles the tenant has.
\<close>

definition profile_malformed :: "(jstr \<Rightarrow> bool) \<Rightarrow> profile_payload \<Rightarrow> bool" where
  "profile_malformed is_time p \<longleftrightarrow> \<not> is_time (pp_available_from p) \<or>
     list_ex (\<lambda>n. decode_int n = None) [pp_budget_min p, pp_budget_max p, pp_min_lease_months p] \<or>
     (case pp_age p of None \<Rightarrow> False | Some n \<Rightarrow> decode_int n = None)"

definition profile_unbound :: "profile_payload \<Rightarrow> bool" where
  "profile_unbound p \<longleftrightarrow> pv_name (pp_values p) = [] \<or> decoded (pp_budget_min p) < 1 \<or> decoded (pp_budget_max p) < 1 \<or>
     pp_locations p = [] \<or> pv_room_types (pp_values p) = [] \<or> decoded (pp_min_lease_months p) < 1 \<or>
     pp_contact_info p = []"

text \<open>\<open>null\<close> is nil for the area's pointer.\<close>

definition validateProfileRequest :: "profile_payload \<Rightarrow> jstr list" where
  "validateProfileRequest p =
     (if decoded (pp_budget_min p) > decoded (pp_budget_max p) then [js ''budget_max''] else [])
     @ (case pp_min_area_ping p of Some (Num q) \<Rightarrow> if q \<le> 0 then [js ''min_area_ping''] else [] | _ \<Rightarrow> [])"

definition resolve_all :: "(jstr \<Rightarrow> jstr \<Rightarrow> bool) \<Rightarrow> profile_payload \<Rightarrow> bool" where
  "resolve_all resolves p = list_all (\<lambda>cd. resolves (cd_city cd) (cd_district cd)) (pp_locations p)"

definition createTenantProfile ::
  "(jstr \<Rightarrow> bool) \<Rightarrow> (jstr \<Rightarrow> jstr \<Rightarrow> bool) \<Rightarrow> nat \<Rightarrow> profile_payload \<Rightarrow> refusal option" where
  "createTenantProfile is_time resolves stored p =
     (if profile_malformed is_time p then Some InvalidFormat
      else if profile_unbound p \<or> validateProfileRequest p \<noteq> [] then Some ValidationFailed
      else if stored \<ge> 3 then Some LimitReached
      else if \<not> resolve_all resolves p then Some InvalidLocation
      else None)"

definition updateTenantProfile ::
  "(jstr \<Rightarrow> bool) \<Rightarrow> (jstr \<Rightarrow> jstr \<Rightarrow> bool) \<Rightarrow> profile_payload \<Rightarrow> refusal option" where
  "updateTenantProfile is_time resolves p =
     (if profile_malformed is_time p then Some InvalidFormat
      else if profile_unbound p \<or> validateProfileRequest p \<noteq> [] then Some ValidationFailed
      else if \<not> resolve_all resolves p then Some InvalidLocation
      else None)"

section \<open>The dialog\<close>

record profile_form =
  pf_editing :: "tenant_profile option"
  pf_me :: "me_response option"
  pf_values :: profile_values
  pf_errors :: "(jstr \<times> jstr) list"
  pf_submitting :: bool
  pf_picker_open :: bool
  pf_globalError :: jstr
  pf_saved :: bool

datatype profile_form_event =
    EditProfile "profile_values \<Rightarrow> profile_values"
  | BudgetChip rat rat
  | OpenPicker | ClosePicker | PickLocations "jstr list" | RemoveLocation jstr
  | ToggleRoomType jstr
  | SubmitProfile | CloseProfile
  | ProfileStored | ProfileStoreFailed thrown | SavedTimeout | ProfileMe me_response

datatype profile_form_out =
    PostProfile profile_payload
  | PutProfile jstr profile_payload
  | ProfileSaved | ProfileClosed

definition profile_form_init :: "browser \<Rightarrow> tenant_profile option \<Rightarrow> me_response option \<Rightarrow> profile_form" where
  "profile_form_init b ed me = \<lparr>pf_editing = ed, pf_me = me, pf_values = profile_defaults b me ed, pf_errors = [],
     pf_submitting = False, pf_picker_open = False, pf_globalError = [], pf_saved = False\<rparr>"

text \<open>
  A single-field edit of an input or checkbox is an update function of the values. (After a first
  submission react-hook-form also revalidates a field on edit; the errors on display in between are its
  business and not modelled.)
\<close>

definition edit_values :: "(profile_values \<Rightarrow> profile_values) \<Rightarrow> profile_form \<Rightarrow> profile_form" where
  "edit_values f s = s\<lparr>pf_values := f (pf_values s)\<rparr>"

definition toggleRoomType :: "jstr \<Rightarrow> profile_form \<Rightarrow> profile_form" where
  "toggleRoomType rt = edit_values (\<lambda>v. v\<lparr>pv_room_types := toggle_id rt (pv_room_types v)\<rparr>)"

definition submit_profile :: "validator \<Rightarrow> browser \<Rightarrow> profile_form \<Rightarrow> profile_form \<times> profile_form_out list" where
  "submit_profile validate b s =
     (let errors = validate (profile_rules b (pf_values s));
          payload = profile_payload_of b (pf_me s) (pf_values s)
      in if errors \<noteq> [] then (s\<lparr>pf_errors := errors\<rparr>, [])
         else (s\<lparr>pf_errors := [], pf_globalError := [], pf_submitting := True\<rparr>,
               [case pf_editing s of Some p \<Rightarrow> PutProfile (tp_id p) payload | None \<Rightarrow> PostProfile payload]))"

fun profile_form_step ::
  "validator \<Rightarrow> browser \<Rightarrow> profile_form \<Rightarrow> profile_form_event \<Rightarrow> profile_form \<times> profile_form_out list" where
  "profile_form_step validate b s (EditProfile f) = (edit_values f s, [])"
| "profile_form_step validate b s (BudgetChip mn mx) =
     (edit_values (\<lambda>v. v\<lparr>pv_budget_min := Num mn, pv_budget_max := Num mx\<rparr>) s, [])"
| "profile_form_step validate b s OpenPicker = (s\<lparr>pf_picker_open := True\<rparr>, [])"
| "profile_form_step validate b s ClosePicker = (s\<lparr>pf_picker_open := False\<rparr>, [])"
| "profile_form_step validate b s (PickLocations ids) =
     (edit_values (\<lambda>v. v\<lparr>pv_locations := ids\<rparr>) (s\<lparr>pf_picker_open := False\<rparr>), [])"
| "profile_form_step validate b s (RemoveLocation i) =
     (edit_values (\<lambda>v. v\<lparr>pv_locations := filter (\<lambda>l. l \<noteq> i) (pv_locations v)\<rparr>) s, [])"
| "profile_form_step validate b s (ToggleRoomType rt) = (toggleRoomType rt s, [])"
| "profile_form_step validate b s SubmitProfile = submit_profile validate b s"
| "profile_form_step validate b s CloseProfile = (s, [ProfileClosed])"
| "profile_form_step validate b s ProfileStored =
     (s\<lparr>pf_submitting := False, pf_saved := (pf_editing s \<noteq> None \<or> pf_saved s)\<rparr>, [ProfileSaved])"
| "profile_form_step validate b s (ProfileStoreFailed err) =
     (case submit_error t_pf_fix_fields t_pf_error_occurred err of (fe, banner) \<Rightarrow>
        (s\<lparr>pf_submitting := False, pf_errors := set_errors fe (pf_errors s), pf_globalError := banner\<rparr>, []))"
| "profile_form_step validate b s SavedTimeout = (s\<lparr>pf_saved := False\<rparr>, [])"
| "profile_form_step validate b s (ProfileMe me) = (s\<lparr>pf_me := Some me\<rparr>, [])"

section \<open>View\<close>

definition budget_chips :: "profile_values \<Rightarrow> profile_form_event node" where
  "budget_chips v = Box (map (\<lambda>(mn, mx, label). Btn False (BudgetChip mn mx)
      [Mark (pv_budget_min v = Num mn \<and> pv_budget_max v = Num mx) [Txt label]])
     [(10000, 15000, t_budget_1), (15000, 20000, t_budget_2), (20000, 30000, t_budget_3),
      (30000, 50000, t_budget_4), (50000, 100000, t_budget_5)])"

text \<open>The picker's own view is in \<open>LocationPicker\<close>; what it hands over is \<open>PickLocations\<close>.\<close>

definition location_field :: "profile_values \<Rightarrow> (jstr \<times> jstr) list \<Rightarrow> profile_form_event node" where
  "location_field v errors = Box ([Txt t_pf_locations, star,
     Btn False OpenPicker [Txt (if length (pv_locations v) > 0
       then t_pf_selected_1 @ show_nat (length (pv_locations v)) @ t_pf_selected_2 else t_pf_choose)],
     Box (map (\<lambda>i. Box [Txt (case map_of LOCATION_LABELS i of None \<Rightarrow> i | Some l \<Rightarrow> l), Btn False (RemoveLocation i) []])
       (pv_locations v))]
     @ field_error_node errors (js ''locations''))"

definition room_type_chips :: "profile_values \<Rightarrow> (jstr \<times> jstr) list \<Rightarrow> profile_form_event node" where
  "room_type_chips v errors = Box ([Txt t_pf_room_types, star,
     Box (map (\<lambda>(rt, label). Btn False (ToggleRoomType rt) [Mark (rt \<in> set (pv_room_types v)) [Txt label]]) ROOM_TYPE_LABELS)]
     @ field_error_node errors (js ''preferred_room_types''))"

datatype pflag = PPets | PSubsidy | PTax | PHousehold | PCooking | PParking | PSmoking

fun get_pflag :: "profile_values \<Rightarrow> pflag \<Rightarrow> bool" where
  "get_pflag v PPets = pv_has_pets v"
| "get_pflag v PSubsidy = pv_needs_subsidy v"
| "get_pflag v PTax = pv_needs_tax_receipt v"
| "get_pflag v PHousehold = pv_needs_household_registration v"
| "get_pflag v PCooking = pv_needs_cooking v"
| "get_pflag v PParking = pv_needs_parking v"
| "get_pflag v PSmoking = pv_smoking v"

fun set_pflag :: "pflag \<Rightarrow> bool \<Rightarrow> profile_values \<Rightarrow> profile_values" where
  "set_pflag PPets x v = v\<lparr>pv_has_pets := x\<rparr>"
| "set_pflag PSubsidy x v = v\<lparr>pv_needs_subsidy := x\<rparr>"
| "set_pflag PTax x v = v\<lparr>pv_needs_tax_receipt := x\<rparr>"
| "set_pflag PHousehold x v = v\<lparr>pv_needs_household_registration := x\<rparr>"
| "set_pflag PCooking x v = v\<lparr>pv_needs_cooking := x\<rparr>"
| "set_pflag PParking x v = v\<lparr>pv_needs_parking := x\<rparr>"
| "set_pflag PSmoking x v = v\<lparr>pv_smoking := x\<rparr>"

text \<open>Inputs of the form: a number field, a text field.\<close>

definition num_field :: "browser \<Rightarrow> jnum \<Rightarrow> (jnum \<Rightarrow> profile_values \<Rightarrow> profile_values) \<Rightarrow> profile_form_event node" where
  "num_field b x upd = Inp False (br_text b x) (\<lambda>t. EditProfile (upd (br_number b t)))"

definition str_field :: "jstr \<Rightarrow> (jstr \<Rightarrow> profile_values \<Rightarrow> profile_values) \<Rightarrow> profile_form_event node" where
  "str_field x upd = Inp False x (\<lambda>t. EditProfile (upd t))"

definition need_fields :: "browser \<Rightarrow> profile_values \<Rightarrow> (jstr \<times> jstr) list \<Rightarrow> profile_form_event node list" where
  "need_fields b v errors =
     (let err = field_error_node errors in [
        Box ([Txt t_pf_name, star, str_field (pv_name v) (\<lambda>x v. v\<lparr>pv_name := x\<rparr>)] @ err (js ''name'')),
        budget_chips v,
        Box ([Txt t_pf_budget_min, star, num_field b (pv_budget_min v) (\<lambda>x v. v\<lparr>pv_budget_min := x\<rparr>)] @ err (js ''budget_min'')),
        Box ([Txt t_pf_budget_max, star, num_field b (pv_budget_max v) (\<lambda>x v. v\<lparr>pv_budget_max := x\<rparr>)] @ err (js ''budget_max'')),
        location_field v errors,
        room_type_chips v errors,
        Box ([Txt t_pf_date, star, str_field (pv_available_from v) (\<lambda>x v. v\<lparr>pv_available_from := x\<rparr>)] @ err (js ''available_from'')),
        Box ([Txt t_pf_lease, star, num_field b (pv_min_lease_months v) (\<lambda>x v. v\<lparr>pv_min_lease_months := x\<rparr>)] @ err (js ''min_lease_months'')),
        Box ([Txt t_pf_area, str_field (pv_min_area_ping v) (\<lambda>x v. v\<lparr>pv_min_area_ping := x\<rparr>)] @ err (js ''min_area_ping''))])"

definition person_fields :: "profile_values \<Rightarrow> profile_form_event node list" where
  "person_fields v = [
     checkbox_group t_pf_conditions [(PPets, t_pf_pets), (PSubsidy, t_pf_subsidy), (PTax, t_pf_tax),
       (PHousehold, t_pf_household), (PCooking, t_pf_cooking), (PParking, t_pf_parking), (PSmoking, t_pf_smoking)]
       (get_pflag v) (\<lambda>k x. EditProfile (set_pflag k x)),
     Box (shown (pv_has_pets v) [Txt t_pf_pet_description, str_field (pv_pet_description v) (\<lambda>x v. v\<lparr>pv_pet_description := x\<rparr>)]),
     Box [Txt t_pf_occupation, str_field (pv_occupation v) (\<lambda>x v. v\<lparr>pv_occupation := x\<rparr>)],
     Box [Txt t_pf_age, str_field (pv_age v) (\<lambda>x v. v\<lparr>pv_age := x\<rparr>)],
     Box [Txt t_pf_description, str_field (pv_description v) (\<lambda>x v. v\<lparr>pv_description := x\<rparr>)]]"

definition profile_footer :: "profile_form \<Rightarrow> profile_form_event node list" where
  "profile_footer s = [
     contact_info_field True (pf_me s),
     Box (shown (pf_globalError s \<noteq> []) [Txt (pf_globalError s)]),
     Submit (pf_submitting s \<or> pf_saved s \<or> contact_missing (pf_me s))
       [Txt (if pf_submitting s then t_pf_saving
             else if pf_editing s \<noteq> None then (if pf_saved s then t_pf_saved else t_pf_save) else t_pf_create)],
     Box (shown (pf_editing s \<noteq> None) [Btn False CloseProfile [Txt t_pf_close]])]"

definition profile_form_view :: "browser \<Rightarrow> profile_form \<Rightarrow> profile_form_event node" where
  "profile_form_view b s = modal True CloseProfile [
     Txt (if pf_editing s \<noteq> None then t_pf_edit else t_pf_new), Btn False CloseProfile [],
     Form SubmitProfile (need_fields b (pf_values s) (pf_errors s) @ person_fields (pf_values s) @ profile_footer s)]"

section \<open>The machine\<close>

fun profile_form_can :: "browser \<Rightarrow> profile_form \<Rightarrow> profile_form_event \<Rightarrow> bool" where
  "profile_form_can b s (PickLocations ids) = (pf_picker_open s \<and> known_ids ids)"
| "profile_form_can b s ClosePicker = pf_picker_open s"
| "profile_form_can b s ProfileStored = pf_submitting s"
| "profile_form_can b s (ProfileStoreFailed err) = pf_submitting s"
| "profile_form_can b s SavedTimeout = pf_saved s"
| "profile_form_can b s (ProfileMe me) = True"
| "profile_form_can b s e = offers (profile_form_view b s) e"

section \<open>Invariant\<close>

definition room_types_ok :: "jstr list \<Rightarrow> bool" where
  "room_types_ok rts \<longleftrightarrow> distinct rts \<and> set rts \<subseteq> fst ` set ROOM_TYPE_LABELS"

definition profile_inv :: "profile_form \<Rightarrow> bool" where
  "profile_inv s \<longleftrightarrow> known_ids (pv_locations (pf_values s)) \<and> room_types_ok (pv_room_types (pf_values s))"

lemma room_type_chips_events:
  "offers (room_type_chips v es) e \<Longrightarrow> \<exists>rt. e = ToggleRoomType rt \<and> rt \<in> fst ` set ROOM_TYPE_LABELS"
  by (force simp: room_type_chips_def list_ex_iff)

lemma location_field_events:
  "offers (location_field v es) e \<Longrightarrow> e = OpenPicker \<or> (\<exists>i. e = RemoveLocation i)"
  by (auto simp: location_field_def list_ex_iff)

lemma budget_chips_events: "offers (budget_chips v) e \<Longrightarrow> \<exists>mn mx. e = BudgetChip mn mx"
  by (auto simp: budget_chips_def)

lemma profile_parts_no_submit [simp]:
  "\<not> can_submit (room_type_chips v es)" "\<not> can_submit (location_field v es)" "\<not> can_submit (budget_chips v)"
  by (auto simp: room_type_chips_def location_field_def budget_chips_def list_ex_iff)

lemmas profile_part_defs = num_field_def str_field_def need_fields_def person_fields_def profile_footer_def

lemmas profile_part_events = room_type_chips_events location_field_events budget_chips_events

lemma offers_EditProfile:
  "offers (profile_form_view b s) (EditProfile f) \<Longrightarrow>
     pv_locations (f v) = pv_locations v \<and> pv_room_types (f v) = pv_room_types v"
  by (auto simp: profile_form_view_def profile_part_defs Let_def dest!: profile_part_events)

lemma offers_ToggleRoomType:
  "offers (profile_form_view b s) (ToggleRoomType rt) \<Longrightarrow> rt \<in> fst ` set ROOM_TYPE_LABELS"
  by (auto simp: profile_form_view_def profile_part_defs Let_def dest!: profile_part_events)

lemma offers_SubmitProfile:
  "offers (profile_form_view b s) SubmitProfile \<Longrightarrow> \<not> pf_submitting s \<and> \<not> contact_missing (pf_me s)"
  by (auto simp: profile_form_view_def profile_part_defs Let_def dest!: profile_part_events)

text \<open>
  The dialog opened on a stored profile whose locations and room types the client knows. (Ids it does not
  know would be kept in the form and dropped from the request.)
\<close>

abbreviation profile_start :: "browser \<Rightarrow> profile_form \<Rightarrow> bool" where
  "profile_start b s \<equiv> \<exists>ed me. s = profile_form_init b ed me \<and>
     (\<forall>p. ed = Some p \<longrightarrow> known_ids (tp_locations p) \<and> room_types_ok (tp_preferred_room_types p))"

lemma default_lists:
  "pv_locations (profile_defaults b me ed) = (case ed of None \<Rightarrow> [] | Some p \<Rightarrow> tp_locations p)"
  "pv_room_types (profile_defaults b me ed) = (case ed of None \<Rightarrow> [] | Some p \<Rightarrow> tp_preferred_room_types p)"
  by (cases ed; simp add: profile_defaults_def)+

lemma profile_inv_start: "profile_start b s \<Longrightarrow> profile_inv s"
proof -
  have "known_ids []" "room_types_ok []" by (simp_all add: known_ids_def room_types_ok_def)
  then show "profile_start b s \<Longrightarrow> ?thesis"
    by (auto simp: profile_form_init_def default_lists profile_inv_def split: option.splits)
qed

lemma profile_inv_step:
  "profile_inv s \<Longrightarrow> profile_form_can b s e \<Longrightarrow> profile_inv (fst (profile_form_step validate b s e))"
proof (cases e)
  case (EditProfile f)
  then show "profile_inv s \<Longrightarrow> profile_form_can b s e \<Longrightarrow> ?thesis"
    using offers_EditProfile [of b s f "pf_values s"] by (simp add: profile_inv_def edit_values_def)
next
  case (ToggleRoomType rt)
  then show "profile_inv s \<Longrightarrow> profile_form_can b s e \<Longrightarrow> ?thesis"
    using offers_ToggleRoomType [of b s rt] tog.within [of _ "fst ` set ROOM_TYPE_LABELS" rt] tog.distinct_toggle
    by (auto simp: profile_inv_def room_types_ok_def toggleRoomType_def edit_values_def)
next
  case (ProfileStoreFailed err)
  then show "profile_inv s \<Longrightarrow> profile_form_can b s e \<Longrightarrow> ?thesis"
    by (simp add: profile_inv_def split: prod.splits)
qed (auto simp: profile_inv_def edit_values_def submit_profile_def Let_def known_ids_def)

interpretation profile: guarded_machine "profile_start b" "profile_form_can b"
    "\<lambda>s e. fst (profile_form_step validate b s e)" profile_inv for b validate
  by unfold_locales (rule profile_inv_start, assumption, rule profile_inv_step)

section \<open>Properties\<close>

text \<open>What the form's own rules make of a request.\<close>

definition ruled_profile :: "profile_payload \<Rightarrow> bool" where
  "ruled_profile p \<longleftrightarrow>
     pv_name (pp_values p) \<noteq> [] \<and> pp_contact_info p \<noteq> [] \<and>
     (\<exists>lo hi. pp_budget_min p = Num lo \<and> pp_budget_max p = Num hi \<and> 1 \<le> lo \<and> lo \<le> hi) \<and>
     (\<exists>m. pp_min_lease_months p = Num m \<and> 1 \<le> m) \<and>
     (\<forall>a. pp_min_area_ping p = Some a \<longrightarrow> (\<exists>q. a = Num q \<and> q < 1000)) \<and>
     (\<exists>day. day \<noteq> [] \<and> pp_available_from p = day @ js ''T00:00:00Z'') \<and>
     pv_room_types (pp_values p) \<noteq> [] \<and> pv_locations (pp_values p) \<noteq> []"

text \<open>Where the rules of the form and the checks of the API part.\<close>

definition profile_passes_api :: "(jstr \<Rightarrow> bool) \<Rightarrow> (jstr \<Rightarrow> jstr \<Rightarrow> bool) \<Rightarrow> profile_payload \<Rightarrow> bool" where
  "profile_passes_api is_time resolves p \<longleftrightarrow>
     (\<forall>q. pp_min_area_ping p = Some (Num q) \<longrightarrow> 0 < q) \<and>
     (\<forall>n \<in> {pp_budget_min p, pp_budget_max p, pp_min_lease_months p}. decode_int n \<noteq> None) \<and>
     (\<forall>n. pp_age p = Some n \<longrightarrow> decode_int n \<noteq> None) \<and>
     is_time (pp_available_from p) \<and> pp_locations p \<noteq> [] \<and>
     (\<forall>cd \<in> set (pp_locations p). resolves (cd_city cd) (cd_district cd))"

lemma profile_malformed_iff:
  "\<not> profile_malformed is_time p \<longleftrightarrow> is_time (pp_available_from p) \<and>
     (\<forall>n \<in> {pp_budget_min p, pp_budget_max p, pp_min_lease_months p}. decode_int n \<noteq> None) \<and>
     (\<forall>n. pp_age p = Some n \<longrightarrow> decode_int n \<noteq> None)"
  by (auto simp: profile_malformed_def split: option.splits)

lemma ruled_profile_ints:
  assumes "ruled_profile p" and "\<not> profile_malformed is_time p"
  shows "1 \<le> decoded (pp_budget_min p)" "decoded (pp_budget_min p) \<le> decoded (pp_budget_max p)"
    "1 \<le> decoded (pp_min_lease_months p)"
proof -
  obtain lo hi m where n: "pp_budget_min p = Num lo" "pp_budget_max p = Num hi" "pp_min_lease_months p = Num m"
    and r: "1 \<le> lo" "lo \<le> hi" "1 \<le> m"
    using assms(1) by (auto simp: ruled_profile_def)
  have "of_int (decoded (Num lo)) = lo" "of_int (decoded (Num hi)) = hi" "of_int (decoded (Num m)) = m"
    using assms(2) unfolding profile_malformed_iff n by (auto intro!: decoded_range)
  then show "1 \<le> decoded (pp_budget_min p)" "decoded (pp_budget_min p) \<le> decoded (pp_budget_max p)"
    "1 \<le> decoded (pp_min_lease_months p)"
    unfolding n using r by linarith+
qed

lemma area_refused:
  "validateProfileRequest p = [] \<longleftrightarrow> decoded (pp_budget_min p) \<le> decoded (pp_budget_max p) \<and>
     (\<forall>q. pp_min_area_ping p = Some (Num q) \<longrightarrow> 0 < q)"
  by (auto simp: validateProfileRequest_def split: option.splits jnum.splits)

lemma ruled_profile_accepted:
  assumes "ruled_profile p"
  shows "updateTenantProfile is_time resolves p = None \<longleftrightarrow> profile_passes_api is_time resolves p"
    and "createTenantProfile is_time resolves stored p = None \<longleftrightarrow> stored < 3 \<and> profile_passes_api is_time resolves p"
proof -
  have "profile_malformed is_time p \<or> profile_unbound p \<or> validateProfileRequest p \<noteq> [] \<or> \<not> resolve_all resolves p
      \<longleftrightarrow> \<not> profile_passes_api is_time resolves p"
  proof (cases "profile_malformed is_time p")
    case False
    note ints = ruled_profile_ints [OF assms False]
    note wf = False [unfolded profile_malformed_iff]
    have unb: "profile_unbound p \<longleftrightarrow> pp_locations p = []"
      using ints assms by (auto simp: profile_unbound_def ruled_profile_def)
    show ?thesis
      unfolding area_refused profile_passes_api_def resolve_all_def list_all_iff
      using False wf unb ints(2) by blast
  qed (auto simp: profile_passes_api_def profile_malformed_def split: option.splits)
  then show "updateTenantProfile is_time resolves p = None \<longleftrightarrow> profile_passes_api is_time resolves p"
    and "createTenantProfile is_time resolves stored p = None \<longleftrightarrow> stored < 3 \<and> profile_passes_api is_time resolves p"
    by (auto simp: updateTenantProfile_def createTenantProfile_def)
qed

lemma known_locations_sent:
  assumes "known_ids ids"
  shows "map Some (List.map_filter (map_of LOCATION_CITY_DISTRICT) ids) = map (map_of LOCATION_CITY_DISTRICT) ids
         \<and> distinct (List.map_filter (map_of LOCATION_CITY_DISTRICT) ids)"
proof -
  have "\<forall>i \<in> set ids. map_of LOCATION_CITY_DISTRICT i \<noteq> None"
  proof
    fix i assume "i \<in> set ids"
    then have "i \<in> ld_id ` set LOCATIONS" using assms by (auto simp: known_ids_def)
    then obtain c d where "c \<in> set LOCATION_GROUPS" "d \<in> set (lc_districts c)" "i = ld_id d"
      by (auto simp: in_LOCATIONS)
    then show "map_of LOCATION_CITY_DISTRICT i \<noteq> None"
      unfolding LOCATION_CITY_DISTRICT_def by (simp add: table.lookup_by_id)
  qed
  moreover have "distinct ids" using assms by (simp add: known_ids_def)
  ultimately show ?thesis
    using map_filter_total distinct_map_filter location_key_inject by blast
qed

text \<open>
  C18. What the profile form sends, and when the API takes it. Whatever the form library does within its
  contract, a submission carries a name, contact information, a budget range from at least 1 whose lower
  end does not exceed the upper, a positive lease, an area below 1000 if one is given, at least one room
  type, and the city-district pairs of the chosen locations; an edit goes to the profile under edit. If
  the profile was opened with locations and room types the client knows, every chosen location is sent,
  as one pair, none repeated, and so is every room type; otherwise the pairs the client does not know are
  dropped without a word. The API accepts such a request exactly if also the area is positive (the form
  sends zero and negative ones), the budgets, the lease and the age are whole numbers, the date is one,
  and the pairs are some and known to it; and a creation only below three profiles.
\<close>

theorem submitted_profile_valid:
  assumes "validates validate" and "profile_form_can b s SubmitProfile"
    and "out \<in> set (snd (profile_form_step validate b s SubmitProfile))"
  shows "\<exists>p. ruled_profile p \<and>
     (case pf_editing s of
        None \<Rightarrow> out = PostProfile p \<and>
          (createTenantProfile is_time resolves stored p = None \<longleftrightarrow> stored < 3 \<and> profile_passes_api is_time resolves p)
      | Some t \<Rightarrow> out = PutProfile (tp_id t) p \<and>
          (updateTenantProfile is_time resolves p = None \<longleftrightarrow> profile_passes_api is_time resolves p)) \<and>
     pp_values p = pf_values s \<and>
     pp_locations p = List.map_filter (map_of LOCATION_CITY_DISTRICT) (pv_locations (pf_values s)) \<and>
     (reach (profile_start b) (profile_form_can b) (\<lambda>s e. fst (profile_form_step validate b s e)) s \<longrightarrow>
        room_types_ok (pv_room_types (pf_values s)) \<and> distinct (pp_locations p) \<and>
        map Some (pp_locations p) = map (map_of LOCATION_CITY_DISTRICT) (pv_locations (pf_values s)))"
proof (intro exI conjI impI)
  let ?v = "pf_values s" and ?p = "profile_payload_of b (pf_me s) (pf_values s)"
  have ok: "validate (profile_rules b ?v) = []" using assms(3) by (auto simp: submit_profile_def Let_def split: if_splits)
  then have hold: "rules_hold (profile_rules b ?v)" using assms(1) by (simp add: validates_def)
  then have r: "pv_name ?v \<noteq> []" "pv_available_from ?v \<noteq> []" "pv_locations ?v \<noteq> []" "pv_room_types ?v \<noteq> []"
    "rule_error (AtLeast 1 t_pf_budget_min_required) (VNum (pv_budget_min ?v)) = None"
    "rule_error (Required t_pf_lease_required) (VNum (pv_min_lease_months ?v)) = None"
    "rule_error (AtLeast 1 t_pf_lease_required) (VNum (pv_min_lease_months ?v)) = None"
    "num_le (pv_budget_min ?v) (pv_budget_max ?v)"
    "pv_min_area_ping ?v = [] \<or> num_less (br_number b (pv_min_area_ping ?v)) (Num 1000)"
    by (auto simp: rules_hold_def profile_rules_def split: if_splits)
  have "\<not> contact_missing (pf_me s)" using assms(2) offers_SubmitProfile by simp
  moreover have "\<exists>lo hi. pv_budget_min ?v = Num lo \<and> pv_budget_max ?v = Num hi \<and> 1 \<le> lo \<and> lo \<le> hi"
    using r(5,8) by (cases "pv_budget_min ?v"; cases "pv_budget_max ?v") (auto simp: num_le_def split: if_splits)
  moreover have "\<exists>m. pv_min_lease_months ?v = Num m \<and> 1 \<le> m"
    using r(6,7) by (cases "pv_min_lease_months ?v") (auto split: if_splits)
  moreover have "\<exists>q. br_number b (pv_min_area_ping ?v) = Num q \<and> q < 1000" if "pv_min_area_ping ?v \<noteq> []"
    using r(9) that by (cases "br_number b (pv_min_area_ping ?v)") (auto simp: num_less_def)
  ultimately show ruled: "ruled_profile ?p"
    using r by (auto simp: ruled_profile_def profile_payload_of_def contact_missing_def split: option.splits)
  show "case pf_editing s of
        None \<Rightarrow> out = PostProfile ?p \<and>
          (createTenantProfile is_time resolves stored ?p = None \<longleftrightarrow> stored < 3 \<and> profile_passes_api is_time resolves ?p)
      | Some t \<Rightarrow> out = PutProfile (tp_id t) ?p \<and>
          (updateTenantProfile is_time resolves ?p = None \<longleftrightarrow> profile_passes_api is_time resolves ?p)"
    using assms(3) ok ruled_profile_accepted [OF ruled, of is_time resolves]
    by (auto simp: submit_profile_def Let_def split: option.split)
  show "pp_values ?p = ?v" and "pp_locations ?p = List.map_filter (map_of LOCATION_CITY_DISTRICT) (pv_locations ?v)"
    by (simp_all add: profile_payload_of_def)
next
  assume "reach (profile_start b) (profile_form_can b) (\<lambda>s e. fst (profile_form_step validate b s e)) s"
  then have "profile_inv s" by (rule profile.reach_inv)
  then show "room_types_ok (pv_room_types (pf_values s))"
    and "distinct (pp_locations (profile_payload_of b (pf_me s) (pf_values s)))"
    and "map Some (pp_locations (profile_payload_of b (pf_me s) (pf_values s))) =
      map (map_of LOCATION_CITY_DISTRICT) (pv_locations (pf_values s))"
    using known_locations_sent by (simp_all add: profile_inv_def profile_payload_of_def)
qed

definition example_profile :: tenant_profile where
  "example_profile = \<lparr>tp_id = js ''P'', tp_tenant_id = [], tp_name = js ''n'', tp_budget_min = 10000,
     tp_budget_max = 15000, tp_locations = [js ''01-0102''], tp_preferred_room_types = [js ''suite''],
     tp_available_from = js ''2025-01-01'', tp_min_lease_months = 12, tp_min_area_ping = None, tp_has_pets = False,
     tp_pet_description = None, tp_needs_subsidy = False, tp_needs_tax_receipt = False,
     tp_needs_household_registration = False, tp_needs_cooking = False, tp_needs_parking = True, tp_smoking = True,
     tp_occupation = None, tp_age = None, tp_description = None, tp_contact_info = None, tp_is_active = True,
     tp_created_at = [], tp_updated_at = []\<rparr>"

text \<open>A browser that reads every text as zero: an area of \<open>0\<close> typed in passes the rules.\<close>

definition profile_browser :: browser where
  "profile_browser = \<lparr>br_number = (\<lambda>s. Num 0), br_text = (\<lambda>n. []), br_date = (\<lambda>s. take 10 s), br_today = []\<rparr>"

definition profile_user :: me_response where
  "profile_user = \<lparr>me_id = [], me_email = [], me_name = [], me_avatar_url = [], me_contact_info = js ''line'',
     me_roles = [], me_created_at = []\<rparr>"

definition example_edit :: "jstr \<Rightarrow> profile_form" where
  "example_edit area = edit_values (\<lambda>v. v\<lparr>pv_min_area_ping := area\<rparr>)
     (profile_form_init profile_browser (Some example_profile) (Some profile_user))"

lemma example_edit_reach:
  "reach (profile_start profile_browser) (profile_form_can profile_browser)
      (\<lambda>s e. fst (profile_form_step first_errors profile_browser s e)) (example_edit area)"
proof -
  let ?s = "profile_form_init profile_browser (Some example_profile) (Some profile_user)"
  have "known_ids (tp_locations example_profile)" using known_example by (simp add: example_profile_def)
  moreover have "room_types_ok (tp_preferred_room_types example_profile)"
    by (simp add: example_profile_def room_types_ok_def ROOM_TYPE_LABELS_def)
  ultimately have r: "reach (profile_start profile_browser) (profile_form_can profile_browser)
      (\<lambda>s e. fst (profile_form_step first_errors profile_browser s e)) ?s"
    by (intro profile.reach_init) auto
  have "profile_form_can profile_browser ?s (EditProfile (\<lambda>v. v\<lparr>pv_min_area_ping := area\<rparr>))"
    by (auto simp: profile_form_view_def profile_part_defs Let_def)
  from profile.reach_next [OF r this] show ?thesis by (simp add: example_edit_def)
qed

lemma example_edit_submits:
  "snd (profile_form_step first_errors profile_browser (example_edit area) SubmitProfile) =
     [PutProfile (js ''P'') (profile_payload_of profile_browser (Some profile_user) (pf_values (example_edit area)))]"
proof -
  have "first_errors (profile_rules profile_browser (pf_values (example_edit area))) = []"
    unfolding first_errors_Nil by (simp add: rules_hold_def profile_rules_def example_edit_def edit_values_def
        profile_form_init_def profile_defaults_def example_profile_def num_le_def num_less_def profile_browser_def js_def)
  then show ?thesis
    by (simp add: submit_profile_def Let_def) (simp add: example_edit_def edit_values_def profile_form_init_def example_profile_def)
qed

lemma submitted_profile_valid_witness:
  "(\<exists>p. snd (profile_form_step first_errors profile_browser (example_edit []) SubmitProfile) = [PutProfile (js ''P'') p] \<and>
      length (pp_locations p) = 1 \<and> updateTenantProfile (\<lambda>t. True) (\<lambda>c d. True) p = None) \<and>
   (\<exists>p. snd (profile_form_step first_errors profile_browser (example_edit (js ''0'')) SubmitProfile) = [PutProfile (js ''P'') p] \<and>
      ruled_profile p \<and> updateTenantProfile (\<lambda>t. True) (\<lambda>c d. True) p \<noteq> None)"
proof -
  let ?p = "\<lambda>a. profile_payload_of profile_browser (Some profile_user) (pf_values (example_edit a))"
  have c: "profile_form_can profile_browser (example_edit a) SubmitProfile" for a
    by (simp add: profile_form_view_def profile_part_defs Let_def example_edit_def edit_values_def profile_form_init_def
        contact_missing_def profile_user_def js_def)
  have e: "pf_editing (example_edit a) = Some example_profile" for a
    by (simp add: example_edit_def edit_values_def profile_form_init_def)
  have all: "ruled_profile (?p a) \<and>
      (updateTenantProfile (\<lambda>t. True) (\<lambda>c d. True) (?p a) = None \<longleftrightarrow> profile_passes_api (\<lambda>t. True) (\<lambda>c d. True) (?p a)) \<and>
      map Some (pp_locations (?p a)) = map (map_of LOCATION_CITY_DISTRICT) (pv_locations (pf_values (example_edit a)))" for a
    using submitted_profile_valid [OF first_errors_validates c, unfolded example_edit_submits, of "PutProfile (js ''P'') (?p a)" a
        "\<lambda>t. True" "\<lambda>c d. True" 0] example_edit_reach [of a] by (auto simp: e)
  have "length (pp_locations (?p [])) = length (pv_locations (pf_values (example_edit [])))"
    using all [of "[]"] by (metis length_map)
  then have n: "length (pp_locations (?p [])) = 1"
    by (simp add: example_edit_def edit_values_def profile_form_init_def default_lists) (simp add: example_profile_def)
  then have "profile_passes_api (\<lambda>t. True) (\<lambda>c d. True) (?p [])"
    by (auto simp: profile_passes_api_def) (simp_all add: profile_payload_of_def example_edit_def edit_values_def
        profile_form_init_def profile_defaults_def example_profile_def)
  moreover have "\<not> profile_passes_api (\<lambda>t. True) (\<lambda>c d. True) (?p (js ''0''))"
    by (simp add: profile_passes_api_def profile_payload_of_def example_edit_def edit_values_def profile_browser_def js_def)
  ultimately show ?thesis using all n unfolding example_edit_submits by blast
qed

end
