(* ===== verification/ListingCards.thy ===== *)
theory ListingCards
  imports Ui Format Locations
begin

text \<open>
  How tenants see listings, \<open>src/apps/web/features/listings/TenantListingCard.tsx\<close>: the item types of
  the match pages and their conversion to a card, the card, the detail dialog with its photo carousel
  and its map, and the slot picker of \<open>src/apps/web/components/SlotPicker.tsx\<close> with the booking dialog.
\<close>

section \<open>Items\<close>

record listing_fields =
  lf_photos :: "jstr list"
  lf_available_from :: jstr
  lf_management_fee :: "int option"
  lf_num_bedrooms :: "int option"
  lf_num_living_rooms :: "int option"
  lf_num_bathrooms :: "int option"
  lf_num_balconies :: "int option"
  lf_pets :: bool
  lf_subsidy :: bool
  lf_tax_receipt :: bool
  lf_household_registration :: bool
  lf_cooking :: bool
  lf_has_parking :: bool
  lf_allow_smoking :: bool
  lf_description :: "jstr option"
  lf_address :: "jstr option"
  lf_lat :: "rat option"
  lf_lng :: "rat option"

text \<open>The parameter of \<open>toListingCard\<close>; incoming and outgoing items extend it.\<close>

record card_source = listing_fields +
  cs_listing_id :: jstr
  cs_listing_name :: "jstr option"
  cs_rent :: int
  cs_room_type :: jstr
  cs_area_ping :: rat
  cs_location_id :: "jstr option"
  cs_interest_sent :: "bool option"

record incoming_listing_item = card_source +
  ii_landlord_id :: "jstr option"

record outgoing_item = card_source +
  oi_tenant_profile_id :: jstr
  oi_tenant_profile_name :: jstr
  oi_landlord_id :: "jstr option"

record match_item = listing_fields +
  mi_match_id :: jstr
  mi_listing_id :: jstr
  mi_listing_name :: "jstr option"
  mi_contact_info :: jstr
  mi_matched_at :: jstr
  mi_rent :: "int option"
  mi_room_type :: "jstr option"
  mi_area_ping :: "rat option"
  mi_location_id :: "jstr option"
  mi_profile_name :: "jstr option"
  mi_status :: "jstr option"
  mi_landlord_id :: "jstr option"

definition toListingCard :: "'z card_source_scheme \<Rightarrow> matched_listing_card" where
  "toListingCard item = \<lparr>mc_id = cs_listing_id item, mc_location_id = or_else [] (cs_location_id item),
     mc_name = or_else [] (cs_listing_name item), mc_rent = cs_rent item,
     mc_management_fee = or_else 0 (lf_management_fee item), mc_room_type = cs_room_type item,
     mc_area_ping = cs_area_ping item, mc_num_bedrooms = lf_num_bedrooms item,
     mc_num_living_rooms = lf_num_living_rooms item, mc_num_bathrooms = lf_num_bathrooms item,
     mc_num_balconies = lf_num_balconies item, mc_available_from = lf_available_from item,
     mc_allow_pets = lf_pets item, mc_allow_subsidy = lf_subsidy item, mc_allow_tax_receipt = lf_tax_receipt item,
     mc_allow_household_registration = lf_household_registration item, mc_allow_cooking = lf_cooking item,
     mc_has_parking = lf_has_parking item, mc_allow_smoking = lf_allow_smoking item, mc_photos = lf_photos item,
     mc_interest_sent = or_else False (cs_interest_sent item), mc_address = lf_address item,
     mc_description = lf_description item, mc_lat = lf_lat item, mc_lng = lf_lng item, mc_landlord_id = None\<rparr>"

section \<open>Derived values\<close>

text \<open>The card seen as the parameter of the helpers in \<open>Format\<close>.\<close>

definition card_flags :: "matched_listing_card \<Rightarrow> listing_tag_flags" where
  "card_flags c = \<lparr>lf_allow_pets = Some (mc_allow_pets c), lf_allow_subsidy = Some (mc_allow_subsidy c),
     lf_allow_tax_receipt = Some (mc_allow_tax_receipt c),
     lf_allow_household_registration = Some (mc_allow_household_registration c),
     lf_allow_cooking = Some (mc_allow_cooking c)\<rparr>"

definition card_layout :: "matched_listing_card \<Rightarrow> layout" where
  "card_layout c = \<lparr>ly_num_bedrooms = mc_num_bedrooms c, ly_num_living_rooms = mc_num_living_rooms c,
     ly_num_bathrooms = mc_num_bathrooms c, ly_num_balconies = mc_num_balconies c\<rparr>"

definition label_of :: "(jstr \<times> jstr) list \<Rightarrow> jstr \<Rightarrow> jstr" where
  "label_of labels k = (case map_of labels k of None \<Rightarrow> k | Some l \<Rightarrow> l)"

section \<open>Carousel\<close>

definition prev_photo :: "nat \<Rightarrow> nat \<Rightarrow> nat" where
  "prev_photo n i = (i + n - 1) mod n"

definition next_photo :: "nat \<Rightarrow> nat \<Rightarrow> nat" where
  "next_photo n i = (i + 1) mod n"

text \<open>An image whose index is out of range has no source.\<close>

definition photo_node :: "jstr list \<Rightarrow> nat \<Rightarrow> 'e node list" where
  "photo_node photos i = shown (length photos > 0) [Img (if i < length photos then photos ! i else [])]"

definition carousel :: "jstr list \<Rightarrow> 'e \<Rightarrow> 'e \<Rightarrow> 'e node list" where
  "carousel photos onPrev onNext = shown (length photos > 1) (carousel_arrows onPrev onNext)"

text \<open>The arrow keys of the detail view.\<close>

datatype arrow_key = ArrowLeft | ArrowRight | OtherArrow

definition carousel_key :: "nat \<Rightarrow> arrow_key \<Rightarrow> nat \<Rightarrow> nat" where
  "carousel_key n k i = (if n \<le> 1 then i else (case k of
     ArrowLeft \<Rightarrow> prev_photo n i | ArrowRight \<Rightarrow> next_photo n i | OtherArrow \<Rightarrow> i))"

text \<open>The photos preloaded while photo \<open>i\<close> is on display.\<close>

definition preload :: "jstr list \<Rightarrow> nat \<Rightarrow> jstr list" where
  "preload photos i = (let n = length photos in
     if n \<le> 1 then [] else [photos ! prev_photo n i, photos ! next_photo n i])"

lemma photo_moves:
  assumes "i < n"
  shows "next_photo n i < n" "prev_photo n i < n" "prev_photo n (next_photo n i) = i" "next_photo n (prev_photo n i) = i"
proof -
  show "next_photo n i < n" "prev_photo n i < n" using assms by (simp_all add: next_photo_def prev_photo_def)
  show "prev_photo n (next_photo n i) = i"
  proof (cases "Suc i = n")
    case False
    then show ?thesis using assms by (simp add: next_photo_def prev_photo_def mod_add_self2)
  qed (use assms in \<open>simp add: next_photo_def prev_photo_def\<close>)
  show "next_photo n (prev_photo n i) = i"
  proof (cases i)
    case (Suc k)
    then show ?thesis using assms by (simp add: next_photo_def prev_photo_def mod_Suc)
  qed (use assms in \<open>simp add: next_photo_def prev_photo_def\<close>)
qed

section \<open>Card\<close>

definition price_line :: "matched_listing_card \<Rightarrow> 'e node list" where
  "price_line l =
     (let total = totalMonthly (mc_rent l) (Some (mc_management_fee l));
          perPing = pricePerPing (mc_rent l) (mc_area_ping l); layout = formatLayout (card_layout l)
      in [Box ([Txt (js ''$''), MoneyT (of_int total), Txt (label_of ROOM_TYPE_LABELS (mc_room_type l)),
            NumT (mc_area_ping l), Txt t_ping]
            @ (case perPing of None \<Rightarrow> [] | Some p \<Rightarrow> [Txt t_per_ping_1, MoneyT (of_int p), Txt t_per_ping_2])
            @ (case layout of None \<Rightarrow> [] | Some s \<Rightarrow> [Txt s])),
          Box (shown (mc_management_fee l > 0)
            [Txt t_rent_1, MoneyT (of_int (mc_rent l)), Txt t_rent_2, MoneyT (of_int (mc_management_fee l))])])"

definition contact_note :: "jstr option \<Rightarrow> 'e node list" where
  "contact_note contactInfo = (case contactInfo of
     None \<Rightarrow> [] | Some c \<Rightarrow> shown (c \<noteq> []) [Box [Txt t_self_reported, Txt c]])"

definition listing_card ::
  "matched_listing_card \<Rightarrow> nat \<Rightarrow> 'e \<Rightarrow> 'e \<Rightarrow> 'e \<Rightarrow> jstr option \<Rightarrow> 'e node list \<Rightarrow> 'e option \<Rightarrow> 'e node" where
  "listing_card l photoIdx onPrev onNext onClick contactInfo action onReport =
     (let tags = getListingTags (card_flags l);
          menu = (\<lambda>label. case onReport of None \<Rightarrow> [] | Some r \<Rightarrow> [menu_field [(label, r)]])
      in Box [
        Box (photo_node (mc_photos l) photoIdx @ carousel (mc_photos l) onPrev onNext
             @ shown (length (mc_photos l) > 1) (map (\<lambda>i. Mark (i = photoIdx) []) [0..<length (mc_photos l)])),
        Btn False onClick (
          shown (mc_name l \<noteq> []) [Txt (mc_name l)] @ price_line l
          @ [Txt (label_of LOCATION_LABELS (mc_location_id l)), Txt t_available, DateT (mc_available_from l)]
          @ map Txt tags @ contact_note contactInfo),
        Box (menu t_report_landlord @ action),
        Box (action @ menu t_report)])"

section \<open>Map\<close>

text \<open>
  \<open>encode\<close> is \<open>encodeURIComponent\<close>, \<open>num\<close> the decimal notation of a coordinate. Exact positions are for
  matched users: the precise map has a pin (\<open>?q=\<close>), the approximate one only a centre (\<open>?ll=\<close>).
\<close>

record map_frame =
  mf_external :: jstr
  mf_embed :: jstr
  mf_approx_note :: bool

definition maps_search :: jstr where
  "maps_search = js ''https://www.google.com/maps/search/?api=1&query=''"

definition maps_embed :: jstr where
  "maps_embed = js ''https://maps.google.com/maps?''"

definition mini_map ::
  "(jstr \<Rightarrow> jstr) \<Rightarrow> (rat \<Rightarrow> jstr) \<Rightarrow> jstr option \<Rightarrow> jstr option \<Rightarrow> rat option \<Rightarrow> rat option \<Rightarrow> bool \<Rightarrow> map_frame option" where
  "mini_map encode num address locationLabel lat lng precise =
     (let query = (case address of
            Some a \<Rightarrow> if a \<noteq> [] \<and> trim a \<noteq> [] then Some (trim a) else locationLabel
          | None \<Rightarrow> locationLabel);
          no_query = (query = None \<or> query = Some []);
          no_lat = (lat = None \<or> lat = Some 0);
          zoom = (if precise then js ''16'' else js ''15'');
          rest = js ''&z='' @ zoom @ js ''&output=embed&hl=zh-TW''
      in if no_query \<and> no_lat then None
         else Some (case (lat, lng) of
           (Some a, Some o') \<Rightarrow>
             (let pos = num a @ js '','' @ num o' in
              \<lparr>mf_external = maps_search @ pos,
               mf_embed = maps_embed @ (if precise then js ''q='' else js ''ll='') @ pos @ rest,
               mf_approx_note = (\<not> precise)\<rparr>)
         | _ \<Rightarrow>
             (let q = encode (or_else [] query) in
              \<lparr>mf_external = maps_search @ q, mf_embed = maps_embed @ js ''q='' @ q @ rest, mf_approx_note = False\<rparr>)))"

definition mini_map_node :: "map_frame option \<Rightarrow> 'e node list" where
  "mini_map_node m = (case m of None \<Rightarrow> []
     | Some f \<Rightarrow> [Link (mf_external f) (Img (mf_embed f) # shown (mf_approx_note f) [Txt t_approx_range])])"

section \<open>Detail dialog\<close>

definition listing_detail_content ::
  "(jstr \<Rightarrow> jstr) \<Rightarrow> (rat \<Rightarrow> jstr) \<Rightarrow> matched_listing_card \<Rightarrow> nat \<Rightarrow> 'e \<Rightarrow> 'e \<Rightarrow> 'e node list \<Rightarrow> jstr option \<Rightarrow> 'e node list" where
  "listing_detail_content encode num l photoIdx onPrev onNext action contactInfo =
     (let place = label_of LOCATION_LABELS (mc_location_id l);
          precise = (case contactInfo of None \<Rightarrow> False | Some c \<Rightarrow> c \<noteq> [])
      in [Box ((if length (mc_photos l) > 0 then photo_node (mc_photos l) photoIdx else [Txt t_no_photos])
            @ carousel (mc_photos l) onPrev onNext
            @ shown (length (mc_photos l) > 1)
                [NumT (of_nat (photoIdx + 1)), Txt (js '' / ''), NumT (of_nat (length (mc_photos l)))]),
          Box (shown (mc_name l \<noteq> []) [Txt (mc_name l)] @ price_line l
            @ [case mc_address l of
                 Some a \<Rightarrow> if a \<noteq> [] then Link (maps_search @ encode a) [Txt a] else Txt place
               | None \<Rightarrow> Txt place]
            @ [Txt t_available, DateT (mc_available_from l)]
            @ mini_map_node (mini_map encode num (mc_address l) (Some place) (mc_lat l) (mc_lng l) precise)
            @ (case mc_description l of None \<Rightarrow> [] | Some d \<Rightarrow> shown (d \<noteq> []) [Txt d])
            @ map Txt (getListingTags (card_flags l)) @ contact_note contactInfo),
          Box action])"

definition listing_detail_dialog ::
  "(jstr \<Rightarrow> jstr) \<Rightarrow> (rat \<Rightarrow> jstr) \<Rightarrow> matched_listing_card \<Rightarrow> nat \<Rightarrow> 'e \<Rightarrow> 'e \<Rightarrow> 'e \<Rightarrow> 'e node list \<Rightarrow> jstr option \<Rightarrow> 'e node" where
  "listing_detail_dialog encode num l photoIdx onPrev onNext onClose action contactInfo =
     modal True onClose (Btn False onClose []
       # listing_detail_content encode num l photoIdx onPrev onNext action contactInfo)"

section \<open>Slots\<close>

definition slot_full :: "viewing_slot \<Rightarrow> bool" where
  "slot_full s \<longleftrightarrow> vs_booked_count s \<ge> vs_capacity s"

record slot_data =
  sd_enabled :: bool
  sd_slots :: "viewing_slot list"

text \<open>\<open>dateKey\<close> and \<open>timeOf\<close> format a moment in the browser's time zone data.\<close>

definition slot_picker ::
  "(jstr \<Rightarrow> jstr) \<Rightarrow> (jstr \<Rightarrow> jstr) \<Rightarrow> slot_data option fetched \<Rightarrow> jstr \<Rightarrow> (jstr \<Rightarrow> 'e) \<Rightarrow> 'e node list" where
  "slot_picker dateKey timeOf fetch value onChange =
     (let data = (case fetch of Loaded d \<Rightarrow> d | _ \<Rightarrow> None);
          grouped = groupBy (case data of None \<Rightarrow> [] | Some d \<Rightarrow> sd_slots d) (\<lambda>s. dateKey (vs_start s))
      in if fetch = Loading then [Txt t_slots_loading]
         else if (case data of None \<Rightarrow> True | Some d \<Rightarrow> \<not> sd_enabled d) then []
         else if grouped = [] then [Txt t_slots_none]
         else map (\<lambda>(day, slots). Box (Txt day # map (\<lambda>s.
                Btn (slot_full s) (onChange (if value = vs_start s then [] else vs_start s))
                  [Mark (value = vs_start s) (Txt (timeOf (vs_start s))
                     # shown (vs_capacity s > 1) [NumT (of_int (vs_booked_count s)), Txt (js ''/''), NumT (of_int (vs_capacity s))])])
                slots)) grouped
              @ [Txt t_slots_hint])"

text \<open>The booking dialog of a match.\<close>

datatype book_event = BookPick jstr | BookClose | BookSubmit jstr

definition book_viewing_modal ::
  "(jstr \<Rightarrow> jstr) \<Rightarrow> (jstr \<Rightarrow> jstr) \<Rightarrow> slot_data option fetched \<Rightarrow> jstr option \<Rightarrow> jstr \<Rightarrow> bool \<Rightarrow> book_event node" where
  "book_viewing_modal dateKey timeOf fetch listing_name slot pending = modal True BookClose [
     Txt t_book_title,
     Txt (case listing_name of None \<Rightarrow> t_this_listing | Some n \<Rightarrow> if n \<noteq> [] then n else t_this_listing), Txt t_book_hint,
     Box (slot_picker dateKey timeOf fetch slot BookPick),
     Btn False BookClose [Txt t_book_cancel],
     Btn (slot = [] \<or> pending) (BookSubmit slot) [Txt t_book_confirm]]"

fun book_step :: "jstr \<Rightarrow> book_event \<Rightarrow> jstr" where
  "book_step slot (BookPick s) = s"
| "book_step slot BookClose = slot"
| "book_step slot (BookSubmit s) = slot"

text \<open>A slot button that can be pressed belongs to a listed slot with room, and every such slot has one.\<close>

lemma slot_picker_offers:
  "list_ex (\<lambda>n. offers n e) (slot_picker dateKey timeOf fetch value onChange) \<longleftrightarrow>
     (\<exists>d s. fetch = Loaded (Some d) \<and> sd_enabled d \<and> s \<in> set (sd_slots d) \<and> \<not> slot_full s \<and>
        e = onChange (if value = vs_start s then [] else vs_start s))"
proof (cases "\<exists>d. fetch = Loaded (Some d) \<and> sd_enabled d")
  case True
  then obtain d where d: "fetch = Loaded (Some d)" "sd_enabled d" by blast
  let ?g = "groupBy (sd_slots d) (\<lambda>s. dateKey (vs_start s))"
  have "list_ex (\<lambda>n. offers n e) (slot_picker dateKey timeOf fetch value onChange) \<longleftrightarrow>
      (\<exists>g \<in> set ?g. \<exists>s \<in> set (snd g). \<not> slot_full s \<and> e = onChange (if value = vs_start s then [] else vs_start s))"
    using d by (auto simp: slot_picker_def Let_def list_ex_iff split: prod.splits) force+
  also have "\<dots> \<longleftrightarrow> (\<exists>s \<in> set (sd_slots d). \<not> slot_full s \<and> e = onChange (if value = vs_start s then [] else vs_start s))"
    using gb.covers [of _ "sd_slots d" "\<lambda>s. dateKey (vs_start s)"] by blast
  finally show ?thesis using d by auto
next
  case False
  then show ?thesis by (auto simp: slot_picker_def Let_def split: fetched.splits option.splits)
qed

section \<open>What cards and dialogs offer\<close>

lemma booking_submit:
  "offers (book_viewing_modal dateKey timeOf fetch name slot pending) (BookSubmit t) \<longleftrightarrow>
     slot \<noteq> [] \<and> \<not> pending \<and> t = slot"
  by (auto simp: book_viewing_modal_def slot_picker_offers)

lemma price_line_passive [simp]: "\<not> list_ex (\<lambda>n. offers n e) (price_line l)"
  by (auto simp: price_line_def Let_def shown_def split: option.splits)

lemma contact_note_passive [simp]: "\<not> list_ex (\<lambda>n. offers n e) (contact_note c)"
  by (auto simp: contact_note_def shown_def split: option.splits)

lemma mini_map_passive [simp]: "\<not> list_ex (\<lambda>n. offers n e) (mini_map_node m)"
  by (auto simp: mini_map_node_def split: option.splits)

lemma map_Txt_passive [simp]: "\<not> list_ex (\<lambda>n. offers n e) (map Txt ts)"
  by (induction ts) auto

lemma photo_node_passive [simp]: "\<not> list_ex (\<lambda>n. offers n e) (photo_node ps i)"
  by (simp add: photo_node_def shown_def)

lemma carousel_offers [simp]:
  "list_ex (\<lambda>n. offers n e) (carousel ps p n') \<longleftrightarrow> length ps > 1 \<and> (e = p \<or> e = n')"
  by (auto simp: carousel_def carousel_arrows_def shown_def)

lemma detail_dialog_offers:
  "offers (listing_detail_dialog enc num l i onPrev onNext onClose action c) e \<longleftrightarrow>
     e = onClose \<or> length (mc_photos l) > 1 \<and> (e = onPrev \<or> e = onNext) \<or> list_ex (\<lambda>n. offers n e) action"
  by (auto simp: listing_detail_dialog_def listing_detail_content_def Let_def shown_def split: option.splits)

lemma dots_passive [simp]: "\<not> list_ex (\<lambda>n. offers n e) (map (\<lambda>i. Mark (P i) []) ks)"
  by (simp add: list_ex_iff)

lemma listing_card_offers:
  "offers (listing_card l i onPrev onNext onClick contact action onReport) e \<longleftrightarrow>
     e = onClick \<or> length (mc_photos l) > 1 \<and> (e = onPrev \<or> e = onNext) \<or> list_ex (\<lambda>n. offers n e) action
     \<or> onReport = Some e"
  by (auto simp: listing_card_def Let_def shown_def split: option.splits)

section \<open>Properties\<close>

text \<open>
  The booking dialog lets the tenant pick exactly the listed slots that still have room (picking the
  current choice again clears it), and submits only a chosen slot, the one on display, while no booking
  is under way.
\<close>

theorem booking_dialog_sound:
  "(offers (book_viewing_modal dateKey timeOf fetch name slot pending) (BookPick t) \<longleftrightarrow>
      (\<exists>d s. fetch = Loaded (Some d) \<and> sd_enabled d \<and> s \<in> set (sd_slots d) \<and> vs_booked_count s < vs_capacity s \<and>
         t = (if slot = vs_start s then [] else vs_start s))) \<and>
   (offers (book_viewing_modal dateKey timeOf fetch name slot pending) (BookSubmit t) \<longleftrightarrow>
      slot \<noteq> [] \<and> \<not> pending \<and> t = slot)"
  by (simp add: book_viewing_modal_def slot_picker_offers slot_full_def not_le)

text \<open>
  C30. The carousel cannot leave the photos: after any arrow keys the index is one of the photos, that
  photo is the one shown, left and right undo each other, and the two photos preloaded are the ones the
  arrows lead to.
\<close>

theorem carousel_in_range:
  assumes "i < length photos" and "j = foldl (\<lambda>i k. carousel_key (length photos) k i) i ks"
  shows "j < length photos \<and> photo_node photos j = [Img (photos ! j)] \<and>
         carousel_key (length photos) ArrowLeft (carousel_key (length photos) ArrowRight j) = j \<and>
         carousel_key (length photos) ArrowRight (carousel_key (length photos) ArrowLeft j) = j \<and>
         (length photos > 1 \<longrightarrow> preload photos j = [photos ! carousel_key (length photos) ArrowLeft j,
                                                     photos ! carousel_key (length photos) ArrowRight j])"
proof -
  have step: "carousel_key n k i < n" if "i < n" for n k i
    using that photo_moves by (auto simp: carousel_key_def split: arrow_key.split)
  have "foldl (\<lambda>i k. carousel_key (length photos) k i) i ks < length photos"
    using assms(1) step by (induction ks arbitrary: i) auto
  then have "j < length photos" using assms(2) by simp
  then show ?thesis
    using photo_moves [of j "length photos"] by (auto simp: photo_node_def shown_def carousel_key_def preload_def Let_def)
qed

lemma carousel_in_range_witness:
  "foldl (\<lambda>i k. carousel_key 3 k i) 0 [ArrowLeft, ArrowLeft] < 3 \<and>
   photo_node [[1], [2], [3 :: nat]] (foldl (\<lambda>i k. carousel_key 3 k i) 0 [ArrowLeft, ArrowLeft]) = [Img [2]]"
  using carousel_in_range [of 0 "[[1], [2], [3]]" _ "[ArrowLeft, ArrowLeft]"]
  by (simp add: carousel_key_def prev_photo_def photo_node_def shown_def)

text \<open>
  The map does not give the place away: with coordinates at hand and no contact information
  unlocked, the map is the wide one, centred without a pin and labelled as approximate; the pin and the
  close-up come only with contact information.
\<close>

theorem map_precision:
  assumes "lat = Some a" and "lng = Some c" and "a \<noteq> 0 \<or> label \<noteq> []"
  shows "\<exists>m. mini_map encode num address (Some label) lat lng precise = Some m \<and>
     mf_approx_note m = (\<not> precise) \<and>
     mf_embed m = maps_embed @ (if precise then js ''q='' else js ''ll='') @ num a @ js '','' @ num c
       @ js ''&z='' @ (if precise then js ''16'' else js ''15'') @ js ''&output=embed&hl=zh-TW''"
  using assms by (auto simp: mini_map_def Let_def split: option.splits)

lemma map_precision_witness:
  "\<exists>m. mini_map id (\<lambda>q. js ''25'') None (Some (js ''Taipei'')) (Some 25) (Some 121) False = Some m \<and>
     mf_approx_note m \<and> mf_embed m = maps_embed @ js ''ll=25,25&z=15&output=embed&hl=zh-TW''"
  using map_precision [of "Some 25" 25 "Some 121" 121 "js ''Taipei''" id "\<lambda>q. js ''25''" None False]
  by (auto simp: js_def)

text \<open>
  The price on a card is what the item says: the first amount is the monthly total of rent and fee,
  and the fee is broken out exactly when there is one.
\<close>

theorem card_price:
  "hd (amounts (Box (price_line (toListingCard item)) :: 'e node))
      = of_int (cs_rent item + or_else 0 (lf_management_fee item)) \<and>
   (amounts (last (price_line (toListingCard item)) :: 'e node)
      = (if or_else 0 (lf_management_fee item) > 0
         then [of_int (cs_rent item), of_int (or_else 0 (lf_management_fee item))] else []))"
  by (simp add: price_line_def Let_def toListingCard_def totalMonthly_def shown_def)

end
