(* ===== verification/Viewings.thy ===== *)
theory Viewings
  imports ListingCards
begin

text \<open>
  The list of viewings of either side, \<open>src/apps/web/components/ViewingList.tsx\<close>: its requests, the slot
  dialog that serves both rescheduling and booking again, the detail dialog of the tenant, and the view
  that decides who may do what with which viewing. \<open>dateKey\<close>, \<open>timeOf\<close>, \<open>formatSlot\<close> are the
  browser's date formatting.
\<close>

section \<open>State\<close>

datatype side = Tenant | Landlord

datatype slot_mode = Reschedule | Rebook

record viewing_list =
  vl_role :: side
  vl_items :: "viewing list fetched"
  vl_slotModal :: "(viewing \<times> slot_mode) option"
  vl_pickedSlot :: jstr
  vl_detail :: "viewing option"
  vl_reschedule_pending :: bool
  vl_rebook_pending :: bool
  vl_slots :: "slot_data option fetched"

definition role_name :: "side \<Rightarrow> jstr" where
  "role_name r = (case r of Tenant \<Rightarrow> js ''tenant'' | Landlord \<Rightarrow> js ''landlord'')"

definition viewing_list_init :: "side \<Rightarrow> viewing_list" where
  "viewing_list_init r = \<lparr>vl_role = r, vl_items = Loading, vl_slotModal = None, vl_pickedSlot = [],
     vl_detail = None, vl_reschedule_pending = False, vl_rebook_pending = False, vl_slots = Loading\<rparr>"

datatype viewing_out =
    PostAttendance jstr attendance
  | PostCancel jstr
  | PostReschedule jstr jstr     \<comment> \<open>viewing id, \<open>starts_at\<close>\<close>
  | PostViewing jstr jstr        \<comment> \<open>match id, \<open>starts_at\<close>\<close>
  | InvalidateViewings query_key

datatype viewing_event =
    MarkAttendance jstr attendance | CancelViewing jstr
  | OpenSlots viewing slot_mode | PickSlot jstr | CloseSlots | ConfirmSlot
  | OpenDetail viewing | CloseDetail | DetailMoved
  | AttendanceOk | CancelOk | RescheduleOk | RescheduleFailed | RebookOk | RebookFailed
  | ItemsLoaded "viewing list fetched" | SlotsLoaded "slot_data option fetched"

section \<open>Operations\<close>

definition refresh_viewings :: "viewing_list \<Rightarrow> viewing_out list" where
  "refresh_viewings s = [InvalidateViewings (qk_viewings (Some (role_name (vl_role s))))]"

definition refresh_slots :: "viewing_list \<Rightarrow> viewing_out list" where
  "refresh_slots s = refresh_viewings s @ [InvalidateViewings (qk_viewingSlots None)]"

definition confirm_slot :: "viewing_list \<Rightarrow> viewing_list \<times> viewing_out list" where
  "confirm_slot s = (case vl_slotModal s of
     None \<Rightarrow> (s, [])
   | Some (v, Reschedule) \<Rightarrow> (s\<lparr>vl_reschedule_pending := True\<rparr>, [PostReschedule (vw_id v) (vl_pickedSlot s)])
   | Some (v, Rebook) \<Rightarrow> (s\<lparr>vl_rebook_pending := True\<rparr>, [PostViewing (vw_match_id v) (vl_pickedSlot s)]))"

fun viewing_step :: "viewing_list \<Rightarrow> viewing_event \<Rightarrow> viewing_list \<times> viewing_out list" where
  "viewing_step s (MarkAttendance i a) = (s, [PostAttendance i a])"
| "viewing_step s (CancelViewing i) = (s, [PostCancel i])"
| "viewing_step s (OpenSlots v m) = (s\<lparr>vl_slotModal := Some (v, m), vl_pickedSlot := []\<rparr>, [])"
| "viewing_step s (PickSlot t) = (s\<lparr>vl_pickedSlot := t\<rparr>, [])"
| "viewing_step s CloseSlots = (s\<lparr>vl_slotModal := None\<rparr>, [])"
| "viewing_step s ConfirmSlot = confirm_slot s"
| "viewing_step s (OpenDetail v) = (s\<lparr>vl_detail := Some v\<rparr>, [])"
| "viewing_step s CloseDetail = (s\<lparr>vl_detail := None\<rparr>, [])"
| "viewing_step s DetailMoved = (s, [])"
| "viewing_step s AttendanceOk = (s, refresh_viewings s)"
| "viewing_step s CancelOk = (s, refresh_viewings s)"
| "viewing_step s RescheduleOk = (s\<lparr>vl_reschedule_pending := False, vl_slotModal := None\<rparr>, refresh_slots s)"
| "viewing_step s RescheduleFailed = (s\<lparr>vl_reschedule_pending := False\<rparr>, [])"
| "viewing_step s RebookOk = (s\<lparr>vl_rebook_pending := False, vl_slotModal := None\<rparr>, refresh_slots s)"
| "viewing_step s RebookFailed = (s\<lparr>vl_rebook_pending := False\<rparr>, [])"
| "viewing_step s (ItemsLoaded d) = (s\<lparr>vl_items := d\<rparr>, [])"
| "viewing_step s (SlotsLoaded d) = (s\<lparr>vl_slots := d\<rparr>, [])"

section \<open>View\<close>

text \<open>The status badge, and the sub-title and contact block of one viewing.\<close>

definition viewing_badge :: "viewing \<Rightarrow> jstr" where
  "viewing_badge v = (if vw_status v = Completed \<and> vw_attendance v \<noteq> NotRecorded
     then (if vw_attendance v = Attended then t_vl_attended else t_vl_absent)
     else VIEWING_STATUS_BADGE (vw_status v))"

definition viewing_title :: "side \<Rightarrow> viewing \<Rightarrow> 'e node list" where
  "viewing_title role v = (if role = Landlord then [Txt (vw_profile_name v)]
     else if vw_listing_name v \<noteq> [] then [Txt (vw_listing_name v)]
     else [Txt (js ''$''), MoneyT (of_int (vw_rent v))])"

definition contact_block :: "side \<Rightarrow> viewing \<Rightarrow> 'e node list" where
  "contact_block role v = shown (role = Tenant \<and> vw_status v = Confirmed \<and> (vw_contact_info v \<noteq> [] \<or> vw_address v \<noteq> []))
     (shown (vw_address v \<noteq> []) [Txt t_vl_address, Txt (vw_address v)]
      @ shown (vw_contact_info v \<noteq> []) [Txt t_vl_contact, Txt (vw_contact_info v)])"

definition landlord_actions :: "side \<Rightarrow> viewing \<Rightarrow> viewing_event node list" where
  "landlord_actions role v = shown (role = Landlord \<and> vw_status v = Confirmed)
     [Btn False (MarkAttendance (vw_id v) Attended) [Txt t_vl_attended],
      Btn False (MarkAttendance (vw_id v) Absent) [Txt t_vl_absent],
      Btn False (CancelViewing (vw_id v)) [Txt t_vl_cancel_slot]]"

definition tenant_actions :: "side \<Rightarrow> viewing \<Rightarrow> viewing_event node list" where
  "tenant_actions role v = shown (role = Tenant \<and> vw_status v = Confirmed)
     [Stop [Btn False (OpenSlots v Reschedule) [Txt t_vl_reschedule],
            Btn False (CancelViewing (vw_id v)) [Txt t_vl_cancel_booking]]]"

definition rebook_action :: "side \<Rightarrow> viewing \<Rightarrow> viewing_event node list" where
  "rebook_action role v = shown (role = Tenant \<and> (vw_status v = Cancelled \<or> vw_status v = CancelledLandlord) \<and> vw_match_active v)
     [Stop [Btn False (OpenSlots v Rebook) [Txt t_vl_rebook]]]"

definition viewing_item :: "(jstr \<Rightarrow> jstr \<Rightarrow> jstr) \<Rightarrow> side \<Rightarrow> viewing \<Rightarrow> viewing_event node" where
  "viewing_item formatSlot role v =
     (let content = shown (role = Tenant \<and> vw_photos v \<noteq> [] \<and> hd (vw_photos v) \<noteq> []) [Img (hd (vw_photos v))]
        @ [Txt (formatSlot (vw_starts_at v) (vw_ends_at v))] @ viewing_title role v @ [Txt (viewing_badge v)]
        @ contact_block role v @ landlord_actions role v @ tenant_actions role v @ rebook_action role v
      in if role = Tenant then Tap (OpenDetail v) content else Box content)"

text \<open>The viewing as the item of a listing card.\<close>

definition viewing_source :: "viewing \<Rightarrow> card_source" where
  "viewing_source v = \<lparr>lf_photos = vw_photos v, lf_available_from = vw_available_from v,
     lf_management_fee = Some (vw_management_fee v), lf_num_bedrooms = vw_num_bedrooms v,
     lf_num_living_rooms = vw_num_living_rooms v, lf_num_bathrooms = vw_num_bathrooms v,
     lf_num_balconies = vw_num_balconies v, lf_pets = vw_allow_pets v, lf_subsidy = vw_allow_subsidy v,
     lf_tax_receipt = vw_allow_tax_receipt v, lf_household_registration = vw_allow_household_registration v,
     lf_cooking = vw_allow_cooking v, lf_has_parking = vw_has_parking v, lf_allow_smoking = vw_allow_smoking v,
     lf_description = Some (vw_description v), lf_address = Some (vw_address v), lf_lat = vw_lat v, lf_lng = vw_lng v,
     cs_listing_id = vw_listing_id v, cs_listing_name = Some (vw_listing_name v), cs_rent = vw_rent v,
     cs_room_type = vw_room_type v, cs_area_ping = vw_area_ping v, cs_location_id = Some (vw_location_id v),
     cs_interest_sent = None\<rparr>"

definition detail_contact :: "viewing \<Rightarrow> jstr option" where
  "detail_contact v = (if vw_status v = Confirmed \<and> vw_contact_info v \<noteq> [] then Some (vw_contact_info v) else None)"

record formats =
  fm_dateKey :: "jstr \<Rightarrow> jstr"
  fm_timeOf :: "jstr \<Rightarrow> jstr"
  fm_slot :: "jstr \<Rightarrow> jstr \<Rightarrow> jstr"
  fm_encode :: "jstr \<Rightarrow> jstr"
  fm_coord :: "rat \<Rightarrow> jstr"

definition viewing_detail :: "formats \<Rightarrow> viewing_list \<Rightarrow> viewing_event node list" where
  "viewing_detail f s = (case vl_detail s of None \<Rightarrow> []
     | Some v \<Rightarrow> [listing_detail_dialog (fm_encode f) (fm_coord f) (toListingCard (viewing_source v)) 0
         DetailMoved DetailMoved CloseDetail [] (detail_contact v)])"

definition slot_modal :: "formats \<Rightarrow> viewing_list \<Rightarrow> viewing_event node" where
  "slot_modal f s =
     (let re = (case vl_slotModal s of Some (v, Reschedule) \<Rightarrow> True | _ \<Rightarrow> False)
      in modal (vl_slotModal s \<noteq> None) CloseSlots [
        Txt (if re then t_vl_reschedule_title else t_vl_rebook_title),
        Box (shown (vl_slotModal s \<noteq> None)
          (slot_picker (fm_dateKey f) (fm_timeOf f) (vl_slots s) (vl_pickedSlot s) PickSlot)),
        Btn False CloseSlots [Txt t_vl_cancel],
        Btn (vl_pickedSlot s = [] \<or> vl_reschedule_pending s \<or> vl_rebook_pending s \<or> vl_slotModal s = None)
          ConfirmSlot [Txt (if re then t_vl_confirm_reschedule else t_vl_confirm_booking)]])"

definition viewing_groups :: "formats \<Rightarrow> viewing_list \<Rightarrow> (jstr \<times> viewing list) list" where
  "viewing_groups f s = groupBy (case vl_items s of Loaded vs \<Rightarrow> vs | _ \<Rightarrow> []) (\<lambda>v. fm_dateKey f (vw_starts_at v))"

definition viewing_list_view :: "formats \<Rightarrow> viewing_list \<Rightarrow> viewing_event node" where
  "viewing_list_view f s =
     (if vl_items s = Loading then loading
      else if viewing_groups f s = [] then Txt (if vl_role s = Landlord then t_vl_none_landlord else t_vl_none_tenant)
      else Box (map (\<lambda>(day, items). Box (Txt day # map (viewing_item (fm_slot f) (vl_role s)) items)) (viewing_groups f s)
             @ viewing_detail f s @ [slot_modal f s]))"

text \<open>The user acts on the view; answers come for requests that are out.\<close>

fun viewing_can :: "formats \<Rightarrow> viewing_list \<Rightarrow> viewing_event \<Rightarrow> bool" where
  "viewing_can f s AttendanceOk = True"
| "viewing_can f s CancelOk = True"
| "viewing_can f s RescheduleOk = vl_reschedule_pending s"
| "viewing_can f s RescheduleFailed = vl_reschedule_pending s"
| "viewing_can f s RebookOk = vl_rebook_pending s"
| "viewing_can f s RebookFailed = vl_rebook_pending s"
| "viewing_can f s (ItemsLoaded d) = True"
| "viewing_can f s (SlotsLoaded d) = True"
| "viewing_can f s e = offers (viewing_list_view f s) e"

section \<open>Who may do what\<close>

definition items_of :: "viewing_list \<Rightarrow> viewing list" where
  "items_of s = (case vl_items s of Loaded vs \<Rightarrow> vs | _ \<Rightarrow> [])"

text \<open>What one viewing on the list offers, and what the two dialogs offer.\<close>

lemma viewing_item_offers:
  "offers (viewing_item fmt role v) e \<longleftrightarrow>
     role = Tenant \<and> e = OpenDetail v \<or>
     role = Landlord \<and> vw_status v = Confirmed \<and>
       (e = MarkAttendance (vw_id v) Attended \<or> e = MarkAttendance (vw_id v) Absent \<or> e = CancelViewing (vw_id v)) \<or>
     role = Tenant \<and> vw_status v = Confirmed \<and> (e = OpenSlots v Reschedule \<or> e = CancelViewing (vw_id v)) \<or>
     role = Tenant \<and> (vw_status v = Cancelled \<or> vw_status v = CancelledLandlord) \<and> vw_match_active v
       \<and> e = OpenSlots v Rebook"
  by (cases role) (auto simp: viewing_item_def Let_def viewing_title_def contact_block_def landlord_actions_def
      tenant_actions_def rebook_action_def shown_def)

lemma viewing_groups_items: "(\<exists>g \<in> set (viewing_groups f s). v \<in> set (snd g)) \<longleftrightarrow> v \<in> set (items_of s)"
  unfolding viewing_groups_def items_of_def by (rule gb.covers [symmetric])

lemma view_offers:
  "offers (viewing_list_view f s) e \<Longrightarrow>
     (\<exists>v \<in> set (items_of s). offers (viewing_item (fm_slot f) (vl_role s) v) e) \<or>
     e = CloseDetail \<or> e = DetailMoved \<or> offers (slot_modal f s) e"
  using viewing_groups_items [of f s]
  by (auto simp: viewing_list_view_def list_ex_iff loading_def viewing_detail_def detail_dialog_offers
      split: if_splits option.splits prod.splits) fastforce+

lemma slot_modal_offers:
  "offers (slot_modal f s) e \<Longrightarrow> e = CloseSlots \<or> (\<exists>t. e = PickSlot t) \<or>
     e = ConfirmSlot \<and> vl_pickedSlot s \<noteq> [] \<and> \<not> vl_reschedule_pending s \<and> \<not> vl_rebook_pending s \<and> vl_slotModal s \<noteq> None"
  by (auto simp: slot_modal_def Let_def shown_def slot_picker_offers)

section \<open>Invariant\<close>

fun modal_ok :: "side \<Rightarrow> (viewing \<times> slot_mode) option \<Rightarrow> bool" where
  "modal_ok r None = True"
| "modal_ok r (Some (v, Reschedule)) = (r = Tenant \<and> vw_status v = Confirmed)"
| "modal_ok r (Some (v, Rebook)) =
     (r = Tenant \<and> (vw_status v = Cancelled \<or> vw_status v = CancelledLandlord) \<and> vw_match_active v)"

definition viewing_inv :: "viewing_list \<Rightarrow> bool" where
  "viewing_inv s \<longleftrightarrow> \<not> (vl_reschedule_pending s \<and> vl_rebook_pending s) \<and> modal_ok (vl_role s) (vl_slotModal s)"

lemma viewing_inv_init: "viewing_inv (viewing_list_init r)"
  by (simp add: viewing_inv_def viewing_list_init_def)

lemma viewing_inv_step: "viewing_inv s \<Longrightarrow> viewing_can f s e \<Longrightarrow> viewing_inv (fst (viewing_step s e))"
proof (cases e)
  case (OpenSlots v m)
  assume inv: "viewing_inv s" and "viewing_can f s e"
  then have "offers (viewing_list_view f s) (OpenSlots v m)" using OpenSlots by simp
  then have "\<exists>v' \<in> set (items_of s). offers (viewing_item (fm_slot f) (vl_role s) v') (OpenSlots v m)"
    using view_offers [of f s "OpenSlots v m"] slot_modal_offers [of f s "OpenSlots v m"] by auto
  then show ?thesis using inv OpenSlots by (cases m) (auto simp: viewing_item_offers viewing_inv_def)
next
  case ConfirmSlot
  assume inv: "viewing_inv s" and "viewing_can f s e"
  then have "offers (viewing_list_view f s) ConfirmSlot" using ConfirmSlot by simp
  then have "\<not> vl_reschedule_pending s \<and> \<not> vl_rebook_pending s"
    using view_offers [of f s ConfirmSlot] slot_modal_offers [of f s ConfirmSlot]
    by (auto simp: viewing_item_offers)
  then show ?thesis using inv ConfirmSlot
    by (auto simp: viewing_inv_def confirm_slot_def split: option.splits slot_mode.splits)
qed (auto simp: viewing_inv_def)

interpretation viewings: guarded_machine "\<lambda>s. \<exists>r. s = viewing_list_init r" "viewing_can f"
    "\<lambda>s e. fst (viewing_step s e)" viewing_inv for f
  by unfold_locales (auto intro: viewing_inv_init viewing_inv_step)

abbreviation viewing_reach :: "formats \<Rightarrow> viewing_list \<Rightarrow> bool" where
  "viewing_reach f \<equiv> reach (\<lambda>s. \<exists>r. s = viewing_list_init r) (viewing_can f) (\<lambda>s e. fst (viewing_step s e))"

section \<open>Properties\<close>

text \<open>
  C31. The list offers each action only where it makes sense: attendance to the landlord and cancellation
  to either side, for confirmed viewings on the list; rescheduling to the tenant for confirmed ones;
  booking again to the tenant for cancelled ones whose match is still active. Pressing one of these never
  also opens the detail dialog.
\<close>

theorem viewing_actions_guarded:
  assumes "offers (viewing_list_view f s) e"
  shows "no_bubble False (viewing_item (fm_slot f) (vl_role s) v) \<and> (case e of
      MarkAttendance i a \<Rightarrow> vl_role s = Landlord \<and> a \<noteq> NotRecorded \<and>
        (\<exists>v \<in> set (items_of s). vw_id v = i \<and> vw_status v = Confirmed)
    | CancelViewing i \<Rightarrow> (\<exists>v \<in> set (items_of s). vw_id v = i \<and> vw_status v = Confirmed)
    | OpenSlots v m \<Rightarrow> v \<in> set (items_of s) \<and> modal_ok (vl_role s) (Some (v, m))
    | OpenDetail v \<Rightarrow> v \<in> set (items_of s) \<and> vl_role s = Tenant
    | _ \<Rightarrow> True)"
proof
  show "no_bubble False (viewing_item (fm_slot f) (vl_role s) v)"
    by (cases "vl_role s") (auto simp: viewing_item_def Let_def viewing_title_def contact_block_def landlord_actions_def
      tenant_actions_def rebook_action_def shown_def)
qed (use view_offers [OF assms] slot_modal_offers [of f s e] in
      \<open>auto simp: viewing_item_offers split: viewing_event.split\<close>)

definition example_formats :: formats where
  "example_formats = \<lparr>fm_dateKey = (\<lambda>t. take 10 t), fm_timeOf = drop 11, fm_slot = (\<lambda>a b. a), fm_encode = id,
     fm_coord = (\<lambda>q. [])\<rparr>"

definition example_viewing :: "viewing_status \<Rightarrow> viewing" where
  "example_viewing st = \<lparr>vw_id = js ''V'', vw_match_id = js ''M'', vw_match_active = True, vw_tenant_profile_id = [],
     vw_listing_id = js ''L'', vw_profile_name = [], vw_listing_name = [], vw_starts_at = [], vw_ends_at = [],
     vw_status = st, vw_attendance = NotRecorded, vw_landlord_notes = [], vw_contact_info = js ''line'', vw_address = [],
     vw_location_id = [], vw_rent = 10000, vw_room_type = [], vw_area_ping = 8, vw_management_fee = 0,
     vw_available_from = [], vw_allow_pets = False, vw_allow_subsidy = False, vw_allow_tax_receipt = False,
     vw_allow_household_registration = False, vw_allow_cooking = False, vw_has_parking = False, vw_allow_smoking = False,
     vw_num_bedrooms = None, vw_num_living_rooms = None, vw_num_bathrooms = None, vw_num_balconies = None,
     vw_description = [], vw_lat = None, vw_lng = None, vw_photos = []\<rparr>"

text \<open>A tenant's list with one cancelled viewing, its slots loaded, after asking to book again.\<close>

definition example_slots :: "slot_data option fetched" where
  "example_slots = Loaded (Some \<lparr>sd_enabled = True,
     sd_slots = [\<lparr>vs_start = js ''S'', vs_end = [], vs_booked_count = 0, vs_capacity = 1\<rparr>]\<rparr>)"

definition loaded_list :: viewing_list where
  "loaded_list = (viewing_list_init Tenant)\<lparr>vl_items := Loaded [example_viewing Cancelled]\<rparr>"

lemma loaded_offers_rebook: "offers (viewing_list_view example_formats loaded_list) (OpenSlots (example_viewing Cancelled) Rebook)"
  by (simp add: viewing_list_view_def viewing_groups_def groupBy_def loaded_list_def viewing_list_init_def
      viewing_item_offers) (simp add: example_viewing_def)

lemma viewing_actions_guarded_witness:
  "modal_ok Tenant (Some (example_viewing Cancelled, Rebook)) \<and> example_viewing Cancelled \<in> set (items_of loaded_list)"
  using viewing_actions_guarded [OF loaded_offers_rebook]
  by (simp add: loaded_list_def viewing_list_init_def items_of_def)

lemma viewing_reach_next: "viewing_reach f s \<Longrightarrow> viewing_can f s e \<Longrightarrow> viewing_reach f (fst (viewing_step s e))"
  by (rule viewings.reach_next)

text \<open>
  C32. Every booking request is meant: in a reachable state the request that a confirmed slot dialog sends
  is for the viewing it was opened for, reschedules only a confirmed viewing and books again only for a
  cancelled one of an active match, carries the chosen slot, and is sent only while no other request of
  the dialog is open.
\<close>

theorem booking_requests_meant:
  assumes "viewing_reach f s" and "viewing_can f s ConfirmSlot"
  shows "vl_pickedSlot s \<noteq> [] \<and> \<not> vl_reschedule_pending s \<and> \<not> vl_rebook_pending s \<and>
    (\<exists>v. vl_slotModal s = Some (v, Reschedule) \<and> vw_status v = Confirmed \<and>
         snd (viewing_step s ConfirmSlot) = [PostReschedule (vw_id v) (vl_pickedSlot s)] \<or>
       vl_slotModal s = Some (v, Rebook) \<and> vw_status v \<in> {Cancelled, CancelledLandlord} \<and> vw_match_active v \<and>
         snd (viewing_step s ConfirmSlot) = [PostViewing (vw_match_id v) (vl_pickedSlot s)])"
proof -
  have "viewing_inv s" by (rule viewings.reach_inv [OF assms(1)])
  moreover have "vl_pickedSlot s \<noteq> [] \<and> \<not> vl_reschedule_pending s \<and> \<not> vl_rebook_pending s \<and> vl_slotModal s \<noteq> None"
    using assms(2) view_offers [of f s ConfirmSlot] slot_modal_offers [of f s ConfirmSlot] by (auto simp: viewing_item_offers)
  ultimately show ?thesis
    by (auto simp: viewing_inv_def confirm_slot_def elim: modal_ok.elims)
qed

definition rebooking :: "viewing_list" where
  "rebooking = loaded_list\<lparr>vl_slotModal := Some (example_viewing Cancelled, Rebook), vl_slots := example_slots,
     vl_pickedSlot := js ''S''\<rparr>"

lemma rebooking_reach: "viewing_reach example_formats rebooking"
proof -
  have 1: "viewing_reach example_formats (viewing_list_init Tenant)"
    by (rule viewings.reach_init) blast
  have "viewing_reach example_formats loaded_list"
    using viewing_reach_next [OF 1, of "ItemsLoaded (Loaded [example_viewing Cancelled])"] by (simp add: loaded_list_def)
  from viewing_reach_next [OF this, of "OpenSlots (example_viewing Cancelled) Rebook"]
  have "viewing_reach example_formats (loaded_list\<lparr>vl_slotModal := Some (example_viewing Cancelled, Rebook)\<rparr>)"
    using loaded_offers_rebook by (simp add: loaded_list_def viewing_list_init_def)
  from viewing_reach_next [OF this, of "SlotsLoaded example_slots"]
  have 4: "viewing_reach example_formats (loaded_list\<lparr>vl_slotModal := Some (example_viewing Cancelled, Rebook), vl_slots := example_slots\<rparr>)"
    by simp
  have "list_ex (\<lambda>n. offers n (PickSlot (js ''S'')))
      (slot_picker (fm_dateKey example_formats) (fm_timeOf example_formats) example_slots [] PickSlot)"
    unfolding slot_picker_offers by (simp add: example_slots_def slot_full_def js_def)
  then have "viewing_can example_formats (loaded_list\<lparr>vl_slotModal := Some (example_viewing Cancelled, Rebook), vl_slots := example_slots\<rparr>)
      (PickSlot (js ''S''))"
    by (simp add: viewing_list_view_def viewing_groups_def groupBy_def loaded_list_def viewing_list_init_def
        slot_modal_def Let_def shown_def)
  from viewing_reach_next [OF 4 this] show ?thesis by (simp add: rebooking_def)
qed

lemma booking_requests_meant_witness:
  "snd (viewing_step rebooking ConfirmSlot) = [PostViewing (js ''M'') (js ''S'')]"
proof -
  have "viewing_can example_formats rebooking ConfirmSlot"
    by (simp add: viewing_list_view_def viewing_groups_def groupBy_def rebooking_def loaded_list_def viewing_list_init_def
        slot_modal_def Let_def shown_def js_def)
  from booking_requests_meant [OF rebooking_reach this] show ?thesis
    by (auto simp: rebooking_def example_viewing_def)
qed

text \<open>The viewings of a list without the contact information of those that are not confirmed.\<close>

definition redact :: "viewing \<Rightarrow> viewing" where
  "redact v = (if vw_status v = Confirmed then v else v\<lparr>vw_contact_info := []\<rparr>)"

definition redact_list :: "viewing_list \<Rightarrow> viewing_list" where
  "redact_list s = s\<lparr>vl_items := map_fetched (map redact) (vl_items s), vl_detail := map_option redact (vl_detail s)\<rparr>"

lemma redact_starts [simp]: "vw_starts_at (redact v) = vw_starts_at v"
  by (simp add: redact_def)

lemma redact_item [simp]: "texts (viewing_item fmt role (redact v)) = texts (viewing_item fmt role v)"
  by (auto simp: redact_def viewing_item_def Let_def viewing_title_def contact_block_def landlord_actions_def
      tenant_actions_def rebook_action_def shown_def viewing_badge_def)

lemma redact_source [simp]: "viewing_source (redact v) = viewing_source v"
  by (simp add: redact_def viewing_source_def)

lemma redact_contact [simp]: "detail_contact (redact v) = detail_contact v"
  by (simp add: redact_def detail_contact_def)

lemma redact_groups:
  "viewing_groups f (redact_list s) = map (\<lambda>(day, vs). (day, map redact vs)) (viewing_groups f s)"
proof (cases "vl_items s")
  case (Loaded vs)
  then show ?thesis by (simp add: viewing_groups_def redact_list_def groupBy_map)
qed (simp_all add: viewing_groups_def redact_list_def groupBy_def)

lemma redact_detail: "viewing_detail f (redact_list s) = viewing_detail f s"
  by (simp add: viewing_detail_def redact_list_def split: option.split)

lemma redact_modal: "slot_modal f (redact_list s) = slot_modal f s"
  by (simp add: slot_modal_def redact_list_def)

lemma redact_view: "texts (viewing_list_view f (redact_list s)) = texts (viewing_list_view f s)"
proof -
  have "(vl_items (redact_list s) = Loading) = (vl_items s = Loading)" "vl_role (redact_list s) = vl_role s"
    by (cases "vl_items s"; simp add: redact_list_def)+
  then show ?thesis
    by (simp add: viewing_list_view_def redact_groups redact_detail redact_modal comp_def prod.case_eq_if)
qed

text \<open>
  C33. The landlord's contact information shows only while the visit stands: the text of the whole page, list
  and detail dialog together, is the same when the contact information of every viewing that is not
  confirmed is erased. For a confirmed viewing the tenant's entry shows what was sent, the contact
  information and the address. The address is not protected in the same way: the entry of a viewing shows
  it only to the tenant of a confirmed one, but the detail dialog, which opens for any viewing of the
  tenant, shows it whatever the status is.
\<close>

theorem contact_hidden_unless_confirmed:
  "texts (viewing_list_view f (redact_list s)) = texts (viewing_list_view f s) \<and>
   (\<forall>fmt role v a. \<not> (role = Tenant \<and> vw_status v = Confirmed) \<longrightarrow>
      texts (viewing_item fmt role (v\<lparr>vw_address := a\<rparr>)) = texts (viewing_item fmt role v)) \<and>
   (\<forall>fmt v t. vw_status v = Confirmed \<longrightarrow> t \<noteq> [] \<longrightarrow> t = vw_contact_info v \<or> t = vw_address v \<longrightarrow>
      t \<in> set (texts (viewing_item fmt Tenant v))) \<and>
   (\<forall>v. vl_detail s = Some v \<longrightarrow> vw_address v \<noteq> [] \<longrightarrow>
      vw_address v \<in> set (concat (map texts (viewing_detail f s))))"
proof (intro conjI allI impI)
  show "texts (viewing_list_view f (redact_list s)) = texts (viewing_list_view f s)" by (rule redact_view)
  show "texts (viewing_item fmt role (v\<lparr>vw_address := a\<rparr>)) = texts (viewing_item fmt role v)"
    if "\<not> (role = Tenant \<and> vw_status v = Confirmed)" for fmt role v a
    using that by (auto simp: viewing_item_def Let_def viewing_title_def contact_block_def landlord_actions_def
      tenant_actions_def rebook_action_def shown_def viewing_badge_def)
  show "t \<in> set (texts (viewing_item fmt Tenant v))"
    if "vw_status v = Confirmed" "t \<noteq> []" "t = vw_contact_info v \<or> t = vw_address v" for fmt v t
    using that by (auto simp: viewing_item_def Let_def contact_block_def shown_def)
  show "vw_address v \<in> set (concat (map texts (viewing_detail f s)))" if "vl_detail s = Some v" "vw_address v \<noteq> []" for v
    using that by (auto simp: viewing_detail_def listing_detail_dialog_def listing_detail_content_def Let_def
      toListingCard_def viewing_source_def modal_def)
qed

lemma contact_hidden_unless_confirmed_witness:
  "texts (viewing_list_view example_formats (redact_list loaded_list)) = texts (viewing_list_view example_formats loaded_list)
   \<and> redact_list loaded_list \<noteq> loaded_list
   \<and> js ''line'' \<in> set (texts (viewing_item (\<lambda>x y. x) Tenant (example_viewing Confirmed)))
   \<and> js ''addr'' \<in> set (concat (map texts (viewing_detail example_formats
        (loaded_list\<lparr>vl_detail := Some ((example_viewing Cancelled)\<lparr>vw_address := js ''addr''\<rparr>)\<rparr>))))"
proof -
  let ?v = "(example_viewing Cancelled)\<lparr>vw_address := js ''addr''\<rparr>"
  have "js ''line'' \<in> set (texts (viewing_item (\<lambda>x y. x) Tenant (example_viewing Confirmed)))"
    using contact_hidden_unless_confirmed [of example_formats loaded_list, THEN conjunct2, THEN conjunct2, THEN conjunct1,
        rule_format, of "example_viewing Confirmed" "js ''line''" "\<lambda>x y. x"]
    by (simp add: example_viewing_def js_def)
  moreover have "js ''addr'' \<in> set (concat (map texts (viewing_detail example_formats (loaded_list\<lparr>vl_detail := Some ?v\<rparr>))))"
    using contact_hidden_unless_confirmed [of example_formats "loaded_list\<lparr>vl_detail := Some ?v\<rparr>", THEN conjunct2,
        THEN conjunct2, THEN conjunct2, rule_format, of ?v] by (simp add: js_def)
  moreover have "redact_list loaded_list \<noteq> loaded_list"
    by (simp add: redact_list_def loaded_list_def viewing_list_init_def redact_def example_viewing_def js_def)
  ultimately show ?thesis using contact_hidden_unless_confirmed [of example_formats loaded_list] by blast
qed

text \<open>Which cached queries an event refetches.\<close>

definition viewing_refetches :: "viewing_list \<Rightarrow> viewing_event \<Rightarrow> query \<Rightarrow> bool" where
  "viewing_refetches s e q \<longleftrightarrow>
     list_ex (\<lambda>out. case out of InvalidateViewings k \<Rightarrow> invalidates k (q_key q) | _ \<Rightarrow> False) (snd (viewing_step s e))"

lemma role_name_nonempty [simp]: "role_name r \<noteq> []"
  by (cases r) (simp_all add: role_name_def js_def)

lemma confirm_slot_quiet: "InvalidateViewings k \<notin> set (snd (confirm_slot s))"
  by (auto simp: confirm_slot_def split: option.splits slot_mode.splits)

text \<open>
  C34. What is refetched after a change, of everything the client caches: recording attendance or cancelling
  refreshes exactly the list of this side; rescheduling or booking again refreshes exactly that list and
  the slots of every listing; no other event refetches anything. So the slot that a cancellation frees
  stays hidden in the cached slots of its listing.
\<close>

theorem viewing_changes_refresh:
  assumes "q \<in> client_queries"
  shows "viewing_refetches s e q \<longleftrightarrow>
     (case e of
        AttendanceOk \<Rightarrow> q = viewings_query (role_name (vl_role s))
      | CancelOk \<Rightarrow> q = viewings_query (role_name (vl_role s))
      | RescheduleOk \<Rightarrow> q = viewings_query (role_name (vl_role s)) \<or> (\<exists>i. q = slots_query i)
      | RebookOk \<Rightarrow> q = viewings_query (role_name (vl_role s)) \<or> (\<exists>i. q = slots_query i)
      | _ \<Rightarrow> False)"
proof (cases e)
  case ConfirmSlot
  then show ?thesis using confirm_slot_quiet [of _ s]
    by (auto simp: viewing_refetches_def list_ex_iff split: viewing_out.splits)
qed (use reach_viewings [OF assms] reach_slots [OF assms] in
      \<open>simp_all add: viewing_refetches_def refresh_slots_def refresh_viewings_def\<close>)

lemma viewing_changes_refresh_witness:
  "viewing_refetches rebooking RebookOk (slots_query (js ''L'')) \<and>
   \<not> viewing_refetches rebooking CancelOk (slots_query (js ''L'')) \<and>
   viewing_refetches rebooking AttendanceOk (viewings_query (js ''tenant'')) \<and>
   \<not> viewing_refetches rebooking AttendanceOk (viewings_query (js ''landlord''))"
proof -
  have role: "role_name (vl_role rebooking) = js ''tenant''"
    by (simp add: rebooking_def loaded_list_def viewing_list_init_def role_name_def)
  show ?thesis
    unfolding viewing_changes_refresh [OF in_client_queries(5)] viewing_changes_refresh [OF in_client_queries(6)] role
    by (auto simp: hook_defs qk_defs js_def)
qed

end
