(* ===== verification/Availability.thy ===== *)
theory Availability
  imports Ui Format Locations "HOL-Library.List_Lexorder"
begin

text \<open>
  The landlord's editor for viewing times, \<open>src/apps/web/features/viewings/LandlordViewingsView.tsx\<close>:
  loading the availability of the chosen listing into the form, editing the week and the exception
  dates, and the request that saves it.
\<close>

section \<open>State\<close>

record day_form =
  df_on :: bool
  df_start :: jstr
  df_end :: jstr

definition EMPTY_WEEK :: "day_form list" where
  "EMPTY_WEEK = replicate 7 \<lparr>df_on = False, df_start = js ''09:00'', df_end = js ''18:00''\<rparr>"

text \<open>An emptied number field is \<open>None\<close> (the source's \<open>""\<close>).\<close>

record availability_editor =
  ae_listingId :: jstr
  ae_enabled :: bool
  ae_slotMinutes :: int
  ae_slotCapacity :: "int option"
  ae_rangeDays :: "int option"
  ae_week :: "day_form list"
  ae_exceptions :: "jstr list"
  ae_newException :: jstr
  ae_saved :: bool
  ae_pending :: bool

definition availability_init :: availability_editor where
  "availability_init = \<lparr>ae_listingId = [], ae_enabled = False, ae_slotMinutes = 30, ae_slotCapacity = Some 1,
     ae_rangeDays = Some 14, ae_week = EMPTY_WEEK, ae_exceptions = [], ae_newException = [], ae_saved = False,
     ae_pending = False\<rparr>"

section \<open>Loading\<close>

text \<open>\<open>Number(k)\<close> for a key of \<open>weekly\<close>, when it is one of "0" to "6".\<close>

definition weekday_index :: "jstr \<Rightarrow> nat option" where
  "weekday_index k = index_of (map show_nat [0..<7]) k"

definition or_default :: "int \<Rightarrow> int \<Rightarrow> int" where
  "or_default d x = (if x = 0 then d else x)"

definition load_day :: "day_form list \<Rightarrow> jstr \<times> (jstr \<times> jstr) list \<Rightarrow> day_form list" where
  "load_day w entry = (case entry of (k, windows) \<Rightarrow>
     (case (windows, weekday_index k) of
        ((s, e) # _, Some i) \<Rightarrow> w[i := \<lparr>df_on = True, df_start = s, df_end = e\<rparr>]
      | _ \<Rightarrow> w))"

definition load_week :: "(jstr \<times> (jstr \<times> jstr) list) list \<Rightarrow> day_form list" where
  "load_week weekly = foldl load_day EMPTY_WEEK weekly"

definition load_availability :: "viewing_availability \<Rightarrow> availability_editor \<Rightarrow> availability_editor" where
  "load_availability a s = s\<lparr>ae_enabled := va_enabled a, ae_slotMinutes := or_default 30 (va_slot_minutes a),
     ae_slotCapacity := Some (or_default 1 (va_slot_capacity a)),
     ae_rangeDays := Some (or_default 14 (va_booking_range_days a)),
     ae_exceptions := va_exceptions a, ae_week := load_week (va_weekly a)\<rparr>"

section \<open>Saving\<close>

definition save_weekly :: "day_form list \<Rightarrow> (jstr \<times> (jstr \<times> jstr) list) list" where
  "save_weekly week = map (\<lambda>(i, d). (show_nat i, [(df_start d, df_end d)]))
     (filter (\<lambda>(i, d). df_on d) (enumerate 0 week))"

definition save_body :: "availability_editor \<Rightarrow> viewing_availability" where
  "save_body s = \<lparr>va_enabled = ae_enabled s, va_slot_minutes = ae_slotMinutes s,
     va_slot_capacity = or_else 1 (ae_slotCapacity s), va_weekly = save_weekly (ae_week s),
     va_booking_range_days = or_else 14 (ae_rangeDays s), va_exceptions = ae_exceptions s\<rparr>"

section \<open>The component\<close>

definition setDay :: "nat \<Rightarrow> (day_form \<Rightarrow> day_form) \<Rightarrow> day_form list \<Rightarrow> day_form list" where
  "setDay i patch week = map (\<lambda>(k, d). if k = i then patch d else d) (enumerate 0 week)"

datatype availability_out = PutAvailability jstr viewing_availability | InvalidateSlots query_key

text \<open>
  Selecting a listing hands the editor what the query cache holds for it, if anything; \<open>AvailArrived\<close>
  is fresh data for the current listing. Both run the effect.
\<close>

datatype availability_event =
    SelectListing jstr "viewing_availability option" | AvailArrived viewing_availability
  | SetEnabled bool | SetMinutes int | SetRange "int option" | SetCapacity "int option"
  | SetOn nat bool | SetStart nat jstr | SetEnd nat jstr
  | RemoveException jstr | EditException jstr | AddException
  | Save | SaveOk | SaveFailed | SavedOver

definition add_exception :: "availability_editor \<Rightarrow> availability_editor" where
  "add_exception s =
     (if ae_newException s \<noteq> [] \<and> ae_newException s \<notin> set (ae_exceptions s)
      then s\<lparr>ae_exceptions := sort (ae_exceptions s @ [ae_newException s]), ae_newException := []\<rparr> else s)"

fun availability_step :: "availability_editor \<Rightarrow> availability_event \<Rightarrow> availability_editor \<times> availability_out list" where
  "availability_step s (SelectListing i cached) =
     (case cached of None \<Rightarrow> s\<lparr>ae_listingId := i\<rparr> | Some a \<Rightarrow> load_availability a (s\<lparr>ae_listingId := i\<rparr>), [])"
| "availability_step s (AvailArrived a) = (load_availability a s, [])"
| "availability_step s (SetEnabled b) = (s\<lparr>ae_enabled := b\<rparr>, [])"
| "availability_step s (SetMinutes m) = (s\<lparr>ae_slotMinutes := m\<rparr>, [])"
| "availability_step s (SetRange r) = (s\<lparr>ae_rangeDays := r\<rparr>, [])"
| "availability_step s (SetCapacity c) = (s\<lparr>ae_slotCapacity := c\<rparr>, [])"
| "availability_step s (SetOn i b) = (s\<lparr>ae_week := setDay i (\<lambda>d. d\<lparr>df_on := b\<rparr>) (ae_week s)\<rparr>, [])"
| "availability_step s (SetStart i t) = (s\<lparr>ae_week := setDay i (\<lambda>d. d\<lparr>df_start := t\<rparr>) (ae_week s)\<rparr>, [])"
| "availability_step s (SetEnd i t) = (s\<lparr>ae_week := setDay i (\<lambda>d. d\<lparr>df_end := t\<rparr>) (ae_week s)\<rparr>, [])"
| "availability_step s (RemoveException x) = (s\<lparr>ae_exceptions := filter (\<lambda>y. y \<noteq> x) (ae_exceptions s)\<rparr>, [])"
| "availability_step s (EditException x) = (s\<lparr>ae_newException := x\<rparr>, [])"
| "availability_step s AddException = (add_exception s, [])"
| "availability_step s Save = (s\<lparr>ae_pending := True\<rparr>, [PutAvailability (ae_listingId s) (save_body s)])"
| "availability_step s SaveOk = (s\<lparr>ae_pending := False, ae_saved := True\<rparr>,
     [InvalidateSlots (qk_viewingSlots (Some (ae_listingId s)))])"
| "availability_step s SaveFailed = (s\<lparr>ae_pending := False\<rparr>, [])"
| "availability_step s SavedOver = (s\<lparr>ae_saved := False\<rparr>, [])"

section \<open>View\<close>

text \<open>
  The sub-tab is the \<open>subtab\<close> parameter of the page's address; the two buttons push a new address. Any
  value but \<open>schedule\<close> shows the list.
\<close>

definition viewings_subtab :: "jstr option \<Rightarrow> jstr" where
  "viewings_subtab param = or_else (js ''schedule'') param"

definition subtab_bar :: "jstr option \<Rightarrow> jstr node" where
  "subtab_bar param = Box (map (\<lambda>(t, label). Btn False (js ''?tab=viewings&subtab='' @ t)
       [Mark (viewings_subtab param = t) [Txt label]])
     [(js ''schedule'', t_av_schedule), (js ''list'', t_av_list)])"

definition shows_editor :: "jstr option \<Rightarrow> bool" where
  "shows_editor param \<longleftrightarrow> viewings_subtab param = js ''schedule''"

text \<open>
  \<open>money\<close> is \<open>toLocaleString\<close> of a rent, \<open>number\<close> the reading of a number field (\<open>None\<close> when empty).
\<close>

definition listing_options :: "(int \<Rightarrow> jstr) \<Rightarrow> listing list \<Rightarrow> option_item list" where
  "listing_options money listings = map (\<lambda>l. \<lparr>oi_value = li_id l,
     oi_label = (if li_name l \<noteq> [] then li_name l
       else js ''$'' @ money (li_rent l) @ js '' ''
         @ (case map_of ROOM_TYPE_LABELS (li_room_type l) of None \<Rightarrow> li_room_type l | Some t \<Rightarrow> t))\<rparr>) listings"

definition week_rows :: "day_form list \<Rightarrow> availability_event node list" where
  "week_rows week = map (\<lambda>(i, d). Box [
     Chk (df_on d) (SetOn i) [Txt (WEEKDAY_LABELS ! i)],
     Inp (\<not> df_on d) (df_start d) (SetStart i), Inp (\<not> df_on d) (df_end d) (SetEnd i)]) (enumerate 0 week)"

definition exceptions_editor :: "availability_editor \<Rightarrow> availability_event node list" where
  "exceptions_editor s =
     shown (ae_exceptions s = []) [Txt t_av_no_exceptions]
     @ map (\<lambda>x. Box [Txt x, Btn False (RemoveException x) []]) (ae_exceptions s)
     @ [Inp False (ae_newException s) EditException, Btn False AddException [Txt t_av_add]]"

definition availability_panel :: "(jstr \<Rightarrow> int option) \<Rightarrow> availability_editor \<Rightarrow> availability_event node list" where
  "availability_panel number s = [
     Box [Txt t_av_length_label, dropdown_field (show_int (ae_slotMinutes s)) t_av_length
           (map (\<lambda>m. \<lparr>oi_value = show_nat m, oi_label = show_nat m @ t_av_minutes\<rparr>) [15, 30, 45, 60]) False
           (\<lambda>v. SetMinutes (or_else 0 (number v)))],
     Box [Txt t_av_range, Inp False (case ae_rangeDays s of None \<Rightarrow> [] | Some r \<Rightarrow> show_int r) (\<lambda>t. SetRange (number t))],
     Box [Txt t_av_capacity, Inp False (case ae_slotCapacity s of None \<Rightarrow> [] | Some c \<Rightarrow> show_int c) (\<lambda>t. SetCapacity (number t)),
          Txt t_av_group_hint],
     Box (Txt t_av_weekly # week_rows (ae_week s)),
     Box (Txt t_av_exceptions # exceptions_editor s)]"

definition availability_view ::
  "(int \<Rightarrow> jstr) \<Rightarrow> (jstr \<Rightarrow> int option) \<Rightarrow> (jstr \<Rightarrow> viewing_availability option) \<Rightarrow> listing list \<Rightarrow> availability_editor \<Rightarrow> availability_event node" where
  "availability_view money number cache listings s = Box (
     [Txt t_av_choose, dropdown_field (ae_listingId s) t_av_choose_hint (listing_options money listings) False
        (\<lambda>i. SelectListing i (cache i))]
     @ shown (ae_listingId s \<noteq> [])
        ([Chk (ae_enabled s) SetEnabled [Txt t_av_open]]
         @ shown (ae_enabled s) (availability_panel number s)
         @ [Btn (ae_pending s) Save [Txt (if ae_saved s then t_av_saved else t_av_save)]]))"

text \<open>
  The user acts on the view, in which re-selecting a listing hands over its cached settings; data comes
  for the listing that is selected, answers for the request that is out.
\<close>

record availability_env =
  en_money :: "int \<Rightarrow> jstr"
  en_number :: "jstr \<Rightarrow> int option"
  en_cache :: "jstr \<Rightarrow> viewing_availability option"
  en_listings :: "listing list"

abbreviation editor_view :: "availability_env \<Rightarrow> availability_editor \<Rightarrow> availability_event node" where
  "editor_view v \<equiv> availability_view (en_money v) (en_number v) (en_cache v) (en_listings v)"

fun availability_can :: "availability_env \<Rightarrow> availability_editor \<Rightarrow> availability_event \<Rightarrow> bool" where
  "availability_can v s (AvailArrived a) = (ae_listingId s \<noteq> [])"
| "availability_can v s SaveOk = ae_pending s"
| "availability_can v s SaveFailed = ae_pending s"
| "availability_can v s SavedOver = ae_saved s"
| "availability_can v s e = offers (editor_view v s) e"

section \<open>Loading and saving\<close>

lemma show_nat_digit: "n < 10 \<Longrightarrow> show_nat n = [48 + n]"
  by (subst show_nat.simps) simp

lemma weekday_index_iff: "weekday_index k = Some i \<longleftrightarrow> i < 7 \<and> k = show_nat i"
proof
  assume "weekday_index k = Some i"
  then show "i < 7 \<and> k = show_nat i"
    using index_of_Some [of "map show_nat [0..<7]" k i] by (auto simp: weekday_index_def)
next
  assume i: "i < 7 \<and> k = show_nat i"
  then have "k \<in> set (map show_nat [0..<7])" by auto
  then obtain j where j: "weekday_index k = Some j"
    using index_of_None [of "map show_nat [0..<7]" k] by (auto simp: weekday_index_def)
  then have "j < 7" "show_nat j = show_nat i"
    using index_of_Some [of "map show_nat [0..<7]" k j] i by (auto simp: weekday_index_def)
  then have "j = i" using i by (simp add: show_nat_digit)
  with j show "weekday_index k = Some i" by simp
qed

lemma length_load_day [simp]: "length (load_day w e) = length w"
  by (simp add: load_day_def split: prod.splits list.splits option.splits)

lemma length_load_week [simp]: "length (load_week weekly) = 7"
proof -
  have "length (foldl load_day w weekly) = length w" for w by (induction weekly arbitrary: w) auto
  then show ?thesis by (simp add: load_week_def EMPTY_WEEK_def)
qed

text \<open>What loading puts on day \<open>i\<close>.\<close>

definition day_of :: "(jstr \<times> jstr) list option \<Rightarrow> day_form" where
  "day_of ws = (case ws of Some ((s, e) # _) \<Rightarrow> \<lparr>df_on = True, df_start = s, df_end = e\<rparr>
     | _ \<Rightarrow> \<lparr>df_on = False, df_start = js ''09:00'', df_end = js ''18:00''\<rparr>)"

lemma load_day_nth:
  assumes "i < length w" and "length w = 7"
  shows "load_day w (k, ws) ! i
    = (if k = show_nat i \<and> ws \<noteq> [] then day_of (Some ws) else w ! i)"
proof (cases "weekday_index k")
  case None
  then have "k \<noteq> show_nat i" using weekday_index_iff [of k i] assms by auto
  then show ?thesis using None by (simp add: load_day_def split: list.splits)
next
  case (Some j)
  then have j: "j < 7" "k = show_nat j" using weekday_index_iff [of k j] by auto
  then have "k = show_nat i \<longleftrightarrow> j = i" using assms by (simp add: show_nat_digit)
  then show ?thesis using Some j assms
    by (auto simp: load_day_def day_of_def nth_list_update split: list.splits)
qed

lemma load_week_nth:
  assumes "distinct (map fst weekly)" and "i < 7"
  shows "load_week weekly ! i = day_of (map_of weekly (show_nat i))"
proof -
  have "length w = 7 \<Longrightarrow> foldl load_day w weekly ! i
      = (case map_of weekly (show_nat i) of Some (x # xs) \<Rightarrow> day_of (Some (x # xs)) | _ \<Rightarrow> w ! i)" for w
    using assms(1)
  proof (induction weekly arbitrary: w)
    case (Cons a weekly)
    obtain k ws where a: "a = (k, ws)" by (cases a)
    have n: "load_day w a ! i = (if k = show_nat i \<and> ws \<noteq> [] then day_of (Some ws) else w ! i)"
      unfolding a using load_day_nth [of i w k ws] Cons.prems assms(2) by simp
    have len: "length (load_day w a) = 7" using Cons.prems by simp
    show ?case
    proof (cases "k = show_nat i")
      case True
      then have "map_of weekly (show_nat i) = None"
        using Cons.prems a by (auto simp: map_of_eq_None_iff)
      then show ?thesis using Cons.IH [OF len] Cons.prems n True a by (auto split: list.splits)
    qed (use Cons.IH [OF len] Cons.prems n a in \<open>auto split: option.splits list.splits\<close>)
  qed simp
  from this [of EMPTY_WEEK] show ?thesis
    using assms(2) by (auto simp: load_week_def EMPTY_WEEK_def day_of_def split: option.splits list.splits)
qed

lemma save_weekly_entries:
  "(k, ws) \<in> set (save_weekly week) \<longleftrightarrow>
     (\<exists>i < length week. df_on (week ! i) \<and> k = show_nat i \<and> ws = [(df_start (week ! i), df_end (week ! i))])"
  by (auto simp: save_weekly_def in_set_enumerate_eq image_iff)

lemma save_weekly_distinct:
  assumes "length week \<le> 10"
  shows "distinct (map fst (save_weekly week))"
proof -
  let ?f = "filter (\<lambda>(i, d). df_on d) (enumerate 0 week)"
  have "set (map fst ?f) \<subseteq> {..<10}" using assms by (auto simp: in_set_enumerate_eq)
  moreover have "inj_on show_nat {..<10}" by (auto simp: inj_on_def show_nat_digit)
  moreover have "distinct (map fst ?f)" by (rule List.distinct_map_filter) simp
  ultimately have "distinct (map show_nat (map fst ?f))"
    unfolding distinct_map [of show_nat] by (blast intro: inj_on_subset)
  moreover have "map fst (save_weekly week) = map show_nat (map fst ?f)"
    by (simp add: save_weekly_def comp_def case_prod_beta)
  ultimately show ?thesis by simp
qed

section \<open>Invariant\<close>

definition availability_inv :: "availability_env \<Rightarrow> availability_editor \<Rightarrow> bool" where
  "availability_inv v s \<longleftrightarrow> length (ae_week s) = 7 \<and> (ae_listingId s \<noteq> [] \<longrightarrow> ae_listingId s \<in> li_id ` set (en_listings v))"

lemma listing_options_values: "(\<exists>o' \<in> set (listing_options money ls). P (oi_value o')) \<longleftrightarrow> (\<exists>l \<in> set ls. P (li_id l))"
  by (force simp: listing_options_def)

text \<open>The settings panel only edits: it neither selects a listing nor saves.\<close>

fun edits :: "availability_event \<Rightarrow> bool" where
  "edits (SelectListing i c) = False"
| "edits Save = False"
| "edits e = True"

lemma week_rows_edit: "list_ex (\<lambda>n. offers n e) (week_rows w) \<Longrightarrow> edits e"
  by (auto simp: week_rows_def list_ex_iff)

lemma exceptions_edit: "list_ex (\<lambda>n. offers n e) (exceptions_editor s) \<Longrightarrow> edits e"
  by (auto simp: exceptions_editor_def shown_def list_ex_iff split: if_splits)

lemma panel_edit: "list_ex (\<lambda>n. offers n e) (availability_panel num s) \<Longrightarrow> edits e"
  unfolding availability_panel_def by (auto dest: week_rows_edit exceptions_edit)

lemma panel_passive [simp]:
  "\<not> list_ex (\<lambda>n. offers n (SelectListing i c)) (availability_panel num s)"
  "\<not> list_ex (\<lambda>n. offers n Save) (availability_panel num s)"
  using panel_edit by fastforce+

lemma editor_view_select:
  "offers (editor_view v s) (SelectListing i c) \<longleftrightarrow> i \<in> li_id ` set (en_listings v) \<and> c = en_cache v i"
  by (auto simp: availability_view_def listing_options_values [where P = "\<lambda>j. i = j \<and> c = en_cache v j"])

lemma editor_view_save: "offers (editor_view v s) Save \<longleftrightarrow> ae_listingId s \<noteq> [] \<and> \<not> ae_pending s"
  by (auto simp: availability_view_def)

lemma length_setDay [simp]: "length (setDay i f w) = length w"
  by (simp add: setDay_def)

lemma setDay_nth: "k < length w \<Longrightarrow> setDay i f w ! k = (if k = i then f (w ! k) else w ! k)"
  by (simp add: setDay_def nth_enumerate_eq)

lemma availability_inv_step:
  assumes "availability_inv v s" and "availability_can v s e"
  shows "availability_inv v (fst (availability_step s e))"
proof (cases e)
  case (SelectListing i c)
  then have "i \<in> li_id ` set (en_listings v)" using assms(2) by (simp add: editor_view_select)
  then show ?thesis using assms SelectListing
    by (auto simp: availability_inv_def load_availability_def split: option.splits)
qed (use assms in \<open>auto simp: availability_inv_def load_availability_def add_exception_def\<close>)

interpretation editor: guarded_machine "\<lambda>s. s = availability_init" "availability_can v"
    "\<lambda>s e. fst (availability_step s e)" "availability_inv v" for v
  by unfold_locales (rule availability_inv_step | simp add: availability_inv_def availability_init_def EMPTY_WEEK_def)+

abbreviation editor_reach :: "availability_env \<Rightarrow> availability_editor \<Rightarrow> bool" where
  "editor_reach v \<equiv> reach (\<lambda>s. s = availability_init) (availability_can v) (\<lambda>s e. fst (availability_step s e))"

section \<open>Properties\<close>

text \<open>
  Every availability that is saved is well formed: the request is for one of the landlord's listings,
  its weekly plan has each weekday at most once, only days 0 to 6, and gives exactly the days that are
  switched on, each with the one window on display.
\<close>

theorem saved_week_well_formed:
  assumes "editor_reach v s" and "availability_can v s Save"
  shows "\<exists>b. snd (availability_step s Save) = [PutAvailability (ae_listingId s) b] \<and>
    ae_listingId s \<in> li_id ` set (en_listings v) \<and> distinct (map fst (va_weekly b)) \<and>
    (\<forall>k ws. (k, ws) \<in> set (va_weekly b) \<longleftrightarrow> (\<exists>i < 7. k = show_nat i \<and> df_on (ae_week s ! i) \<and>
       ws = [(df_start (ae_week s ! i), df_end (ae_week s ! i))]))"
proof -
  have inv: "availability_inv v s" by (rule editor.reach_inv [OF assms(1)])
  moreover have "ae_listingId s \<noteq> []" using assms(2) by (simp add: editor_view_save)
  ultimately have "ae_listingId s \<in> li_id ` set (en_listings v)" "length (ae_week s) = 7"
    by (auto simp: availability_inv_def)
  then show ?thesis
    by (auto simp: save_body_def save_weekly_entries save_weekly_distinct)
qed

definition plain_listing :: "jstr \<Rightarrow> listing" where
  "plain_listing i = \<lparr>li_id = i, li_landlord_id = [], li_location_id = [], li_address = None, li_name = [],
     li_rent = 10000, li_management_fee = 0, li_room_type = [], li_area_ping = 8, li_num_bedrooms = None,
     li_num_living_rooms = None, li_num_bathrooms = None, li_num_balconies = None, li_available_from = [],
     li_min_lease_months = 1, li_allow_pets = False, li_allow_subsidy = False, li_allow_tax_receipt = False,
     li_allow_household_registration = False, li_allow_cooking = False, li_has_parking = False,
     li_allow_smoking = False, li_description = None, li_contact_info = None, li_status = [], li_photos = [],
     li_lat = None, li_lng = None, li_created_at = [], li_updated_at = []\<rparr>"

definition two_windows :: viewing_availability where
  "two_windows = \<lparr>va_enabled = True, va_slot_minutes = 30, va_slot_capacity = 1,
     va_weekly = [(js ''1'', [(js ''09:00'', js ''11:00''), (js ''14:00'', js ''17:00'')])],
     va_booking_range_days = 14, va_exceptions = []\<rparr>"

definition example_env :: availability_env where
  "example_env = \<lparr>en_money = \<lambda>n. [], en_number = \<lambda>t. None,
     en_cache = (\<lambda>i. if i = js ''A'' then Some two_windows else None),
     en_listings = [plain_listing (js ''A''), plain_listing (js ''B'')]\<rparr>"

lemma example_ids [simp]: "li_id ` set (en_listings example_env) = {js ''A'', js ''B''}"
  by (simp add: example_env_def plain_listing_def)

text \<open>The editor with listing A chosen and its settings loaded.\<close>

definition editing_A :: availability_editor where
  "editing_A = fst (availability_step availability_init (SelectListing (js ''A'') (Some two_windows)))"

lemma editing_A_reach: "editor_reach example_env editing_A"
proof -
  have "editor_reach example_env availability_init" by (rule editor.reach_init) simp
  moreover have "availability_can example_env availability_init (SelectListing (js ''A'') (Some two_windows))"
    unfolding availability_can.simps editor_view_select by (simp add: example_env_def plain_listing_def)
  ultimately show ?thesis unfolding editing_A_def by (rule editor.reach_next)
qed

lemma saved_week_well_formed_witness:
  "\<exists>b. snd (availability_step editing_A Save) = [PutAvailability (ae_listingId editing_A) b] \<and>
     distinct (map fst (va_weekly b))"
proof -
  have "availability_can example_env editing_A Save"
    unfolding availability_can.simps editor_view_save
    by (simp add: editing_A_def availability_init_def load_availability_def)
  from saved_week_well_formed [OF editing_A_reach this] show ?thesis by blast
qed

text \<open>
  C35. Loading settings into the form and saving them unchanged keeps the switch, the exception dates and,
  for every weekday, its first window; so the weekly plan survives exactly when no day has two windows
  (or an empty list), and of several windows of a day all but the first are lost.
\<close>

theorem availability_round_trip:
  assumes "distinct (map fst (va_weekly a))"
  shows "va_enabled (save_body (load_availability a s)) = va_enabled a \<and>
    va_exceptions (save_body (load_availability a s)) = va_exceptions a \<and>
    (\<forall>i < 7. map_of (va_weekly (save_body (load_availability a s))) (show_nat i) =
       (case map_of (va_weekly a) (show_nat i) of Some (w # ws) \<Rightarrow> Some [w] | _ \<Rightarrow> None)) \<and>
    ((\<forall>i < 7. map_of (va_weekly (save_body (load_availability a s))) (show_nat i) = map_of (va_weekly a) (show_nat i))
      \<longleftrightarrow> (\<forall>i < 7. case map_of (va_weekly a) (show_nat i) of None \<Rightarrow> True | Some ws \<Rightarrow> length ws = 1))"
proof -
  let ?w = "load_week (va_weekly a)"
  have saved: "map_of (save_weekly ?w) (show_nat i) =
      (case map_of (va_weekly a) (show_nat i) of Some (w # ws) \<Rightarrow> Some [w] | _ \<Rightarrow> None)" if "i < 7" for i
  proof (cases "df_on (?w ! i)")
    case True
    then have "(show_nat i, [(df_start (?w ! i), df_end (?w ! i))]) \<in> set (save_weekly ?w)"
      using that by (auto simp: save_weekly_entries)
    then have "map_of (save_weekly ?w) (show_nat i) = Some [(df_start (?w ! i), df_end (?w ! i))]"
      by (simp add: map_of_is_SomeI save_weekly_distinct)
    then show ?thesis using True load_week_nth [OF assms that] by (auto simp: day_of_def split: option.splits list.splits)
  next
    case False
    have "show_nat i \<notin> fst ` set (save_weekly ?w)"
    proof
      assume "show_nat i \<in> fst ` set (save_weekly ?w)"
      then obtain j where "j < 7" "df_on (?w ! j)" "show_nat i = show_nat j" by (auto simp: save_weekly_entries)
      then show False using False that by (simp add: show_nat_digit)
    qed
    then have "map_of (save_weekly ?w) (show_nat i) = None" by (simp add: map_of_eq_None_iff)
    then show ?thesis using False load_week_nth [OF assms that] by (auto simp: day_of_def split: option.splits list.splits)
  qed
  have same: "(case m of Some (w # ws) \<Rightarrow> Some [w] | _ \<Rightarrow> None) = m \<longleftrightarrow>
      (case m of None \<Rightarrow> True | Some ws \<Rightarrow> length ws = 1)" for m :: "(jstr \<times> jstr) list option"
    by (auto split: option.splits list.splits)
  show ?thesis using saved by (simp add: save_body_def load_availability_def same)
qed

lemma availability_round_trip_witness:
  "map_of (va_weekly (save_body (load_availability two_windows availability_init))) (js ''1'')
     = Some [(js ''09:00'', js ''11:00'')]"
proof -
  have "show_nat 1 = js ''1''" by (simp add: show_nat_digit js_def)
  then show ?thesis
    using availability_round_trip [of two_windows availability_init] by (auto simp: two_windows_def dest!: spec [of _ 1])
qed

text \<open>
  Choosing another listing does not clear the form: when nothing is cached for it, the settings of the
  listing edited before stay in place, and saving right away writes them to the newly chosen listing.
\<close>

theorem previous_settings_saved:
  assumes "\<not> ae_pending s" and "i \<in> li_id ` set (en_listings v)" and "i \<noteq> []" and "en_cache v i = None"
  shows "availability_can v s (SelectListing i None) \<and>
    availability_can v (fst (availability_step s (SelectListing i None))) Save \<and>
    snd (availability_step (fst (availability_step s (SelectListing i None))) Save) = [PutAvailability i (save_body s)]"
  using assms by (simp add: editor_view_select editor_view_save save_body_def)

lemma previous_settings_saved_witness:
  "snd (availability_step (fst (availability_step editing_A (SelectListing (js ''B'') None))) Save)
     = [PutAvailability (js ''B'') (save_body editing_A)]"
proof -
  have "\<not> ae_pending editing_A"
    by (simp add: editing_A_def availability_init_def load_availability_def)
  moreover have "js ''B'' \<in> li_id ` set (en_listings example_env)" by simp
  moreover have "en_cache example_env (js ''B'') = None" by (simp add: example_env_def)
  ultimately show ?thesis using previous_settings_saved [of editing_A "js ''B''" example_env] by auto
qed

text \<open>
  Saving leaves the cached settings alone: what a successful save refetches never includes the
  availability of any listing, and choosing the listing again while the old data is cached puts the old
  week, exceptions and switch back into the form.
\<close>

theorem saved_settings_stale:
  assumes "en_cache v i = Some a" and "i \<in> li_id ` set (en_listings v)"
  shows "(\<forall>k. InvalidateSlots k \<in> set (snd (availability_step s SaveOk)) \<longrightarrow>
      \<not> invalidates k (q_key (useViewingAvailability j))) \<and>
    availability_can v (fst (availability_step s SaveOk)) (SelectListing i (Some a)) \<and>
    (let t = fst (availability_step (fst (availability_step s SaveOk)) (SelectListing i (Some a)))
     in ae_week t = load_week (va_weekly a) \<and> ae_exceptions t = va_exceptions a \<and> ae_enabled t = va_enabled a)"
  using assms by (auto simp: editor_view_select load_availability_def invalidates_def
      useViewingAvailability_def qk_viewingAvailability_def qk_viewingSlots_def)

lemma saved_settings_stale_witness:
  "\<not> invalidates (qk_viewingSlots (Some (ae_listingId editing_A))) (q_key (useViewingAvailability (js ''A'')))"
  using saved_settings_stale [of example_env "js ''A''" two_windows editing_A "js ''A''"]
  by (simp add: example_env_def plain_listing_def)

end
