(* ===== verification/Dialogs.thy ===== *)
theory Dialogs
  imports Ui
begin

text \<open>
  The dialogs that stand between a button and a request: the confirmation of
  \<open>src/apps/web/components/ConfirmDialog.tsx\<close> (the admin client has the same file), with the contract
  that every confirmation dialog of the two clients keeps, and the report dialog of
  \<open>src/apps/web/features/reports/ReportModal.tsx\<close>.
\<close>

section \<open>The contract of a confirmation\<close>

text \<open>
  A caller awaits \<open>confirm\<close> and acts on a positive answer: the promise's continuation is what the model
  keeps as the pending action \<open>'a\<close>. An event asks for an action, answers yes, answers no, or does none of
  these (typing, say). \<open>ran\<close> are the actions whose continuation ran, out of what a step emits.
\<close>

locale confirmation =
  fixes step :: "'s \<Rightarrow> 'e \<Rightarrow> 's \<times> 'o list"
    and pending :: "'s \<Rightarrow> 'a option"
    and asks :: "'e \<Rightarrow> 'a option"
    and yes :: "'e \<Rightarrow> bool"
    and no :: "'e \<Rightarrow> bool"
    and ran :: "'o \<Rightarrow> 'a"
  assumes on_ask: "asks e = Some a \<Longrightarrow> pending (fst (step s e)) = Some a \<and> snd (step s e) = []"
    and on_yes: "yes e \<Longrightarrow> pending (fst (step s e)) = None \<and>
      map ran (snd (step s e)) = (case pending s of None \<Rightarrow> [] | Some a \<Rightarrow> [a])"
    and on_no: "no e \<Longrightarrow> pending (fst (step s e)) = None \<and> snd (step s e) = []"
    and on_other: "asks e = None \<Longrightarrow> \<not> yes e \<Longrightarrow> \<not> no e \<Longrightarrow>
      pending (fst (step s e)) = pending s \<and> snd (step s e) = []"
    and one_kind: "asks e = Some a \<Longrightarrow> \<not> yes e \<and> \<not> no e" "yes e \<Longrightarrow> \<not> no e"
begin

definition neutral :: "'e \<Rightarrow> bool" where
  "neutral e \<longleftrightarrow> asks e = None \<and> \<not> yes e \<and> \<not> no e"

text \<open>What the events alone say about which actions run.\<close>

fun decided :: "'a option \<Rightarrow> 'e list \<Rightarrow> 'a list" where
  "decided p [] = []"
| "decided p (e # es) =
     (case asks e of Some a \<Rightarrow> decided (Some a) es
      | None \<Rightarrow> if yes e then (case p of None \<Rightarrow> [] | Some a \<Rightarrow> [a]) @ decided None es
                else if no e then decided None es else decided p es)"

lemma runs_decided: "map ran (snd (steps step s es)) = decided (pending s) es"
proof (induction es arbitrary: s)
  case (Cons e es)
  obtain t out where t: "step s e = (t, out)" by (cases "step s e")
  consider a where "asks e = Some a" | "asks e = None" "yes e" | "asks e = None" "\<not> yes e" "no e"
    | "asks e = None" "\<not> yes e" "\<not> no e" by (cases "asks e") auto
  then show ?case
    using Cons.IH [of t] on_ask [of e _ s] on_yes [of e s] on_no [of e s] on_other [of e s] t
    by cases (auto simp: map_append split: prod.splits)
qed simp

lemma decided_asked:
  "a \<in> set (decided p es) \<Longrightarrow>
     (\<exists>mid y post. es = mid @ y # post \<and> yes y \<and> list_all neutral mid \<and> p = Some a) \<or>
     (\<exists>pre q mid y post. es = pre @ q # mid @ y # post \<and> asks q = Some a \<and> list_all neutral mid \<and> yes y)"
proof (induction es arbitrary: p)
  case (Cons e es)
  have later: ?case if "a \<in> set (decided None es)"
    using Cons.IH [OF that] by (metis append_Cons option.distinct(1))
  consider b where "asks e = Some b" | "asks e = None" "yes e" | "asks e = None" "\<not> yes e" "no e"
    | "neutral e" by (cases "asks e") (auto simp: neutral_def)
  then show ?case
  proof cases
    case 1
    then have "a \<in> set (decided (Some b) es)" using Cons.prems by simp
    from Cons.IH [OF this] show ?thesis
    proof (elim disjE exE conjE)
      fix mid y post assume "es = mid @ y # post" "yes y" "list_all neutral mid" "Some b = Some a"
      then have "e # es = [] @ e # mid @ y # post \<and> asks e = Some a \<and> list_all neutral mid \<and> yes y" using 1 by simp
      then show ?thesis by blast
    next
      fix pre q mid y post
      assume "es = pre @ q # mid @ y # post" "asks q = Some a" "list_all neutral mid" "yes y"
      then have "e # es = (e # pre) @ q # mid @ y # post \<and> asks q = Some a \<and> list_all neutral mid \<and> yes y" by simp
      then show ?thesis by blast
    qed
  next
    case 2
    then have "p = Some a \<or> a \<in> set (decided None es)" using Cons.prems by (auto split: option.splits)
    then show ?thesis
    proof
      assume "p = Some a"
      then have "e # es = [] @ e # es \<and> yes e \<and> list_all neutral [] \<and> p = Some a" using 2 by simp
      then show ?thesis by blast
    qed (rule later)
  next
    case 3
    then show ?thesis using Cons.prems later by simp
  next
    case 4
    then have "a \<in> set (decided p es)" using Cons.prems by (simp add: neutral_def)
    from Cons.IH [OF this] show ?thesis
    proof (elim disjE exE conjE)
      fix mid y post assume "es = mid @ y # post" "yes y" "list_all neutral mid" "p = Some a"
      then have "e # es = (e # mid) @ y # post \<and> yes y \<and> list_all neutral (e # mid) \<and> p = Some a" using 4 by simp
      then show ?thesis by blast
    next
      fix pre q mid y post
      assume "es = pre @ q # mid @ y # post" "asks q = Some a" "list_all neutral mid" "yes y"
      then have "e # es = (e # pre) @ q # mid @ y # post \<and> asks q = Some a \<and> list_all neutral mid \<and> yes y" by simp
      then show ?thesis by blast
    qed
  qed
qed simp

lemma decided_append_ask:
  "asks q = Some a \<Longrightarrow> list_all neutral mid \<Longrightarrow> yes y \<Longrightarrow> a \<in> set (decided p (pre @ q # mid @ y # post))"
proof -
  assume q: "asks q = Some a" and m: "list_all neutral mid" and y: "yes y"
  have "asks y = None" using one_kind y by (cases "asks y") auto
  then have "a \<in> set (decided (Some a) (mid @ y # post))"
    using m y by (induction mid) (auto simp: neutral_def)
  then show ?thesis using q by (induction pre arbitrary: p) (auto split: option.splits)
qed

text \<open>
  An action runs exactly when a question for it was answered yes before any other question or answer;
  and never more often than there were positive answers.
\<close>

lemma runs_iff_confirmed:
  assumes "pending s = None"
  shows "a \<in> set (map ran (snd (steps step s es))) \<longleftrightarrow>
    (\<exists>pre q mid y post. es = pre @ q # mid @ y # post \<and> asks q = Some a \<and> list_all neutral mid \<and> yes y)"
  unfolding runs_decided assms using decided_asked [of a None es] decided_append_ask by blast

lemma runs_bounded: "length (snd (steps step s es)) \<le> length (filter yes es)"
proof -
  have "length (decided p es) \<le> length (filter yes es)" for p
  proof (induction es arbitrary: p)
    case (Cons e es)
    show ?case using Cons.IH [of p] Cons.IH [of None] Cons.IH [of "asks e"] one_kind [of e]
      by (auto split: option.splits)
  qed simp
  then show ?thesis using runs_decided [of s es] by (metis length_map)
qed

end

section \<open>\<open>useConfirm\<close>\<close>

record confirm_options =
  co_message :: jstr
  co_confirmText :: "jstr option"
  co_cancelText :: "jstr option"
  co_danger :: "bool option"

text \<open>\<open>confirm\<close> takes a string or options.\<close>

definition confirm_message :: "jstr + confirm_options \<Rightarrow> confirm_options" where
  "confirm_message opts = (case opts of
     Inl m \<Rightarrow> \<lparr>co_message = m, co_confirmText = None, co_cancelText = None, co_danger = None\<rparr>
   | Inr o' \<Rightarrow> o')"

text \<open>\<open>resolver\<close> holds the continuation of the awaiting caller.\<close>

record 'a confirm_dialog =
  cd_state :: "confirm_options option"
  cd_resolver :: "'a option"

definition confirm_init :: "'a confirm_dialog" where
  "confirm_init = \<lparr>cd_state = None, cd_resolver = None\<rparr>"

datatype 'a confirm_event = Ask "jstr + confirm_options" 'a | Answer bool

definition close_confirm :: "bool \<Rightarrow> 'a confirm_dialog \<Rightarrow> 'a confirm_dialog \<times> 'a list" where
  "close_confirm v s = (s\<lparr>cd_resolver := None, cd_state := None\<rparr>,
     case cd_resolver s of None \<Rightarrow> [] | Some a \<Rightarrow> if v then [a] else [])"

fun confirm_step :: "'a confirm_dialog \<Rightarrow> 'a confirm_event \<Rightarrow> 'a confirm_dialog \<times> 'a list" where
  "confirm_step s (Ask opts a) = (s\<lparr>cd_state := Some (confirm_message opts), cd_resolver := Some a\<rparr>, [])"
| "confirm_step s (Answer v) = close_confirm v s"

definition confirm_view :: "'a confirm_dialog \<Rightarrow> 'a confirm_event node" where
  "confirm_view s = modal (cd_state s \<noteq> None) (Answer False) (case cd_state s of None \<Rightarrow> []
     | Some o' \<Rightarrow> [Txt (co_message o'),
         Btn False (Answer False) [Txt (or_else t_confirm_cancel (co_cancelText o'))],
         Btn False (Answer True) [Mark (co_danger o' = Some True) [Txt (or_else t_confirm_ok (co_confirmText o'))]]])"

fun asked :: "'a confirm_event \<Rightarrow> 'a option" where
  "asked (Ask opts a) = Some a"
| "asked (Answer v) = None"

interpretation cf: confirmation confirm_step cd_resolver asked "\<lambda>e. e = Answer True" "\<lambda>e. e = Answer False" id
proof unfold_locales
  fix e :: "'a confirm_event" and s :: "'a confirm_dialog"
  show "asked e = None \<Longrightarrow> e \<noteq> Answer True \<Longrightarrow> e \<noteq> Answer False \<Longrightarrow>
      cd_resolver (fst (confirm_step s e)) = cd_resolver s \<and> snd (confirm_step s e) = []"
    by (cases e) auto
qed (auto simp: close_confirm_def split: option.splits elim: asked.elims)

lemma confirm_neutral: "list_all cf.neutral es \<longleftrightarrow> es = []"
proof -
  have "\<not> cf.neutral e" for e :: "'a confirm_event" by (cases e) (auto simp: cf.neutral_def)
  then show ?thesis by (cases es) auto
qed

section \<open>Report dialog\<close>

definition REASONS :: "(jstr \<times> jstr) list" where
  "REASONS = [(t_rp_fraud, t_rp_fraud_label), (t_rp_speech, t_rp_speech), (t_rp_harass, t_rp_harass),
     (t_rp_other, t_rp_other)]"

record report_modal =
  rm_reason :: jstr
  rm_note :: jstr
  rm_pending :: bool
  rm_isError :: bool

definition report_init :: report_modal where
  "report_init = \<lparr>rm_reason = [], rm_note = [], rm_pending = False, rm_isError = False\<rparr>"

datatype report_event = PickReason jstr | EditNote jstr | SubmitReport | CloseReport | ReportOk | ReportFailed

datatype report_out =
    PostReport jstr "jstr option" jstr   \<comment> \<open>\<open>reported_id\<close>, \<open>listing_id\<close>, \<open>reason\<close>\<close>
  | ReportClosed | Alert jstr

definition full_reason :: "report_modal \<Rightarrow> jstr" where
  "full_reason s = (if trim (rm_note s) \<noteq> [] then rm_reason s @ [10] @ trim (rm_note s) else rm_reason s)"

text \<open>\<open>report.reset()\<close> forgets a request that is under way, so its callbacks do not run.\<close>

definition close_report :: "report_modal \<Rightarrow> report_modal \<times> report_out list" where
  "close_report s = (s\<lparr>rm_reason := [], rm_note := [], rm_pending := False, rm_isError := False\<rparr>, [ReportClosed])"

fun report_step :: "jstr \<Rightarrow> jstr option \<Rightarrow> report_modal \<Rightarrow> report_event \<Rightarrow> report_modal \<times> report_out list" where
  "report_step reportedId listingId s (PickReason r) = (s\<lparr>rm_reason := r\<rparr>, [])"
| "report_step reportedId listingId s (EditNote t) = (s\<lparr>rm_note := t\<rparr>, [])"
| "report_step reportedId listingId s SubmitReport =
     (s\<lparr>rm_pending := True, rm_isError := False\<rparr>, [PostReport reportedId listingId (full_reason s)])"
| "report_step reportedId listingId s CloseReport = close_report s"
| "report_step reportedId listingId s ReportOk =
     (case close_report s of (t, out) \<Rightarrow> (t, out @ [Alert t_rp_done]))"
| "report_step reportedId listingId s ReportFailed = (s\<lparr>rm_pending := False, rm_isError := True\<rparr>, [])"

definition report_view :: "bool \<Rightarrow> report_modal \<Rightarrow> report_event node" where
  "report_view opened s = modal opened CloseReport [Txt t_rp_title, Form SubmitReport [
     Box (Txt t_rp_choose # map (\<lambda>(value, label). Tap (PickReason value) [Mark (rm_reason s = value) [Txt label]]) REASONS),
     Txt t_rp_note, Inp False (rm_note s) EditNote,
     Box (shown (rm_isError s) [Txt t_rp_failed]),
     Btn False CloseReport [Txt t_rp_cancel],
     Submit (rm_reason s = [] \<or> rm_pending s) [Txt (if rm_pending s then t_rp_sending else t_rp_send)]]]"

fun report_can :: "report_modal \<Rightarrow> report_event \<Rightarrow> bool" where
  "report_can s ReportOk = rm_pending s"
| "report_can s ReportFailed = rm_pending s"
| "report_can s e = offers (report_view True s) e"

definition report_inv :: "report_modal \<Rightarrow> bool" where
  "report_inv s \<longleftrightarrow> rm_reason s = [] \<or> rm_reason s \<in> fst ` set REASONS"

lemma report_inv_step:
  assumes "report_inv s" and "report_can s e"
  shows "report_inv (fst (report_step r l s e))"
  using assms by (cases e) (force simp: report_inv_def close_report_def report_view_def list_ex_iff shown_def)+

interpretation report: guarded_machine "\<lambda>s. s = report_init" report_can "\<lambda>s e. fst (report_step r l s e)" report_inv
  for r l
  by unfold_locales (rule report_inv_step | simp add: report_inv_def report_init_def)+

abbreviation report_reach :: "jstr \<Rightarrow> jstr option \<Rightarrow> report_modal \<Rightarrow> bool" where
  "report_reach r l \<equiv> reach (\<lambda>s. s = report_init) report_can (\<lambda>s e. fst (report_step r l s e))"

text \<open>
  The two dialogs as the component around them sees them: the confirmation raises its answer, the report
  dialog only ever asks to be closed.
\<close>

definition confirm_field :: "(bool \<Rightarrow> 'e) \<Rightarrow> 'a confirm_dialog \<Rightarrow> 'e node" where
  "confirm_field answer s = modal (cd_state s \<noteq> None) (answer False) (case cd_state s of None \<Rightarrow> []
     | Some o' \<Rightarrow> [Txt (co_message o'),
         Btn False (answer False) [Txt (or_else t_confirm_cancel (co_cancelText o'))],
         Btn False (answer True) [Mark (co_danger o' = Some True) [Txt (or_else t_confirm_ok (co_confirmText o'))]]])"

definition report_dialog :: "'t option \<Rightarrow> 'e \<Rightarrow> 'e node list" where
  "report_dialog target onClose = shown (target \<noteq> None) [modal True onClose []]"

lemma confirm_field_offers [simp]:
  "offers (confirm_field answer s) e \<longleftrightarrow> cd_state s \<noteq> None \<and> (\<exists>v. e = answer v)"
  by (auto simp: confirm_field_def split: option.splits) (metis (full_types))+

lemma report_dialog_offers [simp]:
  "list_ex (\<lambda>n. offers n e) (report_dialog t c) \<longleftrightarrow> t \<noteq> None \<and> e = c"
  by (auto simp: report_dialog_def)

section \<open>Properties\<close>

text \<open>
  An action behind a confirmation runs exactly when its question is answered yes while it is the
  question on display: the answer comes directly after it. A question that another one replaces, or that
  is declined, never runs, and no answer runs more than one action.
\<close>

theorem confirm_runs_only_confirmed:
  "(a \<in> set (snd (steps confirm_step confirm_init es)) \<longleftrightarrow>
      (\<exists>pre opts post. es = pre @ Ask opts a # Answer True # post)) \<and>
   length (snd (steps confirm_step confirm_init es)) \<le> length (filter (\<lambda>e. e = Answer True) es) \<and>
   cd_state (fst (steps confirm_step s (pre @ [Ask opts a]))) = Some (confirm_message opts)"
proof (intro conjI)
  have "a \<in> set (snd (steps confirm_step confirm_init es)) \<longleftrightarrow>
      (\<exists>pre q mid y post. es = pre @ q # mid @ y # post \<and> asked q = Some a \<and> list_all cf.neutral mid \<and> y = Answer True)"
    using cf.runs_iff_confirmed [of confirm_init a es] by (simp add: confirm_init_def)
  also have "\<dots> \<longleftrightarrow> (\<exists>pre opts post. es = pre @ Ask opts a # Answer True # post)"
    unfolding confirm_neutral by (auto elim!: asked.elims) (metis append_Nil asked.simps(1))
  finally show "a \<in> set (snd (steps confirm_step confirm_init es)) \<longleftrightarrow>
      (\<exists>pre opts post. es = pre @ Ask opts a # Answer True # post)" .
  show "length (snd (steps confirm_step confirm_init es)) \<le> length (filter (\<lambda>e. e = Answer True) es)"
    by (rule cf.runs_bounded)
  show "cd_state (fst (steps confirm_step s (pre @ [Ask opts a]))) = Some (confirm_message opts)"
    by (simp add: steps_append split: prod.splits)
qed

text \<open>
  Every report that is sent names a reason from the list, followed by the trimmed note if there is
  one; it is about the user and listing the dialog was opened for, and only one is under way at a time.
\<close>

theorem reports_well_formed:
  assumes "report_reach r l s" and "report_can s SubmitReport"
  shows "\<exists>q \<in> fst ` set REASONS. \<exists>t. (t = [] \<or> t = 10 # trim (rm_note s) \<and> trim (rm_note s) \<noteq> []) \<and>
    snd (report_step r l s SubmitReport) = [PostReport r l (q @ t)] \<and>
    \<not> rm_pending s \<and> \<not> report_can (fst (report_step r l s SubmitReport)) SubmitReport"
proof -
  have "report_inv s" by (rule report.reach_inv [OF assms(1)])
  moreover have "rm_reason s \<noteq> []" "\<not> rm_pending s"
    using assms(2) by (auto simp: report_view_def list_ex_iff shown_def)
  ultimately show ?thesis
    by (intro bexI [of _ "rm_reason s"] exI [of _ "if trim (rm_note s) \<noteq> [] then 10 # trim (rm_note s) else []"])
      (auto simp: report_inv_def full_reason_def report_view_def list_ex_iff shown_def)
qed

lemma reports_well_formed_witness:
  "\<exists>q \<in> fst ` set REASONS. \<exists>t. snd (report_step (js ''u'') None (fst (report_step (js ''u'') None report_init (PickReason t_rp_harass)))
     SubmitReport) = [PostReport (js ''u'') None (q @ t)]"
proof -
  let ?s = "fst (report_step (js ''u'') None report_init (PickReason t_rp_harass))"
  have 0: "report_reach (js ''u'') None report_init" by (rule report.reach_init) simp
  have "report_can report_init (PickReason t_rp_harass)" by (simp add: report_view_def REASONS_def)
  then have 1: "report_reach (js ''u'') None ?s" by (rule report.reach_next [OF 0])
  have 2: "report_can ?s SubmitReport"
    by (simp add: report_view_def report_init_def t_rp_harass_def)
  from reports_well_formed [OF 1 2] show ?thesis by blast
qed

end
