(* ===== verification/TenantMatches.thy ===== *)
theory TenantMatches
  imports ListingCards Dialogs
begin

text \<open>
  The match pages of tenants, \<open>src/apps/web/features/matches/TenantMatches.tsx\<close>: the interest landlords
  have shown per profile, the interest sent, and the matches with their viewings. A listing card keeps
  its photo index to itself; the pages see its arrows as events that change nothing (\<open>CardMoved\<close> and the
  like).
\<close>

section \<open>Incoming: the list of profiles\<close>

definition loaded :: "'a list fetched \<Rightarrow> 'a list" where
  "loaded d = (case d of Loaded xs \<Rightarrow> xs | _ \<Rightarrow> [])"

record tenant_incoming =
  tn_profiles :: "tenant_profile list fetched"
  tn_expanded :: "jstr list"

definition tenant_incoming_init :: tenant_incoming where
  "tenant_incoming_init = \<lparr>tn_profiles = Loading, tn_expanded = []\<rparr>"

datatype tenant_incoming_event = ProfilesLoaded "tenant_profile list fetched" | ToggleProfile jstr | ProfileMatched

text \<open>New data for the profiles expands them all again.\<close>

fun tenant_incoming_step :: "tenant_incoming \<Rightarrow> tenant_incoming_event \<Rightarrow> tenant_incoming \<times> query_key list" where
  "tenant_incoming_step s (ProfilesLoaded d) =
     (s\<lparr>tn_profiles := d, tn_expanded := (if loaded d \<noteq> [] then uniq (map tp_id (loaded d)) else tn_expanded s)\<rparr>, [])"
| "tenant_incoming_step s (ToggleProfile i) = (s\<lparr>tn_expanded := toggle_section i (tn_expanded s)\<rparr>, [])"
| "tenant_incoming_step s ProfileMatched = (s, [qk_matched])"

text \<open>\<open>child\<close> is the view of one profile's section, given whether it is expanded.\<close>

definition tenant_incoming_view ::
  "(tenant_profile \<Rightarrow> bool \<Rightarrow> tenant_incoming_event node) \<Rightarrow> tenant_incoming \<Rightarrow> tenant_incoming_event node" where
  "tenant_incoming_view child s =
     (if tn_profiles s = Loading then loading
      else if loaded (tn_profiles s) = [] then empty_state t_tm_no_profile (Some t_tm_no_profile_hint) None
      else Box (map (\<lambda>p. child p (tp_id p \<in> set (tn_expanded s))) (loaded (tn_profiles s))))"

section \<open>Incoming: one profile\<close>

record profile_incoming =
  pi_items :: "incoming_listing_item list fetched"
  pi_detail :: "matched_listing_card option"
  pi_report :: "(jstr \<times> jstr) option"
  pi_open_requests :: nat

definition profile_incoming_init :: profile_incoming where
  "profile_incoming_init = \<lparr>pi_items = Loading, pi_detail = None, pi_report = None, pi_open_requests = 0\<rparr>"

datatype profile_incoming_event =
    Toggle | OpenCard matched_listing_card | CloseCard | CardMoved
  | ReportLandlord "jstr \<times> jstr" | CloseReportLandlord
  | Respond jstr | RespondFromCard | RespondOk bool | RespondFailed
  | IncomingLoaded "incoming_listing_item list fetched"

datatype profile_incoming_out = ToggledOut | MatchedOut | PostInterest jstr jstr | RefetchIncoming query_key

text \<open>\<open>RespondOk b\<close>: the answer of one request, \<open>b\<close> that its status is "matched".\<close>

fun profile_incoming_step ::
  "jstr \<Rightarrow> profile_incoming \<Rightarrow> profile_incoming_event \<Rightarrow> profile_incoming \<times> profile_incoming_out list" where
  "profile_incoming_step pid s Toggle = (s, [ToggledOut])"
| "profile_incoming_step pid s (OpenCard c) = (s\<lparr>pi_detail := Some c\<rparr>, [])"
| "profile_incoming_step pid s CloseCard = (s\<lparr>pi_detail := None\<rparr>, [])"
| "profile_incoming_step pid s CardMoved = (s, [])"
| "profile_incoming_step pid s (ReportLandlord t) = (s\<lparr>pi_report := Some t\<rparr>, [])"
| "profile_incoming_step pid s CloseReportLandlord = (s\<lparr>pi_report := None\<rparr>, [])"
| "profile_incoming_step pid s (Respond l) = (s\<lparr>pi_open_requests := Suc (pi_open_requests s)\<rparr>, [PostInterest pid l])"
| "profile_incoming_step pid s RespondFromCard =
     (case pi_detail s of None \<Rightarrow> (s, [])
      | Some c \<Rightarrow> (s\<lparr>pi_detail := None, pi_open_requests := Suc (pi_open_requests s)\<rparr>, [PostInterest pid (mc_id c)]))"
| "profile_incoming_step pid s (RespondOk matched) = (s\<lparr>pi_open_requests := pi_open_requests s - 1\<rparr>,
     shown matched [MatchedOut] @ [RefetchIncoming (qk_incoming pid)])"
| "profile_incoming_step pid s RespondFailed = (s\<lparr>pi_open_requests := pi_open_requests s - 1\<rparr>, [])"
| "profile_incoming_step pid s (IncomingLoaded d) = (s\<lparr>pi_items := d\<rparr>, [])"

definition interest_sent :: "'z card_source_scheme \<Rightarrow> bool" where
  "interest_sent i \<longleftrightarrow> cs_interest_sent i = Some True"

definition pending_count :: "profile_incoming \<Rightarrow> nat" where
  "pending_count s = length (filter (\<lambda>i. \<not> interest_sent i) (loaded (pi_items s)))"

text \<open>\<open>item.landlord_id ? () => setReportTarget(...) : undefined\<close>\<close>

definition report_target :: "jstr option \<Rightarrow> jstr \<Rightarrow> (jstr \<times> jstr) option" where
  "report_target landlord listing = (case landlord of None \<Rightarrow> None | Some l \<Rightarrow> if l \<noteq> [] then Some (l, listing) else None)"

definition incoming_card :: "incoming_listing_item \<Rightarrow> profile_incoming_event node" where
  "incoming_card item = (let card = toListingCard item in
     listing_card card 0 CardMoved CardMoved (OpenCard card) None
       [if interest_sent item then Txt t_tm_sent else Btn False (Respond (cs_listing_id item)) [Txt t_tm_answer]]
       (map_option ReportLandlord (report_target (ii_landlord_id item) (cs_listing_id item))))"

definition incoming_detail :: "(jstr \<Rightarrow> jstr) \<Rightarrow> (rat \<Rightarrow> jstr) \<Rightarrow> profile_incoming \<Rightarrow> profile_incoming_event node list" where
  "incoming_detail encode num s = (case pi_detail s of None \<Rightarrow> []
     | Some c \<Rightarrow> [listing_detail_dialog encode num c 0 CardMoved CardMoved CloseCard
         [if mc_interest_sent c then Txt t_tm_sent_waiting else Btn False RespondFromCard [Txt t_tm_answer]] None])"

definition profile_incoming_view ::
  "(jstr \<Rightarrow> jstr) \<Rightarrow> (rat \<Rightarrow> jstr) \<Rightarrow> tenant_profile \<Rightarrow> bool \<Rightarrow> profile_incoming \<Rightarrow> profile_incoming_event node" where
  "profile_incoming_view encode num profile expanded s = Box (
     [Btn False Toggle (Txt (tp_name profile)
        # shown (pending_count s > 0) [NumT (of_nat (pending_count s))] @ [Mark expanded []])]
     @ shown expanded (shown (pi_items s = Loading) [loading]
         @ shown (pi_items s \<noteq> Loading \<and> loaded (pi_items s) = []) [Txt t_tm_no_incoming]
         @ map incoming_card (loaded (pi_items s)))
     @ incoming_detail encode num s @ report_dialog (pi_report s) CloseReportLandlord)"

section \<open>Outgoing\<close>

record tenant_outgoing =
  to_items :: "outgoing_item list fetched"
  to_detail :: "outgoing_item option"
  to_confirm :: "outgoing_item confirm_dialog"
  to_report :: "(jstr \<times> jstr) option"
  to_pending :: bool

definition tenant_outgoing_init :: tenant_outgoing where
  "tenant_outgoing_init = \<lparr>to_items = Loading, to_detail = None, to_confirm = confirm_init, to_report = None,
     to_pending = False\<rparr>"

datatype tenant_outgoing_event =
    OpenItem outgoing_item | CloseItem | ItemMoved | ReportOutgoing "jstr \<times> jstr" | CloseReportOutgoing
  | AskWithdraw outgoing_item | AnswerWithdraw bool | WithdrawOk | WithdrawFailed
  | OutgoingLoaded "outgoing_item list fetched"

datatype tenant_outgoing_out = DeleteInterest jstr jstr | RefetchOutgoing query_key

definition withdraw_question :: confirm_options where
  "withdraw_question = \<lparr>co_message = t_tm_withdraw_ask, co_confirmText = Some t_tm_withdraw, co_cancelText = None,
     co_danger = Some True\<rparr>"

fun tenant_outgoing_step ::
  "tenant_outgoing \<Rightarrow> tenant_outgoing_event \<Rightarrow> tenant_outgoing \<times> tenant_outgoing_out list" where
  "tenant_outgoing_step s (OpenItem i) = (s\<lparr>to_detail := Some i\<rparr>, [])"
| "tenant_outgoing_step s CloseItem = (s\<lparr>to_detail := None\<rparr>, [])"
| "tenant_outgoing_step s ItemMoved = (s, [])"
| "tenant_outgoing_step s (ReportOutgoing t) = (s\<lparr>to_report := Some t\<rparr>, [])"
| "tenant_outgoing_step s CloseReportOutgoing = (s\<lparr>to_report := None\<rparr>, [])"
| "tenant_outgoing_step s (AskWithdraw i) =
     (s\<lparr>to_confirm := fst (confirm_step (to_confirm s) (Ask (Inr withdraw_question) i))\<rparr>, [])"
| "tenant_outgoing_step s (AnswerWithdraw v) =
     (let (c, confirmed) = confirm_step (to_confirm s) (Answer v)
      in (s\<lparr>to_confirm := c, to_pending := (to_pending s \<or> confirmed \<noteq> [])\<rparr>,
          map (\<lambda>i. DeleteInterest (oi_tenant_profile_id i) (cs_listing_id i)) confirmed))"
| "tenant_outgoing_step s WithdrawOk = (s\<lparr>to_pending := False, to_detail := None\<rparr>, [RefetchOutgoing qk_outgoing])"
| "tenant_outgoing_step s WithdrawFailed = (s\<lparr>to_pending := False\<rparr>, [])"
| "tenant_outgoing_step s (OutgoingLoaded d) = (s\<lparr>to_items := d\<rparr>, [])"

definition outgoing_card :: "bool \<Rightarrow> outgoing_item \<Rightarrow> tenant_outgoing_event node" where
  "outgoing_card pending i = listing_card (toListingCard i) 0 ItemMoved ItemMoved (OpenItem i) None
     [Stop [Btn pending (AskWithdraw i) [Txt t_tm_withdraw]]]
     (map_option ReportOutgoing (report_target (oi_landlord_id i) (cs_listing_id i)))"

definition outgoing_detail :: "(jstr \<Rightarrow> jstr) \<Rightarrow> (rat \<Rightarrow> jstr) \<Rightarrow> tenant_outgoing \<Rightarrow> tenant_outgoing_event node list" where
  "outgoing_detail encode num s = (case to_detail s of None \<Rightarrow> []
     | Some i \<Rightarrow> [listing_detail_dialog encode num (toListingCard i) 0 ItemMoved ItemMoved CloseItem
         [Btn (to_pending s) (AskWithdraw i) [Txt t_tm_withdraw]] None])"

definition tenant_outgoing_view ::
  "(jstr \<Rightarrow> jstr) \<Rightarrow> (rat \<Rightarrow> jstr) \<Rightarrow> tenant_outgoing \<Rightarrow> tenant_outgoing_event node" where
  "tenant_outgoing_view encode num s =
     (if to_items s = Loading then loading
      else if loaded (to_items s) = [] then empty_state t_tm_no_outgoing (Some t_tm_no_outgoing_hint) None
      else Box (map (outgoing_card (to_pending s)) (loaded (to_items s)) @ outgoing_detail encode num s
        @ [confirm_field AnswerWithdraw (to_confirm s)] @ report_dialog (to_report s) CloseReportOutgoing))"

section \<open>Matched\<close>

record tenant_matched =
  tq_items :: "match_item list fetched"
  tq_viewings :: "viewing list fetched"
  tq_detail :: "(matched_listing_card \<times> jstr) option"
  tq_bookFor :: "match_item option"
  tq_slot :: jstr
  tq_slots :: "slot_data option fetched"
  tq_report :: "(jstr \<times> jstr) option"
  tq_pending :: bool

definition tenant_matched_init :: tenant_matched where
  "tenant_matched_init = \<lparr>tq_items = Loading, tq_viewings = Loading, tq_detail = None, tq_bookFor = None,
     tq_slot = [], tq_slots = Loading, tq_report = None, tq_pending = False\<rparr>"

text \<open>A Map from listings to their confirmed viewing, the last one if there are several.\<close>

definition viewingByListing :: "viewing list \<Rightarrow> (jstr \<times> viewing) list" where
  "viewingByListing vs = foldl (\<lambda>m v. if vw_status v = Confirmed then put (vw_listing_id v) v m else m) [] vs"

text \<open>The object the matched tab builds for \<open>toListingCard\<close>, field by field.\<close>

definition match_source :: "match_item \<Rightarrow> card_source" where
  "match_source m = \<lparr>lf_photos = lf_photos m, lf_available_from = lf_available_from m, lf_management_fee = None,
     lf_num_bedrooms = None, lf_num_living_rooms = None, lf_num_bathrooms = None, lf_num_balconies = None,
     lf_pets = lf_pets m, lf_subsidy = lf_subsidy m, lf_tax_receipt = lf_tax_receipt m,
     lf_household_registration = lf_household_registration m, lf_cooking = lf_cooking m,
     lf_has_parking = lf_has_parking m, lf_allow_smoking = lf_allow_smoking m, lf_description = None,
     lf_address = lf_address m, lf_lat = lf_lat m, lf_lng = lf_lng m, cs_listing_id = mi_listing_id m,
     cs_listing_name = mi_listing_name m, cs_rent = or_else 0 (mi_rent m), cs_room_type = or_else [] (mi_room_type m),
     cs_area_ping = or_else 0 (mi_area_ping m), cs_location_id = mi_location_id m, cs_interest_sent = None\<rparr>"

datatype tenant_matched_event =
    OpenMatch "matched_listing_card \<times> jstr" | CloseMatch | MatchMoved
  | OpenBook match_item | Booking book_event | BookOk | BookFailed
  | ReportMatch "jstr \<times> jstr" | CloseReportMatch
  | MatchesLoaded "match_item list fetched" | MatchViewingsLoaded "viewing list fetched"
  | BookSlotsLoaded "slot_data option fetched"

datatype tenant_matched_out = BookViewing jstr jstr | RefetchViewings query_key

text \<open>The booking dialog keeps the chosen slot as long as it is mounted.\<close>

definition booking_step :: "tenant_matched \<Rightarrow> book_event \<Rightarrow> tenant_matched \<times> tenant_matched_out list" where
  "booking_step s e = (case tq_bookFor s of None \<Rightarrow> (s, [])
     | Some m \<Rightarrow> (case e of
         BookPick t \<Rightarrow> (s\<lparr>tq_slot := book_step (tq_slot s) e\<rparr>, [])
       | BookClose \<Rightarrow> (s\<lparr>tq_bookFor := None\<rparr>, [])
       | BookSubmit t \<Rightarrow> (s\<lparr>tq_pending := True\<rparr>, [BookViewing (mi_match_id m) t])))"

fun tenant_matched_step ::
  "tenant_matched \<Rightarrow> tenant_matched_event \<Rightarrow> tenant_matched \<times> tenant_matched_out list" where
  "tenant_matched_step s (OpenMatch d) = (s\<lparr>tq_detail := Some d\<rparr>, [])"
| "tenant_matched_step s CloseMatch = (s\<lparr>tq_detail := None\<rparr>, [])"
| "tenant_matched_step s MatchMoved = (s, [])"
| "tenant_matched_step s (OpenBook m) =
     (s\<lparr>tq_bookFor := Some m, tq_slot := (if tq_bookFor s = None then [] else tq_slot s)\<rparr>, [])"
| "tenant_matched_step s (Booking e) = booking_step s e"
| "tenant_matched_step s BookOk = (s\<lparr>tq_pending := False, tq_bookFor := None\<rparr>,
     [RefetchViewings (qk_viewings None), RefetchViewings (qk_viewingSlots None)])"
| "tenant_matched_step s BookFailed = (s\<lparr>tq_pending := False\<rparr>, [])"
| "tenant_matched_step s (ReportMatch t) = (s\<lparr>tq_report := Some t\<rparr>, [])"
| "tenant_matched_step s CloseReportMatch = (s\<lparr>tq_report := None\<rparr>, [])"
| "tenant_matched_step s (MatchesLoaded d) = (s\<lparr>tq_items := d\<rparr>, [])"
| "tenant_matched_step s (MatchViewingsLoaded d) = (s\<lparr>tq_viewings := d\<rparr>, [])"
| "tenant_matched_step s (BookSlotsLoaded d) = (s\<lparr>tq_slots := d\<rparr>, [])"

definition match_action :: "(jstr \<Rightarrow> jstr \<Rightarrow> jstr) \<Rightarrow> (jstr \<times> viewing) list \<Rightarrow> match_item \<Rightarrow> tenant_matched_event node" where
  "match_action formatSlot booked m =
     (if mi_status m = Some (js ''listing_rented'') then Txt t_tm_rented
      else (case map_of booked (mi_listing_id m) of
          Some v \<Rightarrow> Box [Txt t_tm_booked, Txt (formatSlot (vw_starts_at v) (vw_ends_at v))]
        | None \<Rightarrow> Stop [Btn False (OpenBook m) [Txt t_tm_book]]))"

definition match_card :: "(jstr \<Rightarrow> jstr \<Rightarrow> jstr) \<Rightarrow> (jstr \<times> viewing) list \<Rightarrow> match_item \<Rightarrow> tenant_matched_event node" where
  "match_card formatSlot booked m = (let card = toListingCard (match_source m) in
     listing_card card 0 MatchMoved MatchMoved (OpenMatch (card, mi_contact_info m)) (Some (mi_contact_info m))
       [match_action formatSlot booked m]
       (map_option ReportMatch (report_target (mi_landlord_id m) (mi_listing_id m))))"

record match_formats =
  mt_slot :: "jstr \<Rightarrow> jstr \<Rightarrow> jstr"
  mt_dateKey :: "jstr \<Rightarrow> jstr"
  mt_timeOf :: "jstr \<Rightarrow> jstr"
  mt_encode :: "jstr \<Rightarrow> jstr"
  mt_coord :: "rat \<Rightarrow> jstr"

definition matched_dialogs :: "match_formats \<Rightarrow> tenant_matched \<Rightarrow> tenant_matched_event node list" where
  "matched_dialogs f s =
     (case tq_detail s of None \<Rightarrow> []
      | Some (c, contact) \<Rightarrow> [listing_detail_dialog (mt_encode f) (mt_coord f) c 0 MatchMoved MatchMoved CloseMatch [] (Some contact)])
     @ (case tq_bookFor s of None \<Rightarrow> []
      | Some m \<Rightarrow> [map_node Booking (book_viewing_modal (mt_dateKey f) (mt_timeOf f) (tq_slots s) (mi_listing_name m) (tq_slot s) (tq_pending s))])
     @ report_dialog (tq_report s) CloseReportMatch"

definition tenant_matched_view :: "match_formats \<Rightarrow> tenant_matched \<Rightarrow> tenant_matched_event node" where
  "tenant_matched_view f s =
     (if tq_items s = Loading then loading
      else if loaded (tq_items s) = [] then empty_state t_tm_no_match (Some t_tm_no_match_hint) None
      else Box (map (match_card (mt_slot f) (viewingByListing (loaded (tq_viewings s)))) (loaded (tq_items s))
        @ matched_dialogs f s))"

section \<open>What the cards offer\<close>

lemma loaded_simps [simp]: "loaded Loading = []" "loaded Failed = []" "loaded (Loaded xs) = xs"
  by (simp_all add: loaded_def)

lemma report_target_Some: "report_target l i = Some t \<longleftrightarrow> (\<exists>r. l = Some r \<and> r \<noteq> [] \<and> t = (r, i))"
  by (auto simp: report_target_def split: option.splits)

lemma interest_offers:
  "offers (profile_incoming_view enc num p expanded s) (Respond l) \<longleftrightarrow>
     expanded \<and> (\<exists>i \<in> set (loaded (pi_items s)). \<not> interest_sent i \<and> cs_listing_id i = l)"
proof -
  have "offers (incoming_card i) (Respond l) \<longleftrightarrow> \<not> interest_sent i \<and> cs_listing_id i = l" for i
    by (auto simp: incoming_card_def Let_def listing_card_offers)
  moreover have "\<not> list_ex (\<lambda>n. offers n (Respond l)) (incoming_detail enc num s)"
    by (simp add: incoming_detail_def detail_dialog_offers split: option.split)
  ultimately show ?thesis
    by (auto simp: profile_incoming_view_def list_ex_iff [of _ "map incoming_card _"] loading_def)
qed

lemma outgoing_card_offers:
  "offers (outgoing_card pending i) (AskWithdraw j) \<longleftrightarrow> \<not> pending \<and> j = i"
  "\<not> offers (outgoing_card pending i) (AnswerWithdraw v)"
  by (auto simp: outgoing_card_def listing_card_offers)

lemma outgoing_view_offers:
  "offers (tenant_outgoing_view enc num s) (AskWithdraw i) \<Longrightarrow>
     \<not> to_pending s \<and> (i \<in> set (loaded (to_items s)) \<or> to_detail s = Some i)"
  "offers (tenant_outgoing_view enc num s) (AnswerWithdraw v) \<Longrightarrow> cd_state (to_confirm s) \<noteq> None"
  by (auto simp: tenant_outgoing_view_def loading_def empty_state_def shown_def outgoing_card_offers
      list_ex_iff [of _ "map (outgoing_card _) _"] outgoing_detail_def detail_dialog_offers
      split: if_splits option.splits)

section \<open>Withdrawing\<close>

fun tenant_outgoing_can :: "(jstr \<Rightarrow> jstr) \<Rightarrow> (rat \<Rightarrow> jstr) \<Rightarrow> tenant_outgoing \<Rightarrow> tenant_outgoing_event \<Rightarrow> bool" where
  "tenant_outgoing_can enc num s WithdrawOk = to_pending s"
| "tenant_outgoing_can enc num s WithdrawFailed = to_pending s"
| "tenant_outgoing_can enc num s (OutgoingLoaded d) = True"
| "tenant_outgoing_can enc num s e = offers (tenant_outgoing_view enc num s) e"

text \<open>The dialog shows the withdrawal's question, and nothing is asked while a withdrawal is under way.\<close>

definition withdraw_inv :: "tenant_outgoing \<Rightarrow> bool" where
  "withdraw_inv s \<longleftrightarrow> (cd_resolver (to_confirm s) = None \<longleftrightarrow> cd_state (to_confirm s) = None)
     \<and> cd_state (to_confirm s) \<in> {None, Some withdraw_question}
     \<and> (to_pending s \<longrightarrow> cd_state (to_confirm s) = None)"

lemma withdraw_inv_step:
  assumes "withdraw_inv s" and "tenant_outgoing_can enc num s e"
  shows "withdraw_inv (fst (tenant_outgoing_step s e))"
  using assms outgoing_view_offers [of enc num s]
  by (cases e) (auto simp: withdraw_inv_def confirm_message_def close_confirm_def Let_def split: option.splits)

interpretation outgoing: guarded_machine "\<lambda>s. s = tenant_outgoing_init" "tenant_outgoing_can enc num"
    "\<lambda>s e. fst (tenant_outgoing_step s e)" withdraw_inv for enc num
  by unfold_locales (rule withdraw_inv_step | simp add: withdraw_inv_def tenant_outgoing_init_def confirm_init_def)+

text \<open>The tab as a confirmation of withdrawals, identified by profile and listing.\<close>

definition interest_ids :: "outgoing_item \<Rightarrow> jstr \<times> jstr" where
  "interest_ids i = (oi_tenant_profile_id i, cs_listing_id i)"

fun is_delete :: "tenant_outgoing_out \<Rightarrow> bool" where
  "is_delete (DeleteInterest p l) = True"
| "is_delete _ = False"

fun deleted :: "tenant_outgoing_out \<Rightarrow> jstr \<times> jstr" where
  "deleted (DeleteInterest p l) = (p, l)"
| "deleted _ = ([], [])"

fun asks_withdraw :: "tenant_outgoing_event \<Rightarrow> (jstr \<times> jstr) option" where
  "asks_withdraw (AskWithdraw i) = Some (interest_ids i)"
| "asks_withdraw _ = None"

interpretation tw: confirmation "seen is_delete tenant_outgoing_step" "\<lambda>s. map_option interest_ids (cd_resolver (to_confirm s))"
    asks_withdraw "\<lambda>e. e = AnswerWithdraw True" "\<lambda>e. e = AnswerWithdraw False" deleted
proof unfold_locales
  fix e a s
  show "asks_withdraw e = Some a \<Longrightarrow>
      map_option interest_ids (cd_resolver (to_confirm (fst (seen is_delete tenant_outgoing_step s e)))) = Some a
      \<and> snd (seen is_delete tenant_outgoing_step s e) = []"
    by (cases e) (auto simp: seen_def)
  show "asks_withdraw e = None \<Longrightarrow> e \<noteq> AnswerWithdraw True \<Longrightarrow> e \<noteq> AnswerWithdraw False \<Longrightarrow>
      map_option interest_ids (cd_resolver (to_confirm (fst (seen is_delete tenant_outgoing_step s e))))
        = map_option interest_ids (cd_resolver (to_confirm s)) \<and> snd (seen is_delete tenant_outgoing_step s e) = []"
    by (cases e) (auto simp: seen_def)
qed (auto simp: seen_def close_confirm_def interest_ids_def split: option.splits)

lemma tenant_withdrawals:
  "DeleteInterest p l \<in> set (snd (steps tenant_outgoing_step tenant_outgoing_init es)) \<longleftrightarrow>
     (\<exists>pre i mid post. es = pre @ AskWithdraw i # mid @ AnswerWithdraw True # post \<and> interest_ids i = (p, l) \<and>
        (\<forall>e \<in> set mid. \<forall>j v. e \<noteq> AskWithdraw j \<and> e \<noteq> AnswerWithdraw v))"
proof -
  let ?outs = "snd (steps tenant_outgoing_step tenant_outgoing_init es)"
  have "DeleteInterest p l \<in> set ?outs \<longleftrightarrow> (p, l) \<in> set (map deleted (filter is_delete ?outs))"
    by (force elim!: is_delete.elims(2))
  also have "\<dots> \<longleftrightarrow> (\<exists>pre q mid y post. es = pre @ q # mid @ y # post \<and> asks_withdraw q = Some (p, l) \<and>
      list_all tw.neutral mid \<and> y = AnswerWithdraw True)"
    using tw.runs_iff_confirmed [of tenant_outgoing_init "(p, l)" es]
    by (simp add: steps_seen tenant_outgoing_init_def confirm_init_def)
  also have "\<dots> \<longleftrightarrow> (\<exists>pre i mid post. es = pre @ AskWithdraw i # mid @ AnswerWithdraw True # post \<and> interest_ids i = (p, l) \<and>
        (\<forall>e \<in> set mid. \<forall>j v. e \<noteq> AskWithdraw j \<and> e \<noteq> AnswerWithdraw v))"
  proof -
    have neutral: "tw.neutral e \<longleftrightarrow> (\<forall>j v. e \<noteq> AskWithdraw j \<and> e \<noteq> AnswerWithdraw v)" for e
      by (cases e) (auto simp: tw.neutral_def)
    have ask: "asks_withdraw q = Some (p, l) \<longleftrightarrow> (\<exists>i. q = AskWithdraw i \<and> interest_ids i = (p, l))" for q
      by (cases q) auto
    show ?thesis unfolding neutral ask list_all_iff by blast
  qed
  finally show ?thesis .
qed

section \<open>Booking\<close>

lemma viewingByListing_lookup:
  "map_of (viewingByListing vs) l =
     (case filter (\<lambda>v. vw_status v = Confirmed \<and> vw_listing_id v = l) vs of [] \<Rightarrow> None | w # ws \<Rightarrow> Some (last (w # ws)))"
proof -
  have "map_of (foldl (\<lambda>m v. if vw_status v = Confirmed then put (vw_listing_id v) v m else m) m vs) l =
     (case filter (\<lambda>v. vw_status v = Confirmed \<and> vw_listing_id v = l) vs of [] \<Rightarrow> map_of m l | w # ws \<Rightarrow> Some (last (w # ws)))" for m
    by (induction vs arbitrary: m) (auto simp: map_of_put split: list.splits)
  from this [of "[]"] show ?thesis unfolding viewingByListing_def by (simp only: map_of.simps)
qed

lemma viewingByListing_None:
  "map_of (viewingByListing vs) l = None \<longleftrightarrow> (\<forall>v \<in> set vs. vw_status v \<noteq> Confirmed \<or> vw_listing_id v \<noteq> l)"
  by (auto simp: viewingByListing_lookup filter_empty_conv split: list.splits dest: filter_eq_ConsD)

lemma match_card_offers:
  "offers (match_card fmt booked m) (OpenBook m') \<longleftrightarrow>
     m' = m \<and> mi_status m \<noteq> Some (js ''listing_rented'') \<and> map_of booked (mi_listing_id m) = None"
  "\<not> offers (match_card fmt booked m) (Booking e)"
  by (auto simp: match_card_def Let_def listing_card_offers match_action_def split: option.splits)

lemma matched_dialogs_offers:
  "\<not> list_ex (\<lambda>n. offers n (OpenBook m)) (matched_dialogs f s)"
  "list_ex (\<lambda>n. offers n (Booking e)) (matched_dialogs f s) \<longleftrightarrow> (\<exists>m. tq_bookFor s = Some m \<and>
     offers (book_viewing_modal (mt_dateKey f) (mt_timeOf f) (tq_slots s) (mi_listing_name m) (tq_slot s) (tq_pending s)) e)"
  by (auto simp: matched_dialogs_def detail_dialog_offers split: option.splits)

lemma matched_view_offers:
  "offers (tenant_matched_view f s) (OpenBook m) \<longleftrightarrow> m \<in> set (loaded (tq_items s)) \<and>
     mi_status m \<noteq> Some (js ''listing_rented'') \<and> map_of (viewingByListing (loaded (tq_viewings s))) (mi_listing_id m) = None"
  "offers (tenant_matched_view f s) (Booking e) \<Longrightarrow> (\<exists>m. tq_bookFor s = Some m \<and>
     offers (book_viewing_modal (mt_dateKey f) (mt_timeOf f) (tq_slots s) (mi_listing_name m) (tq_slot s) (tq_pending s)) e)"
  by (auto simp: tenant_matched_view_def loading_def empty_state_def shown_def match_card_offers matched_dialogs_offers
      list_ex_iff [of _ "map (match_card _ _) _"] split: if_splits)

fun tenant_matched_can :: "match_formats \<Rightarrow> tenant_matched \<Rightarrow> tenant_matched_event \<Rightarrow> bool" where
  "tenant_matched_can f s BookOk = tq_pending s"
| "tenant_matched_can f s BookFailed = tq_pending s"
| "tenant_matched_can f s (MatchesLoaded d) = True"
| "tenant_matched_can f s (MatchViewingsLoaded d) = True"
| "tenant_matched_can f s (BookSlotsLoaded d) = True"
| "tenant_matched_can f s e = offers (tenant_matched_view f s) e"

section \<open>Properties\<close>

text \<open>
  C10. The matched tab offers to book a viewing exactly for the matches whose listing is not marked as
  rented and has no confirmed viewing yet. A booking request is for the match whose dialog is open,
  carries the slot chosen there, and is sent only while none is under way; when it succeeds the dialog
  closes and the viewings of both sides and the slots of every listing are refetched.
\<close>

theorem matched_booking:
  "(offers (tenant_matched_view f s) (OpenBook m) \<longleftrightarrow> m \<in> set (loaded (tq_items s)) \<and>
      mi_status m \<noteq> Some (js ''listing_rented'') \<and>
      \<not> (\<exists>v \<in> set (loaded (tq_viewings s)). vw_status v = Confirmed \<and> vw_listing_id v = mi_listing_id m)) \<and>
   (tenant_matched_can f s (Booking (BookSubmit t)) \<longrightarrow>
      (\<exists>b. tq_bookFor s = Some b \<and> t = tq_slot s \<and> t \<noteq> [] \<and> \<not> tq_pending s \<and>
         tenant_matched_step s (Booking (BookSubmit t)) = (s\<lparr>tq_pending := True\<rparr>, [BookViewing (mi_match_id b) t]))) \<and>
   tq_bookFor (fst (tenant_matched_step s BookOk)) = None \<and>
   (\<forall>q. (\<exists>role. q = viewings_query role) \<or> (\<exists>i. q = slots_query i) \<longrightarrow>
      (\<exists>k. RefetchViewings k \<in> set (snd (tenant_matched_step s BookOk)) \<and> invalidates k (q_key q)))"
proof (intro conjI)
  show "offers (tenant_matched_view f s) (OpenBook m) \<longleftrightarrow> m \<in> set (loaded (tq_items s)) \<and>
      mi_status m \<noteq> Some (js ''listing_rented'') \<and>
      \<not> (\<exists>v \<in> set (loaded (tq_viewings s)). vw_status v = Confirmed \<and> vw_listing_id v = mi_listing_id m)"
    by (auto simp: matched_view_offers viewingByListing_None)
  show "tenant_matched_can f s (Booking (BookSubmit t)) \<longrightarrow>
      (\<exists>b. tq_bookFor s = Some b \<and> t = tq_slot s \<and> t \<noteq> [] \<and> \<not> tq_pending s \<and>
         tenant_matched_step s (Booking (BookSubmit t)) = (s\<lparr>tq_pending := True\<rparr>, [BookViewing (mi_match_id b) t]))"
  proof
    assume "tenant_matched_can f s (Booking (BookSubmit t))"
    then obtain b where "tq_bookFor s = Some b" "tq_slot s \<noteq> []" "\<not> tq_pending s" "t = tq_slot s"
      using matched_view_offers(2) [of f s "BookSubmit t"]
      unfolding booking_submit tenant_matched_can.simps by blast
    then show "\<exists>b. tq_bookFor s = Some b \<and> t = tq_slot s \<and> t \<noteq> [] \<and> \<not> tq_pending s \<and>
         tenant_matched_step s (Booking (BookSubmit t)) = (s\<lparr>tq_pending := True\<rparr>, [BookViewing (mi_match_id b) t])"
      by (simp add: booking_step_def)
  qed
  show "\<forall>q. (\<exists>role. q = viewings_query role) \<or> (\<exists>i. q = slots_query i) \<longrightarrow>
      (\<exists>k. RefetchViewings k \<in> set (snd (tenant_matched_step s BookOk)) \<and> invalidates k (q_key q))"
    using invalidates_all by auto
qed simp

definition example_match :: match_item where
  "example_match = \<lparr>lf_photos = [], lf_available_from = [], lf_management_fee = Some 1500, lf_num_bedrooms = Some 1,
     lf_num_living_rooms = Some 1, lf_num_bathrooms = Some 1, lf_num_balconies = Some 0, lf_pets = False,
     lf_subsidy = False, lf_tax_receipt = False, lf_household_registration = False, lf_cooking = False,
     lf_has_parking = False, lf_allow_smoking = False, lf_description = Some (js ''quiet''), lf_address = None,
     lf_lat = None, lf_lng = None, mi_match_id = js ''M'', mi_listing_id = js ''L'', mi_listing_name = None,
     mi_contact_info = js ''line'', mi_matched_at = [], mi_rent = Some 12000, mi_room_type = None,
     mi_area_ping = Some 10, mi_location_id = None, mi_profile_name = None, mi_status = Some (js ''active''),
     mi_landlord_id = None\<rparr>"

definition example_match_formats :: match_formats where
  "example_match_formats = \<lparr>mt_slot = (\<lambda>a b. a), mt_dateKey = id, mt_timeOf = id, mt_encode = id, mt_coord = (\<lambda>q. [])\<rparr>"

lemma matched_booking_witness:
  "\<exists>b. tq_bookFor (tenant_matched_init\<lparr>tq_items := Loaded [example_match], tq_bookFor := Some example_match,
     tq_slot := js ''S''\<rparr>) = Some b \<and> mi_match_id b = js ''M''"
proof -
  let ?s = "tenant_matched_init\<lparr>tq_items := Loaded [example_match], tq_bookFor := Some example_match, tq_slot := js ''S''\<rparr>"
  have "tenant_matched_can example_match_formats ?s (Booking (BookSubmit (js ''S'')))"
    by (simp add: tenant_matched_view_def matched_dialogs_def tenant_matched_init_def book_viewing_modal_def)
  then show ?thesis
    using matched_booking [of example_match_formats ?s example_match "js ''S''"] by (auto simp: example_match_def)
qed

text \<open>
  A match shows less than the offer it came from: whatever fee, layout and description the API sends
  with a match, the card built for the matched tab has fee 0, no layout and no description, so its first
  amount is the bare rent and no fee is broken out.
\<close>

theorem matched_card_drops_fee:
  "mc_management_fee (toListingCard (match_source m)) = 0 \<and>
   mc_description (toListingCard (match_source m)) = None \<and>
   formatLayout (card_layout (toListingCard (match_source m))) = None \<and>
   concat (map amounts (price_line (toListingCard (match_source m)) :: 'e node list))
     = of_int (or_else 0 (mi_rent m)) #
       (case pricePerPing (or_else 0 (mi_rent m)) (or_else 0 (mi_area_ping m)) of None \<Rightarrow> [] | Some p \<Rightarrow> [of_int p])"
  by (simp add: toListingCard_def match_source_def card_layout_def formatLayout_def price_line_def Let_def
      totalMonthly_def or_else_def [of 0 None] shown_def split: option.split)

text \<open>
  In the list of landlords' interest, a reply is offered exactly for the listed items that have none
  yet, and only while the profile's section is expanded; the badge counts the items without a reply; a
  reply that makes a match refetches the matches, and every reply refetches the profile's list.
\<close>

theorem incoming_replies:
  "(offers (profile_incoming_view enc num p expanded s) (Respond l) \<longleftrightarrow>
      expanded \<and> (\<exists>i \<in> set (loaded (pi_items s)). cs_interest_sent i \<noteq> Some True \<and> cs_listing_id i = l)) \<and>
   (pending_count s = 0 \<longleftrightarrow> (\<forall>l. \<not> offers (profile_incoming_view enc num p True s) (Respond l))) \<and>
   snd (profile_incoming_step (tp_id p) s (Respond l)) = [PostInterest (tp_id p) l] \<and>
   (MatchedOut \<in> set (snd (profile_incoming_step (tp_id p) s (RespondOk b))) \<longleftrightarrow> b) \<and>
   RefetchIncoming (q_key (useIncoming (tp_id p) e)) \<in> set (snd (profile_incoming_step (tp_id p) s (RespondOk b))) \<and>
   snd (tenant_incoming_step t ProfileMatched) = [q_key useMatched]"
  by (auto simp: interest_offers interest_sent_def pending_count_def filter_empty_conv shown_def useIncoming_def useMatched_def)

end
