(* ===== verification/Tenants.thy ===== *)
theory Tenants
  imports Ui Format Locations
begin

text \<open>
  How landlords see tenants: the summary of \<open>src/apps/web/features/profiles/TenantSummary.tsx\<close>, shared by
  the browsing card of \<open>TenantProfileCard.tsx\<close> and the three match tabs. Whether a date has passed is
  asked of the browser's clock (\<open>passed\<close>). The description's own expand button is \<open>expandable_text\<close>; it
  is local to the text and offers the card nothing.
\<close>

section \<open>Items\<close>

record tenant_info =
  ti_account_name :: "jstr option"
  ti_name :: "jstr option"
  ti_occupation :: "jstr option"
  ti_age :: "int option"
  ti_has_pets :: "bool option"
  ti_smoking :: "bool option"
  ti_preferred_room_types :: "jstr list option"
  ti_available_from :: "jstr option"
  ti_min_lease_months :: "int option"
  ti_needs_subsidy :: "bool option"
  ti_needs_tax_receipt :: "bool option"
  ti_needs_household_registration :: "bool option"
  ti_needs_cooking :: "bool option"
  ti_needs_parking :: "bool option"
  ti_description :: "jstr option"

record tenant_tab_item =
  tt_profile_name :: "jstr option"
  tt_occupation :: "jstr option"
  tt_age :: "int option"
  tt_has_pets :: "bool option"
  tt_smoking :: "bool option"
  tt_preferred_room_types :: "jstr list option"
  tt_available_from :: "jstr option"
  tt_account_name :: "jstr option"
  tt_min_lease_months :: "int option"
  tt_needs_subsidy :: "bool option"
  tt_needs_tax_receipt :: "bool option"
  tt_needs_household_registration :: "bool option"
  tt_needs_cooking :: "bool option"
  tt_needs_parking :: "bool option"
  tt_description :: "jstr option"

definition tenantInfoFromTab :: "'z tenant_tab_item_scheme \<Rightarrow> tenant_info" where
  "tenantInfoFromTab p = \<lparr>ti_account_name = tt_account_name p, ti_name = tt_profile_name p,
     ti_occupation = tt_occupation p, ti_age = tt_age p, ti_has_pets = tt_has_pets p, ti_smoking = tt_smoking p,
     ti_preferred_room_types = tt_preferred_room_types p, ti_available_from = tt_available_from p,
     ti_min_lease_months = tt_min_lease_months p, ti_needs_subsidy = tt_needs_subsidy p,
     ti_needs_tax_receipt = tt_needs_tax_receipt p,
     ti_needs_household_registration = tt_needs_household_registration p, ti_needs_cooking = tt_needs_cooking p,
     ti_needs_parking = tt_needs_parking p, ti_description = tt_description p\<rparr>"

section \<open>Summary\<close>

text \<open>\<open>a || b\<close> on a string that may be absent, and \<open>filter(Boolean)\<close>.\<close>

definition or_text :: "jstr option \<Rightarrow> jstr \<Rightarrow> jstr" where
  "or_text a b = (case a of None \<Rightarrow> b | Some x \<Rightarrow> if x \<noteq> [] then x else b)"

definition present :: "jstr option list \<Rightarrow> jstr list" where
  "present xs = filter (\<lambda>x. x \<noteq> []) (map (or_else []) xs)"

definition occupationAge :: "tenant_info \<Rightarrow> jstr" where
  "occupationAge info = join t_ts_dot (present
     [ti_occupation info, map_option (\<lambda>a. show_int a @ t_ts_age) (ti_age info)])"

definition moveInLabel :: "(jstr \<Rightarrow> bool) \<Rightarrow> jstr \<Rightarrow> 'e node" where
  "moveInLabel passed availableFrom =
     (if passed availableFrom then Txt t_ts_now else Box [DateT availableFrom, Txt t_ts_move_in])"

definition info_flags :: "tenant_info \<Rightarrow> profile_tag_flags" where
  "info_flags info = \<lparr>pf_has_pets = ti_has_pets info, pf_smoking = ti_smoking info,
     pf_needs_subsidy = ti_needs_subsidy info, pf_needs_tax_receipt = ti_needs_tax_receipt info,
     pf_needs_household_registration = ti_needs_household_registration info,
     pf_needs_cooking = ti_needs_cooking info, pf_needs_parking = ti_needs_parking info\<rparr>"

definition room_names :: "tenant_info \<Rightarrow> jstr list" where
  "room_names info = map (\<lambda>t. or_else t (map_of ROOM_TYPE_LABELS t)) (or_else [] (ti_preferred_room_types info))"

definition tag_badge :: "profile_tag \<Rightarrow> 'e node" where
  "tag_badge tag = Mark (pt_kind tag = Lifestyle)
     [Txt (if pt_kind tag = Need then t_ts_need @ pt_label tag else pt_label tag)]"

definition tenant_conditions :: "(jstr \<Rightarrow> bool) \<Rightarrow> tenant_info \<Rightarrow> 'e node list" where
  "tenant_conditions passed info =
     (let rooms = room_names info; months = or_else 0 (ti_min_lease_months info)
      in shown (rooms \<noteq> []) [Txt (join t_ts_slash rooms)]
         @ (case ti_available_from info of None \<Rightarrow> [] | Some d \<Rightarrow> shown (d \<noteq> []) [moveInLabel passed d])
         @ shown (months > 0) [Box [Txt t_ts_least, NumT (of_int months), Txt t_ts_months]])"

definition tenant_summary :: "(jstr \<Rightarrow> bool) \<Rightarrow> tenant_info \<Rightarrow> 'e node" where
  "tenant_summary passed info =
     (let title = or_text (ti_account_name info) (or_else [] (ti_name info)); sub = occupationAge info
      in Box ([Txt (if title \<noteq> [] then title else if sub \<noteq> [] then sub else t_ts_tenant)]
           @ shown (title \<noteq> [] \<and> sub \<noteq> []) [Txt sub]
           @ tenant_conditions passed info
           @ (case ti_description info of None \<Rightarrow> [] | Some d \<Rightarrow> shown (d \<noteq> []) [Txt d])
           @ map tag_badge (getProfileTags (info_flags info))))"

section \<open>Browsing card\<close>

text \<open>The card passes its profile as the summary's \<open>info\<close>.\<close>

definition card_info :: "matched_tenant_profile_card \<Rightarrow> tenant_info" where
  "card_info c = \<lparr>ti_account_name = Some (tc_account_name c), ti_name = Some (tc_name c),
     ti_occupation = tc_occupation c, ti_age = tc_age c, ti_has_pets = Some (tc_has_pets c),
     ti_smoking = Some (tc_smoking c), ti_preferred_room_types = Some (tc_preferred_room_types c),
     ti_available_from = Some (tc_available_from c), ti_min_lease_months = Some (tc_min_lease_months c),
     ti_needs_subsidy = Some (tc_needs_subsidy c), ti_needs_tax_receipt = Some (tc_needs_tax_receipt c),
     ti_needs_household_registration = Some (tc_needs_household_registration c),
     ti_needs_cooking = Some (tc_needs_cooking c), ti_needs_parking = Some (tc_needs_parking c),
     ti_description = tc_description c\<rparr>"

definition tenant_profile_card ::
  "(jstr \<Rightarrow> bool) \<Rightarrow> matched_tenant_profile_card \<Rightarrow> 'e \<Rightarrow> 'e option \<Rightarrow> 'e node" where
  "tenant_profile_card passed profile onInterest onReport = Box (
     tenant_summary passed (card_info profile)
     # (case onReport of None \<Rightarrow> [] | Some r \<Rightarrow> [menu_field [(t_tpc_report, r)]])
     @ [if tc_interest_sent profile then Txt t_tpc_sent else Btn False onInterest [Txt t_tpc_interest]])"

section \<open>Lemmas\<close>

lemma moveInLabel_passive [simp]: "\<not> offers (moveInLabel passed d) e"
  by (simp add: moveInLabel_def)

lemma tenant_summary_passive [simp]: "\<not> offers (tenant_summary passed info) e"
  by (auto simp: tenant_summary_def tenant_conditions_def Let_def tag_badge_def shown_def list_ex_iff
      split: option.splits)

lemma tenant_profile_card_offers:
  "offers (tenant_profile_card passed p i r) e \<longleftrightarrow> r = Some e \<or> \<not> tc_interest_sent p \<and> e = i"
  by (auto simp: tenant_profile_card_def split: option.splits)

end
