(* ===== verification/LandlordMatches.thy ===== *)
theory LandlordMatches
  imports Tenants Dialogs
begin

text \<open>
  The match pages of landlords, \<open>src/apps/web/features/matches/LandlordMatches.tsx\<close>: the interest tenants
  have shown, grouped by listing, the interest sent, and the matches; and the tabs of
  \<open>MatchesView.tsx\<close>.
\<close>

section \<open>Items\<close>

record landlord_incoming_item = tenant_tab_item +
  ni_listing_id :: jstr
  ni_listing_name :: jstr
  ni_tenant_profile_id :: jstr
  ni_tenant_id :: "jstr option"
  ni_interest_sent :: bool

record landlord_outgoing_item = tenant_tab_item +
  no_tenant_profile_id :: jstr
  no_listing_id :: jstr
  no_tenant_id :: "jstr option"

record landlord_match_item = tenant_tab_item +
  nm_match_id :: jstr
  nm_tenant_profile_id :: jstr
  nm_listing_id :: jstr
  nm_listing_name :: "jstr option"
  nm_contact_info :: jstr
  nm_matched_at :: jstr
  nm_tenant_id :: "jstr option"

definition items_or_none :: "'a list fetched \<Rightarrow> 'a list" where
  "items_or_none d = (case d of Loaded xs \<Rightarrow> xs | _ \<Rightarrow> [])"

text \<open>\<open>x && ...\<close> on an id that may be absent or empty.\<close>

definition given :: "jstr option \<Rightarrow> jstr option" where
  "given x = (case x of None \<Rightarrow> None | Some i \<Rightarrow> if i \<noteq> [] then Some i else None)"

section \<open>Incoming\<close>

text \<open>
  The Map of the \<open>useMemo\<close>: a new listing is entered with its name and no items, then the item is
  pushed to its listing's entry.
\<close>

definition add_item ::
  "landlord_incoming_item \<Rightarrow> (jstr \<times> jstr \<times> landlord_incoming_item list) list \<Rightarrow> (jstr \<times> jstr \<times> landlord_incoming_item list) list" where
  "add_item item m =
     (let k = ni_listing_id item;
          m' = (if map_of m k = None then m @ [(k, ni_listing_name item, [])] else m)
      in map (\<lambda>(j, name, items). if j = k then (j, name, items @ [item]) else (j, name, items)) m')"

definition group_incoming :: "landlord_incoming_item list \<Rightarrow> (jstr \<times> jstr \<times> landlord_incoming_item list) list" where
  "group_incoming items = foldl (\<lambda>m item. add_item item m) [] items"

record landlord_incoming =
  nc_items :: "landlord_incoming_item list fetched"
  nc_expandedSet :: "jstr list"     \<comment> \<open>the collapsed listings\<close>
  nc_report :: "jstr option"
  nc_pending :: bool

definition landlord_incoming_init :: landlord_incoming where
  "landlord_incoming_init = \<lparr>nc_items = Loading, nc_expandedSet = [], nc_report = None, nc_pending = False\<rparr>"

datatype landlord_incoming_event =
    ToggleListing jstr | ReportTenant jstr | CloseReportTenant | RespondTo landlord_incoming_item
  | RespondedOk | RespondedFailed | AllIncomingLoaded "landlord_incoming_item list fetched"

datatype landlord_incoming_out = PostListingInterest jstr jstr | RefetchMatches query_key

fun landlord_incoming_step ::
  "landlord_incoming \<Rightarrow> landlord_incoming_event \<Rightarrow> landlord_incoming \<times> landlord_incoming_out list" where
  "landlord_incoming_step s (ToggleListing i) = (s\<lparr>nc_expandedSet := toggle_section i (nc_expandedSet s)\<rparr>, [])"
| "landlord_incoming_step s (ReportTenant t) = (s\<lparr>nc_report := Some t\<rparr>, [])"
| "landlord_incoming_step s CloseReportTenant = (s\<lparr>nc_report := None\<rparr>, [])"
| "landlord_incoming_step s (RespondTo i) =
     (s\<lparr>nc_pending := True\<rparr>, [PostListingInterest (ni_listing_id i) (ni_tenant_profile_id i)])"
| "landlord_incoming_step s RespondedOk =
     (s\<lparr>nc_pending := False\<rparr>, [RefetchMatches qk_allIncoming, RefetchMatches qk_matched])"
| "landlord_incoming_step s RespondedFailed = (s\<lparr>nc_pending := False\<rparr>, [])"
| "landlord_incoming_step s (AllIncomingLoaded d) = (s\<lparr>nc_items := d\<rparr>, [])"

definition report_menu :: "(jstr \<Rightarrow> 'e) \<Rightarrow> jstr option \<Rightarrow> 'e node list" where
  "report_menu report tenant = (case given tenant of None \<Rightarrow> [] | Some t \<Rightarrow> [menu_field [(t_lm_report, report t)]])"

definition incoming_row :: "(jstr \<Rightarrow> bool) \<Rightarrow> bool \<Rightarrow> landlord_incoming_item \<Rightarrow> landlord_incoming_event node" where
  "incoming_row passed pending item = Box (tenant_summary passed (tenantInfoFromTab item)
     # report_menu ReportTenant (ni_tenant_id item)
     @ [if ni_interest_sent item then Txt t_lm_sent else Btn pending (RespondTo item) [Txt t_lm_answer]])"

definition listing_group ::
  "(jstr \<Rightarrow> bool) \<Rightarrow> landlord_incoming \<Rightarrow> jstr \<times> jstr \<times> landlord_incoming_item list \<Rightarrow> landlord_incoming_event node" where
  "listing_group passed s g = (case g of (listingId, listing_name, items) \<Rightarrow>
     (let expanded = (listingId \<notin> set (nc_expandedSet s))
      in Box (Btn False (ToggleListing listingId)
           [Txt (if listing_name \<noteq> [] then listing_name else listingId), NumT (of_nat (length items)), Mark expanded []]
         # shown expanded (map (incoming_row passed (nc_pending s)) items))))"

definition landlord_incoming_view :: "(jstr \<Rightarrow> bool) \<Rightarrow> landlord_incoming \<Rightarrow> landlord_incoming_event node" where
  "landlord_incoming_view passed s =
     (let grouped_items = group_incoming (items_or_none (nc_items s))
      in if nc_items s = Loading then loading
         else if grouped_items = [] then empty_state t_lm_no_incoming (Some t_lm_no_incoming_hint) None
         else Box (map (listing_group passed s) grouped_items @ report_dialog (nc_report s) CloseReportTenant))"

section \<open>Outgoing\<close>

record landlord_outgoing =
  ng_items :: "landlord_outgoing_item list fetched"
  ng_confirm :: "landlord_outgoing_item confirm_dialog"
  ng_report :: "jstr option"
  ng_pending :: bool

definition landlord_outgoing_init :: landlord_outgoing where
  "landlord_outgoing_init = \<lparr>ng_items = Loading, ng_confirm = confirm_init, ng_report = None, ng_pending = False\<rparr>"

datatype landlord_outgoing_event =
    AskRevoke landlord_outgoing_item | AnswerRevoke bool | RevokeOk | RevokeFailed
  | ReportProspect jstr | CloseReportProspect | SentLoaded "landlord_outgoing_item list fetched"

datatype landlord_outgoing_out = DeleteListingInterest jstr jstr | RefetchSent query_key

definition revoke_question :: confirm_options where
  "revoke_question = \<lparr>co_message = t_lm_withdraw_ask, co_confirmText = Some t_lm_withdraw, co_cancelText = None,
     co_danger = Some True\<rparr>"

fun landlord_outgoing_step ::
  "landlord_outgoing \<Rightarrow> landlord_outgoing_event \<Rightarrow> landlord_outgoing \<times> landlord_outgoing_out list" where
  "landlord_outgoing_step s (AskRevoke i) =
     (s\<lparr>ng_confirm := fst (confirm_step (ng_confirm s) (Ask (Inr revoke_question) i))\<rparr>, [])"
| "landlord_outgoing_step s (AnswerRevoke v) =
     (let (c, confirmed) = confirm_step (ng_confirm s) (Answer v)
      in (s\<lparr>ng_confirm := c, ng_pending := (ng_pending s \<or> confirmed \<noteq> [])\<rparr>,
          map (\<lambda>i. DeleteListingInterest (no_listing_id i) (no_tenant_profile_id i)) confirmed))"
| "landlord_outgoing_step s RevokeOk = (s\<lparr>ng_pending := False\<rparr>, [RefetchSent qk_outgoing])"
| "landlord_outgoing_step s RevokeFailed = (s\<lparr>ng_pending := False\<rparr>, [])"
| "landlord_outgoing_step s (ReportProspect t) = (s\<lparr>ng_report := Some t\<rparr>, [])"
| "landlord_outgoing_step s CloseReportProspect = (s\<lparr>ng_report := None\<rparr>, [])"
| "landlord_outgoing_step s (SentLoaded d) = (s\<lparr>ng_items := d\<rparr>, [])"

definition outgoing_row :: "(jstr \<Rightarrow> bool) \<Rightarrow> bool \<Rightarrow> landlord_outgoing_item \<Rightarrow> landlord_outgoing_event node" where
  "outgoing_row passed pending i = Box (tenant_summary passed (tenantInfoFromTab i)
     # report_menu ReportProspect (no_tenant_id i) @ [Btn pending (AskRevoke i) [Txt t_lm_withdraw]])"

definition landlord_outgoing_view :: "(jstr \<Rightarrow> bool) \<Rightarrow> landlord_outgoing \<Rightarrow> landlord_outgoing_event node" where
  "landlord_outgoing_view passed s =
     (if ng_items s = Loading then loading
      else if items_or_none (ng_items s) = [] then empty_state t_lm_no_outgoing (Some t_lm_no_outgoing_hint) None
      else Box (map (outgoing_row passed (ng_pending s)) (items_or_none (ng_items s))
        @ [confirm_field AnswerRevoke (ng_confirm s)] @ report_dialog (ng_report s) CloseReportProspect))"

section \<open>Matched\<close>

record landlord_matched =
  nx_items :: "landlord_match_item list fetched"
  nx_report :: "jstr option"

datatype landlord_matched_event = ReportMatched jstr | CloseReportMatched | LandlordMatchesLoaded "landlord_match_item list fetched"

fun landlord_matched_step :: "landlord_matched \<Rightarrow> landlord_matched_event \<Rightarrow> landlord_matched" where
  "landlord_matched_step s (ReportMatched t) = s\<lparr>nx_report := Some t\<rparr>"
| "landlord_matched_step s CloseReportMatched = s\<lparr>nx_report := None\<rparr>"
| "landlord_matched_step s (LandlordMatchesLoaded d) = s\<lparr>nx_items := d\<rparr>"

definition matched_row :: "(jstr \<Rightarrow> bool) \<Rightarrow> landlord_match_item \<Rightarrow> landlord_matched_event node" where
  "matched_row passed m = Box (
     [Txt t_lm_matched, DateT (nm_matched_at m)]
     @ (case given (nm_listing_name m) of None \<Rightarrow> [] | Some n \<Rightarrow> [Box [Txt t_lm_listing, Txt n]])
     @ report_menu ReportMatched (nm_tenant_id m)
     @ [tenant_summary passed (tenantInfoFromTab m), Txt t_lm_self_reported, Txt (nm_contact_info m)])"

definition landlord_matched_view :: "(jstr \<Rightarrow> bool) \<Rightarrow> landlord_matched \<Rightarrow> landlord_matched_event node" where
  "landlord_matched_view passed s =
     (if nx_items s = Loading then loading
      else if items_or_none (nx_items s) = [] then empty_state t_lm_no_match (Some t_lm_no_match_hint) None
      else Box (map (matched_row passed) (items_or_none (nx_items s)) @ report_dialog (nx_report s) CloseReportMatched))"

section \<open>Tabs\<close>

datatype matches_subtab = IncomingTab | OutgoingTab | MatchedTab

text \<open>
  The sub-tab comes from the page's address, as any string. \<open>content\<close> gives the component of a tab for the
  landlords' page (\<open>True\<close>) or the tenants'.
\<close>

definition matches_view :: "jstr \<Rightarrow> jstr \<Rightarrow> (jstr \<Rightarrow> 'e) \<Rightarrow> (bool \<Rightarrow> matches_subtab \<Rightarrow> 'e node) \<Rightarrow> 'e node" where
  "matches_view role subTab onSubTabChange content = Box (
     Box (map (\<lambda>(t, label). Btn False (onSubTabChange t) [Mark (subTab = t) [Txt label]])
       [(js ''incoming'', t_mv_incoming), (js ''outgoing'', t_mv_outgoing), (js ''matched'', t_mv_matched)])
     # shown (subTab = js ''incoming'') [content (role = js ''landlord'') IncomingTab]
     @ shown (subTab = js ''outgoing'') [content (role = js ''landlord'') OutgoingTab]
     @ shown (subTab = js ''matched'') [content (role = js ''landlord'') MatchedTab])"

section \<open>Grouping\<close>

text \<open>The loop agrees with \<open>groupBy\<close> on the listing, each group under the name its first item carries.\<close>

definition named_groups :: "landlord_incoming_item list \<Rightarrow> (jstr \<times> jstr \<times> landlord_incoming_item list) list" where
  "named_groups items = map (\<lambda>(k, xs). (k, ni_listing_name (hd xs), xs)) (groupBy items ni_listing_id)"

lemma map_of_named: "map_of (map (\<lambda>k. (k, f k)) ks) k = (if k \<in> set ks then Some (f k) else None)"
  by (induction ks) auto

lemma filter_Nil_key: "k \<notin> key ` set xs \<Longrightarrow> filter (\<lambda>x. key x = k) xs = []"
  by (auto simp: filter_empty_conv)

lemma hd_filter_append: "filter P xs \<noteq> [] \<Longrightarrow> hd (filter P (xs @ ys)) = hd (filter P xs)"
  by simp

lemma add_item_named: "add_item x (named_groups xs) = named_groups (xs @ [x])"
proof -
  let ?k = "ni_listing_id"
  let ?f = "\<lambda>ys k. filter (\<lambda>y. ?k y = k) ys"
  let ?g = "\<lambda>ys k. (k, ni_listing_name (hd (?f ys k)), ?f ys k)"
  have n: "named_groups ys = map (?g ys) (uniq (map ?k ys))" for ys
    by (simp add: named_groups_def groupBy_grouped grouped_def)
  have old: "?g (xs @ [x]) j = (case ?g xs j of (i, nm, items) \<Rightarrow> if i = ?k x then (i, nm, items @ [x]) else (i, nm, items))"
    if "j \<in> set (map ?k xs)" for j
  proof -
    have "?f xs j \<noteq> []" using that by (auto simp: filter_empty_conv)
    then show ?thesis by simp
  qed
  show ?thesis
  proof (cases "?k x \<in> set (map ?k xs)")
    case True
    then have "map_of (named_groups xs) (?k x) \<noteq> None" unfolding n map_of_named by simp
    then have "add_item x (named_groups xs) = map (?g (xs @ [x])) (uniq (map ?k xs))"
      unfolding add_item_def n using old by (auto simp: Let_def)
    then show ?thesis using True unfolding n by (simp add: uniq_snoc)
  next
    case False
    then have "map_of (named_groups xs) (?k x) = None" unfolding n map_of_named by simp
    moreover have "?f xs (?k x) = []" using False by (intro filter_Nil_key) simp
    ultimately have "add_item x (named_groups xs) = map (?g (xs @ [x])) (uniq (map ?k xs)) @ [?g (xs @ [x]) (?k x)]"
      unfolding add_item_def n using old by (auto simp: Let_def)
    then show ?thesis using False unfolding n by (simp add: uniq_snoc)
  qed
qed

lemma group_incoming_named: "group_incoming items = named_groups items"
proof (induction items rule: rev_induct)
  case (snoc x xs)
  then show ?case by (simp add: group_incoming_def add_item_named)
qed (simp add: group_incoming_def named_groups_def groupBy_def)


section \<open>What the tabs offer\<close>

lemma report_menu_offers [simp]:
  "list_ex (\<lambda>n. offers n e) (report_menu r t) \<longleftrightarrow> (\<exists>i. given t = Some i \<and> e = r i)"
  by (auto simp: report_menu_def split: option.splits)

lemma incoming_row_offers:
  "offers (incoming_row passed pending i) (RespondTo j) \<longleftrightarrow> \<not> pending \<and> \<not> ni_interest_sent i \<and> j = i"
  by (auto simp: incoming_row_def)

lemma named_group_members:
  "(k, name, xs) \<in> set (named_groups items) \<Longrightarrow> xs = filter (\<lambda>i. ni_listing_id i = k) items \<and> xs \<noteq> []
     \<and> name = ni_listing_name (hd xs)"
  using gb.members by (fastforce simp: named_groups_def)

lemma named_group_exists:
  "i \<in> set items \<Longrightarrow> \<exists>name. (ni_listing_id i, name, filter (\<lambda>j. ni_listing_id j = ni_listing_id i) items) \<in> set (named_groups items)"
  by (force simp: named_groups_def groupBy_grouped grouped_def)

lemma incoming_view_offers:
  "offers (landlord_incoming_view passed s) (RespondTo i) \<longleftrightarrow>
     i \<in> set (items_or_none (nc_items s)) \<and> \<not> nc_pending s \<and> \<not> ni_interest_sent i \<and> ni_listing_id i \<notin> set (nc_expandedSet s)"
proof -
  let ?items = "items_or_none (nc_items s)"
  have group: "offers (listing_group passed s (k, name, xs)) (RespondTo i) \<longleftrightarrow>
      k \<notin> set (nc_expandedSet s) \<and> i \<in> set xs \<and> \<not> nc_pending s \<and> \<not> ni_interest_sent i" for k name xs
    by (auto simp: listing_group_def Let_def list_ex_iff [of _ "map (incoming_row _ _) _"] incoming_row_offers)
  have "offers (landlord_incoming_view passed s) (RespondTo i) \<longleftrightarrow>
      (\<exists>g \<in> set (named_groups ?items). offers (listing_group passed s g) (RespondTo i))"
  proof (cases "nc_items s = Loading")
    case True
    then show ?thesis
      by (simp add: landlord_incoming_view_def loading_def items_or_none_def named_groups_def groupBy_def)
  next
    case False
    then show ?thesis
      by (auto simp: landlord_incoming_view_def Let_def group_incoming_named empty_state_def shown_def
          list_ex_iff [of _ "map (listing_group _ _) _"])
  qed
  also have "\<dots> \<longleftrightarrow> i \<in> set ?items \<and> \<not> nc_pending s \<and> \<not> ni_interest_sent i \<and> ni_listing_id i \<notin> set (nc_expandedSet s)"
  proof
    assume "\<exists>g \<in> set (named_groups ?items). offers (listing_group passed s g) (RespondTo i)"
    then obtain k name xs where "(k, name, xs) \<in> set (named_groups ?items)"
      and "offers (listing_group passed s (k, name, xs)) (RespondTo i)" by auto
    then show "i \<in> set ?items \<and> \<not> nc_pending s \<and> \<not> ni_interest_sent i \<and> ni_listing_id i \<notin> set (nc_expandedSet s)"
      using named_group_members [of k name xs ?items] by (auto simp: group)
  next
    assume i: "i \<in> set ?items \<and> \<not> nc_pending s \<and> \<not> ni_interest_sent i \<and> ni_listing_id i \<notin> set (nc_expandedSet s)"
    then obtain name where "(ni_listing_id i, name, filter (\<lambda>j. ni_listing_id j = ni_listing_id i) ?items) \<in> set (named_groups ?items)"
      using named_group_exists [of i ?items] by blast
    moreover have "offers (listing_group passed s (ni_listing_id i, name, filter (\<lambda>j. ni_listing_id j = ni_listing_id i) ?items)) (RespondTo i)"
      using i by (simp add: group)
    ultimately show "\<exists>g \<in> set (named_groups ?items). offers (listing_group passed s g) (RespondTo i)" by blast
  qed
  finally show ?thesis .
qed

section \<open>Withdrawing\<close>

fun is_revoke :: "landlord_outgoing_out \<Rightarrow> bool" where
  "is_revoke (DeleteListingInterest l p) = True"
| "is_revoke _ = False"

fun revoked :: "landlord_outgoing_out \<Rightarrow> jstr \<times> jstr" where
  "revoked (DeleteListingInterest l p) = (l, p)"
| "revoked _ = ([], [])"

definition revoke_ids :: "landlord_outgoing_item \<Rightarrow> jstr \<times> jstr" where
  "revoke_ids i = (no_listing_id i, no_tenant_profile_id i)"

fun asks_revoke :: "landlord_outgoing_event \<Rightarrow> (jstr \<times> jstr) option" where
  "asks_revoke (AskRevoke i) = Some (revoke_ids i)"
| "asks_revoke _ = None"

interpretation lw: confirmation "seen is_revoke landlord_outgoing_step" "\<lambda>s. map_option revoke_ids (cd_resolver (ng_confirm s))"
    asks_revoke "\<lambda>e. e = AnswerRevoke True" "\<lambda>e. e = AnswerRevoke False" revoked
proof unfold_locales
  fix e a s
  show "asks_revoke e = Some a \<Longrightarrow>
      map_option revoke_ids (cd_resolver (ng_confirm (fst (seen is_revoke landlord_outgoing_step s e)))) = Some a
      \<and> snd (seen is_revoke landlord_outgoing_step s e) = []"
    by (cases e) (auto simp: seen_def)
  show "asks_revoke e = None \<Longrightarrow> e \<noteq> AnswerRevoke True \<Longrightarrow> e \<noteq> AnswerRevoke False \<Longrightarrow>
      map_option revoke_ids (cd_resolver (ng_confirm (fst (seen is_revoke landlord_outgoing_step s e))))
        = map_option revoke_ids (cd_resolver (ng_confirm s)) \<and> snd (seen is_revoke landlord_outgoing_step s e) = []"
    by (cases e) (auto simp: seen_def)
qed (auto simp: seen_def close_confirm_def revoke_ids_def split: option.splits)

lemma landlord_withdrawals:
  "DeleteListingInterest l p \<in> set (snd (steps landlord_outgoing_step landlord_outgoing_init es)) \<longleftrightarrow>
     (\<exists>pre i mid post. es = pre @ AskRevoke i # mid @ AnswerRevoke True # post \<and> revoke_ids i = (l, p) \<and>
        (\<forall>e \<in> set mid. \<forall>j v. e \<noteq> AskRevoke j \<and> e \<noteq> AnswerRevoke v))"
proof -
  let ?outs = "snd (steps landlord_outgoing_step landlord_outgoing_init es)"
  have "DeleteListingInterest l p \<in> set ?outs \<longleftrightarrow> (l, p) \<in> set (map revoked (filter is_revoke ?outs))"
    by (force elim!: is_revoke.elims(2))
  also have "\<dots> \<longleftrightarrow> (\<exists>pre q mid y post. es = pre @ q # mid @ y # post \<and> asks_revoke q = Some (l, p) \<and>
      list_all lw.neutral mid \<and> y = AnswerRevoke True)"
    using lw.runs_iff_confirmed [of landlord_outgoing_init "(l, p)" es]
    by (simp add: steps_seen landlord_outgoing_init_def confirm_init_def)
  also have "\<dots> \<longleftrightarrow> (\<exists>pre i mid post. es = pre @ AskRevoke i # mid @ AnswerRevoke True # post \<and> revoke_ids i = (l, p) \<and>
        (\<forall>e \<in> set mid. \<forall>j v. e \<noteq> AskRevoke j \<and> e \<noteq> AnswerRevoke v))"
  proof -
    have neutral: "lw.neutral e \<longleftrightarrow> (\<forall>j v. e \<noteq> AskRevoke j \<and> e \<noteq> AnswerRevoke v)" for e
      by (cases e) (auto simp: lw.neutral_def)
    have ask: "asks_revoke q = Some (l, p) \<longleftrightarrow> (\<exists>i. q = AskRevoke i \<and> revoke_ids i = (l, p))" for q
      by (cases q) auto
    show ?thesis unfolding neutral ask list_all_iff by blast
  qed
  finally show ?thesis .
qed

section \<open>Properties\<close>

text \<open>
  C11. The incoming tab groups the tenants' interest as \<open>groupBy\<close> would: one section per listing, in the
  order in which listings first occur, under the name its first item carries, with all and only its items
  in their order. A reply is offered exactly for the items without one in sections not collapsed, while
  no reply is under way, and a successful one refetches the interest and the matches.
\<close>

theorem landlord_incoming_groups:
  "group_incoming items = map (\<lambda>(k, xs). (k, ni_listing_name (hd xs), xs)) (groupBy items ni_listing_id) \<and>
   (offers (landlord_incoming_view passed s) (RespondTo i) \<longleftrightarrow>
      i \<in> set (items_or_none (nc_items s)) \<and> \<not> nc_pending s \<and> \<not> ni_interest_sent i \<and>
      ni_listing_id i \<notin> set (nc_expandedSet s)) \<and>
   snd (landlord_incoming_step s RespondedOk) = [RefetchMatches (q_key useAllIncoming), RefetchMatches (q_key useMatched)]"
  using incoming_view_offers by (simp add: group_incoming_named named_groups_def useAllIncoming_def useMatched_def)

end
