(* ===== verification/Manage.thy ===== *)
theory Manage
  imports Dialogs Format Locations
begin

text \<open>
  The owners' own cards and lists: \<open>src/apps/web/features/listings/ListingMgmtCard.tsx\<close> and
  \<open>ListingsTab.tsx\<close> for landlords, \<open>src/apps/web/features/profiles/MyProfileCard.tsx\<close> and
  \<open>ProfilesTab.tsx\<close> for tenants. The forms they open are the components of \<open>ListingForm\<close> and
  \<open>ProfileForm\<close>; here they only close or report that they saved. The last part puts a listing's card
  beside the listing on the server, whose status handler is that of \<open>src/apps/api/handler/listings.go\<close>.
\<close>

definition form_dialog :: "bool \<Rightarrow> 'e \<Rightarrow> 'e \<Rightarrow> 'e node list" where
  "form_dialog showForm onClose onSaved = shown showForm [modal True onClose [Form onSaved [Submit False []]]]"

section \<open>A listing's card\<close>

definition STATUS_LABELS :: "(jstr \<times> jstr) list" where
  "STATUS_LABELS = [(js ''draft'', t_ls_draft), (js ''active'', t_ls_active), (js ''paused'', t_ls_paused),
     (js ''rented'', t_ls_rented)]"

text \<open>The open menu is the card's only state; \<open>confirm\<close> is the browser's own blocking dialog, as the answer it
  returns for a message.\<close>

datatype mgmt_event =
    ChangeStatus jstr | BrowseTenants | EditListing | ToggleMenu | CloseMenu | DeleteListing
  | StatusChanged | ListingDeleted

datatype mgmt_out =
    PatchStatus jstr jstr | DeleteListingRequest jstr | OnEdit | OnBrowse | OnChanged | RefetchListings query_key

fun mgmt_step :: "(jstr \<Rightarrow> bool) \<Rightarrow> listing \<Rightarrow> bool \<Rightarrow> mgmt_event \<Rightarrow> bool \<times> mgmt_out list" where
  "mgmt_step confirm l menu (ChangeStatus st) = (menu, [PatchStatus (li_id l) st])"
| "mgmt_step confirm l menu BrowseTenants = (menu, [OnBrowse])"
| "mgmt_step confirm l menu EditListing = (menu, [OnEdit])"
| "mgmt_step confirm l menu ToggleMenu = (\<not> menu, [])"
| "mgmt_step confirm l menu CloseMenu = (False, [])"
| "mgmt_step confirm l menu DeleteListing = (menu, shown (confirm t_lg_delete_ask) [DeleteListingRequest (li_id l)])"
| "mgmt_step confirm l menu StatusChanged = (menu, [OnChanged, RefetchListings qk_listings])"
| "mgmt_step confirm l menu ListingDeleted = (menu, [OnChanged])"

definition mgmt_summary :: "listing \<Rightarrow> mgmt_event node" where
  "mgmt_summary l = Box (
     shown (li_name l \<noteq> []) [Txt (li_name l)]
     @ [Mark (li_name l = []) [Txt (js ''$''), MoneyT (of_int (li_rent l))],
        Txt (or_else (li_room_type l) (map_of ROOM_TYPE_LABELS (li_room_type l))), NumT (li_area_ping l), Txt t_lg_ping,
        Txt (or_else (li_status l) (map_of STATUS_LABELS (li_status l))),
        Txt t_lg_available, DateT (li_available_from l), Txt t_lg_slash, NumT (of_nat (length (li_photos l))), Txt t_lg_photos])"

definition mgmt_actions :: "listing \<Rightarrow> mgmt_event node list" where
  "mgmt_actions l =
     shown (li_status l = js ''draft'') [Btn (length (li_photos l) = 0) (ChangeStatus (js ''active'')) [Txt t_lg_publish]]
     @ shown (li_status l = js ''active'') [Btn False BrowseTenants [Txt t_lg_browse]]
     @ shown (li_status l = js ''paused'') [Btn False (ChangeStatus (js ''active'')) [Txt t_lg_publish]]
     @ [Btn False EditListing [Txt t_lg_edit]]"

definition mgmt_menu :: "listing \<Rightarrow> bool \<Rightarrow> mgmt_event node list" where
  "mgmt_menu l menu = Btn False ToggleMenu [] # shown menu (Btn False CloseMenu []
     # shown (li_status l = js ''active'')
         [Btn False (ChangeStatus (js ''paused'')) [Txt t_lg_pause], Btn False (ChangeStatus (js ''rented'')) [Txt t_lg_rented]]
     @ [Btn False DeleteListing [Txt t_lg_delete]])"

definition mgmt_view :: "listing \<Rightarrow> bool \<Rightarrow> mgmt_event node" where
  "mgmt_view l menu = Box (mgmt_summary l # mgmt_actions l @ mgmt_menu l menu)"

section \<open>The landlord's listings\<close>

record listings_tab =
  lb_listings :: "listing list fetched"
  lb_editingId :: "jstr option"
  lb_showForm :: bool

definition listings_tab_init :: listings_tab where
  "listings_tab_init = \<lparr>lb_listings = Loading, lb_editingId = None, lb_showForm = False\<rparr>"

datatype listings_event =
    NewListing | EditThis jstr | BrowseThis jstr | PushFilter jstr | CloseForm | FormSaved | CardChanged
  | ListingsLoaded "listing list fetched"

datatype listings_out = SelectForBrowse jstr | PushUrl jstr | InvalidateListings query_key

definition listings_of :: "listings_tab \<Rightarrow> listing list" where
  "listings_of s = (case lb_listings s of Loaded ls \<Rightarrow> ls | _ \<Rightarrow> [])"

text \<open>While the list is empty the form has nothing to edit, and closing it leaves the edited entry alone.\<close>

fun listings_step :: "listings_tab \<Rightarrow> listings_event \<Rightarrow> listings_tab \<times> listings_out list" where
  "listings_step s NewListing = (s\<lparr>lb_editingId := None, lb_showForm := True\<rparr>, [])"
| "listings_step s (EditThis i) = (s\<lparr>lb_editingId := Some i, lb_showForm := True\<rparr>, [])"
| "listings_step s (BrowseThis i) = (s, [SelectForBrowse i])"
| "listings_step s (PushFilter k) = (s, [PushUrl (js ''?tab=listings&filter='' @ k)])"
| "listings_step s CloseForm = (s\<lparr>lb_showForm := False, lb_editingId := (if listings_of s = [] then lb_editingId s else None)\<rparr>, [])"
| "listings_step s FormSaved = (s\<lparr>lb_showForm := False, lb_editingId := (if listings_of s = [] then lb_editingId s else None)\<rparr>, [InvalidateListings qk_listings])"
| "listings_step s CardChanged = (s, [InvalidateListings qk_listings])"
| "listings_step s (ListingsLoaded d) = (s\<lparr>lb_listings := d\<rparr>, [])"

text \<open>\<open>param\<close> is the \<open>filter\<close> parameter of the page's address.\<close>

definition listing_filter :: "jstr option \<Rightarrow> jstr" where
  "listing_filter param = or_else (js ''all'') param"

definition filtered_listings :: "jstr option \<Rightarrow> listing list \<Rightarrow> listing list" where
  "filtered_listings param listings =
     (if listing_filter param = js ''all'' then listings
      else filter (\<lambda>l. li_status l = listing_filter param) listings)"

definition form_listing :: "listings_tab \<Rightarrow> jstr option" where
  "form_listing s = (if listings_of s = [] then None else lb_editingId s)"

text \<open>\<open>child\<close> is the card of a listing with its events renamed into the tab's.\<close>

definition listings_view :: "(listing \<Rightarrow> listings_event node) \<Rightarrow> jstr option \<Rightarrow> listings_tab \<Rightarrow> listings_event node" where
  "listings_view child param s =
     (if lb_listings s = Loading then Box []
      else if listings_of s = [] then Box (empty_state t_lt_none (Some t_lt_none_hint) (Some (t_lt_first, NewListing))
             # form_dialog (lb_showForm s) CloseForm FormSaved)
      else Box ([Box (map (\<lambda>(k, label). Btn False (PushFilter k) [Mark (listing_filter param = k) [Txt label]])
                  [(js ''all'', t_lt_all), (js ''active'', t_lt_active), (js ''rented'', t_lt_rented)]),
                Btn False NewListing [Txt t_lt_new]]
             @ shown (filtered_listings param (listings_of s) = []) [Txt t_lt_empty]
             @ map child (filtered_listings param (listings_of s))
             @ form_dialog (lb_showForm s) CloseForm FormSaved))"

section \<open>A profile's card\<close>

record profile_card =
  pk_menuOpen :: bool
  pk_confirm :: "jstr confirm_dialog"

definition profile_card_init :: profile_card where
  "profile_card_init = \<lparr>pk_menuOpen = False, pk_confirm = confirm_init\<rparr>"

datatype profile_card_event =
    ToggleProfileMenu | OutsideProfileMenu | EditCard | BrowseCard | ToggleActive | AskDelete | AnswerDelete bool
  | ActiveChanged | ProfileDeleted

datatype profile_card_out =
    PatchActive jstr bool | DeleteProfile jstr | OnEditProfile | OnBrowseProfile | OnDeleted | RefetchProfiles query_key

definition delete_question :: confirm_options where
  "delete_question = \<lparr>co_message = t_mp_delete_ask, co_confirmText = Some t_mp_delete, co_cancelText = None,
     co_danger = Some True\<rparr>"

fun profile_card_step :: "tenant_profile \<Rightarrow> profile_card \<Rightarrow> profile_card_event \<Rightarrow> profile_card \<times> profile_card_out list" where
  "profile_card_step p s ToggleProfileMenu = (s\<lparr>pk_menuOpen := \<not> pk_menuOpen s\<rparr>, [])"
| "profile_card_step p s OutsideProfileMenu = (s\<lparr>pk_menuOpen := False\<rparr>, [])"
| "profile_card_step p s EditCard = (s\<lparr>pk_menuOpen := False\<rparr>, [OnEditProfile])"
| "profile_card_step p s BrowseCard = (s, [OnBrowseProfile])"
| "profile_card_step p s ToggleActive = (s\<lparr>pk_menuOpen := False\<rparr>, [PatchActive (tp_id p) (\<not> tp_is_active p)])"
| "profile_card_step p s AskDelete = (s\<lparr>pk_menuOpen := False,
     pk_confirm := fst (confirm_step (pk_confirm s) (Ask (Inr delete_question) (tp_id p)))\<rparr>, [])"
| "profile_card_step p s (AnswerDelete v) =
     (let (c, confirmed) = confirm_step (pk_confirm s) (Answer v)
      in (s\<lparr>pk_confirm := c\<rparr>, map DeleteProfile confirmed))"
| "profile_card_step p s ActiveChanged = (s, [RefetchProfiles qk_tenantProfiles])"
| "profile_card_step p s ProfileDeleted = (s, [OnDeleted])"

definition profile_card_view :: "tenant_profile \<Rightarrow> profile_card \<Rightarrow> profile_card_event node" where
  "profile_card_view p s = Box (
     [Txt (tp_name p), Txt (if tp_is_active p then t_mp_active else t_mp_inactive),
      Box [Txt t_mp_budget, Txt (js ''$''), MoneyT (of_int (tp_budget_min p)), Txt t_mp_dash, Txt (js ''$''),
        MoneyT (of_int (tp_budget_max p)), Txt t_mp_slash,
        Txt (join t_mp_comma (map (\<lambda>t. or_else t (map_of ROOM_TYPE_LABELS t)) (tp_preferred_room_types p)))]]
     @ shown (tp_is_active p) [Btn False BrowseCard [Txt t_mp_browse]]
     @ [Btn False ToggleProfileMenu []]
     @ shown (pk_menuOpen s) [Btn False EditCard [Txt t_mp_edit],
          Btn False ToggleActive [Txt (if tp_is_active p then t_mp_disable else t_mp_enable)],
          Btn False AskDelete [Txt t_mp_delete]]
     @ shown (tp_is_active p) [Btn False BrowseCard [Txt t_mp_browse]]
     @ [confirm_field AnswerDelete (pk_confirm s)])"

section \<open>The tenant's profiles\<close>

record profiles_tab =
  px_profiles :: "tenant_profile list fetched"
  px_editing :: "tenant_profile option"
  px_showForm :: bool

definition profiles_tab_init :: profiles_tab where
  "profiles_tab_init = \<lparr>px_profiles = Loading, px_editing = None, px_showForm = False\<rparr>"

datatype profiles_event =
    NewProfile | EditThisProfile tenant_profile | BrowseThisProfile jstr | CloseProfileForm | ProfileFormSaved
  | ProfileCardDeleted | MyProfilesLoaded "tenant_profile list fetched"

datatype profiles_out = SelectProfile jstr | InvalidateProfiles query_key

definition profiles_of :: "profiles_tab \<Rightarrow> tenant_profile list" where
  "profiles_of s = (case px_profiles s of Loaded ps \<Rightarrow> ps | _ \<Rightarrow> [])"

text \<open>While the list is empty the form has nothing to edit, and closing it leaves the edited entry alone.\<close>

fun profiles_step :: "profiles_tab \<Rightarrow> profiles_event \<Rightarrow> profiles_tab \<times> profiles_out list" where
  "profiles_step s NewProfile = (s\<lparr>px_editing := None, px_showForm := True\<rparr>, [])"
| "profiles_step s (EditThisProfile p) = (s\<lparr>px_editing := Some p, px_showForm := True\<rparr>, [])"
| "profiles_step s (BrowseThisProfile i) = (s, [SelectProfile i])"
| "profiles_step s CloseProfileForm = (s\<lparr>px_showForm := False, px_editing := (if profiles_of s = [] then px_editing s else None)\<rparr>, [])"
| "profiles_step s ProfileFormSaved = (s\<lparr>px_showForm := False, px_editing := (if profiles_of s = [] then px_editing s else None)\<rparr>, [InvalidateProfiles qk_tenantProfiles])"
| "profiles_step s ProfileCardDeleted = (s, [InvalidateProfiles qk_tenantProfiles])"
| "profiles_step s (MyProfilesLoaded d) = (s\<lparr>px_profiles := d\<rparr>, [])"

definition form_profile :: "profiles_tab \<Rightarrow> tenant_profile option" where
  "form_profile s = (if profiles_of s = [] then None else px_editing s)"

definition profiles_view :: "(tenant_profile \<Rightarrow> profiles_event node) \<Rightarrow> profiles_tab \<Rightarrow> profiles_event node" where
  "profiles_view child s =
     (let n = length (profiles_of s)
      in if px_profiles s = Loading then Box []
         else if profiles_of s = [] then Box (empty_state t_pt_none (Some t_pt_none_hint) (Some (t_pt_first, NewProfile))
                # form_dialog (px_showForm s) CloseProfileForm ProfileFormSaved)
         else Box ([Txt t_pt_title, Btn (n \<ge> 3) NewProfile [Txt (if n \<ge> 3 then t_pt_full else t_pt_new)]]
                @ map child (profiles_of s) @ form_dialog (px_showForm s) CloseProfileForm ProfileFormSaved))"

section \<open>The life of a listing\<close>

text \<open>
  The transitions that the card's buttons stand for, by the status on the card. This is the buttons' own
  specification, not the server's: \<open>UpdateListingStatus\<close> accepts any of its three statuses from any other.
\<close>

inductive lifecycle :: "jstr \<Rightarrow> jstr \<Rightarrow> bool" where
  publish: "lifecycle (js ''draft'') (js ''active'')"
| pause: "lifecycle (js ''active'') (js ''paused'')"
| resume: "lifecycle (js ''paused'') (js ''active'')"
| rent: "lifecycle (js ''active'') (js ''rented'')"

inductive_simps lifecycle_simps: "lifecycle st st'"
inductive_simps from_rented [simp]: "lifecycle (js ''rented'') st"
inductive_simps to_draft [simp]: "lifecycle st (js ''draft'')"

lemma mgmt_view_offers:
  "offers (mgmt_view l menu) (ChangeStatus st) \<longleftrightarrow> lifecycle (li_status l) st
     \<and> (li_status l = js ''draft'' \<longrightarrow> li_photos l \<noteq> []) \<and> (li_status l = js ''active'' \<longrightarrow> menu)"
  by (auto simp: mgmt_view_def mgmt_summary_def mgmt_actions_def mgmt_menu_def shown_def lifecycle_simps)

text \<open>
  \<open>UpdateListingStatus\<close> of \<open>src/apps/api/handler/listings.go\<close>: the status a request leads to, or a refusal.
  The status before plays no part.
\<close>

definition updateListingStatus :: "bool \<Rightarrow> nat \<Rightarrow> jstr \<Rightarrow> jstr option" where
  "updateListingStatus complianceOK photoCount body =
     (if body = js ''active'' then (if photoCount = 0 \<or> \<not> complianceOK then None else Some body)
      else if body = js ''paused'' \<or> body = js ''rented'' then Some body
      else None)"

text \<open>
  A card and its listing on the server. The card shows the copy of the last fetch; its status requests
  are answered later and in any order, and nothing on the card waits for them
  (\<open>changeStatus.mutate\<close>, no \<open>isPending\<close>; the menu stays open).
\<close>

record managed_listing =
  ml_shown :: listing
  ml_menu :: bool
  ml_server :: listing
  ml_requests :: "jstr list"

datatype managed_event = OnCard mgmt_event | Handled nat | Refetched | PhotosBecome "jstr list"

fun managed_can :: "managed_listing \<Rightarrow> managed_event \<Rightarrow> bool" where
  "managed_can w (OnCard e) = offers (mgmt_view (ml_shown w) (ml_menu w)) e"
| "managed_can w (Handled n) = (n < length (ml_requests w))"
| "managed_can w e = True"

fun patches :: "mgmt_out list \<Rightarrow> jstr list" where
  "patches [] = []"
| "patches (PatchStatus i st # out) = st # patches out"
| "patches (_ # out) = patches out"

definition handled :: "bool \<Rightarrow> listing \<Rightarrow> jstr \<Rightarrow> listing" where
  "handled complianceOK l body =
     (case updateListingStatus complianceOK (length (li_photos l)) body of None \<Rightarrow> l | Some st \<Rightarrow> l\<lparr>li_status := st\<rparr>)"

fun managed_step :: "(jstr \<Rightarrow> bool) \<Rightarrow> bool \<Rightarrow> managed_listing \<Rightarrow> managed_event \<Rightarrow> managed_listing" where
  "managed_step confirm ok w (OnCard e) =
     (case mgmt_step confirm (ml_shown w) (ml_menu w) e of
        (menu, out) \<Rightarrow> w\<lparr>ml_menu := menu, ml_requests := ml_requests w @ patches out\<rparr>)"
| "managed_step confirm ok w (Handled n) =
     w\<lparr>ml_server := handled ok (ml_server w) (ml_requests w ! n),
       ml_requests := take n (ml_requests w) @ drop (Suc n) (ml_requests w)\<rparr>"
| "managed_step confirm ok w Refetched = w\<lparr>ml_shown := ml_server w\<rparr>"
| "managed_step confirm ok w (PhotosBecome ps) = w\<lparr>ml_server := (ml_server w)\<lparr>li_photos := ps\<rparr>\<rparr>"

definition managed_start :: "managed_listing \<Rightarrow> bool" where
  "managed_start w \<longleftrightarrow> li_status (ml_server w) = js ''draft'' \<and> ml_shown w = ml_server w \<and> ml_requests w = []"

definition server_status :: "managed_listing \<Rightarrow> jstr" where
  "server_status w = li_status (ml_server w)"

lemma patches_cases:
  "patches (snd (mgmt_step confirm l menu e)) = (case e of ChangeStatus st \<Rightarrow> [st] | _ \<Rightarrow> [])"
  by (cases e) (auto simp: shown_def)

lemma handled_status:
  "li_status (handled ok l body) = (if body \<in> {js ''paused'', js ''rented''} \<or>
     body = js ''active'' \<and> li_photos l \<noteq> [] \<and> ok then body else li_status l)"
  by (auto simp: handled_def updateListingStatus_def js_def)

lemma managed_card:
  "managed_step confirm ok w (OnCard e) = w\<lparr>ml_menu := fst (mgmt_step confirm (ml_shown w) (ml_menu w) e),
     ml_requests := ml_requests w @ (case e of ChangeStatus st \<Rightarrow> [st] | _ \<Rightarrow> [])\<rparr>"
  by (simp add: case_prod_beta patches_cases)

text \<open>Only an answer to a request changes the server's status.\<close>

lemma server_status_step:
  "server_status (managed_step confirm ok w e) =
     (case e of Handled n \<Rightarrow> li_status (handled ok (ml_server w) (ml_requests w ! n)) | _ \<Rightarrow> server_status w)"
  by (cases e) (simp_all add: server_status_def managed_card del: managed_step.simps(1))

text \<open>A patient user presses a status button only when the card is up to date and no request is out.\<close>

definition patient_can :: "managed_listing \<Rightarrow> managed_event \<Rightarrow> bool" where
  "patient_can w e \<longleftrightarrow> managed_can w e \<and> ((\<exists>st. e = OnCard (ChangeStatus st)) \<longrightarrow>
     ml_requests w = [] \<and> li_status (ml_shown w) = server_status w)"

definition patient_inv :: "managed_listing \<Rightarrow> bool" where
  "patient_inv w \<longleftrightarrow> ml_requests w = [] \<or> (\<exists>st. ml_requests w = [st] \<and> lifecycle (server_status w) st)"

lemma patient_inv_step:
  assumes "patient_inv w" and "patient_can w e"
  shows "patient_inv (managed_step confirm ok w e)"
proof (cases e)
  case (OnCard c)
  show ?thesis
  proof (cases "\<exists>st. c = ChangeStatus st")
    case True
    then obtain st where st: "c = ChangeStatus st" by blast
    then have "lifecycle (server_status w) st" "ml_requests w = []"
      using assms(2) OnCard by (auto simp: patient_can_def mgmt_view_offers)
    then show ?thesis using OnCard st
      by (simp add: patient_inv_def managed_card server_status_def del: managed_step.simps(1))
  next
    case False
    then show ?thesis using assms(1) OnCard
      by (cases c) (simp_all add: patient_inv_def managed_card server_status_def del: managed_step.simps(1))
  qed
next
  case (Handled n)
  then have "n = 0 \<and> length (ml_requests w) = 1" using assms by (auto simp: patient_inv_def patient_can_def)
  then show ?thesis using Handled by (simp add: patient_inv_def)
qed (use assms in \<open>simp_all add: patient_inv_def server_status_def\<close>)

lemma patient_status:
  assumes "patient_inv w" and "patient_can w e"
  shows "server_status (managed_step confirm ok w e) = server_status w \<or>
    lifecycle (server_status w) (server_status (managed_step confirm ok w e))"
proof (cases e)
  case (Handled n)
  then obtain st where "ml_requests w ! n = st" "lifecycle (server_status w) st"
    using assms by (auto simp: patient_inv_def patient_can_def)
  then show ?thesis using Handled
    by (auto simp: server_status_def handled_status)
qed (simp_all add: server_status_step del: managed_step.simps)

interpretation life: refining_machine managed_start patient_can "managed_step confirm ok" patient_inv
    server_status "\<lambda>st. st = js ''draft''" lifecycle for confirm ok
  using patient_inv_step patient_status
  by unfold_locales (auto simp: managed_start_def patient_inv_def server_status_def)

text \<open>Without patience: what the card asks for is still one of the three statuses of the buttons.\<close>

definition managed_inv :: "managed_listing \<Rightarrow> bool" where
  "managed_inv w \<longleftrightarrow> set (ml_requests w) \<subseteq> {js ''active'', js ''paused'', js ''rented''} \<and>
     server_status w \<in> {js ''draft'', js ''active'', js ''paused'', js ''rented''}"

lemma managed_inv_step:
  assumes "managed_inv w" and "managed_can w e"
  shows "managed_inv (managed_step confirm ok w e)"
proof (cases e)
  case (OnCard c)
  then show ?thesis using assms
    by (cases c) (auto simp: managed_inv_def managed_card server_status_def mgmt_view_offers lifecycle_simps
        simp del: managed_step.simps(1))
next
  case (Handled n)
  then have "ml_requests w ! n \<in> {js ''active'', js ''paused'', js ''rented''}"
    using assms by (auto simp: managed_inv_def dest: nth_mem)
  moreover have "set (take n (ml_requests w) @ drop (Suc n) (ml_requests w)) \<subseteq> set (ml_requests w)"
    by (auto dest: in_set_takeD in_set_dropD)
  ultimately show ?thesis using assms(1) Handled
    by (auto simp: managed_inv_def server_status_def handled_status)
qed (use assms in \<open>simp_all add: managed_inv_def server_status_def\<close>)

interpretation mgd: guarded_machine managed_start managed_can "managed_step confirm ok" managed_inv for confirm ok
  using managed_inv_step by unfold_locales (auto simp: managed_start_def managed_inv_def server_status_def)

section \<open>Deleting a profile\<close>

fun is_profile_delete :: "profile_card_out \<Rightarrow> bool" where
  "is_profile_delete (DeleteProfile i) = True"
| "is_profile_delete _ = False"

fun deleted_profile :: "profile_card_out \<Rightarrow> jstr" where
  "deleted_profile (DeleteProfile i) = i"
| "deleted_profile _ = []"

fun asks_delete :: "jstr \<Rightarrow> profile_card_event \<Rightarrow> jstr option" where
  "asks_delete i AskDelete = Some i"
| "asks_delete i _ = None"

interpretation pd: confirmation "seen is_profile_delete (profile_card_step p)" "\<lambda>s. cd_resolver (pk_confirm s)"
    "asks_delete (tp_id p)" "\<lambda>e. e = AnswerDelete True" "\<lambda>e. e = AnswerDelete False" deleted_profile for p
proof unfold_locales
  fix e a s
  show "asks_delete (tp_id p) e = Some a \<Longrightarrow> cd_resolver (pk_confirm (fst (seen is_profile_delete (profile_card_step p) s e))) = Some a
      \<and> snd (seen is_profile_delete (profile_card_step p) s e) = []"
    by (cases e) (auto simp: seen_def)
  show "asks_delete (tp_id p) e = None \<Longrightarrow> e \<noteq> AnswerDelete True \<Longrightarrow> e \<noteq> AnswerDelete False \<Longrightarrow>
      cd_resolver (pk_confirm (fst (seen is_profile_delete (profile_card_step p) s e))) = cd_resolver (pk_confirm s)
      \<and> snd (seen is_profile_delete (profile_card_step p) s e) = []"
    by (cases e) (auto simp: seen_def)
qed (auto simp: seen_def close_confirm_def split: option.splits)

lemma profile_deletions:
  "DeleteProfile i \<in> set (snd (steps (profile_card_step p) profile_card_init es)) \<longleftrightarrow> i = tp_id p \<and>
     (\<exists>pre mid post. es = pre @ AskDelete # mid @ AnswerDelete True # post \<and>
        (\<forall>e \<in> set mid. e \<noteq> AskDelete \<and> (\<forall>v. e \<noteq> AnswerDelete v)))"
proof -
  let ?outs = "snd (steps (profile_card_step p) profile_card_init es)"
  have "DeleteProfile i \<in> set ?outs \<longleftrightarrow> i \<in> set (map deleted_profile (filter is_profile_delete ?outs))"
    by (force elim!: is_profile_delete.elims(2))
  also have "\<dots> \<longleftrightarrow> (\<exists>pre q mid y post. es = pre @ q # mid @ y # post \<and> asks_delete (tp_id p) q = Some i \<and>
      list_all (pd.neutral p) mid \<and> y = AnswerDelete True)"
    using pd.runs_iff_confirmed [of profile_card_init i p es]
    by (simp add: steps_seen profile_card_init_def confirm_init_def)
  also have "\<dots> \<longleftrightarrow> i = tp_id p \<and> (\<exists>pre mid post. es = pre @ AskDelete # mid @ AnswerDelete True # post \<and>
        (\<forall>e \<in> set mid. e \<noteq> AskDelete \<and> (\<forall>v. e \<noteq> AnswerDelete v)))"
  proof -
    have neutral: "pd.neutral p e \<longleftrightarrow> e \<noteq> AskDelete \<and> (\<forall>v. e \<noteq> AnswerDelete v)" for e
      by (cases e) (auto simp: pd.neutral_def)
    have ask: "asks_delete (tp_id p) q = Some i \<longleftrightarrow> q = AskDelete \<and> i = tp_id p" for q
      by (cases q) auto
    show ?thesis unfolding neutral ask list_all_iff by blast
  qed
  finally show ?thesis .
qed

section \<open>Properties\<close>

abbreviation managed :: "(jstr \<Rightarrow> bool) \<Rightarrow> bool \<Rightarrow> managed_listing \<Rightarrow> bool" where
  "managed confirm ok \<equiv> reach managed_start managed_can (managed_step confirm ok)"

abbreviation patiently_managed :: "(jstr \<Rightarrow> bool) \<Rightarrow> bool \<Rightarrow> managed_listing \<Rightarrow> bool" where
  "patiently_managed confirm ok \<equiv> reach managed_start patient_can (managed_step confirm ok)"

abbreviation two_clicks :: "managed_event list" where
  "two_clicks \<equiv> [OnCard (ChangeStatus (js ''rented'')), OnCard (ChangeStatus (js ''paused'')), Handled 0]"

text \<open>
  C9. The management card and the status of its listing on the server. The card offers exactly the steps of
  the buttons' life cycle from the status it shows: draft to active (once it shows a photo), active to
  paused or rented (in the open menu), paused to active. The server publishes only a listing that has a
  photo, whatever the card showed, and takes every other request as it comes. So the listing follows the
  life cycle, with rented as its end, as long as status buttons are pressed one at a time on an up-to-date
  card; but nothing on the card enforces that: from any state with an active listing and an open menu the
  landlord can press "rented" and then "paused" before the list is refetched, and the server ends up with
  a paused listing that had been rented.
\<close>

theorem listing_lifecycle:
  assumes "managed confirm ok w"
  shows "(\<forall>st. managed_can w (OnCard (ChangeStatus st)) \<longleftrightarrow> lifecycle (li_status (ml_shown w)) st \<and>
       (li_status (ml_shown w) = js ''draft'' \<longrightarrow> li_photos (ml_shown w) \<noteq> []) \<and>
       (li_status (ml_shown w) = js ''active'' \<longrightarrow> ml_menu w)) \<and>
    server_status w \<in> {js ''draft'', js ''active'', js ''paused'', js ''rented''} \<and>
    (\<forall>n. managed_can w (Handled n) \<longrightarrow> server_status (managed_step confirm ok w (Handled n)) =
       (if ml_requests w ! n = js ''active'' \<and> (li_photos (ml_server w) = [] \<or> \<not> ok) then server_status w
        else ml_requests w ! n)) \<and>
    (patiently_managed confirm ok w \<longrightarrow> lifecycle\<^sup>*\<^sup>* (js ''draft'') (server_status w) \<and>
       (\<forall>e. server_status w = js ''rented'' \<and> patient_can w e \<longrightarrow>
          server_status (managed_step confirm ok w e) = js ''rented'')) \<and>
    (li_status (ml_shown w) = js ''active'' \<and> ml_menu w \<and> ml_requests w = [] \<longrightarrow>
       (\<exists>u v. run managed_can (managed_step confirm ok) w two_clicks = Some u \<and> server_status u = js ''rented'' \<and>
          run managed_can (managed_step confirm ok) u [Handled 0] = Some v \<and> server_status v = js ''paused''))"
proof (intro conjI allI impI)
  have inv: "managed_inv w" by (rule mgd.reach_inv [OF assms])
  show "managed_can w (OnCard (ChangeStatus st)) \<longleftrightarrow> lifecycle (li_status (ml_shown w)) st \<and>
       (li_status (ml_shown w) = js ''draft'' \<longrightarrow> li_photos (ml_shown w) \<noteq> []) \<and>
       (li_status (ml_shown w) = js ''active'' \<longrightarrow> ml_menu w)" for st
    by (simp add: mgmt_view_offers)
  show "server_status w \<in> {js ''draft'', js ''active'', js ''paused'', js ''rented''}"
    using inv by (simp add: managed_inv_def)
  show "server_status (managed_step confirm ok w (Handled n)) =
       (if ml_requests w ! n = js ''active'' \<and> (li_photos (ml_server w) = [] \<or> \<not> ok) then server_status w
        else ml_requests w ! n)" if "managed_can w (Handled n)" for n
  proof -
    have "ml_requests w ! n \<in> {js ''active'', js ''paused'', js ''rented''}"
      using inv that by (auto simp: managed_inv_def dest: nth_mem)
    then show ?thesis by (auto simp: server_status_def handled_status)
  qed
  show "lifecycle\<^sup>*\<^sup>* (js ''draft'') (server_status w)" if "patiently_managed confirm ok w"
    using life.refines [OF that] by auto
  show "server_status (managed_step confirm ok w e) = js ''rented''"
    if "patiently_managed confirm ok w" "server_status w = js ''rented'' \<and> patient_can w e" for e
    using patient_status [OF life.reach_inv [OF that(1)], of e confirm ok] that(2) by auto
  show "\<exists>u v. run managed_can (managed_step confirm ok) w two_clicks = Some u \<and> server_status u = js ''rented'' \<and>
          run managed_can (managed_step confirm ok) u [Handled 0] = Some v \<and> server_status v = js ''paused''"
    if "li_status (ml_shown w) = js ''active'' \<and> ml_menu w \<and> ml_requests w = []"
    using that by (simp add: mgmt_view_offers lifecycle_simps server_status_def handled_status)
qed

definition draft_listing :: "jstr list \<Rightarrow> listing" where
  "draft_listing photos = \<lparr>li_id = js ''L'', li_landlord_id = [], li_location_id = [], li_address = None, li_name = [],
     li_rent = 10000, li_management_fee = 0, li_room_type = [], li_area_ping = 8, li_num_bedrooms = None,
     li_num_living_rooms = None, li_num_bathrooms = None, li_num_balconies = None, li_available_from = [],
     li_min_lease_months = 1, li_allow_pets = False, li_allow_subsidy = False, li_allow_tax_receipt = False,
     li_allow_household_registration = False, li_allow_cooking = False, li_has_parking = False,
     li_allow_smoking = False, li_description = None, li_contact_info = None, li_status = js ''draft'',
     li_photos = photos, li_lat = None, li_lng = None, li_created_at = [], li_updated_at = []\<rparr>"

definition drafted :: "jstr list \<Rightarrow> managed_listing" where
  "drafted photos = \<lparr>ml_shown = draft_listing photos, ml_menu = False, ml_server = draft_listing photos, ml_requests = []\<rparr>"

definition published :: managed_listing where
  "published = (drafted [js ''p''])\<lparr>ml_shown := (draft_listing [js ''p''])\<lparr>li_status := js ''active''\<rparr>, ml_menu := True,
     ml_server := (draft_listing [js ''p''])\<lparr>li_status := js ''active''\<rparr>\<rparr>"

lemma published_reach: "managed (\<lambda>m. True) True published"
proof -
  have "run managed_can (managed_step (\<lambda>m. True) True) (drafted [js ''p''])
      [OnCard (ChangeStatus (js ''active'')), Handled 0, Refetched, OnCard ToggleMenu] = Some published"
    by (simp add: drafted_def published_def mgmt_view_offers lifecycle_simps draft_listing_def handled_def
        updateListingStatus_def) (simp add: mgmt_view_def mgmt_menu_def)
  then show ?thesis by (rule reach_from_start) (simp add: managed_start_def drafted_def draft_listing_def)
qed

lemma listing_lifecycle_witness:
  "(\<exists>u v. run managed_can (managed_step (\<lambda>m. True) True) published two_clicks = Some u \<and> server_status u = js ''rented'' \<and>
      run managed_can (managed_step (\<lambda>m. True) True) u [Handled 0] = Some v \<and> server_status v = js ''paused'') \<and>
   \<not> managed_can (drafted []) (OnCard (ChangeStatus (js ''active''))) \<and>
   managed_can (drafted [js ''p'']) (OnCard (ChangeStatus (js ''active'')))"
proof -
  have "li_status (ml_shown published) = js ''active'' \<and> ml_menu published \<and> ml_requests published = []"
    by (simp add: published_def drafted_def)
  moreover have "managed (\<lambda>m. True) True (drafted ps)" for ps
    by (rule mgd.reach_init) (simp add: managed_start_def drafted_def draft_listing_def)
  note this [THEN listing_lifecycle, THEN conjunct1, rule_format]
  ultimately show ?thesis
    using listing_lifecycle [OF published_reach, THEN conjunct2, THEN conjunct2, THEN conjunct2, THEN conjunct2]
    by (simp add: drafted_def draft_listing_def lifecycle_simps)
qed

end
