(* ===== verification/Browse.thy ===== *)
theory Browse
  imports ListingCards Tenants Dialogs
begin

text \<open>
  Looking for counterparts: tenants browse listings
  (\<open>src/apps/web/features/listings/TenantBrowseTab.tsx\<close>), landlords browse tenants
  (\<open>src/apps/web/features/profiles/LandlordBrowseTab.tsx\<close>). The tenants' tab keeps its filter and the
  open listing in the page's address.
\<close>

section \<open>Search parameters\<close>

text \<open>
  \<open>URLSearchParams\<close> as the list of its pairs: \<open>get\<close> reads the first pair of a name, \<open>set\<close> overwrites it
  and drops the others, or appends; \<open>delete\<close> drops them all.
\<close>

type_synonym params = "(jstr \<times> jstr) list"

definition params_delete :: "jstr \<Rightarrow> params \<Rightarrow> params" where
  "params_delete k ps = filter (\<lambda>(j, v). j \<noteq> k) ps"

fun params_set :: "jstr \<Rightarrow> jstr \<Rightarrow> params \<Rightarrow> params" where
  "params_set k v [] = [(k, v)]"
| "params_set k v ((j, w) # ps) = (if j = k then (k, v) # params_delete k ps else (j, w) # params_set k v ps)"

fun buildParams :: "(jstr \<times> jstr option) list \<Rightarrow> params \<Rightarrow> params" where
  "buildParams [] ps = ps"
| "buildParams ((k, v) # us) ps = buildParams us (case v of None \<Rightarrow> params_delete k ps | Some x \<Rightarrow> params_set k x ps)"

lemma get_delete: "map_of (params_delete k ps) = (map_of ps)(k := None)"
  by (induction ps) (auto simp: params_delete_def fun_eq_iff)

lemma get_set: "map_of (params_set k v ps) = (map_of ps)(k \<mapsto> v)"
  by (induction k v ps rule: params_set.induct) (auto simp: get_delete fun_eq_iff)

lemma get_build:
  "distinct (map fst us) \<Longrightarrow>
     map_of (buildParams us ps) k = (case map_of us k of None \<Rightarrow> map_of ps k | Some v \<Rightarrow> v)"
proof (induction us arbitrary: ps)
  case (Cons u us)
  obtain j v where u: "u = (j, v)" by (cases u)
  then have "j = k \<Longrightarrow> map_of us k = None" using Cons.prems by (auto simp: map_of_eq_None_iff)
  then show ?case using Cons u by (auto simp: get_delete get_set split: option.splits)
qed simp

section \<open>The active selection\<close>

text \<open>\<open>active.find((x) => x.id === selected)?.id ?? active[0]?.id ?? null\<close>, on the ids of the active entries.\<close>

definition current_id :: "jstr list \<Rightarrow> jstr option \<Rightarrow> jstr option" where
  "current_id active selected =
     (case selected of
        Some i \<Rightarrow> if i \<in> set active then Some i else if active = [] then None else Some (hd active)
      | None \<Rightarrow> if active = [] then None else Some (hd active))"

lemma current_id_active: "current_id active selected = Some i \<Longrightarrow> i \<in> set active"
  by (auto simp: current_id_def split: option.splits if_splits)

lemma current_id_None: "current_id active selected = None \<longleftrightarrow> active = []"
  by (auto simp: current_id_def split: option.splits)

text \<open>The selected entry while it is active, else the first active one.\<close>

lemma current_id_selected: "i \<in> set active \<Longrightarrow> current_id active (Some i) = Some i"
  by (simp add: current_id_def)

lemma current_id_first: "selected \<notin> Some ` set (i # active) \<Longrightarrow> current_id (i # active) selected = Some i"
  by (auto simp: current_id_def split: option.splits)

section \<open>Tenants browse listings\<close>

record tenant_browse =
  tb_profiles :: "tenant_profile list"
  tb_selected :: "jstr option"        \<comment> \<open>the \<open>profile\<close> of the address, a prop\<close>
  tb_items :: "matched_listing_card list fetched"
  tb_detailFull :: "matched_listing_card option"
  tb_params :: params
  tb_report :: "(jstr \<times> jstr) option"
  tb_pending :: bool

definition active_profiles :: "tenant_browse \<Rightarrow> tenant_profile list" where
  "active_profiles s = filter tp_is_active (tb_profiles s)"

definition tb_current :: "tenant_browse \<Rightarrow> jstr option" where
  "tb_current s = current_id (map tp_id (active_profiles s)) (tb_selected s)"

definition tb_allItems :: "tenant_browse \<Rightarrow> matched_listing_card list" where
  "tb_allItems s = (case tb_items s of Loaded xs \<Rightarrow> xs | _ \<Rightarrow> [])"

definition browse_filter :: "tenant_browse \<Rightarrow> jstr" where
  "browse_filter s = or_else (js ''all'') (map_of (tb_params s) (js ''filter''))"

definition shown_items :: "tenant_browse \<Rightarrow> matched_listing_card list" where
  "shown_items s =
     (if browse_filter s = js ''sent'' then filter mc_interest_sent (tb_allItems s)
      else if browse_filter s = js ''open'' then filter (\<lambda>l. \<not> mc_interest_sent l) (tb_allItems s)
      else tb_allItems s)"

text \<open>
  The listing of the address: from the list, or fetched on its own, as if no interest had been sent.
\<close>

definition detailListing :: "tenant_browse \<Rightarrow> matched_listing_card option" where
  "detailListing s =
     (case find (\<lambda>l. Some (mc_id l) = map_of (tb_params s) (js ''listingId'')) (tb_allItems s) of
        Some l \<Rightarrow> Some l
      | None \<Rightarrow> map_option (\<lambda>l. l\<lparr>mc_interest_sent := False\<rparr>) (tb_detailFull s))"

datatype tenant_browse_event =
    SelectProfileCard jstr | GoToProfiles | PushFilterKey jstr | OpenListing jstr | CloseListing | ListingMoved
  | ReportListing "jstr \<times> jstr" | CloseReportListing
  | Interest jstr | InterestFromDetail jstr | InterestOk | InterestFailed
  | BrowseLoaded "matched_listing_card list fetched" | DetailLoaded "matched_listing_card option" | Navigated params

datatype tenant_browse_out =
    OnSelectProfile jstr | OnGoToProfiles | PushParams params | PostListingInterestOf "jstr option" jstr | RefetchBrowse query_key

definition goto :: "(jstr \<times> jstr option) list \<Rightarrow> tenant_browse \<Rightarrow> tenant_browse_out" where
  "goto updates s = PushParams (buildParams updates (tb_params s))"

definition filter_updates :: "jstr \<Rightarrow> (jstr \<times> jstr option) list" where
  "filter_updates k = [(js ''filter'', Some k), (js ''listingId'', None)]"

text \<open>(Without a current entry there is no list to invalidate and no way to get here; its key is immaterial.)\<close>

fun tenant_browse_step :: "tenant_browse \<Rightarrow> tenant_browse_event \<Rightarrow> tenant_browse \<times> tenant_browse_out list" where
  "tenant_browse_step s (SelectProfileCard i) = (s, [OnSelectProfile i])"
| "tenant_browse_step s GoToProfiles = (s, [OnGoToProfiles])"
| "tenant_browse_step s (PushFilterKey k) = (s, [goto (filter_updates k) s])"
| "tenant_browse_step s (OpenListing i) = (s, [goto [(js ''listingId'', Some i)] s])"
| "tenant_browse_step s CloseListing = (s, [goto [(js ''listingId'', None)] s])"
| "tenant_browse_step s ListingMoved = (s, [])"
| "tenant_browse_step s (ReportListing t) = (s\<lparr>tb_report := Some t\<rparr>, [])"
| "tenant_browse_step s CloseReportListing = (s\<lparr>tb_report := None\<rparr>, [])"
| "tenant_browse_step s (Interest l) = (s\<lparr>tb_pending := True\<rparr>, [PostListingInterestOf (tb_current s) l])"
| "tenant_browse_step s (InterestFromDetail l) =
     (s\<lparr>tb_pending := True\<rparr>, [PostListingInterestOf (tb_current s) l, goto [(js ''listingId'', None)] s])"
| "tenant_browse_step s InterestOk =
     (s\<lparr>tb_pending := False\<rparr>, [RefetchBrowse (qk_listingsBrowse (or_else [] (tb_current s))), RefetchBrowse qk_matched])"
| "tenant_browse_step s InterestFailed = (s\<lparr>tb_pending := False\<rparr>, [])"
| "tenant_browse_step s (BrowseLoaded d) = (s\<lparr>tb_items := d\<rparr>, [])"
| "tenant_browse_step s (DetailLoaded d) = (s\<lparr>tb_detailFull := d\<rparr>, [])"
| "tenant_browse_step s (Navigated ps) = (s\<lparr>tb_params := ps\<rparr>, [])"

definition browse_report :: "matched_listing_card \<Rightarrow> (jstr \<times> jstr) option" where
  "browse_report l = (case mc_landlord_id l of None \<Rightarrow> None | Some r \<Rightarrow> if r \<noteq> [] then Some (r, mc_id l) else None)"

definition browse_card :: "tenant_browse \<Rightarrow> matched_listing_card \<Rightarrow> tenant_browse_event node" where
  "browse_card s l = listing_card l 0 ListingMoved ListingMoved (OpenListing (mc_id l)) None
     [if mc_interest_sent l then Txt t_tb_sent else Btn (tb_pending s) (Interest (mc_id l)) [Txt t_tb_interest]]
     (map_option ReportListing (browse_report l))"

definition browse_detail :: "(jstr \<Rightarrow> jstr) \<Rightarrow> (rat \<Rightarrow> jstr) \<Rightarrow> tenant_browse \<Rightarrow> tenant_browse_event node list" where
  "browse_detail encode num s = (case detailListing s of None \<Rightarrow> []
     | Some l \<Rightarrow> [listing_detail_dialog encode num l 0 ListingMoved ListingMoved CloseListing
         [if mc_interest_sent l then Txt t_tb_sent_waiting else Btn False (InterestFromDetail (mc_id l)) [Txt t_tb_interest]] None])"

definition browse_header :: "tenant_browse \<Rightarrow> tenant_browse_event node list" where
  "browse_header s =
     [Txt t_tb_using, dropdown_field (or_else [] (tb_current s)) t_tb_choose
        (map (\<lambda>p. \<lparr>oi_value = tp_id p, oi_label = tp_name p\<rparr>) (active_profiles s)) False SelectProfileCard,
      Box (map (\<lambda>(k, label). Btn False (PushFilterKey k) [Mark (browse_filter s = k) [Txt label]])
        [(js ''all'', t_tb_all), (js ''open'', t_tb_open), (js ''sent'', t_tb_sent)])]"

definition tenant_browse_view :: "(jstr \<Rightarrow> jstr) \<Rightarrow> (rat \<Rightarrow> jstr) \<Rightarrow> tenant_browse \<Rightarrow> tenant_browse_event node" where
  "tenant_browse_view encode num s =
     (if active_profiles s = [] then empty_state t_tb_no_profile (Some t_tb_no_profile_hint) (Some (t_tb_go, GoToProfiles))
      else Box (browse_header s
        @ shown (tb_items s \<noteq> Loading \<and> tb_allItems s = []) [empty_state t_tb_none (Some t_tb_none_hint) None]
        @ shown (tb_items s \<noteq> Loading \<and> tb_allItems s \<noteq> [] \<and> shown_items s = []) [Txt t_tb_empty]
        @ map (browse_card s) (shown_items s) @ browse_detail encode num s
        @ report_dialog (tb_report s) CloseReportListing))"

section \<open>Landlords browse tenants\<close>

record landlord_browse =
  bb_listings :: "listing list"
  bb_selected :: "jstr option"
  bb_items :: "matched_tenant_profile_card list fetched"
  bb_report :: "jstr option"

definition active_listings :: "landlord_browse \<Rightarrow> listing list" where
  "active_listings s = filter (\<lambda>l. li_status l = js ''active'') (bb_listings s)"

definition bb_current :: "landlord_browse \<Rightarrow> jstr option" where
  "bb_current s = current_id (map li_id (active_listings s)) (bb_selected s)"

definition bb_profiles :: "landlord_browse \<Rightarrow> matched_tenant_profile_card list" where
  "bb_profiles s = (case bb_items s of Loaded xs \<Rightarrow> xs | _ \<Rightarrow> [])"

datatype landlord_browse_event =
    ChooseListing jstr | GoToListings | InterestIn jstr | InterestInOk | InterestInFailed
  | ReportSeeker jstr | CloseReportSeeker | SeekersLoaded "matched_tenant_profile_card list fetched"

datatype landlord_browse_out =
    OnChooseListing jstr | OnGoToListings | PostProfileInterest "jstr option" jstr | RefetchSeekers query_key

fun landlord_browse_step :: "landlord_browse \<Rightarrow> landlord_browse_event \<Rightarrow> landlord_browse \<times> landlord_browse_out list" where
  "landlord_browse_step s (ChooseListing i) = (s, [OnChooseListing i])"
| "landlord_browse_step s GoToListings = (s, [OnGoToListings])"
| "landlord_browse_step s (InterestIn p) = (s, [PostProfileInterest (bb_current s) p])"
| "landlord_browse_step s InterestInOk = (s, [RefetchSeekers (qk_profilesBrowse (or_else [] (bb_current s)))])"
| "landlord_browse_step s InterestInFailed = (s, [])"
| "landlord_browse_step s (ReportSeeker t) = (s\<lparr>bb_report := Some t\<rparr>, [])"
| "landlord_browse_step s CloseReportSeeker = (s\<lparr>bb_report := None\<rparr>, [])"
| "landlord_browse_step s (SeekersLoaded d) = (s\<lparr>bb_items := d\<rparr>, [])"

definition browse_options :: "(int \<Rightarrow> jstr) \<Rightarrow> landlord_browse \<Rightarrow> option_item list" where
  "browse_options money s = map (\<lambda>l. \<lparr>oi_value = li_id l,
     oi_label = (if li_name l \<noteq> [] then li_name l
       else js ''$'' @ money (li_rent l) @ js '' '' @ or_else (li_room_type l) (map_of ROOM_TYPE_LABELS (li_room_type l)))\<rparr>)
     (active_listings s)"

definition seeker_card :: "(jstr \<Rightarrow> bool) \<Rightarrow> matched_tenant_profile_card \<Rightarrow> landlord_browse_event node" where
  "seeker_card passed p = tenant_profile_card passed p (InterestIn (tc_id p))
     (case tc_tenant_id p of None \<Rightarrow> None | Some t \<Rightarrow> if t \<noteq> [] then Some (ReportSeeker t) else None)"

definition landlord_browse_view :: "(int \<Rightarrow> jstr) \<Rightarrow> (jstr \<Rightarrow> bool) \<Rightarrow> landlord_browse \<Rightarrow> landlord_browse_event node" where
  "landlord_browse_view money passed s =
     (if active_listings s = [] then empty_state t_bb_no_listing (Some t_bb_no_listing_hint) (Some (t_bb_go, GoToListings))
      else Box ([Txt t_bb_using, dropdown_field (or_else [] (bb_current s)) t_bb_choose (browse_options money s) False ChooseListing]
        @ shown (bb_items s \<noteq> Loading \<and> bb_profiles s = []) [empty_state t_bb_none (Some t_bb_none_hint) None]
        @ map (seeker_card passed) (bb_profiles s) @ report_dialog (bb_report s) CloseReportSeeker))"

section \<open>What the tabs offer\<close>

lemma browse_header_offers [simp]:
  "\<not> list_ex (\<lambda>n. offers n (Interest l)) (browse_header s)"
  "\<not> list_ex (\<lambda>n. offers n (InterestFromDetail l)) (browse_header s)"
  by (auto simp: browse_header_def)

lemma browse_card_offers:
  "offers (browse_card s c) (Interest l) \<longleftrightarrow> \<not> mc_interest_sent c \<and> \<not> tb_pending s \<and> mc_id c = l"
  "\<not> offers (browse_card s c) (InterestFromDetail l)"
  by (auto simp: browse_card_def listing_card_offers)

lemma browse_detail_offers:
  "\<not> list_ex (\<lambda>n. offers n (Interest l)) (browse_detail enc num s)"
  "list_ex (\<lambda>n. offers n (InterestFromDetail l)) (browse_detail enc num s) \<longleftrightarrow>
     (\<exists>c. detailListing s = Some c \<and> \<not> mc_interest_sent c \<and> mc_id c = l)"
  by (auto simp: browse_detail_def detail_dialog_offers split: option.splits)

lemma browse_view_offers:
  "offers (tenant_browse_view enc num s) (Interest l) \<longleftrightarrow> active_profiles s \<noteq> [] \<and> \<not> tb_pending s
     \<and> (\<exists>c \<in> set (shown_items s). \<not> mc_interest_sent c \<and> mc_id c = l)"
  "offers (tenant_browse_view enc num s) (InterestFromDetail l) \<longleftrightarrow> active_profiles s \<noteq> []
     \<and> (\<exists>c. detailListing s = Some c \<and> \<not> mc_interest_sent c \<and> mc_id c = l)"
  by (auto simp: tenant_browse_view_def browse_card_offers browse_detail_offers list_ex_iff [of _ "map (browse_card _) _"])

lemma seeker_offers:
  "offers (landlord_browse_view money passed s) (InterestIn p) \<longleftrightarrow> active_listings s \<noteq> []
     \<and> (\<exists>c \<in> set (bb_profiles s). \<not> tc_interest_sent c \<and> tc_id c = p)"
proof -
  have "offers (seeker_card passed c) (InterestIn p) \<longleftrightarrow> \<not> tc_interest_sent c \<and> tc_id c = p" for c
    by (auto simp: seeker_card_def tenant_profile_card_offers split: option.splits)
  then show ?thesis
    by (auto simp: landlord_browse_view_def list_ex_iff [of _ "map (seeker_card _) _"])
qed

text \<open>
  A listing that is not in the list, opened through the page's address, offers interest whatever the
  API says about interest already sent.
\<close>

lemma fallback_offers_interest:
  "active_profiles s \<noteq> [] \<Longrightarrow> tb_allItems s = [] \<Longrightarrow> tb_detailFull s = Some l \<Longrightarrow>
     offers (tenant_browse_view enc num s) (InterestFromDetail (mc_id l))"
  by (simp add: browse_view_offers detailListing_def)

section \<open>Properties\<close>

text \<open>Which cached queries an answer refetches.\<close>

definition tenant_browse_refetches :: "tenant_browse \<Rightarrow> tenant_browse_event \<Rightarrow> query \<Rightarrow> bool" where
  "tenant_browse_refetches s e q \<longleftrightarrow>
     list_ex (\<lambda>out. case out of RefetchBrowse k \<Rightarrow> invalidates k (q_key q) | _ \<Rightarrow> False) (snd (tenant_browse_step s e))"

definition landlord_browse_refetches :: "landlord_browse \<Rightarrow> landlord_browse_event \<Rightarrow> query \<Rightarrow> bool" where
  "landlord_browse_refetches s e q \<longleftrightarrow>
     list_ex (\<lambda>out. case out of RefetchSeekers k \<Rightarrow> invalidates k (q_key q) | _ \<Rightarrow> False) (snd (landlord_browse_step s e))"

text \<open>The interest both sides send for the entry in use.\<close>

lemma tenant_interest:
  assumes "tb_current s = Some i"
  shows "snd (tenant_browse_step s (Interest l)) = [PostListingInterestOf (Some i) l]"
    and "snd (tenant_browse_step s (InterestFromDetail l)) =
      PostListingInterestOf (Some i) l # snd (tenant_browse_step s CloseListing)"
    and "q \<in> client_queries \<Longrightarrow> tenant_browse_refetches s InterestOk q \<longleftrightarrow> q = useListingsBrowse i \<or> q = useMatched"
  by (simp_all add: assms tenant_browse_refetches_def or_else_def reach_listingsBrowse reach_matched)

lemma landlord_interest:
  assumes "bb_current t = Some i"
  shows "snd (landlord_browse_step t (InterestIn p)) = [PostProfileInterest (Some i) p]"
    and "q \<in> client_queries \<Longrightarrow> landlord_browse_refetches t InterestInOk q \<longleftrightarrow> q = useProfilesBrowse i"
  by (simp_all add: assms landlord_browse_refetches_def or_else_def reach_profilesBrowse)

text \<open>Which entry a page works with: the selected one while it is among the active ones, else the first of these.\<close>

definition in_use :: "jstr option \<Rightarrow> jstr list \<Rightarrow> jstr" where
  "in_use selected active = (if selected \<in> Some ` set active then the selected else hd active)"

lemma current_in_use: "active \<noteq> [] \<Longrightarrow> current_id active selected = Some (in_use selected active)"
  by (cases active) (auto simp: in_use_def current_id_selected current_id_first)

text \<open>
  C36. Interest goes out for what is on display, in the name of what is selected. A browsing page offers it
  exactly for the entries shown without one, the tenants' detail dialog for its listing. The request names
  that entry, and the selected profile (or listing) while that is active, else the first active one; sent
  from the detail dialog it also closes the dialog. Of everything the client caches, a success refetches
  exactly the list of the profile in use and the matches for tenants, and only the list of the listing in
  use for landlords: the interests already sent are refetched for neither side.
\<close>

theorem browse_interest:
  assumes "q \<in> client_queries"
  shows "(offers (tenant_browse_view enc num s) (Interest l) \<longleftrightarrow> active_profiles s \<noteq> [] \<and> \<not> tb_pending s \<and>
      (\<exists>c \<in> set (shown_items s). \<not> mc_interest_sent c \<and> mc_id c = l)) \<and>
    (offers (tenant_browse_view enc num s) (InterestFromDetail l) \<longleftrightarrow> active_profiles s \<noteq> [] \<and>
      (\<exists>c. detailListing s = Some c \<and> \<not> mc_interest_sent c \<and> mc_id c = l)) \<and>
    (active_profiles s \<noteq> [] \<longrightarrow> (let i = in_use (tb_selected s) (map tp_id (active_profiles s)) in
      snd (tenant_browse_step s (Interest l)) = [PostListingInterestOf (Some i) l] \<and>
      snd (tenant_browse_step s (InterestFromDetail l)) =
        PostListingInterestOf (Some i) l # snd (tenant_browse_step s CloseListing) \<and>
      (tenant_browse_refetches s InterestOk q \<longleftrightarrow> q = useListingsBrowse i \<or> q = useMatched))) \<and>
    (offers (landlord_browse_view money passed t) (InterestIn p) \<longleftrightarrow> active_listings t \<noteq> [] \<and>
      (\<exists>c \<in> set (bb_profiles t). \<not> tc_interest_sent c \<and> tc_id c = p)) \<and>
    (active_listings t \<noteq> [] \<longrightarrow> (let j = in_use (bb_selected t) (map li_id (active_listings t)) in
      snd (landlord_browse_step t (InterestIn p)) = [PostProfileInterest (Some j) p] \<and>
      (landlord_browse_refetches t InterestInOk q \<longleftrightarrow> q = useProfilesBrowse j)))"
proof -
  have "tb_current s = Some (in_use (tb_selected s) (map tp_id (active_profiles s)))" if "active_profiles s \<noteq> []"
    unfolding tb_current_def using that by (intro current_in_use) simp
  moreover have "bb_current t = Some (in_use (bb_selected t) (map li_id (active_listings t)))" if "active_listings t \<noteq> []"
    unfolding bb_current_def using that by (intro current_in_use) simp
  ultimately show ?thesis
    using assms tenant_interest landlord_interest by (simp add: browse_view_offers seeker_offers Let_def)
qed

definition example_browse :: tenant_browse where
  "example_browse = \<lparr>tb_profiles = [], tb_selected = None, tb_items = Loading, tb_detailFull = None,
     tb_params = [(js ''tab'', js ''listings''), (js ''listingId'', js ''L'')], tb_report = None, tb_pending = False\<rparr>"

text \<open>A tenant with three profiles, the last one selected, and a landlord whose selected listing is no longer active.\<close>

definition sample_profile :: "jstr \<Rightarrow> bool \<Rightarrow> tenant_profile" where
  "sample_profile i active = \<lparr>tp_id = i, tp_tenant_id = [], tp_name = i, tp_budget_min = 0, tp_budget_max = 20000,
     tp_locations = [], tp_preferred_room_types = [], tp_available_from = [], tp_min_lease_months = 12,
     tp_min_area_ping = None, tp_has_pets = False, tp_pet_description = None, tp_needs_subsidy = False,
     tp_needs_tax_receipt = False, tp_needs_household_registration = False, tp_needs_cooking = False,
     tp_needs_parking = False, tp_smoking = False, tp_occupation = None, tp_age = None, tp_description = None,
     tp_contact_info = None, tp_is_active = active, tp_created_at = [], tp_updated_at = []\<rparr>"

definition sample_listing :: "jstr \<Rightarrow> jstr \<Rightarrow> listing" where
  "sample_listing i status = \<lparr>li_id = i, li_landlord_id = [], li_location_id = [], li_address = None, li_name = i,
     li_rent = 12000, li_management_fee = 0, li_room_type = js ''suite'', li_area_ping = 8, li_num_bedrooms = None,
     li_num_living_rooms = None, li_num_bathrooms = None, li_num_balconies = None, li_available_from = [],
     li_min_lease_months = 12, li_allow_pets = False, li_allow_subsidy = False, li_allow_tax_receipt = False,
     li_allow_household_registration = False, li_allow_cooking = False, li_has_parking = False,
     li_allow_smoking = False, li_description = None, li_contact_info = None, li_status = status, li_photos = [],
     li_lat = None, li_lng = None, li_created_at = [], li_updated_at = []\<rparr>"

definition sample_card :: "jstr \<Rightarrow> bool \<Rightarrow> matched_listing_card" where
  "sample_card i sent = \<lparr>mc_id = i, mc_location_id = [], mc_name = i, mc_rent = 12000, mc_management_fee = 0,
     mc_room_type = js ''suite'', mc_area_ping = 8, mc_num_bedrooms = None, mc_num_living_rooms = None,
     mc_num_bathrooms = None, mc_num_balconies = None, mc_available_from = [], mc_allow_pets = False,
     mc_allow_subsidy = False, mc_allow_tax_receipt = False, mc_allow_household_registration = False,
     mc_allow_cooking = False, mc_has_parking = False, mc_allow_smoking = False, mc_photos = [],
     mc_interest_sent = sent, mc_address = None, mc_description = None, mc_lat = None, mc_lng = None,
     mc_landlord_id = None\<rparr>"

definition busy_browse :: tenant_browse where
  "busy_browse = example_browse\<lparr>tb_profiles := [sample_profile (js ''A'') False, sample_profile (js ''B'') True,
       sample_profile (js ''C'') True], tb_selected := Some (js ''C''),
     tb_items := Loaded [sample_card (js ''L'') True, sample_card (js ''M'') False]\<rparr>"

definition busy_landlord :: landlord_browse where
  "busy_landlord = \<lparr>bb_listings = [sample_listing (js ''X'') (js ''rented''), sample_listing (js ''Y'') (js ''active'')],
     bb_selected = Some (js ''X''), bb_items = Loading, bb_report = None\<rparr>"

lemma browse_interest_witness:
  "offers (tenant_browse_view id (\<lambda>q. []) busy_browse) (Interest (js ''M'')) \<and>
   \<not> offers (tenant_browse_view id (\<lambda>q. []) busy_browse) (Interest (js ''L'')) \<and>
   snd (tenant_browse_step busy_browse (Interest (js ''M''))) = [PostListingInterestOf (Some (js ''C'')) (js ''M'')] \<and>
   tenant_browse_refetches busy_browse InterestOk useMatched \<and>
   \<not> tenant_browse_refetches busy_browse InterestOk useOutgoing \<and>
   snd (landlord_browse_step busy_landlord (InterestIn (js ''p''))) = [PostProfileInterest (Some (js ''Y'')) (js ''p'')] \<and>
   \<not> landlord_browse_refetches busy_landlord InterestInOk useMatched"
proof -
  have a: "active_profiles busy_browse = [sample_profile (js ''B'') True, sample_profile (js ''C'') True]"
    by (simp add: active_profiles_def busy_browse_def example_browse_def sample_profile_def)
  have b: "active_listings busy_landlord = [sample_listing (js ''Y'') (js ''active'')]"
    by (simp add: active_listings_def busy_landlord_def sample_listing_def js_def)
  have use: "in_use (tb_selected busy_browse) (map tp_id (active_profiles busy_browse)) = js ''C''"
    "in_use (bb_selected busy_landlord) (map li_id (active_listings busy_landlord)) = js ''Y''"
    unfolding a b by (simp_all add: in_use_def busy_browse_def busy_landlord_def example_browse_def
      sample_profile_def sample_listing_def js_def)
  have items: "shown_items busy_browse = [sample_card (js ''L'') True, sample_card (js ''M'') False]"
    by (simp add: shown_items_def browse_filter_def tb_allItems_def busy_browse_def example_browse_def or_else_def js_def)
  have some: "active_profiles busy_browse \<noteq> []" "active_listings busy_landlord \<noteq> []" unfolding a b by simp_all
  note known = browse_interest [where s = busy_browse and t = busy_landlord and enc = id and num = "\<lambda>q. []"
      and money = "\<lambda>n. []" and passed = "\<lambda>d. True", unfolded use items Let_def]
  show ?thesis
    using some known [of useMatched "js ''M''" "js ''p''"] known [of useOutgoing "js ''L''" "js ''p''"] in_client_queries(1,2)
    by (auto simp: hook_defs qk_defs busy_browse_def example_browse_def sample_card_def js_def)
qed

text \<open>
  C37. The page's address carries the browsing state: following the address a filter button pushes selects
  that filter and closes the open listing, the one a card pushes opens that listing under the same
  filter, the one the dialog pushes closes it; all other parameters stay as they are.
\<close>

theorem browse_navigation:
  "(\<exists>ps. snd (tenant_browse_step s (PushFilterKey k)) = [PushParams ps] \<and>
      browse_filter (s\<lparr>tb_params := ps\<rparr>) = k \<and> map_of ps (js ''listingId'') = None \<and>
      (\<forall>j. j \<notin> {js ''filter'', js ''listingId''} \<longrightarrow> map_of ps j = map_of (tb_params s) j)) \<and>
   (\<exists>ps. snd (tenant_browse_step s (OpenListing i)) = [PushParams ps] \<and> map_of ps (js ''listingId'') = Some i \<and>
      shown_items (s\<lparr>tb_params := ps\<rparr>) = shown_items s \<and>
      (\<forall>j. j \<noteq> js ''listingId'' \<longrightarrow> map_of ps j = map_of (tb_params s) j)) \<and>
   (\<exists>ps. snd (tenant_browse_step s CloseListing) = [PushParams ps] \<and> map_of ps (js ''listingId'') = None \<and>
      shown_items (s\<lparr>tb_params := ps\<rparr>) = shown_items s \<and>
      (\<forall>j. j \<noteq> js ''listingId'' \<longrightarrow> map_of ps j = map_of (tb_params s) j))"
proof -
  have keep: "map_of ps (js ''filter'') = map_of (tb_params s) (js ''filter'') \<Longrightarrow> shown_items (s\<lparr>tb_params := ps\<rparr>) = shown_items s" for ps
    by (simp add: shown_items_def browse_filter_def tb_allItems_def)
  show ?thesis
    by (auto simp: goto_def get_delete get_set keep browse_filter_def filter_updates_def or_else_def)
qed

lemma browse_navigation_witness:
  "\<exists>ps. snd (tenant_browse_step example_browse (PushFilterKey (js ''sent''))) = [PushParams ps] \<and>
     map_of ps (js ''tab'') = Some (js ''listings'') \<and> map_of ps (js ''listingId'') = None"
proof -
  have "map_of (tb_params example_browse) (js ''tab'') = Some (js ''listings'')" by (simp add: example_browse_def)
  moreover have "js ''tab'' \<notin> {js ''filter'', js ''listingId''}" by simp
  ultimately show ?thesis
    using browse_navigation [of example_browse "js ''sent''" "[]"] by (metis (no_types, lifting))
qed

end
