(* ===== verification/Account.thy ===== *)
theory Account
  imports Forms "HOL-Library.Word"
begin

text \<open>
  Signing in and getting around: the header (\<open>src/apps/web/components/layout/DashboardHeader.tsx\<close>), the
  landing page (\<open>app/page.tsx\<close>), onboarding (\<open>app/onboarding/page.tsx\<close>) and the account page
  (\<open>app/account/page.tsx\<close>). The text of the terms of service is left out of the onboarding view.
\<close>

section \<open>Where a user belongs\<close>

record me =
  m_email :: jstr
  m_name :: jstr
  m_avatar_url :: jstr
  m_roles :: "jstr list option"

definition homeHref :: "me option \<Rightarrow> jstr" where
  "homeHref m = (let roles = (case m of None \<Rightarrow> [] | Some x \<Rightarrow> or_else [] (m_roles x))
     in if js ''landlord'' \<in> set roles then js ''/dashboard/landlord''
        else if js ''tenant'' \<in> set roles then js ''/dashboard/tenant'' else js ''/'')"

text \<open>The landing page redirects once it knows the roles; without a session it stays.\<close>

definition landing_redirect :: "jstr list option fetched \<Rightarrow> jstr option" where
  "landing_redirect r = (case r of
     Loaded roles \<Rightarrow> (if js ''landlord'' \<in> set (or_else [] roles) then Some (js ''/dashboard/landlord'')
       else if js ''tenant'' \<in> set (or_else [] roles) then Some (js ''/dashboard/tenant'') else None)
   | _ \<Rightarrow> None)"

text \<open>\<open>apiBase\<close> is the \<open>NEXT_PUBLIC_API_URL\<close> of the build.\<close>

definition landing_view :: "jstr \<Rightarrow> 'e node" where
  "landing_view apiBase = Box [Txt (js ''Zumeet''), Txt t_lp_tagline, Txt t_lp_title, Txt t_lp_google_only,
     Link (apiBase @ js ''/api/v1/auth/google'') [Txt t_lp_continue], Txt t_lp_disclaimer_1, Txt t_lp_disclaimer_2]"

text \<open>\<open>me.name || me.email.split("@")[0] || me.email\<close>\<close>

definition displayName :: "me \<Rightarrow> jstr" where
  "displayName m = (if m_name m \<noteq> [] then m_name m
     else let local = takeWhile (\<lambda>c. c \<noteq> 64) (m_email m) in if local \<noteq> [] then local else m_email m)"

section \<open>The avatar\<close>

definition AVATAR_COLORS :: "jstr list" where
  "AVATAR_COLORS = [js ''#0052CC'', js ''#00875A'', js ''#5243AA'', js ''#DE350B'', js ''#FF8B00'', js ''#00A3BF'', js ''#6554C0'']"

text \<open>
  JavaScript's \<open>h << 5\<close>: the number is reduced to 32 bits, shifted, and read as signed. The
  subtraction and the sum around it are on plain numbers.
\<close>

definition shl5 :: "int \<Rightarrow> int" where
  "shl5 h = sint (push_bit 5 (word_of_int h :: 32 word))"

definition hash_step :: "int \<Rightarrow> nat \<Rightarrow> int" where
  "hash_step h c = int c + (shl5 h - h)"

definition avatar_hash :: "jstr \<Rightarrow> int" where
  "avatar_hash name = foldl hash_step 0 name"

definition avatarColor :: "jstr \<Rightarrow> jstr" where
  "avatarColor name = AVATAR_COLORS ! nat (\<bar>avatar_hash name\<bar> mod int (length AVATAR_COLORS))"

text \<open>\<open>upper\<close> is \<open>toUpperCase\<close> on the first character.\<close>

definition avatar :: "(jstr \<Rightarrow> jstr) \<Rightarrow> me \<Rightarrow> 'e node" where
  "avatar upper m = (if m_avatar_url m \<noteq> [] then Img (m_avatar_url m)
     else Box [Txt (avatarColor (displayName m)), Txt (upper (take 1 (displayName m)))])"

section \<open>Header\<close>

datatype header_event = ToggleHeader | HeaderOutside | HeaderEscape | GoAccount | Logout | LoggedOut | LogoutFailed

datatype header_out = PostLogout | GoTo jstr

fun header_step :: "bool \<Rightarrow> header_event \<Rightarrow> bool \<times> header_out list" where
  "header_step opened ToggleHeader = (\<not> opened, [])"
| "header_step opened HeaderOutside = (False, [])"
| "header_step opened HeaderEscape = (False, [])"
| "header_step opened GoAccount = (False, [GoTo (js ''/account'')])"
| "header_step opened Logout = (opened, [PostLogout])"
| "header_step opened LoggedOut = (opened, [GoTo (js ''/'')])"
| "header_step opened LogoutFailed = (opened, [])"

definition header_view :: "(jstr \<Rightarrow> jstr) \<Rightarrow> me option \<Rightarrow> bool \<Rightarrow> header_event node" where
  "header_view upper m opened = Box (Link (homeHref m) [Txt (js ''Zumeet'')]
     # (case m of None \<Rightarrow> [] | Some x \<Rightarrow> [Box (Btn False ToggleHeader [avatar upper x]
          # shown opened [Btn False GoAccount [Txt t_dh_account], Btn False Logout [Txt t_dh_logout]])]))"

section \<open>Account page\<close>

record account =
  ac_name :: jstr
  ac_contact :: jstr
  ac_errors :: "(jstr \<times> jstr) list"
  ac_submitting :: bool
  ac_saved :: bool
  ac_error :: jstr

definition account_init :: account where
  "account_init = \<lparr>ac_name = [], ac_contact = [], ac_errors = [], ac_submitting = False, ac_saved = False, ac_error = []\<rparr>"

datatype account_event = MeArrived me_response | SetName jstr | SetContact jstr | SaveAccount | AccountSaved | AccountFailed

datatype account_out = PutMe jstr jstr | RefetchMe query_key

definition account_rules :: "account \<Rightarrow> field_rules" where
  "account_rules s = [(js ''name'', VStr (ac_name s), [Required t_ac_name_required]),
     (js ''contact_info'', VStr (ac_contact s), [Required t_ac_contact_required])]"

definition save_account :: "validator \<Rightarrow> account \<Rightarrow> account \<times> account_out list" where
  "save_account validate s = (let errors = validate (account_rules s) in
     if errors \<noteq> [] then (s\<lparr>ac_errors := errors\<rparr>, [])
     else (s\<lparr>ac_errors := [], ac_error := [], ac_saved := False, ac_submitting := True\<rparr>,
           [PutMe (trim (ac_name s)) (trim (ac_contact s))]))"

fun account_step :: "validator \<Rightarrow> account \<Rightarrow> account_event \<Rightarrow> account \<times> account_out list" where
  "account_step validate s (MeArrived m) = (s\<lparr>ac_name := me_name m, ac_contact := me_contact_info m\<rparr>, [])"
| "account_step validate s (SetName t) = (s\<lparr>ac_name := t\<rparr>, [])"
| "account_step validate s (SetContact t) = (s\<lparr>ac_contact := t\<rparr>, [])"
| "account_step validate s SaveAccount = save_account validate s"
| "account_step validate s AccountSaved = (s\<lparr>ac_submitting := False, ac_saved := True\<rparr>, [RefetchMe qk_me])"
| "account_step validate s AccountFailed = (s\<lparr>ac_submitting := False, ac_error := t_ac_failed\<rparr>, [])"

definition account_view :: "account \<Rightarrow> account_event node" where
  "account_view s = Box [Txt t_ac_title, Txt t_ac_hint, Form SaveAccount (
     [Txt t_ac_name, star, Inp False (ac_name s) SetName] @ field_error_node (ac_errors s) (js ''name'')
     @ [Txt t_ac_contact, star, Inp False (ac_contact s) SetContact]
     @ (case map_of (ac_errors s) (js ''contact_info'') of Some m \<Rightarrow> [Txt m] | None \<Rightarrow> [Txt t_ac_contact_hint])
     @ shown (ac_error s \<noteq> []) [Txt (ac_error s)] @ shown (ac_saved s) [Txt t_ac_saved]
     @ [Submit (ac_submitting s) [Txt (if ac_submitting s then t_ac_saving else t_ac_save)]])]"

section \<open>Onboarding\<close>

text \<open>\<open>ob_request\<close> is the role of the request under way: its continuation reads the role it was sent with.\<close>

record onboarding =
  ob_role :: jstr
  ob_agreed :: bool
  ob_oauthState :: jstr
  ob_loading :: bool
  ob_error :: jstr
  ob_request :: "jstr option"

definition onboarding_init :: onboarding where
  "onboarding_init = \<lparr>ob_role = [], ob_agreed = False, ob_oauthState = [], ob_loading = False, ob_error = [],
     ob_request = None\<rparr>"

datatype onboarding_event =
    StateParam "jstr option" | ChooseRole jstr | Agree bool | SubmitOnboarding | Onboarded | OnboardingFailed thrown

datatype onboarding_out = PostOnboarding jstr bool jstr | PushDashboard jstr

definition submit_onboarding :: "onboarding \<Rightarrow> onboarding \<times> onboarding_out list" where
  "submit_onboarding s = (if ob_role s = [] \<or> \<not> ob_agreed s \<or> ob_oauthState s = [] then (s, [])
     else (s\<lparr>ob_loading := True, ob_error := [], ob_request := Some (ob_role s)\<rparr>,
           [PostOnboarding (ob_role s) True (ob_oauthState s)]))"

fun onboarding_step :: "onboarding \<Rightarrow> onboarding_event \<Rightarrow> onboarding \<times> onboarding_out list" where
  "onboarding_step s (StateParam p) =
     (case p of None \<Rightarrow> (s\<lparr>ob_error := t_ob_no_state\<rparr>, [])
      | Some st \<Rightarrow> if st = [] then (s\<lparr>ob_error := t_ob_no_state\<rparr>, []) else (s\<lparr>ob_oauthState := st\<rparr>, []))"
| "onboarding_step s (ChooseRole r) = (s\<lparr>ob_role := r\<rparr>, [])"
| "onboarding_step s (Agree b) = (s\<lparr>ob_agreed := b\<rparr>, [])"
| "onboarding_step s SubmitOnboarding = submit_onboarding s"
| "onboarding_step s Onboarded = (s\<lparr>ob_loading := False, ob_request := None\<rparr>,
     [PushDashboard (if ob_request s = Some (js ''tenant'') then js ''/dashboard/tenant'' else js ''/dashboard/landlord'')])"
| "onboarding_step s (OnboardingFailed err) =
     (s\<lparr>ob_loading := False, ob_error := error_or t_ob_failed err, ob_request := None\<rparr>, [])"

definition role_card :: "bool \<Rightarrow> 'e \<Rightarrow> jstr \<Rightarrow> jstr \<Rightarrow> 'e node" where
  "role_card selected onClick title desc = Btn False onClick [Mark selected [Txt title, Txt desc]]"

definition onboarding_view :: "onboarding \<Rightarrow> onboarding_event node" where
  "onboarding_view s = Box [Txt t_ob_title, Txt t_ob_hint, Form SubmitOnboarding (
     [Txt t_ob_role, role_card (ob_role s = js ''tenant'') (ChooseRole (js ''tenant'')) t_ob_tenant t_ob_tenant_desc,
      role_card (ob_role s = js ''landlord'') (ChooseRole (js ''landlord'')) t_ob_landlord t_ob_landlord_desc,
      Txt t_ob_tos, Chk (ob_agreed s) Agree [Txt t_ob_agree]]
     @ shown (ob_error s \<noteq> []) [Txt (ob_error s)]
     @ [Submit (ob_role s = [] \<or> \<not> ob_agreed s \<or> ob_oauthState s = [] \<or> ob_loading s)
          [Txt (if ob_loading s then t_ob_wait else t_ob_done)]])]"

fun onboarding_can :: "onboarding \<Rightarrow> onboarding_event \<Rightarrow> bool" where
  "onboarding_can s (StateParam p) = True"
| "onboarding_can s Onboarded = (ob_request s \<noteq> None)"
| "onboarding_can s (OnboardingFailed err) = (ob_request s \<noteq> None)"
| "onboarding_can s e = offers (onboarding_view s) e"

section \<open>The hash of a name\<close>

lemma shl5_range: "- (2 ^ 31) \<le> shl5 h \<and> shl5 h < 2 ^ 31"
  using sint_ge [of "push_bit 5 (word_of_int h :: 32 word)"] sint_lt [of "push_bit 5 (word_of_int h :: 32 word)"]
  by (simp add: shl5_def)

lemma word_shl5: "(word_of_int (shl5 h) :: 32 word) = 32 * word_of_int h"
  by (simp add: shl5_def push_bit_eq_mult)

lemma hash_step_bound:
  assumes "c < 65536"
  shows "\<bar>hash_step h c\<bar> \<le> \<bar>h\<bar> + (2 ^ 31 + 65535)"
  using shl5_range [of h] assms unfolding hash_step_def by linarith

lemma avatar_hash_snoc: "avatar_hash (name @ [c]) = hash_step (avatar_hash name) c"
  by (simp add: avatar_hash_def)

text \<open>The usual polynomial hash of a string, on 32-bit words.\<close>

definition horner31 :: "jstr \<Rightarrow> 32 word" where
  "horner31 name = foldl (\<lambda>w c. 31 * w + of_nat c) 0 name"

lemma avatar_hash_horner: "(word_of_int (avatar_hash name) :: 32 word) = horner31 name"
proof (induction name rule: rev_induct)
  case (snoc c name)
  have "(word_of_int (hash_step h c) :: 32 word) = 31 * word_of_int h + of_nat c" for h
    by (simp add: hash_step_def word_shl5)
  then show ?case using snoc by (simp add: avatar_hash_snoc horner31_def)
qed (simp add: avatar_hash_def horner31_def)

lemma avatar_hash_bound:
  "\<forall>c \<in> set name. c < 65536 \<Longrightarrow> \<bar>avatar_hash name\<bar> \<le> int (length name) * (2 ^ 31 + 65535)"
proof (induction name rule: rev_induct)
  case (snoc c name)
  then have "\<bar>hash_step (avatar_hash name) c\<bar> \<le> \<bar>avatar_hash name\<bar> + (2 ^ 31 + 65535)"
    by (intro hash_step_bound) simp
  with snoc show ?case by (simp add: avatar_hash_snoc algebra_simps)
qed (simp add: avatar_hash_def)

lemma avatarColor_in: "avatarColor name \<in> set AVATAR_COLORS"
  unfolding avatarColor_def by (rule nth_mem) (simp add: AVATAR_COLORS_def nat_less_iff)

section \<open>Reachable states of onboarding\<close>

definition roles_offered :: "jstr set" where
  "roles_offered = {js ''tenant'', js ''landlord''}"

definition onboarding_inv :: "onboarding \<Rightarrow> bool" where
  "onboarding_inv s \<longleftrightarrow> (ob_role s = [] \<or> ob_role s \<in> roles_offered) \<and> (ob_loading s \<longleftrightarrow> ob_request s \<noteq> None) \<and>
     (\<forall>r. ob_request s = Some r \<longrightarrow> r \<in> roles_offered)"

lemma onboarding_offers:
  "offers (onboarding_view s) (ChooseRole r) \<longleftrightarrow> r \<in> roles_offered"
  "offers (onboarding_view s) SubmitOnboarding \<longleftrightarrow>
     ob_role s \<noteq> [] \<and> ob_agreed s \<and> ob_oauthState s \<noteq> [] \<and> \<not> ob_loading s"
  by (auto simp: onboarding_view_def role_card_def roles_offered_def)

lemma onboarding_inv_step:
  assumes "onboarding_inv s" and "onboarding_can s e"
  shows "onboarding_inv (fst (onboarding_step s e))"
  using assms by (cases e)
    (auto simp: onboarding_inv_def onboarding_offers submit_onboarding_def split: option.splits)

interpretation onb: guarded_machine "\<lambda>s. s = onboarding_init" onboarding_can "\<lambda>s e. fst (onboarding_step s e)" onboarding_inv
  by unfold_locales (rule onboarding_inv_step | simp add: onboarding_inv_def onboarding_init_def)+

abbreviation onboarding_reach :: "onboarding \<Rightarrow> bool" where
  "onboarding_reach \<equiv> reach (\<lambda>s. s = onboarding_init) onboarding_can (\<lambda>s e. fst (onboarding_step s e))"

text \<open>The login state only comes from the page's address.\<close>

lemma no_state_param:
  "run onboarding_can (\<lambda>s e. fst (onboarding_step s e)) s es = Some t \<Longrightarrow> ob_oauthState s = [] \<Longrightarrow>
     \<forall>p. StateParam p \<in> set es \<longrightarrow> p \<in> {None, Some []} \<Longrightarrow> ob_oauthState t = []"
proof (induction es arbitrary: s)
  case (Cons e es)
  then have "ob_oauthState (fst (onboarding_step s e)) = []"
    by (cases e) (auto simp: submit_onboarding_def)
  with Cons show ?case by (auto split: if_splits)
qed simp

section \<open>Account settings\<close>

lemma account_rules_hold: "rules_hold (account_rules s) \<longleftrightarrow> ac_name s \<noteq> [] \<and> ac_contact s \<noteq> []"
  by (simp add: rules_hold_def account_rules_def)

text \<open>
  The rules are about the fields as typed and the request carries them trimmed: contact information
  made of blanks passes and is stored empty, which both forms then treat as missing.
\<close>

lemma blank_contact_stored_empty:
  "ac_name s \<noteq> [] \<Longrightarrow> ac_contact s = js '' '' \<Longrightarrow>
     snd (account_step first_errors s SaveAccount) = [PutMe (trim (ac_name s)) []] \<and>
     contact_missing (Some (m\<lparr>me_contact_info := []\<rparr>))"
proof -
  assume "ac_name s \<noteq> []" and c: "ac_contact s = js '' ''"
  then have "first_errors (account_rules s) = []"
    by (simp add: first_errors_Nil account_rules_hold)
  moreover have "trim (js '' '') = []" by (simp add: js_defs)
  ultimately show ?thesis by (simp add: save_account_def c contact_missing_def)
qed

section \<open>Properties\<close>

text \<open>
  C40. The colour of an initial avatar is one of the palette, and the number it is computed from is the
  polynomial hash of the name modulo 2^32. The code never reduces that number, but for names of up to two
  million code units it stays below 2^53, where JavaScript's arithmetic is exact.
\<close>

theorem avatar_hash_sound:
  assumes "\<forall>c \<in> set name. c < 65536"
  shows "avatarColor name \<in> set AVATAR_COLORS \<and>
    (word_of_int (avatar_hash name) :: 32 word) = horner31 name \<and>
    \<bar>avatar_hash name\<bar> \<le> int (length name) * (2 ^ 31 + 65535) \<and>
    (length name \<le> 2000000 \<longrightarrow> \<bar>avatar_hash name\<bar> < 2 ^ 53)"
proof -
  have b: "\<bar>avatar_hash name\<bar> \<le> int (length name) * (2 ^ 31 + 65535)" using assms by (rule avatar_hash_bound)
  moreover have "\<bar>avatar_hash name\<bar> < 2 ^ 53" if "length name \<le> 2000000"
  proof -
    have "int (length name) * (2 ^ 31 + 65535) \<le> 2000000 * (2 ^ 31 + 65535)"
      using that by (intro mult_right_mono) auto
    with b show ?thesis by simp
  qed
  ultimately show ?thesis using avatarColor_in avatar_hash_horner by blast
qed

lemma avatar_hash_sound_witness:
  "(word_of_int (avatar_hash (js ''Ann'')) :: 32 word) = 65985 \<and> \<bar>avatar_hash (js ''Ann'')\<bar> < 2 ^ 53"
proof -
  have "\<forall>c \<in> set (js ''Ann''). c < 65536" by (simp add: js_def)
  from avatar_hash_sound [OF this] show ?thesis by (simp add: horner31_def js_def)
qed

text \<open>
  Everyone is led where they may enter: the header's home link and the landing page agree, they lead to
  a dashboard exactly when the user has one of the two roles, and the role guard of that dashboard lets
  the user in.
\<close>

theorem home_opens:
  "(homeHref (Some m) = js ''/dashboard/landlord'' \<longleftrightarrow> role_guard (js ''landlord'') (Loaded (m_roles m)) = Children) \<and>
   (homeHref (Some m) = js ''/dashboard/tenant'' \<longleftrightarrow>
      role_guard (js ''tenant'') (Loaded (m_roles m)) = Children \<and> role_guard (js ''landlord'') (Loaded (m_roles m)) \<noteq> Children) \<and>
   landing_redirect (Loaded (m_roles m)) =
     (if homeHref (Some m) = js ''/'' then None else Some (homeHref (Some m)))"
  by (auto simp: homeHref_def landing_redirect_def role_guard_def or_else_def Let_def split: option.splits)

text \<open>
  C8. Nobody is onboarded without consent: a request to finish the sign-up is sent only with one of the two
  offered roles, the terms accepted, the state of the Google login, and no other request under way;
  its success leads to the dashboard of the role that was sent, whatever was clicked since. The button is
  enabled exactly under these conditions; so on a page opened without the login state, as the end-to-end
  test \<open>src/apps/e2e/tests/auth.spec.ts\<close> ("onboarding: new user selects role and agrees to ToS") opens
  it, it is never enabled, whatever is chosen, although that test expects it to be.
\<close>

theorem onboarding_consent:
  assumes "onboarding_reach s" and "onboarding_can s e"
  shows "(PostOnboarding r b st \<in> set (snd (onboarding_step s e)) \<longrightarrow>
      e = SubmitOnboarding \<and> r \<in> {js ''tenant'', js ''landlord''} \<and> ob_agreed s \<and> b \<and>
      st = ob_oauthState s \<and> st \<noteq> [] \<and> ob_request s = None \<and> ob_request (fst (onboarding_step s e)) = Some r) \<and>
    (\<forall>x. PushDashboard x \<in> set (snd (onboarding_step s e)) \<longrightarrow>
      (\<exists>q. ob_request s = Some q \<and> x = js ''/dashboard/'' @ q)) \<and>
    (offers (onboarding_view s) SubmitOnboarding \<longleftrightarrow>
      ob_role s \<noteq> [] \<and> ob_agreed s \<and> ob_oauthState s \<noteq> [] \<and> ob_request s = None) \<and>
    (\<forall>es t. run onboarding_can (\<lambda>s e. fst (onboarding_step s e)) onboarding_init es = Some t \<longrightarrow>
      (\<forall>p. StateParam p \<in> set es \<longrightarrow> p \<in> {None, Some []}) \<longrightarrow> \<not> offers (onboarding_view t) SubmitOnboarding)"
proof (intro conjI)
  have inv: "onboarding_inv s" by (rule onb.reach_inv [OF assms(1)])
  show "PostOnboarding r b st \<in> set (snd (onboarding_step s e)) \<longrightarrow>
      e = SubmitOnboarding \<and> r \<in> {js ''tenant'', js ''landlord''} \<and> ob_agreed s \<and> b \<and>
      st = ob_oauthState s \<and> st \<noteq> [] \<and> ob_request s = None \<and> ob_request (fst (onboarding_step s e)) = Some r"
    and "\<forall>x. PushDashboard x \<in> set (snd (onboarding_step s e)) \<longrightarrow>
      (\<exists>q. ob_request s = Some q \<and> x = js ''/dashboard/'' @ q)"
    using assms(2) inv
    by (cases e; auto simp: onboarding_inv_def onboarding_offers submit_onboarding_def roles_offered_def js_def
        split: option.splits if_splits)+
  show "offers (onboarding_view s) SubmitOnboarding \<longleftrightarrow>
      ob_role s \<noteq> [] \<and> ob_agreed s \<and> ob_oauthState s \<noteq> [] \<and> ob_request s = None"
    using inv by (auto simp: onboarding_inv_def onboarding_offers)
  show "\<forall>es t. run onboarding_can (\<lambda>s e. fst (onboarding_step s e)) onboarding_init es = Some t \<longrightarrow>
      (\<forall>p. StateParam p \<in> set es \<longrightarrow> p \<in> {None, Some []}) \<longrightarrow> \<not> offers (onboarding_view t) SubmitOnboarding"
    using no_state_param [of onboarding_init] by (auto simp: onboarding_offers onboarding_init_def)
qed

lemma onboarding_consent_witness:
  "(\<exists>s. onboarding_reach s \<and> snd (onboarding_step s SubmitOnboarding) = [PostOnboarding (js ''tenant'') True (js ''x'')] \<and>
     ob_request (fst (onboarding_step s SubmitOnboarding)) = Some (js ''tenant'')) \<and>
   (\<exists>t. run onboarding_can (\<lambda>s e. fst (onboarding_step s e)) onboarding_init
        [StateParam None, ChooseRole (js ''tenant''), Agree True] = Some t \<and>
      ob_role t = js ''tenant'' \<and> ob_agreed t \<and> \<not> offers (onboarding_view t) SubmitOnboarding)"
proof -
  define es where "es = [StateParam (Some (js ''x'')), ChooseRole (js ''tenant''), Agree True]"
  obtain s where run: "run onboarding_can (\<lambda>s e. fst (onboarding_step s e)) onboarding_init es = Some s"
    and s: "ob_role s = js ''tenant''" "ob_agreed s" "ob_oauthState s = js ''x''" "\<not> ob_loading s"
    by (simp add: es_def onboarding_init_def onboarding_offers roles_offered_def) (simp add: onboarding_view_def)
  have r: "onboarding_reach s" by (rule reach_from_start [OF run refl])
  have c: "onboarding_can s SubmitOnboarding" using s by (simp add: onboarding_offers)
  have o: "snd (onboarding_step s SubmitOnboarding) = [PostOnboarding (js ''tenant'') True (js ''x'')]"
    using s by (simp add: submit_onboarding_def)
  then have "PostOnboarding (js ''tenant'') True (js ''x'') \<in> set (snd (onboarding_step s SubmitOnboarding))" by simp
  with onboarding_consent [OF r c] have "ob_request (fst (onboarding_step s SubmitOnboarding)) = Some (js ''tenant'')" by blast
  moreover define fs where "fs = [StateParam None, ChooseRole (js ''tenant''), Agree True]"
  obtain t where t: "run onboarding_can (\<lambda>s e. fst (onboarding_step s e)) onboarding_init fs = Some t"
    "ob_role t = js ''tenant''" "ob_agreed t"
    by (simp add: fs_def onboarding_init_def onboarding_offers roles_offered_def) (simp add: onboarding_view_def)
  have "\<forall>p. StateParam p \<in> set fs \<longrightarrow> p \<in> {None, Some []}" by (simp add: fs_def)
  with t(1) onboarding_consent [OF r c] have "\<not> offers (onboarding_view t) SubmitOnboarding" by blast
  ultimately show ?thesis using r o t fs_def by blast
qed

end
