(* ===== verification/Dashboards.thy ===== *)
theory Dashboards
  imports Browse Account LandlordMatches Manage Viewings Availability
begin

text \<open>
  The two dashboards, \<open>src/apps/web/app/dashboard/tenant/page.tsx\<close> and \<open>landlord/page.tsx\<close>: the page's
  address chooses the tab, and the tabs push addresses. Reading an address is the browser's
  \<open>URLSearchParams\<close>; its percent-decoding is the parameter \<open>decode\<close>.
\<close>

section \<open>Addresses\<close>

fun split_on :: "nat \<Rightarrow> jstr \<Rightarrow> jstr list" where
  "split_on c [] = [[]]"
| "split_on c (x # xs) = (if x = c then [] # split_on c xs
     else case split_on c xs of [] \<Rightarrow> [[x]] | y # ys \<Rightarrow> (x # y) # ys)"

text \<open>The pairs of a query string (after the question mark): split at \<open>&\<close>, each at its first \<open>=\<close>.\<close>

definition parse_query :: "(jstr \<Rightarrow> jstr) \<Rightarrow> jstr \<Rightarrow> params" where
  "parse_query decode q = map (\<lambda>p. (decode (takeWhile (\<lambda>c. c \<noteq> 61) p), decode (drop 1 (dropWhile (\<lambda>c. c \<noteq> 61) p))))
     (filter (\<lambda>p. p \<noteq> []) (split_on 38 q))"

text \<open>\<open>router.push("?\<dots>")\<close>: the parameters the pages read afterwards.\<close>

definition follow :: "(jstr \<Rightarrow> jstr) \<Rightarrow> jstr \<Rightarrow> params" where
  "follow decode url = parse_query decode (drop 1 url)"

text \<open>Decoding leaves alone what has neither a percent sign nor a plus.\<close>

definition plain :: "jstr \<Rightarrow> bool" where
  "plain s \<longleftrightarrow> list_all (\<lambda>c. c \<notin> {37, 43, 38, 61, 35}) s"

definition decodes_plain :: "(jstr \<Rightarrow> jstr) \<Rightarrow> bool" where
  "decodes_plain decode \<longleftrightarrow> (\<forall>s. list_all (\<lambda>c. c \<notin> {37, 43}) s \<longrightarrow> decode s = s)"

section \<open>Both dashboards\<close>

datatype dashboard_event = SetTab jstr | SetSubTab jstr | ShowFor jstr

text \<open>\<open>searchParams.get("tab") ?? \<dots>\<close>: the cast to the type of tabs checks nothing.\<close>

definition dash_tab :: "jstr \<Rightarrow> params \<Rightarrow> jstr" where
  "dash_tab initial ps = or_else initial (map_of ps (js ''tab''))"

definition dash_subtab :: "params \<Rightarrow> jstr" where
  "dash_subtab ps = or_else (js ''incoming'') (map_of ps (js ''subtab''))"

definition nav :: "(bool \<Rightarrow> dashboard_event \<Rightarrow> jstr \<Rightarrow> dashboard_event node) \<Rightarrow> jstr \<Rightarrow> (jstr \<times> jstr) list \<Rightarrow> dashboard_event node" where
  "nav item tab items = Box (map (\<lambda>(t, label). item (tab = t) (SetTab t) label) items)"

section \<open>Tenants\<close>

datatype tenant_content = ProfilesContent | ViewingsContent | BrowseContent "jstr option" | MatchesContent jstr

definition tenant_items :: "(jstr \<times> jstr) list" where
  "tenant_items = [(js ''requirements'', t_dt_profiles), (js ''listings'', t_dt_listings),
     (js ''matches'', t_dt_matches), (js ''viewings'', t_dt_viewings)]"

definition tenant_items_short :: "(jstr \<times> jstr) list" where
  "tenant_items_short = [(js ''requirements'', t_dt_profiles_short), (js ''listings'', t_dt_listings),
     (js ''matches'', t_dt_matches), (js ''viewings'', t_dt_viewings_short)]"

fun tenant_url :: "dashboard_event \<Rightarrow> jstr" where
  "tenant_url (SetTab t) = js ''?tab='' @ t"
| "tenant_url (SetSubTab st) = js ''?tab=matches&subtab='' @ st"
| "tenant_url (ShowFor i) = js ''?tab=listings&profile='' @ i"

definition tenant_contents :: "params \<Rightarrow> tenant_content list" where
  "tenant_contents ps = (let tab = dash_tab (js ''requirements'') ps in
     shown (tab = js ''requirements'') [ProfilesContent]
     @ shown (tab = js ''viewings'') [ViewingsContent]
     @ shown (tab = js ''listings'') [BrowseContent (map_of ps (js ''profile''))]
     @ shown (tab = js ''matches'') [MatchesContent (dash_subtab ps)])"

text \<open>\<open>child\<close> and \<open>match\<close> are the views of the tabs' own components.\<close>

definition tenant_panel :: "(tenant_content \<Rightarrow> dashboard_event node) \<Rightarrow> (bool \<Rightarrow> matches_subtab \<Rightarrow> dashboard_event node)
    \<Rightarrow> tenant_content \<Rightarrow> dashboard_event node" where
  "tenant_panel child match c = (case c of MatchesContent st \<Rightarrow> matches_view (js ''tenant'') st SetSubTab match | _ \<Rightarrow> child c)"

definition tenant_dashboard :: "(tenant_content \<Rightarrow> dashboard_event node) \<Rightarrow> (bool \<Rightarrow> matches_subtab \<Rightarrow> dashboard_event node)
    \<Rightarrow> params \<Rightarrow> dashboard_event node" where
  "tenant_dashboard child match ps = (let tab = dash_tab (js ''requirements'') ps in
     Box (nav tab_button tab tenant_items # map (tenant_panel child match) (tenant_contents ps)
       @ [nav bottom_tab_item tab tenant_items_short]))"

text \<open>What the dashboard does with its children's callbacks.\<close>

fun on_profiles :: "profiles_out \<Rightarrow> dashboard_event list" where
  "on_profiles (SelectProfile i) = [ShowFor i]"
| "on_profiles (InvalidateProfiles k) = []"

fun on_tenant_browse :: "tenant_browse_out \<Rightarrow> dashboard_event list" where
  "on_tenant_browse (OnSelectProfile i) = [ShowFor i]"
| "on_tenant_browse OnGoToProfiles = [SetTab (js ''requirements'')]"
| "on_tenant_browse _ = []"

section \<open>Landlords\<close>

datatype landlord_content = ListingsContent | SeekersContent "jstr option" | LandlordMatchesContent jstr | AvailabilityContent

definition landlord_items :: "(jstr \<times> jstr) list" where
  "landlord_items = [(js ''listings'', t_dl_listings), (js ''browse'', t_dl_browse),
     (js ''matches'', t_dl_matches), (js ''viewings'', t_dl_viewings)]"

fun landlord_url :: "dashboard_event \<Rightarrow> jstr" where
  "landlord_url (SetTab t) = js ''?tab='' @ t"
| "landlord_url (SetSubTab st) = js ''?tab=matches&subtab='' @ st"
| "landlord_url (ShowFor i) = js ''?tab=browse&listing='' @ i"

definition landlord_contents :: "params \<Rightarrow> landlord_content list" where
  "landlord_contents ps = (let tab = dash_tab (js ''listings'') ps in
     shown (tab = js ''listings'') [ListingsContent]
     @ shown (tab = js ''browse'') [SeekersContent (map_of ps (js ''listing''))]
     @ shown (tab = js ''matches'') [LandlordMatchesContent (dash_subtab ps)]
     @ shown (tab = js ''viewings'') [AvailabilityContent])"

definition landlord_panel :: "(landlord_content \<Rightarrow> dashboard_event node) \<Rightarrow> (bool \<Rightarrow> matches_subtab \<Rightarrow> dashboard_event node)
    \<Rightarrow> landlord_content \<Rightarrow> dashboard_event node" where
  "landlord_panel child match c =
     (case c of LandlordMatchesContent st \<Rightarrow> matches_view (js ''landlord'') st SetSubTab match | _ \<Rightarrow> child c)"

definition landlord_dashboard :: "(landlord_content \<Rightarrow> dashboard_event node) \<Rightarrow> (bool \<Rightarrow> matches_subtab \<Rightarrow> dashboard_event node)
    \<Rightarrow> params \<Rightarrow> dashboard_event node" where
  "landlord_dashboard child match ps = (let tab = dash_tab (js ''listings'') ps in
     Box (nav tab_button tab landlord_items # map (landlord_panel child match) (landlord_contents ps)
       @ [nav bottom_tab_item tab landlord_items]))"

fun on_listings :: "listings_out \<Rightarrow> dashboard_event list" where
  "on_listings (SelectForBrowse i) = [ShowFor i]"
| "on_listings _ = []"

fun on_landlord_browse :: "landlord_browse_out \<Rightarrow> dashboard_event list" where
  "on_landlord_browse (OnChooseListing i) = [ShowFor i]"
| "on_landlord_browse OnGoToListings = [SetTab (js ''listings'')]"
| "on_landlord_browse _ = []"

text \<open>Both pages are behind the role guard.\<close>

definition tenant_page :: "jstr list option fetched \<Rightarrow> dashboard_event node \<Rightarrow> dashboard_event node list" where
  "tenant_page me inner = role_guard_view (role_guard (js ''tenant'') me) [inner]"

definition landlord_page :: "jstr list option fetched \<Rightarrow> dashboard_event node \<Rightarrow> dashboard_event node list" where
  "landlord_page me inner = role_guard_view (role_guard (js ''landlord'') me) [inner]"

section \<open>Following an address\<close>

lemma split_on_none [simp]: "c \<notin> set xs \<Longrightarrow> split_on c xs = [xs]"
  by (induction xs) auto

lemma split_on_append [simp]: "c \<notin> set xs \<Longrightarrow> split_on c (xs @ c # ys) = xs # split_on c ys"
  by (induction xs) auto

lemma plain_chars: "plain s \<Longrightarrow> 38 \<notin> set s \<and> 61 \<notin> set s"
  by (auto simp: plain_def list_all_iff)

lemma decode_plain: "decodes_plain decode \<Longrightarrow> plain s \<Longrightarrow> decode s = s"
  by (auto simp: decodes_plain_def plain_def list_all_iff)

lemma key_value:
  assumes "plain k"
  shows "takeWhile (\<lambda>c. c \<noteq> 61) (k @ 61 # v) = k" "drop 1 (dropWhile (\<lambda>c. c \<noteq> 61) (k @ 61 # v)) = v"
proof -
  have "61 \<notin> set k" using plain_chars [OF assms] by blast
  then have "takeWhile (\<lambda>c. c \<noteq> 61) (k @ 61 # v) = k \<and> dropWhile (\<lambda>c. c \<noteq> 61) (k @ 61 # v) = 61 # v"
    by (induction k) auto
  then show "takeWhile (\<lambda>c. c \<noteq> 61) (k @ 61 # v) = k" "drop 1 (dropWhile (\<lambda>c. c \<noteq> 61) (k @ 61 # v)) = v" by simp_all
qed

lemma parse_one:
  assumes "decodes_plain decode" "plain k" "plain v"
  shows "parse_query decode (k @ 61 # v) = [(k, v)]"
  using plain_chars [OF assms(2)] plain_chars [OF assms(3)] key_value [OF assms(2)] assms
  by (simp add: parse_query_def decode_plain)

lemma parse_two:
  assumes "decodes_plain decode" "plain k" "plain v" "plain j" "plain w"
  shows "parse_query decode (k @ 61 # v @ 38 # j @ 61 # w) = [(k, v), (j, w)]"
proof -
  have "split_on 38 (k @ 61 # v @ 38 # j @ 61 # w) = [k @ 61 # v, j @ 61 # w]"
    using split_on_append [of 38 "k @ 61 # v" "j @ 61 # w"] plain_chars [OF assms(2)] plain_chars [OF assms(3)]
      plain_chars [OF assms(4)] plain_chars [OF assms(5)] by simp
  then show ?thesis using key_value [OF assms(2)] key_value [OF assms(4)] assms
    by (simp add: parse_query_def decode_plain)
qed

lemma plain_js [simp]: "plain (js ''tab'')" "plain (js ''matches'')" "plain (js ''subtab'')" "plain (js ''listings'')"
  "plain (js ''profile'')" "plain (js ''listing'')" "plain (js ''browse'')" "plain (js ''requirements'')" "plain (js ''viewings'')"
  "plain (js ''incoming'')" "plain (js ''outgoing'')" "plain (js ''matched'')"
  by (simp_all add: plain_def js_def)

lemma url_parts:
  "drop 1 (js ''?tab='' @ t) = js ''tab'' @ 61 # t"
  "drop 1 (js ''?tab=matches&subtab='' @ t) = js ''tab'' @ 61 # js ''matches'' @ 38 # js ''subtab'' @ 61 # t"
  "drop 1 (js ''?tab=listings&profile='' @ t) = js ''tab'' @ 61 # js ''listings'' @ 38 # js ''profile'' @ 61 # t"
  "drop 1 (js ''?tab=browse&listing='' @ t) = js ''tab'' @ 61 # js ''browse'' @ 38 # js ''listing'' @ 61 # t"
  by (simp_all add: js_def)

lemma follow_urls:
  assumes "decodes_plain decode" "plain t"
  shows "follow decode (tenant_url (SetTab t)) = [(js ''tab'', t)]"
    "follow decode (tenant_url (SetSubTab t)) = [(js ''tab'', js ''matches''), (js ''subtab'', t)]"
    "follow decode (tenant_url (ShowFor t)) = [(js ''tab'', js ''listings''), (js ''profile'', t)]"
    "follow decode (landlord_url (SetTab t)) = [(js ''tab'', t)]"
    "follow decode (landlord_url (SetSubTab t)) = [(js ''tab'', js ''matches''), (js ''subtab'', t)]"
    "follow decode (landlord_url (ShowFor t)) = [(js ''tab'', js ''browse''), (js ''listing'', t)]"
  unfolding follow_def tenant_url.simps landlord_url.simps url_parts
  using assms by (simp_all add: parse_one parse_two)

lemma nav_offers:
  "offers (nav tab_button t items) e \<longleftrightarrow> (\<exists>u \<in> fst ` set items. e = SetTab u)"
  "offers (nav bottom_tab_item t items) e \<longleftrightarrow> (\<exists>u \<in> fst ` set items. e = SetTab u)"
  by (force simp: nav_def tab_button_def bottom_tab_item_def list_ex_iff)+

lemma subtab_offers:
  assumes "\<And>b c. \<not> offers (m b c) e"
  shows "offers (matches_view r st SetSubTab m) e \<longleftrightarrow> e \<in> SetSubTab ` {js ''incoming'', js ''outgoing'', js ''matched''}"
  using assms by (auto simp: matches_view_def)

text \<open>The component that a subtab shows.\<close>

definition subtab_components :: "(jstr \<times> matches_subtab) list" where
  "subtab_components = [(js ''incoming'', IncomingTab), (js ''outgoing'', OutgoingTab), (js ''matched'', MatchedTab)]"

lemma subtab_shows:
  assumes "e \<notin> range SetSubTab"
  shows "offers (matches_view r st SetSubTab m) e \<longleftrightarrow>
    (\<exists>c. (st, c) \<in> set subtab_components \<and> offers (m (r = js ''landlord'') c) e)"
  using assms by (auto simp: matches_view_def subtab_components_def)

lemma tabs_evaluated:
  "fst ` set tenant_items = {js ''requirements'', js ''listings'', js ''matches'', js ''viewings''}"
  "fst ` set tenant_items_short = fst ` set tenant_items"
  "fst ` set landlord_items = {js ''listings'', js ''browse'', js ''matches'', js ''viewings''}"
  by (auto simp: tenant_items_def tenant_items_short_def landlord_items_def)

text \<open>
  The buttons of a dashboard's own: the navigation, and the subtabs of the matches. (\<open>child\<close> and \<open>m\<close>, the
  tabs' own components, reach the dashboard through the callbacks above.)
\<close>

lemma tenant_dashboard_offers:
  assumes "\<And>c. \<not> offers (child c) e" and "\<And>b c. \<not> offers (m b c) e"
  shows "offers (tenant_dashboard child m ps) e \<longleftrightarrow>
    e \<in> SetTab ` {js ''requirements'', js ''listings'', js ''matches'', js ''viewings''} \<or>
    dash_tab (js ''requirements'') ps = js ''matches'' \<and> e \<in> SetSubTab ` {js ''incoming'', js ''outgoing'', js ''matched''}"
proof -
  have "list_ex (\<lambda>n. offers n e) (map (tenant_panel child m) (tenant_contents ps)) \<longleftrightarrow>
      dash_tab (js ''requirements'') ps = js ''matches'' \<and> e \<in> SetSubTab ` {js ''incoming'', js ''outgoing'', js ''matched''}"
    using subtab_offers [of m e, OF assms(2)] assms(1)
    by (auto simp: tenant_contents_def tenant_panel_def Let_def shown_def)
  then show ?thesis
    by (simp add: tenant_dashboard_def Let_def nav_offers tabs_evaluated image_iff) blast
qed

lemma landlord_dashboard_offers:
  assumes "\<And>c. \<not> offers (child c) e" and "\<And>b c. \<not> offers (m b c) e"
  shows "offers (landlord_dashboard child m ps) e \<longleftrightarrow>
    e \<in> SetTab ` {js ''listings'', js ''browse'', js ''matches'', js ''viewings''} \<or>
    dash_tab (js ''listings'') ps = js ''matches'' \<and> e \<in> SetSubTab ` {js ''incoming'', js ''outgoing'', js ''matched''}"
proof -
  have "list_ex (\<lambda>n. offers n e) (map (landlord_panel child m) (landlord_contents ps)) \<longleftrightarrow>
      dash_tab (js ''listings'') ps = js ''matches'' \<and> e \<in> SetSubTab ` {js ''incoming'', js ''outgoing'', js ''matched''}"
    using subtab_offers [of m e, OF assms(2)] assms(1)
    by (auto simp: landlord_contents_def landlord_panel_def Let_def shown_def)
  then show ?thesis
    by (simp add: landlord_dashboard_def Let_def nav_offers tabs_evaluated image_iff) blast
qed

text \<open>Where the addresses lead.\<close>

lemma tenant_destinations:
  assumes "decodes_plain decode"
  shows "tenant_contents (follow decode (tenant_url (SetTab (js ''requirements'')))) = [ProfilesContent]"
    "tenant_contents (follow decode (tenant_url (SetTab (js ''listings'')))) = [BrowseContent None]"
    "tenant_contents (follow decode (tenant_url (SetTab (js ''matches'')))) = [MatchesContent (js ''incoming'')]"
    "tenant_contents (follow decode (tenant_url (SetTab (js ''viewings'')))) = [ViewingsContent]"
    "plain u \<Longrightarrow> tenant_contents (follow decode (tenant_url (SetSubTab u))) = [MatchesContent u]"
    "plain i \<Longrightarrow> tenant_contents (follow decode (tenant_url (ShowFor i))) = [BrowseContent (Some i)]"
  by (simp_all add: follow_urls [OF assms] tenant_contents_def dash_tab_def dash_subtab_def or_else_def shown_def
      del: tenant_url.simps)

lemma landlord_destinations:
  assumes "decodes_plain decode"
  shows "landlord_contents (follow decode (landlord_url (SetTab (js ''listings'')))) = [ListingsContent]"
    "landlord_contents (follow decode (landlord_url (SetTab (js ''browse'')))) = [SeekersContent None]"
    "landlord_contents (follow decode (landlord_url (SetTab (js ''matches'')))) = [LandlordMatchesContent (js ''incoming'')]"
    "landlord_contents (follow decode (landlord_url (SetTab (js ''viewings'')))) = [AvailabilityContent]"
    "plain u \<Longrightarrow> landlord_contents (follow decode (landlord_url (SetSubTab u))) = [LandlordMatchesContent u]"
    "plain i \<Longrightarrow> landlord_contents (follow decode (landlord_url (ShowFor i))) = [SeekersContent (Some i)]"
  by (simp_all add: follow_urls [OF assms] landlord_contents_def dash_tab_def dash_subtab_def or_else_def shown_def
      del: landlord_url.simps)

section \<open>Properties\<close>


lemma id_decodes: "decodes_plain (\<lambda>s. s)"
  by (simp add: decodes_plain_def)


text \<open>
  The choice made on one tab arrives at the next: "find listings" on a profile's card, and the browsing
  tab's own selector, lead to the address whose browsing tab works with that profile if it is active;
  the same holds for a landlord's listing.
\<close>

theorem selection_carried:
  assumes "decodes_plain decode" and "plain i"
  shows "on_profiles (hd (snd (profiles_step s (BrowseThisProfile i)))) = [ShowFor i] \<and>
    on_tenant_browse (hd (snd (tenant_browse_step tb (SelectProfileCard i)))) = [ShowFor i] \<and>
    tenant_contents (follow decode (tenant_url (ShowFor i))) = [BrowseContent (Some i)] \<and>
    (i \<in> tp_id ` set (active_profiles tb) \<longrightarrow> tb_current (tb\<lparr>tb_selected := Some i\<rparr>) = Some i) \<and>
    on_listings (hd (snd (listings_step u (BrowseThis i)))) = [ShowFor i] \<and>
    on_landlord_browse (hd (snd (landlord_browse_step lb (ChooseListing i)))) = [ShowFor i] \<and>
    landlord_contents (follow decode (landlord_url (ShowFor i))) = [SeekersContent (Some i)] \<and>
    (i \<in> li_id ` set (active_listings lb) \<longrightarrow> bb_current (lb\<lparr>bb_selected := Some i\<rparr>) = Some i)"
proof -
  have "tenant_contents (follow decode (tenant_url (ShowFor i))) = [BrowseContent (Some i)]"
    unfolding follow_urls(3) [OF assms] by (simp add: tenant_contents_def dash_tab_def or_else_def shown_def)
  moreover have "landlord_contents (follow decode (landlord_url (ShowFor i))) = [SeekersContent (Some i)]"
    unfolding follow_urls(6) [OF assms] by (simp add: landlord_contents_def dash_tab_def or_else_def shown_def)
  ultimately show ?thesis
    by (auto simp: tb_current_def bb_current_def current_id_def active_profiles_def active_listings_def
        simp del: tenant_url.simps landlord_url.simps)
qed

lemma selection_carried_witness:
  "tenant_contents (follow (\<lambda>s. s) (tenant_url (ShowFor (js ''p1'')))) = [BrowseContent (Some (js ''p1''))]"
proof -
  have "plain (js ''p1'')" by (simp add: plain_def js_def)
  from selection_carried [OF id_decodes this] show ?thesis by blast
qed

end
