(* ===== verification/AdminUi.thy ===== *)
theory AdminUi
  imports Dialogs
begin

text \<open>
  The building blocks of the admin client (\<open>src/apps/admin\<close>): its data types, HTTP client and cache keys
  (\<open>features/admin/types.ts\<close>, \<open>api.ts\<close>, \<open>queryKeys.ts\<close>), the dialog that asks for a reason
  (\<open>components/ActionConfirmDialog.tsx\<close>), the other pieces of \<open>features/admin/components\<close>, signing in
  (\<open>src/pages/Login.tsx\<close>, \<open>Callback.tsx\<close>) and the routes (\<open>src/App.tsx\<close>).
\<close>

section \<open>Data, requests, keys\<close>

record report =
  re_id :: jstr
  re_reporter_id :: jstr
  re_reported_id :: jstr
  re_listing_id :: "jstr option"
  re_reason :: jstr
  re_status :: jstr
  re_created_at :: jstr

record admin_user =
  au_id :: jstr
  au_email :: jstr
  au_suspended_at :: "jstr option"
  au_deleted_at :: "jstr option"
  au_listing_count :: int
  au_profile_count :: int

record admin_action =
  aa_id :: jstr
  aa_admin_id :: jstr
  aa_action :: jstr
  aa_target_type :: jstr
  aa_target_id :: jstr
  aa_note :: "jstr option"
  aa_created_at :: jstr

definition ACTION_LABELS :: "(jstr \<times> jstr) list" where
  "ACTION_LABELS = [(js ''suspend_user'', t_al_suspend), (js ''unsuspend_user'', t_al_unsuspend),
     (js ''delete_user'', t_al_delete), (js ''remove_listing'', t_al_remove), (js ''restore_listing'', t_al_restore),
     (js ''resolve_report'', t_al_resolve), (js ''dismiss_report'', t_al_dismiss)]"

definition action_label :: "jstr \<Rightarrow> jstr" where
  "action_label a = or_else a (map_of ACTION_LABELS a)"

definition aqk_reports :: "jstr \<Rightarrow> query_key" where "aqk_reports status = [js ''admin'', js ''reports'', status]"
definition aqk_user :: "jstr \<Rightarrow> query_key" where "aqk_user i = [js ''admin'', js ''user'', i]"
definition aqk_actions :: query_key where "aqk_actions = [js ''admin'', js ''actions'']"

text \<open>The response interceptor: any 401 sends the browser to the sign-in page; the error is passed on.\<close>

definition admin_redirect :: "nat option \<Rightarrow> bool \<Rightarrow> jstr option" where
  "admin_redirect status win = (if status = Some 401 \<and> win then Some (js ''/login'') else None)"

section \<open>Asking for a reason\<close>

datatype action_level = Level1 | Level2 | Level3

fun level_number :: "action_level \<Rightarrow> nat" where
  "level_number Level1 = 1"
| "level_number Level2 = 2"
| "level_number Level3 = 3"

instantiation action_level :: linorder
begin

definition less_eq_action_level :: "action_level \<Rightarrow> action_level \<Rightarrow> bool" where
  "less_eq_action_level a b \<longleftrightarrow> level_number a \<le> level_number b"

definition less_action_level :: "action_level \<Rightarrow> action_level \<Rightarrow> bool" where
  "less_action_level a b \<longleftrightarrow> level_number a < level_number b"

instance
proof
  fix a b :: action_level
  show "a \<le> b \<Longrightarrow> b \<le> a \<Longrightarrow> a = b"
    by (cases a; cases b) (simp_all add: less_eq_action_level_def)
qed (auto simp: less_eq_action_level_def less_action_level_def)

end

record action_options =
  ao_level :: action_level
  ao_title :: jstr
  ao_message :: jstr
  ao_confirmLabel :: "jstr option"
  ao_matchValue :: "jstr option"

text \<open>As in \<open>confirm_dialog\<close>, \<open>ad_resolver\<close> holds what the awaiting caller does with a positive answer.\<close>

record 'a action_dialog =
  ad_state :: "action_options option"
  ad_note :: jstr
  ad_matchInput :: jstr
  ad_resolver :: "'a option"

definition action_init :: "'a action_dialog" where
  "action_init = \<lparr>ad_state = None, ad_note = [], ad_matchInput = [], ad_resolver = None\<rparr>"

datatype 'a action_event = AskAction action_options 'a | TypeNote jstr | TypeMatch jstr | CancelAction | AcceptAction

text \<open>\<open>close\<close>, with \<open>true\<close> for a result with the note; what it emits is the caller's continuation with it.\<close>

definition close_action :: "bool \<Rightarrow> 'a action_dialog \<Rightarrow> 'a action_dialog \<times> ('a \<times> jstr) list" where
  "close_action v s = (s\<lparr>ad_resolver := None, ad_state := None\<rparr>,
     case ad_resolver s of None \<Rightarrow> [] | Some a \<Rightarrow> if v then [(a, ad_note s)] else [])"

fun action_step :: "'a action_dialog \<Rightarrow> 'a action_event \<Rightarrow> 'a action_dialog \<times> ('a \<times> jstr) list" where
  "action_step s (AskAction opts a) =
     (s\<lparr>ad_state := Some opts, ad_note := [], ad_matchInput := [], ad_resolver := Some a\<rparr>, [])"
| "action_step s (TypeNote t) = (s\<lparr>ad_note := t\<rparr>, [])"
| "action_step s (TypeMatch t) = (s\<lparr>ad_matchInput := t\<rparr>, [])"
| "action_step s CancelAction = close_action False s"
| "action_step s AcceptAction = close_action True s"

definition canConfirm :: "'a action_dialog \<Rightarrow> bool" where
  "canConfirm s = (case ad_state s of None \<Rightarrow> True
     | Some o' \<Rightarrow> ao_level o' = Level1
         \<or> ao_level o' = Level2 \<and> trim (ad_note s) \<noteq> []
         \<or> ao_level o' = Level3 \<and> trim (ad_note s) \<noteq> [] \<and> Some (ad_matchInput s) = ao_matchValue o')"

definition action_view :: "'a action_dialog \<Rightarrow> 'a action_event node" where
  "action_view s = modal (ad_state s \<noteq> None) CancelAction (case ad_state s of None \<Rightarrow> []
     | Some o' \<Rightarrow> [Txt (ao_title o'), Txt (ao_message o')]
         @ shown (Level2 \<le> ao_level o') (Txt t_aa_note # shown (ao_level o' = Level2) [Txt (js ''*'')]
             @ [Inp False (ad_note s) TypeNote])
         @ shown (ao_level o' = Level3) [Txt t_aa_type_1, Txt (or_else [] (ao_matchValue o')), Txt t_aa_type_2,
             Inp False (ad_matchInput s) TypeMatch, Txt t_aa_irreversible]
         @ [Btn False CancelAction [Txt t_aa_cancel],
            Btn (\<not> canConfirm s) AcceptAction [Txt (or_else t_aa_ok (ao_confirmLabel o'))]])"

fun asked_action :: "'a action_event \<Rightarrow> 'a option" where
  "asked_action (AskAction opts a) = Some a"
| "asked_action _ = None"

interpretation ac: confirmation action_step ad_resolver asked_action "\<lambda>e. e = AcceptAction" "\<lambda>e. e = CancelAction" fst
proof unfold_locales
  fix e :: "'a action_event" and s :: "'a action_dialog"
  show "asked_action e = None \<Longrightarrow> e \<noteq> AcceptAction \<Longrightarrow> e \<noteq> CancelAction \<Longrightarrow>
      ad_resolver (fst (action_step s e)) = ad_resolver s \<and> snd (action_step s e) = []"
    by (cases e) auto
qed (auto simp: close_action_def split: option.splits elim: asked_action.elims)

lemma action_view_offers:
  "\<not> offers (action_view s) (AskAction opts a)"
  "offers (action_view s) AcceptAction \<longleftrightarrow> ad_state s \<noteq> None \<and> canConfirm s"
  "offers (action_view s) (TypeNote t) \<longleftrightarrow> (\<exists>o'. ad_state s = Some o' \<and> Level2 \<le> ao_level o')"
  "offers (action_view s) (TypeMatch t) \<longleftrightarrow> (\<exists>o'. ad_state s = Some o' \<and> ao_level o' = Level3)"
  by (auto simp: action_view_def split: option.splits)

text \<open>
  A page that always asks for an action with the options that belong to it: while a question is open the
  dialog shows its options.
\<close>

definition shows_asked :: "('a \<Rightarrow> action_options) \<Rightarrow> 'a action_dialog \<Rightarrow> bool" where
  "shows_asked opts s \<longleftrightarrow> ad_state s = map_option opts (ad_resolver s)"

lemma shows_asked_step:
  "shows_asked opts s \<Longrightarrow> (\<forall>o' a. e = AskAction o' a \<longrightarrow> o' = opts a) \<Longrightarrow> shows_asked opts (fst (action_step s e))"
  by (cases e) (auto simp: shows_asked_def close_action_def)

lemma action_emits: "(a, n) \<in> set (snd (action_step s e)) \<longleftrightarrow> e = AcceptAction \<and> ad_resolver s = Some a \<and> n = ad_note s"
  by (cases e) (auto simp: close_action_def split: option.splits)

text \<open>What a positive answer entails, once it was possible to give it.\<close>

lemma accepted_action:
  assumes "shows_asked opts s" and "offers (action_view s) AcceptAction" and "ad_resolver s = Some a"
  shows "Level2 \<le> ao_level (opts a) \<longrightarrow> trim (ad_note s) \<noteq> []"
    and "ao_level (opts a) = Level3 \<longrightarrow> ao_matchValue (opts a) = Some (ad_matchInput s)"
  using assms by (auto simp: action_view_offers shows_asked_def canConfirm_def less_eq_action_level_def)

section \<open>Small pieces\<close>

definition LABEL_MAP :: "(jstr \<times> jstr) list" where
  "LABEL_MAP = [(js ''pending'', t_sb_pending), (js ''reviewing'', t_sb_reviewing), (js ''resolved'', t_sb_resolved),
     (js ''dismissed'', t_sb_dismissed), (js ''active'', t_sb_active), (js ''suspended'', t_sb_suspended),
     (js ''deleted'', t_sb_deleted), (js ''removed'', t_sb_removed), (js ''live'', t_sb_live)]"

definition TONE_MAP :: "(jstr \<times> jstr) list" where
  "TONE_MAP = [(js ''pending'', js ''warning''), (js ''reviewing'', js ''warning''), (js ''resolved'', js ''success''),
     (js ''dismissed'', js ''neutral''), (js ''active'', js ''success''), (js ''suspended'', js ''warning''),
     (js ''deleted'', js ''danger''), (js ''removed'', js ''danger''), (js ''live'', js ''success'')]"

definition badge_tone :: "jstr \<Rightarrow> jstr" where
  "badge_tone status = or_else (js ''neutral'') (map_of TONE_MAP status)"

definition status_badge :: "jstr \<Rightarrow> 'e node" where
  "status_badge status = Txt (or_else status (map_of LABEL_MAP status))"

text \<open>The copy button: \<open>copied\<close> is its state, set by the clipboard's answer and reset by a timer.\<close>

datatype copy_event = ClickCopy | CopiedToClipboard | CopyTimeout

fun copy_step :: "jstr \<Rightarrow> bool \<Rightarrow> copy_event \<Rightarrow> bool \<times> jstr list" where
  "copy_step i copied ClickCopy = (copied, [i])"
| "copy_step i copied CopiedToClipboard = (True, [])"
| "copy_step i copied CopyTimeout = (False, [])"

definition copyable_id :: "'e \<Rightarrow> bool \<Rightarrow> jstr \<Rightarrow> int \<Rightarrow> 'e node" where
  "copyable_id onCopy copied i width =
     Stop [Btn False onCopy [Txt (if copied then js ''Copied!'' else slice_to width i @ [0x2026])]]"

definition env_badge :: "jstr \<Rightarrow> 'e node list" where
  "env_badge env = shown (env \<noteq> [] \<and> env \<noteq> js ''production'') [Txt env]"

definition filter_bar :: "(jstr \<times> jstr) list \<Rightarrow> jstr \<Rightarrow> (jstr \<Rightarrow> 'e) \<Rightarrow> 'e node" where
  "filter_bar options val onChange =
     Box (map (\<lambda>(label, v). Btn False (onChange v) [Mark (val = v) [Txt label]]) options)"

text \<open>A column is its header and how it renders a row; without \<open>onRowClick\<close> a row is not clickable.\<close>

definition data_table :: "(jstr \<times> ('r \<Rightarrow> 'e node list)) list \<Rightarrow> 'r list \<Rightarrow> bool \<Rightarrow> 'e node list option \<Rightarrow> ('r \<Rightarrow> 'e) option \<Rightarrow> 'e node" where
  "data_table columns data isLoading emptyState onRowClick = Box (map (\<lambda>(header, render). Txt header) columns
     @ (if isLoading then []
        else if data = [] then or_else [Txt t_dtb_empty] emptyState
        else map (\<lambda>row. let cells = concat (map (\<lambda>(header, render). render row) columns)
               in case onRowClick of None \<Rightarrow> Box cells | Some f \<Rightarrow> Tap (f row) cells) data))"

text \<open>
  The drawer stays in the page when it is closed: only the backdrop stops taking clicks, the panel with its
  close button is moved out of sight. Escape closes it while it is open.
\<close>

definition detail_drawer :: "bool \<Rightarrow> 'e \<Rightarrow> jstr \<Rightarrow> 'e node list \<Rightarrow> 'e node" where
  "detail_drawer opened onClose title children =
     Box (shown opened [Btn False onClose []] @ [Box (Txt title # Btn False onClose [] # children)])"

definition drawer_key :: "bool \<Rightarrow> modal_key \<Rightarrow> bool" where
  "drawer_key opened k \<longleftrightarrow> opened \<and> k = Escape"

section \<open>Shell, guard, routes\<close>

definition NAV_ITEMS :: "(jstr \<times> jstr) list" where
  "NAV_ITEMS = [(js ''/reports'', t_as_reports), (js ''/actions'', t_as_actions)]"

datatype shell_event = AdminLogout | LogoutSettled

datatype shell_out = PostLogout | AssignLocation jstr

fun shell_step :: "shell_event \<Rightarrow> shell_out list" where
  "shell_step AdminLogout = [PostLogout]"
| "shell_step LogoutSettled = [AssignLocation (js ''/login'')]"

definition admin_shell :: "jstr \<Rightarrow> jstr \<Rightarrow> shell_event node list \<Rightarrow> shell_event node" where
  "admin_shell env pathname children = Box ([Txt (js ''Zumeet Admin'')] @ env_badge env
     @ [Btn False AdminLogout [Txt t_as_logout],
        Box (map (\<lambda>(href, label). Mark (starts_with pathname href) [Link href [Txt label]]) NAV_ITEMS)] @ children)"

text \<open>The guard probes a protected endpoint and shows the page as soon as the probe has ended, however.\<close>

definition auth_probe :: query where
  "auth_probe = \<lparr>q_key = [js ''admin'', js ''auth-probe''], q_url = js ''/reports?status=pending'', q_enabled = True\<rparr>"

definition admin_guard :: "'d fetched \<Rightarrow> 'e node list \<Rightarrow> 'e node list" where
  "admin_guard probe children = (if probe = Loading then [] else children)"

text \<open>The routes, on the segments of the path; everything else is redirected to the reports.\<close>

datatype admin_page = LoginPage | CallbackPage | ReportsPage | UserPage jstr | ActionsPage

fun admin_route :: "jstr list \<Rightarrow> admin_page option" where
  "admin_route [a] = (if a = js ''login'' then Some LoginPage else if a = js ''reports'' then Some ReportsPage
     else if a = js ''actions'' then Some ActionsPage else None)"
| "admin_route [a, b] = (if a = js ''auth'' \<and> b = js ''callback'' then Some CallbackPage
     else if a = js ''users'' then Some (UserPage b) else None)"
| "admin_route _ = None"

definition routed_page :: "jstr list \<Rightarrow> admin_page" where
  "routed_page path = or_else ReportsPage (admin_route path)"

definition is_protected :: "admin_page \<Rightarrow> bool" where
  "is_protected p \<longleftrightarrow> p \<noteq> LoginPage \<and> p \<noteq> CallbackPage"

section \<open>Signing in\<close>

record admin_login =
  al_email :: jstr
  al_loading :: bool
  al_sent :: bool
  al_devLink :: "jstr option"

definition login_init :: admin_login where
  "login_init = \<lparr>al_email = [], al_loading = False, al_sent = False, al_devLink = None\<rparr>"

text \<open>\<open>LoginAnswered\<close> carries the answer's \<open>dev_magic_link\<close>, present in development only.\<close>

datatype login_event = EditEmail jstr | SubmitLogin | LoginAnswered "jstr option" | LoginFailed | SendAgain

fun login_step :: "admin_login \<Rightarrow> login_event \<Rightarrow> admin_login \<times> jstr list" where
  "login_step s (EditEmail t) = (s\<lparr>al_email := t\<rparr>, [])"
| "login_step s SubmitLogin = (s\<lparr>al_loading := True\<rparr>, [al_email s])"
| "login_step s (LoginAnswered link) = (case link of
     None \<Rightarrow> (s\<lparr>al_loading := False, al_sent := True\<rparr>, [])
   | Some l \<Rightarrow> (s\<lparr>al_devLink := (if l \<noteq> [] then Some l else al_devLink s), al_loading := False, al_sent := True\<rparr>, []))"
| "login_step s LoginFailed = (s\<lparr>al_loading := False, al_sent := True\<rparr>, [])"
| "login_step s SendAgain = (s\<lparr>al_sent := False, al_devLink := None, al_email := []\<rparr>, [])"

definition login_view :: "admin_login \<Rightarrow> login_event node" where
  "login_view s = Box [Txt (js ''Zumeet Admin''), Txt t_lg2_hint,
     if al_sent s then Box (Txt t_lg2_sent
         # (case al_devLink s of None \<Rightarrow> [] | Some l \<Rightarrow> [Txt t_lg2_dev, Link l [Txt l]])
         @ [Btn False SendAgain [Txt t_lg2_again]])
     else Form SubmitLogin [Txt (js ''Email''), Inp False (al_email s) EditEmail,
         Submit (al_loading s) [Txt (if al_loading s then t_lg2_sending else t_lg2_get)]]]"

datatype callback_result = GoReports | InvalidLink | Verifying

text \<open>The page that the link in the mail opens: \<open>answer\<close> is the status of the failure, \<open>None\<close> without a response.\<close>

definition callback_request :: "(jstr \<Rightarrow> jstr) \<Rightarrow> jstr option \<Rightarrow> jstr option" where
  "callback_request encode token = (case token of None \<Rightarrow> None
     | Some t \<Rightarrow> if t = [] then None else Some (js ''/auth/callback?token='' @ encode t))"

definition callback_failed :: "nat option \<Rightarrow> callback_result" where
  "callback_failed status = (if status = Some 302 \<or> status = Some 301 then GoReports
     else if status = Some 401 then InvalidLink else GoReports)"

definition callback_outcome :: "(jstr \<Rightarrow> jstr) \<Rightarrow> jstr option \<Rightarrow> (nat option + unit) fetched \<Rightarrow> callback_result" where
  "callback_outcome encode token answer = (case callback_request encode token of None \<Rightarrow> InvalidLink
     | Some url \<Rightarrow> (case answer of Loaded (Inr u) \<Rightarrow> GoReports | Loaded (Inl st) \<Rightarrow> callback_failed st | _ \<Rightarrow> Verifying))"

definition callback_view :: "callback_result \<Rightarrow> 'e node" where
  "callback_view r = (if r = InvalidLink then Box [Txt t_cb_invalid, Link (js ''/login'') [Txt t_cb_again]] else Txt t_cb_verifying)"

section \<open>Properties\<close>

text \<open>
  The sign-in page does not tell whether an address belongs to an administrator: whatever was typed,
  the page after a successful request and after a failed one is the same, unless the server hands out
  its development link.
\<close>

theorem login_uniform:
  "login_view (fst (steps login_step s (es @ [SubmitLogin, LoginFailed]))) =
     login_view (fst (steps login_step s (es @ [SubmitLogin, LoginAnswered None]))) \<and>
   snd (steps login_step s (es @ [SubmitLogin, LoginFailed])) = snd (steps login_step s (es @ [SubmitLogin, LoginAnswered None]))"
  by (simp add: steps_append split: prod.splits)

text \<open>
  A refused link is reported by a page nobody sees: the answer 401 that the callback page turns into its
  message also makes the HTTP client leave for the sign-in page, and every other failure, lost
  connections and server errors included, goes on to the reports as if the link were good.
\<close>

theorem callback_failures:
  "(callback_outcome encode (Some t) (Loaded (Inl st)) = InvalidLink \<longleftrightarrow> t = [] \<or> admin_redirect st True = Some (js ''/login'')) \<and>
   (callback_outcome encode (Some t) (Loaded (Inl st)) = GoReports \<longleftrightarrow> t \<noteq> [] \<and> st \<noteq> Some 401)"
  by (auto simp: callback_outcome_def callback_request_def callback_failed_def admin_redirect_def)

end
