(* ===== verification/AdminPages.thy ===== *)
theory AdminPages
  imports AdminUi
begin

text \<open>
  The pages of the admin client, \<open>src/apps/admin/src/pages\<close>: the queue of reports with its drawer
  (\<open>Reports.tsx\<close>, \<open>ReportDetail.tsx\<close>), a user's page (\<open>UserDetail.tsx\<close>) and the audit log (\<open>Actions.tsx\<close>).
  \<open>stamp\<close> is the browser's \<open>toLocaleString\<close> of a date; \<open>copied\<close> are the ids whose copy button says so.
\<close>

section \<open>A report\<close>

datatype report_action = ResolveAs jstr | RemoveListing

definition resolve_label :: "jstr \<Rightarrow> jstr" where
  "resolve_label status = (if status = js ''resolved'' then t_rd_resolve else t_rd_dismiss)"

fun report_options :: "report_action \<Rightarrow> action_options" where
  "report_options (ResolveAs status) = \<lparr>ao_level = Level2, ao_title = resolve_label status @ t_rd_this,
     ao_message = t_rd_ask, ao_confirmLabel = Some (resolve_label status), ao_matchValue = None\<rparr>"
| "report_options RemoveListing = \<lparr>ao_level = Level2, ao_title = t_rd_remove_title, ao_message = t_rd_remove_ask,
     ao_confirmLabel = Some t_rd_remove, ao_matchValue = None\<rparr>"

record report_detail =
  rd_report :: report
  rd_filter :: jstr
  rd_dialog :: "report_action action_dialog"
  rd_resolving :: bool
  rd_removing :: bool

definition report_detail_init :: "report \<Rightarrow> jstr \<Rightarrow> report_detail" where
  "report_detail_init r status = \<lparr>rd_report = r, rd_filter = status, rd_dialog = action_init, rd_resolving = False, rd_removing = False\<rparr>"

datatype report_detail_event =
    ClickResolve jstr | ClickRemove | InReportDialog "report_action action_event" | CopyFromReport jstr | LeaveForUser jstr
  | ResolveOk | ResolveFailed | RemoveOk | RemoveFailed

datatype report_detail_out =
    PostResolve jstr jstr jstr   \<comment> \<open>report, \<open>status\<close>, \<open>note\<close>\<close>
  | PostRemove "jstr option" | InvalidateReports query_key | CloseDetail | OpenUser jstr | CopyReportId jstr

definition invalidate_report :: "report_detail \<Rightarrow> report_detail_out list" where
  "invalidate_report s = [InvalidateReports (aqk_reports (rd_filter s)), InvalidateReports aqk_actions]"

text \<open>What the two handlers do with a positive answer: the removal has no use for the note.\<close>

fun report_continue :: "report_detail \<Rightarrow> report_action \<times> jstr \<Rightarrow> report_detail_out" where
  "report_continue s (ResolveAs status, note) = PostResolve (re_id (rd_report s)) status note"
| "report_continue s (RemoveListing, note) = PostRemove (re_listing_id (rd_report s))"

fun report_pending :: "report_action \<times> jstr \<Rightarrow> report_detail \<Rightarrow> report_detail" where
  "report_pending (ResolveAs status, note) s = s\<lparr>rd_resolving := True\<rparr>"
| "report_pending (RemoveListing, note) s = s\<lparr>rd_removing := True\<rparr>"

fun report_detail_step :: "report_detail \<Rightarrow> report_detail_event \<Rightarrow> report_detail \<times> report_detail_out list" where
  "report_detail_step s (ClickResolve status) =
     (s\<lparr>rd_dialog := fst (action_step (rd_dialog s) (AskAction (report_options (ResolveAs status)) (ResolveAs status)))\<rparr>, [])"
| "report_detail_step s ClickRemove =
     (s\<lparr>rd_dialog := fst (action_step (rd_dialog s) (AskAction (report_options RemoveListing) RemoveListing))\<rparr>, [])"
| "report_detail_step s (InReportDialog e) = (case action_step (rd_dialog s) e of (d, results) \<Rightarrow>
     (fold report_pending results (s\<lparr>rd_dialog := d\<rparr>), map (report_continue s) results))"
| "report_detail_step s (CopyFromReport i) = (s, [CopyReportId i])"
| "report_detail_step s (LeaveForUser i) = (s, [CloseDetail, OpenUser i])"
| "report_detail_step s ResolveOk = (s\<lparr>rd_resolving := False\<rparr>, invalidate_report s @ [CloseDetail])"
| "report_detail_step s ResolveFailed = (s\<lparr>rd_resolving := False\<rparr>, [])"
| "report_detail_step s RemoveOk = (s\<lparr>rd_removing := False\<rparr>, invalidate_report s)"
| "report_detail_step s RemoveFailed = (s\<lparr>rd_removing := False\<rparr>, [])"

definition report_isPending :: "report \<Rightarrow> bool" where
  "report_isPending r \<longleftrightarrow> re_status r = js ''pending'' \<or> re_status r = js ''reviewing''"

text \<open>\<open>report.listing_id && \<dots>\<close>\<close>

definition truthy :: "jstr option \<Rightarrow> bool" where
  "truthy x \<longleftrightarrow> x \<noteq> None \<and> x \<noteq> Some []"

definition report_fields :: "(jstr \<Rightarrow> jstr) \<Rightarrow> jstr set \<Rightarrow> report \<Rightarrow> report_detail_event node list" where
  "report_fields stamp copied r = (let cid = (\<lambda>i w. copyable_id (CopyFromReport i) (i \<in> copied) i w);
       account = (\<lambda>i. Box [cid i 8, Btn False (LeaveForUser i) [Txt t_rd_view_account]]) in
     [Txt t_rd_status, status_badge (re_status r), Txt t_rd_id, cid (re_id r) 12, Txt t_rd_reason, Txt (re_reason r),
      Txt t_rd_reporter, account (re_reporter_id r), Txt t_rd_reported, account (re_reported_id r)]
     @ shown (truthy (re_listing_id r)) [Txt t_rd_listing, cid (or_else [] (re_listing_id r)) 8]
     @ [Txt t_rd_time, Txt (stamp (re_created_at r))])"

definition report_buttons :: "report_detail \<Rightarrow> report_detail_event node list" where
  "report_buttons s = shown (report_isPending (rd_report s))
     ([Btn (rd_resolving s) (ClickResolve (js ''resolved'')) [Txt t_rd_mark_resolved],
       Btn (rd_resolving s) (ClickResolve (js ''dismissed'')) [Txt t_rd_dismiss]]
      @ shown (truthy (re_listing_id (rd_report s))) [Btn (rd_removing s) ClickRemove [Txt t_rd_remove_listing]])"

definition report_detail_view :: "(jstr \<Rightarrow> jstr) \<Rightarrow> jstr set \<Rightarrow> report_detail \<Rightarrow> report_detail_event node" where
  "report_detail_view stamp copied s = Box (map_node InReportDialog (action_view (rd_dialog s))
     # report_fields stamp copied (rd_report s) @ report_buttons s)"

fun report_detail_can :: "report_detail \<Rightarrow> report_detail_event \<Rightarrow> bool" where
  "report_detail_can s ResolveOk = rd_resolving s"
| "report_detail_can s ResolveFailed = rd_resolving s"
| "report_detail_can s RemoveOk = rd_removing s"
| "report_detail_can s RemoveFailed = rd_removing s"
| "report_detail_can s e = offers (report_detail_view id {} s) e"

section \<open>The queue of reports\<close>

definition STATUS_OPTIONS :: "(jstr \<times> jstr) list" where
  "STATUS_OPTIONS = [(t_rq_pending, js ''pending''), (t_rq_resolved, js ''resolved''), (t_rq_dismissed, js ''dismissed'')]"

record reports_page =
  rp_status :: jstr
  rp_selectedId :: "jstr option"
  rp_data :: "report list fetched"

definition reports_init :: reports_page where
  "reports_init = \<lparr>rp_status = js ''pending'', rp_selectedId = None, rp_data = Loading\<rparr>"

datatype reports_event = FilterReports jstr "report list fetched" | OpenReport jstr | CloseReportDrawer | CopyFromQueue jstr
  | ReportsLoaded "report list fetched"

text \<open>Choosing a filter shows what the cache has for it (\<open>Loading\<close> for nothing yet).\<close>

fun reports_step :: "reports_page \<Rightarrow> reports_event \<Rightarrow> reports_page" where
  "reports_step s (FilterReports v d) = s\<lparr>rp_status := v, rp_selectedId := None, rp_data := d\<rparr>"
| "reports_step s (OpenReport i) = s\<lparr>rp_selectedId := Some i\<rparr>"
| "reports_step s CloseReportDrawer = s\<lparr>rp_selectedId := None\<rparr>"
| "reports_step s (CopyFromQueue i) = s"
| "reports_step s (ReportsLoaded d) = s\<lparr>rp_data := d\<rparr>"

definition reports_query :: "jstr \<Rightarrow> query" where
  "reports_query status = \<lparr>q_key = aqk_reports status, q_url = js ''/reports?status='' @ status, q_enabled = True\<rparr>"

definition reports_of :: "reports_page \<Rightarrow> report list" where
  "reports_of s = (case rp_data s of Loaded rs \<Rightarrow> rs | _ \<Rightarrow> [])"

definition selectedReport :: "reports_page \<Rightarrow> report option" where
  "selectedReport s = find (\<lambda>r. Some (re_id r) = rp_selectedId s) (reports_of s)"

definition report_columns :: "jstr set \<Rightarrow> (jstr \<times> (report \<Rightarrow> reports_event node list)) list" where
  "report_columns copied = (let cid = (\<lambda>i. copyable_id (CopyFromQueue i) (i \<in> copied) i 8) in
     [(js ''ID'', \<lambda>r. [cid (re_id r)]), (t_rd_status, \<lambda>r. [status_badge (re_status r)]), (t_rd_reason, \<lambda>r. [Txt (re_reason r)]),
      (t_rd_reporter, \<lambda>r. [cid (re_reporter_id r)]), (t_rd_reported, \<lambda>r. [cid (re_reported_id r)]),
      (t_rd_listing, \<lambda>r. [if truthy (re_listing_id r) then cid (or_else [] (re_listing_id r)) else Txt [0x2014]]),
      (t_rd_time, \<lambda>r. [DateT (re_created_at r)])])"

definition empty_queue :: "jstr \<Rightarrow> 'e node list" where
  "empty_queue status = [Txt t_rq_none_1]
     @ (case find (\<lambda>(l, v). v = status) STATUS_OPTIONS of None \<Rightarrow> [] | Some (l, v) \<Rightarrow> [Txt l]) @ [Txt t_rq_none_2]"

text \<open>\<open>cache\<close> is what the query cache has for a filter; \<open>detail\<close> is the component of the report in the drawer.\<close>

definition reports_view :: "(jstr \<Rightarrow> report list fetched) \<Rightarrow> jstr set \<Rightarrow> (report \<Rightarrow> reports_event node) \<Rightarrow> reports_page \<Rightarrow> reports_event node" where
  "reports_view cache copied detail s = Box [Txt t_rq_title,
     filter_bar STATUS_OPTIONS (rp_status s) (\<lambda>v. FilterReports v (cache v)),
     data_table (report_columns copied) (reports_of s) (rp_data s = Loading) (Some (empty_queue (rp_status s)))
       (Some (\<lambda>r. OpenReport (re_id r))),
     detail_drawer (selectedReport s \<noteq> None) CloseReportDrawer t_rq_detail
       (case selectedReport s of None \<Rightarrow> [] | Some r \<Rightarrow> [detail r])]"

section \<open>A user\<close>

definition userStatus :: "admin_user \<Rightarrow> jstr" where
  "userStatus u = (if truthy (au_deleted_at u) then js ''deleted''
     else if truthy (au_suspended_at u) then js ''suspended'' else js ''active'')"

datatype user_action = SuspendUser | DeleteUser

fun user_options :: "jstr \<Rightarrow> user_action \<Rightarrow> action_options" where
  "user_options userId SuspendUser = \<lparr>ao_level = Level2, ao_title = t_ud_suspend_title, ao_message = t_ud_suspend_ask,
     ao_confirmLabel = Some t_ud_suspend, ao_matchValue = None\<rparr>"
| "user_options userId DeleteUser = \<lparr>ao_level = Level3, ao_title = t_ud_delete_title, ao_message = t_ud_delete_ask,
     ao_confirmLabel = Some t_ud_delete, ao_matchValue = Some userId\<rparr>"

record user_detail =
  ud_userId :: jstr
  ud_user :: "admin_user fetched"
  ud_log :: "admin_action list fetched"
  ud_dialog :: "user_action action_dialog"
  ud_suspending :: bool
  ud_unsuspending :: bool
  ud_deleting :: bool

definition user_detail_init :: "jstr \<Rightarrow> user_detail" where
  "user_detail_init i = \<lparr>ud_userId = i, ud_user = Loading, ud_log = Loading, ud_dialog = action_init,
     ud_suspending = False, ud_unsuspending = False, ud_deleting = False\<rparr>"

definition user_query :: "jstr \<Rightarrow> query" where
  "user_query i = \<lparr>q_key = aqk_user i, q_url = js ''/users/'' @ i, q_enabled = (i \<noteq> [])\<rparr>"

definition actions_query :: query where
  "actions_query = \<lparr>q_key = aqk_actions, q_url = js ''/actions'', q_enabled = True\<rparr>"

datatype user_detail_event =
    ClickSuspend | ClickUnsuspend | ClickDelete | InUserDialog "user_action action_event" | CopyUserId jstr
  | SuspendOk | SuspendFailed | UnsuspendOk | UnsuspendFailed | DeleteOk | DeleteFailed
  | UserLoaded "admin_user fetched" | LogLoaded "admin_action list fetched"

datatype user_detail_out =
    PostSuspend jstr jstr | PostUnsuspend jstr | PostDelete jstr jstr | InvalidateUser query_key | CopyThisId jstr

definition invalidate_user :: "user_detail \<Rightarrow> user_detail_out list" where
  "invalidate_user s = [InvalidateUser (aqk_user (ud_userId s)), InvalidateUser aqk_actions]"

fun user_continue :: "user_detail \<Rightarrow> user_action \<times> jstr \<Rightarrow> user_detail_out" where
  "user_continue s (SuspendUser, note) = PostSuspend (ud_userId s) note"
| "user_continue s (DeleteUser, note) = PostDelete (ud_userId s) note"

fun user_pending :: "user_action \<times> jstr \<Rightarrow> user_detail \<Rightarrow> user_detail" where
  "user_pending (SuspendUser, note) s = s\<lparr>ud_suspending := True\<rparr>"
| "user_pending (DeleteUser, note) s = s\<lparr>ud_deleting := True\<rparr>"

definition ask_user :: "user_action \<Rightarrow> user_detail \<Rightarrow> user_detail" where
  "ask_user a s = s\<lparr>ud_dialog := fst (action_step (ud_dialog s) (AskAction (user_options (ud_userId s) a) a))\<rparr>"

fun user_detail_step :: "user_detail \<Rightarrow> user_detail_event \<Rightarrow> user_detail \<times> user_detail_out list" where
  "user_detail_step s ClickSuspend = (ask_user SuspendUser s, [])"
| "user_detail_step s ClickUnsuspend = (s\<lparr>ud_unsuspending := True\<rparr>, [PostUnsuspend (ud_userId s)])"
| "user_detail_step s ClickDelete = (case ud_user s of Loaded u \<Rightarrow> (ask_user DeleteUser s, []) | _ \<Rightarrow> (s, []))"
| "user_detail_step s (InUserDialog e) = (case action_step (ud_dialog s) e of (d, results) \<Rightarrow>
     (fold user_pending results (s\<lparr>ud_dialog := d\<rparr>), map (user_continue s) results))"
| "user_detail_step s (CopyUserId i) = (s, [CopyThisId i])"
| "user_detail_step s SuspendOk = (s\<lparr>ud_suspending := False\<rparr>, invalidate_user s)"
| "user_detail_step s SuspendFailed = (s\<lparr>ud_suspending := False\<rparr>, [])"
| "user_detail_step s UnsuspendOk = (s\<lparr>ud_unsuspending := False\<rparr>, invalidate_user s)"
| "user_detail_step s UnsuspendFailed = (s\<lparr>ud_unsuspending := False\<rparr>, [])"
| "user_detail_step s DeleteOk = (s\<lparr>ud_deleting := False\<rparr>, invalidate_user s @ [InvalidateUser [js ''admin'', js ''reports'']])"
| "user_detail_step s DeleteFailed = (s\<lparr>ud_deleting := False\<rparr>, [])"
| "user_detail_step s (UserLoaded d) = (s\<lparr>ud_user := d\<rparr>, [])"
| "user_detail_step s (LogLoaded d) = (s\<lparr>ud_log := d\<rparr>, [])"

definition userActions :: "user_detail \<Rightarrow> admin_action list" where
  "userActions s = (case ud_log s of Loaded as \<Rightarrow> filter (\<lambda>a. aa_target_id a = ud_userId s) as | _ \<Rightarrow> [])"

definition user_log_columns :: "(jstr \<times> (admin_action \<Rightarrow> 'e node list)) list" where
  "user_log_columns = [(t_an_action, \<lambda>a. [Txt (action_label (aa_action a))]), (t_an_note, \<lambda>a. [Txt (or_else [0x2014] (aa_note a))]),
     (t_an_time, \<lambda>a. [DateT (aa_created_at a)])]"

definition user_buttons :: "user_detail \<Rightarrow> admin_user \<Rightarrow> user_detail_event node list" where
  "user_buttons s u = shown (\<not> truthy (au_deleted_at u))
     [if \<not> truthy (au_suspended_at u) then Btn (ud_suspending s) ClickSuspend [Txt t_ud_suspend_title]
      else Btn (ud_unsuspending s) ClickUnsuspend [Txt t_ud_restore],
      Btn (ud_deleting s) ClickDelete [Txt t_ud_delete_title]]"

definition user_fields :: "(jstr \<Rightarrow> jstr) \<Rightarrow> jstr set \<Rightarrow> admin_user \<Rightarrow> user_detail_event node list" where
  "user_fields stamp copied u = (let at_time = (\<lambda>d. Txt (if truthy d then stamp (or_else [] d) else [0x2014])) in
     [Txt t_ud_title, status_badge (userStatus u), Txt (js ''Email''), Txt (au_email u), Txt (js ''ID''),
      copyable_id (CopyUserId (au_id u)) (au_id u \<in> copied) (au_id u) 16,
      Txt t_ud_listings, NumT (of_int (au_listing_count u)), Txt t_ud_profiles, NumT (of_int (au_profile_count u)),
      Txt t_ud_suspended_at, at_time (au_suspended_at u), Txt t_ud_deleted_at, at_time (au_deleted_at u)])"

definition user_detail_view :: "(jstr \<Rightarrow> jstr) \<Rightarrow> jstr set \<Rightarrow> user_detail \<Rightarrow> user_detail_event node" where
  "user_detail_view stamp copied s = (case ud_user s of
     Loading \<Rightarrow> Box []
   | Failed \<Rightarrow> Txt t_ud_missing
   | Loaded u \<Rightarrow> Box (map_node InUserDialog (action_view (ud_dialog s)) # user_fields stamp copied u @ user_buttons s u
       @ [Txt t_ud_log, data_table user_log_columns (userActions s) False (Some [Txt t_an_empty]) None]))"

fun user_detail_can :: "user_detail \<Rightarrow> user_detail_event \<Rightarrow> bool" where
  "user_detail_can s SuspendOk = ud_suspending s"
| "user_detail_can s SuspendFailed = ud_suspending s"
| "user_detail_can s UnsuspendOk = ud_unsuspending s"
| "user_detail_can s UnsuspendFailed = ud_unsuspending s"
| "user_detail_can s DeleteOk = ud_deleting s"
| "user_detail_can s DeleteFailed = ud_deleting s"
| "user_detail_can s (UserLoaded d) = True"
| "user_detail_can s (LogLoaded d) = True"
| "user_detail_can s e = offers (user_detail_view id {} s) e"

section \<open>The audit log\<close>

datatype actions_event = CopyFromLog jstr

definition action_columns :: "(jstr \<Rightarrow> jstr) \<Rightarrow> jstr set \<Rightarrow> (jstr \<times> (admin_action \<Rightarrow> actions_event node list)) list" where
  "action_columns stamp copied = (let cid = (\<lambda>i. copyable_id (CopyFromLog i) (i \<in> copied) i 8) in
     [(js ''ID'', \<lambda>a. [cid (aa_id a)]), (t_an_action, \<lambda>a. [Txt (action_label (aa_action a))]),
      (t_an_target_type, \<lambda>a. [Txt (aa_target_type a)]),
      (t_an_target_id, \<lambda>a. cid (aa_target_id a) # shown (aa_target_type a = js ''user'')
         [Stop [Link (js ''/users/'' @ aa_target_id a) [Txt [0x2192]]]]),
      (t_an_admin, \<lambda>a. [cid (aa_admin_id a)]), (t_an_note, \<lambda>a. [Txt (or_else [0x2014] (aa_note a))]),
      (t_an_time, \<lambda>a. [Txt (stamp (aa_created_at a))])])"

definition actions_view :: "(jstr \<Rightarrow> jstr) \<Rightarrow> jstr set \<Rightarrow> admin_action list fetched \<Rightarrow> actions_event node" where
  "actions_view stamp copied d = Box [Txt t_an_title,
     data_table (action_columns stamp copied) (case d of Loaded as \<Rightarrow> as | _ \<Rightarrow> []) (d = Loading) (Some [Txt t_an_empty]) None]"

section \<open>What the pages offer\<close>

lemma copyable_offers [simp]: "offers (copyable_id c b i w) e \<longleftrightarrow> e = c"
  by (simp add: copyable_id_def)

lemma status_badge_passive [simp]: "\<not> offers (status_badge st) e" "no_bubble t (status_badge st)"
  by (simp_all add: status_badge_def)

lemma copyable_no_bubble [simp]: "no_bubble t (copyable_id c b i w)"
  by (simp add: copyable_id_def)

lemma report_fields_offers:
  "list_ex (\<lambda>n. offers n e) (report_fields stamp copied r) \<Longrightarrow> (\<exists>i. e = CopyFromReport i) \<or> (\<exists>i. e = LeaveForUser i)"
  by (auto simp: report_fields_def Let_def shown_def split: if_splits)

lemma report_view_dialog:
  "offers (report_detail_view stamp copied s) (InReportDialog e) \<longleftrightarrow> offers (action_view (rd_dialog s)) e"
  by (auto simp: report_detail_view_def report_buttons_def dest: report_fields_offers)

lemma report_view_resolve:
  "offers (report_detail_view stamp copied s) (ClickResolve st) \<longleftrightarrow>
     report_isPending (rd_report s) \<and> \<not> rd_resolving s \<and> st \<in> {js ''resolved'', js ''dismissed''}"
  by (auto simp: report_detail_view_def report_buttons_def dest: report_fields_offers)

lemma user_log_passive [simp]: "\<not> offers (data_table user_log_columns as False (Some [Txt t]) None) e"
  by (auto simp: data_table_def user_log_columns_def list_ex_iff or_else_def)

lemma user_fields_offers: "list_ex (\<lambda>n. offers n e) (user_fields stamp copied u) \<Longrightarrow> \<exists>i. e = CopyUserId i"
  by (auto simp: user_fields_def Let_def)

lemma user_view_dialog:
  "offers (user_detail_view stamp copied s) (InUserDialog e) \<longleftrightarrow>
     (\<exists>u. ud_user s = Loaded u) \<and> offers (action_view (ud_dialog s)) e"
  by (auto simp: user_detail_view_def user_buttons_def shown_def dest: user_fields_offers split: fetched.splits if_splits)

lemma user_view_delete:
  "offers (user_detail_view stamp copied s) ClickDelete \<longleftrightarrow>
     (\<exists>u. ud_user s = Loaded u \<and> \<not> truthy (au_deleted_at u) \<and> \<not> ud_deleting s)"
  by (auto simp: user_detail_view_def user_buttons_def shown_def dest: user_fields_offers split: fetched.splits if_splits)

section \<open>Reachable states\<close>

definition report_detail_inv :: "report_detail \<Rightarrow> bool" where
  "report_detail_inv s \<longleftrightarrow> shows_asked report_options (rd_dialog s) \<and>
     (\<forall>st. ad_resolver (rd_dialog s) = Some (ResolveAs st) \<longrightarrow> st \<in> {js ''resolved'', js ''dismissed''})"

lemma fold_report_pending [simp]:
  "rd_dialog (fold report_pending rs s) = rd_dialog s" "rd_report (fold report_pending rs s) = rd_report s"
proof -
  have "rd_dialog (report_pending r s) = rd_dialog s \<and> rd_report (report_pending r s) = rd_report s" for r s
    by (cases "(r, s)" rule: report_pending.cases) auto
  then show "rd_dialog (fold report_pending rs s) = rd_dialog s" "rd_report (fold report_pending rs s) = rd_report s"
    by (induction rs arbitrary: s) auto
qed

lemma fold_user_pending [simp]:
  "ud_dialog (fold user_pending rs s) = ud_dialog s" "ud_userId (fold user_pending rs s) = ud_userId s"
proof -
  have "ud_dialog (user_pending r s) = ud_dialog s \<and> ud_userId (user_pending r s) = ud_userId s" for r s
    by (cases "(r, s)" rule: user_pending.cases) auto
  then show "ud_dialog (fold user_pending rs s) = ud_dialog s" "ud_userId (fold user_pending rs s) = ud_userId s"
    by (induction rs arbitrary: s) auto
qed

lemma action_keeps:
  "\<not> (\<exists>o' a. e = AskAction o' a) \<Longrightarrow> ad_resolver (fst (action_step d e)) = Some a \<Longrightarrow> ad_resolver d = Some a"
  by (cases e) (auto simp: close_action_def)

lemma report_detail_inv_step:
  assumes "report_detail_inv s" and "report_detail_can s e"
  shows "report_detail_inv (fst (report_detail_step s e))"
proof (cases e)
  case (InReportDialog de)
  then have "offers (action_view (rd_dialog s)) de" using assms(2) by (simp add: report_view_dialog)
  then have d: "\<not> (\<exists>o' a. de = AskAction o' a)" by (auto simp: action_view_offers)
  obtain t rs where t: "action_step (rd_dialog s) de = (t, rs)" by (cases "action_step (rd_dialog s) de")
  have "shows_asked report_options t"
    using shows_asked_step [of report_options "rd_dialog s" de] assms(1) d t by (auto simp: report_detail_inv_def)
  then show ?thesis using InReportDialog t d action_keeps [of de "rd_dialog s"] assms(1)
    by (auto simp: report_detail_inv_def)
qed (use assms in \<open>auto simp: report_detail_inv_def shows_asked_def report_view_resolve\<close>)

lemma report_detail_inv_init: "report_detail_inv (report_detail_init r f)"
  by (simp add: report_detail_inv_def report_detail_init_def action_init_def shows_asked_def)

interpretation rdm: guarded_machine "\<lambda>s. \<exists>r f. s = report_detail_init r f" report_detail_can
    "\<lambda>s e. fst (report_detail_step s e)" report_detail_inv
proof
  fix s show "\<exists>r f. s = report_detail_init r f \<Longrightarrow> report_detail_inv s" using report_detail_inv_init by blast
qed (rule report_detail_inv_step)

abbreviation report_detail_reach :: "report_detail \<Rightarrow> bool" where
  "report_detail_reach \<equiv> reach (\<lambda>s. \<exists>r f. s = report_detail_init r f) report_detail_can (\<lambda>s e. fst (report_detail_step s e))"

definition user_detail_inv :: "user_detail \<Rightarrow> bool" where
  "user_detail_inv s \<longleftrightarrow> shows_asked (user_options (ud_userId s)) (ud_dialog s)"

lemma user_detail_inv_step:
  assumes "user_detail_inv s" and "user_detail_can s e"
  shows "user_detail_inv (fst (user_detail_step s e))"
proof (cases e)
  case (InUserDialog de)
  then have "offers (action_view (ud_dialog s)) de" using assms(2) by (simp add: user_view_dialog)
  then have d: "\<not> (\<exists>o' a. de = AskAction o' a)" by (auto simp: action_view_offers)
  obtain t rs where t: "action_step (ud_dialog s) de = (t, rs)" by (cases "action_step (ud_dialog s) de")
  have "shows_asked (user_options (ud_userId s)) t"
    using shows_asked_step [of "user_options (ud_userId s)" "ud_dialog s" de] assms(1) d t by (auto simp: user_detail_inv_def)
  then show ?thesis using InUserDialog t by (simp add: user_detail_inv_def)
qed (use assms in \<open>auto simp: user_detail_inv_def shows_asked_def ask_user_def split: fetched.splits\<close>)

lemma user_detail_inv_init: "user_detail_inv (user_detail_init i)"
  by (simp add: user_detail_inv_def user_detail_init_def action_init_def shows_asked_def)

interpretation udm: guarded_machine "\<lambda>s. \<exists>i. s = user_detail_init i" user_detail_can
    "\<lambda>s e. fst (user_detail_step s e)" user_detail_inv
proof
  fix s show "\<exists>i. s = user_detail_init i \<Longrightarrow> user_detail_inv s" using user_detail_inv_init by blast
qed (rule user_detail_inv_step)

abbreviation user_detail_reach :: "user_detail \<Rightarrow> bool" where
  "user_detail_reach \<equiv> reach (\<lambda>s. \<exists>i. s = user_detail_init i) user_detail_can (\<lambda>s e. fst (user_detail_step s e))"

lemma user_continue_iff:
  "PostDelete i n = user_continue s x \<longleftrightarrow> x = (DeleteUser, n) \<and> i = ud_userId s"
  "PostSuspend i n = user_continue s x \<longleftrightarrow> x = (SuspendUser, n) \<and> i = ud_userId s"
  by (cases "(s, x)" rule: user_continue.cases; auto)+

lemma report_continue_iff:
  "PostResolve i st n = report_continue s x \<longleftrightarrow> x = (ResolveAs st, n) \<and> i = re_id (rd_report s)"
  "PostRemove l = report_continue s x \<longleftrightarrow> (\<exists>m. x = (RemoveListing, m)) \<and> l = re_listing_id (rd_report s)"
  by (cases "(s, x)" rule: report_continue.cases; auto)+

section \<open>Properties\<close>

text \<open>
  C7. No account is deleted or suspended by a slip: the page of a user sends such a request only for that
  user, from the dialog that asked for it, with a reason that is not blank, and a deletion only after the
  user's id has been typed in; the dialog for a deletion opens only for users who are not deleted yet.
\<close>

theorem admin_user_guarded:
  assumes "user_detail_reach s" and "user_detail_can s e"
  shows "(PostDelete i n \<in> set (snd (user_detail_step s e)) \<longrightarrow>
      i = ud_userId s \<and> trim n \<noteq> [] \<and> ad_matchInput (ud_dialog s) = i \<and>
      ad_state (ud_dialog s) = Some (user_options i DeleteUser) \<and> e = InUserDialog AcceptAction) \<and>
    (PostSuspend i n \<in> set (snd (user_detail_step s e)) \<longrightarrow>
      i = ud_userId s \<and> trim n \<noteq> [] \<and> ad_state (ud_dialog s) = Some (user_options i SuspendUser) \<and>
      e = InUserDialog AcceptAction) \<and>
    (e = ClickDelete \<longrightarrow> (\<exists>u. ud_user s = Loaded u \<and> \<not> truthy (au_deleted_at u)))"
proof -
  have inv: "shows_asked (user_options (ud_userId s)) (ud_dialog s)"
    using udm.reach_inv [OF assms(1)] by (simp add: user_detail_inv_def)
  show ?thesis
  proof (cases e)
    case (InUserDialog de)
    have o: "offers (action_view (ud_dialog s)) de" using assms(2) InUserDialog by (simp add: user_view_dialog)
    obtain t rs where t: "action_step (ud_dialog s) de = (t, rs)" by (cases "action_step (ud_dialog s) de")
    have rs: "(a, m) \<in> set rs \<longleftrightarrow> de = AcceptAction \<and> ad_resolver (ud_dialog s) = Some a \<and> m = ad_note (ud_dialog s)" for a m
      using action_emits [of a m "ud_dialog s" de] t by simp
    have del: "PostDelete i n \<in> set (map (user_continue s) rs) \<longleftrightarrow> i = ud_userId s \<and> (DeleteUser, n) \<in> set rs"
      by (auto simp: image_iff user_continue_iff)
    have sus: "PostSuspend i n \<in> set (map (user_continue s) rs) \<longleftrightarrow> i = ud_userId s \<and> (SuspendUser, n) \<in> set rs"
      by (auto simp: image_iff user_continue_iff)
    have out: "snd (user_detail_step s e) = map (user_continue s) rs" using InUserDialog t by simp
    show ?thesis unfolding out del sus rs
      using accepted_action [OF inv, of DeleteUser] accepted_action [OF inv, of SuspendUser] o inv InUserDialog
      by (auto simp: shows_asked_def less_eq_action_level_def)
  qed (use assms(2) in \<open>auto simp: user_view_delete invalidate_user_def split: fetched.splits\<close>)
qed

definition example_user :: admin_user where
  "example_user = \<lparr>au_id = js ''u1'', au_email = [], au_suspended_at = None, au_deleted_at = None,
     au_listing_count = 0, au_profile_count = 0\<rparr>"

lemma admin_user_guarded_witness:
  "\<exists>s. user_detail_reach s \<and>
     snd (user_detail_step s (InUserDialog AcceptAction)) = [PostDelete (js ''u1'') (js ''spam'')] \<and>
     ad_matchInput (ud_dialog s) = js ''u1''"
proof -
  define es where "es = [UserLoaded (Loaded example_user), ClickDelete, InUserDialog (TypeNote (js ''spam'')),
    InUserDialog (TypeMatch (js ''u1''))]"
  obtain s where run: "run user_detail_can (\<lambda>s e. fst (user_detail_step s e)) (user_detail_init (js ''u1'')) es = Some s"
    and s: "ud_user s = Loaded example_user" "ud_userId s = js ''u1''"
      "ud_dialog s = \<lparr>ad_state = Some (user_options (js ''u1'') DeleteUser), ad_note = js ''spam'', ad_matchInput = js ''u1'',
        ad_resolver = Some DeleteUser\<rparr>"
    by (simp add: es_def user_detail_init_def action_init_def user_view_delete user_view_dialog action_view_offers ask_user_def
        example_user_def truthy_def less_eq_action_level_def)
  have r: "user_detail_reach s" by (rule reach_from_start [OF run]) blast
  have "trim (js ''spam'') \<noteq> []" by (simp add: js_defs)
  then have c: "user_detail_can s (InUserDialog AcceptAction)"
    using s by (simp add: user_view_dialog action_view_offers canConfirm_def)
  have o: "snd (user_detail_step s (InUserDialog AcceptAction)) = [PostDelete (js ''u1'') (js ''spam'')]"
    using s by (simp add: close_action_def)
  then have "PostDelete (js ''u1'') (js ''spam'') \<in> set (snd (user_detail_step s (InUserDialog AcceptAction)))" by simp
  with admin_user_guarded [OF r c] have "ad_matchInput (ud_dialog s) = js ''u1''" by blast
  with r o show ?thesis by blast
qed

text \<open>
  C39. Reports are settled with a reason: a report is marked as handled or ignored, and its listing taken
  down, only after a reason that is not blank was given. But only the former reaches the server: the
  request that takes a listing down is the same whatever reason was typed. A success refreshes the queue
  under the current filter alone, not the one the report moves to.
\<close>

theorem admin_report_guarded:
  assumes "report_detail_reach s" and "report_detail_can s e"
  shows "(PostResolve i st n \<in> set (snd (report_detail_step s e)) \<longrightarrow>
      i = re_id (rd_report s) \<and> st \<in> {js ''resolved'', js ''dismissed''} \<and> trim n \<noteq> [] \<and> n = ad_note (rd_dialog s)) \<and>
    (PostRemove l \<in> set (snd (report_detail_step s e)) \<longrightarrow>
      l = re_listing_id (rd_report s) \<and> trim (ad_note (rd_dialog s)) \<noteq> [] \<and>
      (\<forall>m. snd (report_detail_step (s\<lparr>rd_dialog := (rd_dialog s)\<lparr>ad_note := m\<rparr>\<rparr>) e) = snd (report_detail_step s e))) \<and>
    ((\<exists>k. InvalidateReports k \<in> set (snd (report_detail_step s ResolveOk)) \<and> invalidates k (q_key (reports_query st)))
       \<longleftrightarrow> st = rd_filter s)"
proof -
  have inv: "shows_asked report_options (rd_dialog s)"
    and r: "\<And>st. ad_resolver (rd_dialog s) = Some (ResolveAs st) \<Longrightarrow> st \<in> {js ''resolved'', js ''dismissed''}"
    using rdm.reach_inv [OF assms(1)] by (simp_all add: report_detail_inv_def)
  have keys: "(\<exists>k. InvalidateReports k \<in> set (snd (report_detail_step s ResolveOk)) \<and> invalidates k (q_key (reports_query st)))
       \<longleftrightarrow> st = rd_filter s"
    by (auto simp: invalidate_report_def invalidates_def reports_query_def aqk_reports_def aqk_actions_def)
  show ?thesis
  proof (cases e)
    case (InReportDialog de)
    have o: "offers (action_view (rd_dialog s)) de" using assms(2) InReportDialog by (simp add: report_view_dialog)
    obtain t rs where t: "action_step (rd_dialog s) de = (t, rs)" by (cases "action_step (rd_dialog s) de")
    have rs: "(a, m) \<in> set rs \<longleftrightarrow> de = AcceptAction \<and> ad_resolver (rd_dialog s) = Some a \<and> m = ad_note (rd_dialog s)" for a m
      using action_emits [of a m "rd_dialog s" de] t by simp
    have res: "PostResolve i st n \<in> set (map (report_continue s) rs) \<longleftrightarrow> i = re_id (rd_report s) \<and> (ResolveAs st, n) \<in> set rs"
      by (auto simp: image_iff report_continue_iff)
    have rem: "PostRemove l \<in> set (map (report_continue s) rs) \<longleftrightarrow>
        l = re_listing_id (rd_report s) \<and> (\<exists>m. (RemoveListing, m) \<in> set rs)"
      by (auto simp: image_iff report_continue_iff)
    have out: "snd (report_detail_step s e) = map (report_continue s) rs" using InReportDialog t by simp
    have same: "ad_resolver (rd_dialog s) = Some RemoveListing \<Longrightarrow> de = AcceptAction \<Longrightarrow>
        snd (report_detail_step (s\<lparr>rd_dialog := (rd_dialog s)\<lparr>ad_note := m\<rparr>\<rparr>) e) = map (report_continue s) rs" for m
      using t InReportDialog by (auto simp: close_action_def)
    have noted: "trim (ad_note (rd_dialog s)) \<noteq> []" if "de = AcceptAction" "ad_resolver (rd_dialog s) = Some a" for a
      using accepted_action [OF inv, of a] o that by (cases a) (auto simp: less_eq_action_level_def)
    show ?thesis unfolding out res rem rs keys using r noted same by blast
  qed (use keys in \<open>auto simp: invalidate_report_def\<close>)
qed

definition example_report :: report where
  "example_report = \<lparr>re_id = js ''r1'', re_reporter_id = js ''u1'', re_reported_id = js ''u2'', re_listing_id = Some (js ''l1''),
     re_reason = [], re_status = js ''pending'', re_created_at = []\<rparr>"

lemma admin_report_guarded_witness:
  "\<exists>s. report_detail_reach s \<and> ad_note (rd_dialog s) = js ''spam'' \<and>
     snd (report_detail_step s (InReportDialog AcceptAction)) = [PostRemove (Some (js ''l1''))] \<and>
     snd (report_detail_step (s\<lparr>rd_dialog := (rd_dialog s)\<lparr>ad_note := []\<rparr>\<rparr>) (InReportDialog AcceptAction)) = [PostRemove (Some (js ''l1''))]"
proof -
  define es where "es = [ClickRemove, InReportDialog (TypeNote (js ''spam''))]"
  have v: "offers (report_detail_view stamp copied s) ClickRemove"
    if "report_isPending (rd_report s)" "truthy (re_listing_id (rd_report s))" "\<not> rd_removing s" for s stamp copied
    using that by (simp add: report_detail_view_def report_buttons_def)
  obtain s where run: "run report_detail_can (\<lambda>s e. fst (report_detail_step s e)) (report_detail_init example_report (js ''pending'')) es = Some s"
    and s: "rd_report s = example_report"
      "rd_dialog s = \<lparr>ad_state = Some (report_options RemoveListing), ad_note = js ''spam'', ad_matchInput = [],
        ad_resolver = Some RemoveListing\<rparr>"
    by (simp add: es_def report_detail_init_def action_init_def v report_view_dialog action_view_offers
        example_report_def report_isPending_def truthy_def less_eq_action_level_def)
  have r: "report_detail_reach s" by (rule reach_from_start [OF run]) blast
  have "trim (js ''spam'') \<noteq> []" by (simp add: js_defs)
  then have c: "report_detail_can s (InReportDialog AcceptAction)"
    using s by (simp add: report_view_dialog action_view_offers canConfirm_def)
  have o: "snd (report_detail_step s (InReportDialog AcceptAction)) = [PostRemove (Some (js ''l1''))]"
    using s by (simp add: close_action_def example_report_def)
  then have "PostRemove (Some (js ''l1'')) \<in> set (snd (report_detail_step s (InReportDialog AcceptAction)))" by simp
  with admin_report_guarded [OF r c] o
  have "snd (report_detail_step (s\<lparr>rd_dialog := (rd_dialog s)\<lparr>ad_note := []\<rparr>\<rparr>) (InReportDialog AcceptAction)) = [PostRemove (Some (js ''l1''))]"
    by metis
  with r o s show ?thesis by auto
qed

text \<open>
  The queue: copying an id or using the drawer never opens a report's row; the drawer shows a report
  of the list on display, and changing the filter closes it. The filters leave one status out: as long
  as the server's answers keep to the filter asked for, no report under review is ever listed.
\<close>

theorem reports_queue:
  assumes "no_bubble False (detail_view r)" and "selectedReport s = Some r"
    and "\<And>v. v \<in> snd ` set STATUS_OPTIONS \<Longrightarrow> case cache v of Loaded rs \<Rightarrow> \<forall>x \<in> set rs. re_status x = v | _ \<Rightarrow> True"
  shows "no_bubble False (reports_view cache copied detail_view s) \<and> r \<in> set (reports_of s) \<and>
    Some (re_id r) = rp_selectedId s \<and> selectedReport (reports_step s (FilterReports v d)) = None \<and>
    (\<forall>e x. offers (filter_bar STATUS_OPTIONS (rp_status s) (\<lambda>v. FilterReports v (cache v))) e \<longrightarrow>
       x \<in> set (reports_of (reports_step s e)) \<longrightarrow> re_status x \<noteq> js ''reviewing'')"
proof -
  have "no_bubble False (data_table (report_columns copied) rows b (Some (empty_queue st)) (Some f))" for rows b st f
    by (auto simp: data_table_def report_columns_def empty_queue_def or_else_def list_all_iff Let_def split: option.splits)
  moreover have "no_bubble False (filter_bar STATUS_OPTIONS st f)" for st f
    by (auto simp: filter_bar_def list_all_iff)
  ultimately have "no_bubble False (reports_view cache copied detail_view s)"
    using assms(1,2) by (simp add: reports_view_def detail_drawer_def shown_def)
  moreover have "r \<in> set (reports_of s) \<and> Some (re_id r) = rp_selectedId s"
    using assms(2) find_SomeD [of "\<lambda>r. Some (re_id r) = rp_selectedId s"] by (auto simp: selectedReport_def)
  moreover have "selectedReport (reports_step s (FilterReports v d)) = None"
    by (simp add: selectedReport_def find_None_iff)
  moreover have "re_status x \<noteq> js ''reviewing''"
    if e: "offers (filter_bar STATUS_OPTIONS (rp_status s) (\<lambda>v. FilterReports v (cache v))) e"
      and x: "x \<in> set (reports_of (reports_step s e))" for e x
  proof -
    obtain v where v: "v \<in> snd ` set STATUS_OPTIONS" "e = FilterReports v (cache v)"
      using e by (force simp: filter_bar_def list_ex_iff)
    then have "re_status x = v" using x assms(3) [of v] by (auto simp: reports_of_def split: fetched.splits)
    then show ?thesis using v(1) by (auto simp: STATUS_OPTIONS_def)
  qed
  ultimately show ?thesis by blast
qed

lemma reports_queue_witness:
  "no_bubble False (reports_view (\<lambda>v. Loading) {} (\<lambda>r. Txt (re_reason r))
     \<lparr>rp_status = js ''pending'', rp_selectedId = Some (js ''r1''), rp_data = Loaded [example_report]\<rparr>)"
proof -
  let ?s = "\<lparr>rp_status = js ''pending'', rp_selectedId = Some (js ''r1''), rp_data = Loaded [example_report]\<rparr>"
  have "selectedReport ?s = Some example_report" by (simp add: selectedReport_def reports_of_def example_report_def)
  then show ?thesis
    using reports_queue [of "\<lambda>r. Txt (re_reason r)" example_report ?s "\<lambda>v. Loading"] by simp
qed

end
