(* ===== verification/Spec2Isabelle.thy ===== *)
theory Spec2Isabelle
  imports View ApiClient Locations Format Queries Ui LocationPicker ApiProps PhotoSection Forms
    ListingForm ProfileForm ListingCards Viewings Availability Dialogs TenantMatches Tenants
    LandlordMatches Manage Browse Account Dashboards AdminUi AdminPages
begin

text \<open>
  A model of the web and admin clients of zumeet, a two-sided rental marketplace: landlords publish listings,
  tenants publish profiles, both express interest, and a mutual interest becomes a match with exchanged
  contact data and bookable viewings. The client (\<open>src/apps/web\<close>, TypeScript and React) keeps its
  server data in a query cache, sends requests through one HTTP client, and renders components whose
  local state changes on user actions and on answers.

  How components are modelled. A component's state is a record, its handlers and answers are the
  constructors of an event type, and one step function maps state and event to the new state and the
  requests, cache invalidations or parent callbacks it emits. What it renders is a value of \<open>'e node\<close>
  (theory \<open>View\<close>): texts, amounts, links and the controls with the events they raise, presentation left
  out. A user event can happen exactly where the rendered view offers it (\<open>offers\<close>); answers come while
  their request is open. \<open>reach\<close> collects the states a component can get into that way and the locale
  \<open>guarded_machine\<close> turns a step-wise invariant into one of all reachable states; every component
  interprets it on its own definitions.

  The theories and the sources they translate:
  \<^item> \<open>Prelude\<close>: JavaScript strings as lists of UTF-16 code units, \<open>trim\<close>, \<open>join\<close>, \<open>slice\<close>, \<open>splice\<close>,
    insertion-ordered objects, numbers with NaN, and the lemmas on them.
  \<^item> \<open>View\<close>: rendered nodes, reachability.
  \<^item> \<open>ApiClient\<close>, \<open>ApiProps\<close>: \<open>lib/api.ts\<close>, the response interceptor with its shared token refresh and
    single retry; the error extraction the forms use. The environment (server, browser) is a sequence of
    events. Every request gets at most two server answers and every refresh one, which gives the bound of
    four answers per request within which the client falls quiet.
  \<^item> \<open>Types\<close>, \<open>LocationTable\<close>, \<open>Locations\<close>, \<open>Texts\<close>: \<open>types/index.ts\<close>, its records, the whole table
    of cities and districts with the look-ups derived from it, and the user-visible strings.
  \<^item> \<open>Format\<close>: \<open>lib/groupBy.ts\<close>, \<open>lib/listingTags.ts\<close>, \<open>lib/viewings.ts\<close>.
  \<^item> \<open>Queries\<close>: \<open>features/queryKeys.ts\<close> and the data hooks: cache keys, URLs, enabling conditions.
  \<^item> \<open>Ui\<close>: the shared components (\<open>components/ui\<close>, contact field, role guard).
  \<^item> \<open>LocationPicker\<close>: \<open>components/LocationPicker.tsx\<close>.
  \<^item> \<open>Forms\<close>: validation rules as \<open>react-hook-form\<close> is given them. The library itself is a parameter,
    the function from rules to reported errors; its documented contract (\<open>validates\<close>: no error is reported
    only if every rule holds) is the hypothesis of the form theorems, and \<open>first_errors\<close> is a function that
    satisfies it. Also how the API reads the numbers of a request.
  \<^item> \<open>ListingForm\<close>, \<open>PhotoSection\<close>: \<open>features/listings/ListingFormModal.tsx\<close>. \<open>ListingForm\<close> also has the
    checks of the API's create and update handlers (\<open>createListing\<close>, \<open>updateListing\<close>).
  \<^item> \<open>ProfileForm\<close>: \<open>features/profiles/ProfileFormModal.tsx\<close>, with the checks of the API's
    \<open>createTenantProfile\<close> and \<open>updateTenantProfile\<close>.
  \<^item> \<open>ListingCards\<close>: \<open>features/listings/TenantListingCard.tsx\<close>, \<open>components/SlotPicker.tsx\<close>.
  \<^item> \<open>Viewings\<close>: \<open>components/ViewingList.tsx\<close>.
  \<^item> \<open>Availability\<close>: \<open>features/viewings/LandlordViewingsView.tsx\<close>.
  \<^item> \<open>Dialogs\<close>: \<open>components/ConfirmDialog.tsx\<close>, \<open>features/reports\<close>. Its locale \<open>confirmation\<close> is the contract of
    a dialog whose caller awaits the answer; the dialogs of both clients and the pages that own one interpret it.
  \<^item> \<open>Tenants\<close>, \<open>TenantMatches\<close>, \<open>LandlordMatches\<close>: \<open>features/profiles/TenantSummary.tsx\<close> and
    \<open>TenantProfileCard.tsx\<close>, \<open>features/matches\<close>.
  \<^item> \<open>Manage\<close>: the owners' cards and lists, \<open>ListingMgmtCard.tsx\<close>, \<open>ListingsTab.tsx\<close>, \<open>MyProfileCard.tsx\<close>,
    \<open>ProfilesTab.tsx\<close>. \<open>managed_step\<close> puts the listing card, with the copy it shows and its unanswered
    requests, beside its listing on the server (\<open>updateListingStatus\<close>, from the API's status handler). Under
    a patient user it refines (locale \<open>refining_machine\<close>) the transition system \<open>lifecycle\<close> of the buttons.
  \<^item> \<open>Browse\<close>: \<open>TenantBrowseTab.tsx\<close>, \<open>LandlordBrowseTab.tsx\<close>, with the page's address as their state.
  \<^item> \<open>Account\<close>: the header, the landing page, onboarding and the account page.
  \<^item> \<open>Dashboards\<close>: \<open>app/dashboard\<close>, which puts the tabs of both sides together.
  \<^item> \<open>AdminUi\<close>, \<open>AdminPages\<close>: the admin client, \<open>apps/admin\<close>: its building blocks, sign-in and pages.

  What the theorems show. The HTTP client never loses or duplicates a promise, runs at most one refresh,
  retries at most once and always falls quiet. Whatever a form sends obeys the form's own rules, and it is
  stated exactly which of these requests pass the checks of the API, whose rules are stricter; the picker
  hands over known, distinct districts; editing keeps the location, and exactly when it keeps the address
  is stated. Uploads stop at the first failure and end after at most ten answers, post what fits beside the
  photos on display, reordering is a permutation and is sent when it changed something. Actions on viewings
  are offered to the right side in the right status, contact information shows only for confirmed ones,
  and exactly which caches their changes refetch is stated. Nothing is withdrawn or deleted unconfirmed,
  accounts are deleted by an administrator only with a reason and the id typed in. The status of a listing
  follows the life cycle of the buttons as long as they are pressed one at a time on an up-to-date card, and
  only then. Interest goes out for what is on display in the name of what is selected, and the addresses
  the pages push lead where the buttons say. Some theorems state behaviour that the surrounding code, its
  comments or its tests contradict; they say so in their description.

  Parameters. Browser formatting (dates, times, number notation, \<open>encodeURIComponent\<close>), the reading of
  number and date inputs, the query cache's content and all server answers are arguments or events; so are,
  for the API's checks, which texts are times and which pairs are in the table of locations.
  Amounts, areas and coordinates are exact (rationals and integers): the client only adds rents and
  fees and rounds one quotient.

  Bounds and fuel. No definition needs fuel: every function is structural or a single step. The bounds
  that occur are the code's own (ten photos, the ranges of the forms, four answers per request).

  Not modelled: the Go server (\<open>apps/api\<close>), which the clients see as answers, except for the checks of
  requests named above (not authentication, ownership, the database writes or their failures); the browser tests; the
  mounting of the frameworks and build configuration; skeletons, buttons and badges, which only choose
  class names; the admin client's copy of the modal, the same as the web client's; the text of the terms
  of service.
\<close>

text \<open>
  C19. The location picker and the profile form fit together: the value the form hands to the picker is
  one the picker may be opened with, and every selection the picker confirms is one the form accepts.
\<close>

theorem picker_and_form_agree:
  assumes "reach (profile_start b) (profile_form_can b) (\<lambda>s e. fst (profile_form_step validate b s e)) f"
    and "picker_reach s"
  shows "(\<not> pk_open s \<longrightarrow> picker_can s (OpenWith (pv_locations (pf_values f)))) \<and>
    (\<forall>e ids. pf_picker_open f \<and> picker_can s e \<and> snd (picker_step s e) = Some ids
       \<longrightarrow> profile_form_can b f (PickLocations ids))"
proof -
  have "profile_inv f" by (rule profile.reach_inv [OF assms(1)])
  moreover have "picker_inv s" by (rule picker.reach_inv [OF assms(2)])
  moreover have "snd (picker_step s e) = Some ids \<Longrightarrow> ids = pk_draft s" for e ids by (cases e) auto
  ultimately show ?thesis by (auto simp: profile_inv_def picker_inv_def)
qed

lemma picker_and_form_agree_witness:
  "picker_can picker_init (OpenWith (pv_locations (pf_values (profile_form_init profile_browser None None))))"
proof -
  have "reach (profile_start profile_browser) (profile_form_can profile_browser)
      (\<lambda>s e. fst (profile_form_step first_errors profile_browser s e)) (profile_form_init profile_browser None None)"
    by (intro profile.reach_init) auto
  moreover have "picker_reach picker_init" by (rule picker.reach_init) (rule refl)
  ultimately show ?thesis
    using picker_and_form_agree by (auto simp: picker_init_def)
qed

text \<open>
  C6. Nothing is withdrawn or deleted unconfirmed: a tenant's or landlord's interest is withdrawn, and a
  profile deleted, exactly when the dialog that asked for this very one is answered yes, with no other
  question or answer in between; a listing is deleted only when the browser's own dialog is answered yes.
\<close>

theorem nothing_deleted_unconfirmed:
  "(DeleteInterest p l \<in> set (snd (steps tenant_outgoing_step tenant_outgoing_init es)) \<longleftrightarrow>
      (\<exists>pre i mid post. es = pre @ AskWithdraw i # mid @ AnswerWithdraw True # post \<and>
         oi_tenant_profile_id i = p \<and> cs_listing_id i = l \<and>
         (\<forall>e \<in> set mid. \<forall>j v. e \<noteq> AskWithdraw j \<and> e \<noteq> AnswerWithdraw v))) \<and>
   (DeleteListingInterest l p \<in> set (snd (steps landlord_outgoing_step landlord_outgoing_init fs)) \<longleftrightarrow>
      (\<exists>pre i mid post. fs = pre @ AskRevoke i # mid @ AnswerRevoke True # post \<and>
         no_listing_id i = l \<and> no_tenant_profile_id i = p \<and>
         (\<forall>e \<in> set mid. \<forall>j v. e \<noteq> AskRevoke j \<and> e \<noteq> AnswerRevoke v))) \<and>
   (DeleteProfile p \<in> set (snd (steps (profile_card_step q) profile_card_init gs)) \<longleftrightarrow> p = tp_id q \<and>
      (\<exists>pre mid post. gs = pre @ AskDelete # mid @ AnswerDelete True # post \<and>
         (\<forall>e \<in> set mid. e \<noteq> AskDelete \<and> (\<forall>v. e \<noteq> AnswerDelete v)))) \<and>
   (DeleteListingRequest l \<in> set (snd (mgmt_step confirm li menu e)) \<longleftrightarrow>
      e = DeleteListing \<and> confirm t_lg_delete_ask \<and> l = li_id li)"
proof (intro conjI)
  show "DeleteListingRequest l \<in> set (snd (mgmt_step confirm li menu e)) \<longleftrightarrow>
      e = DeleteListing \<and> confirm t_lg_delete_ask \<and> l = li_id li"
    by (cases e) auto
qed (simp_all only: tenant_withdrawals landlord_withdrawals profile_deletions interest_ids_def revoke_ids_def prod.inject conj_assoc)

lemma nothing_deleted_unconfirmed_witness:
  "\<forall>q. DeleteProfile (tp_id q) \<in> set (snd (steps (profile_card_step q) profile_card_init [AskDelete, AnswerDelete True]))"
proof
  fix q :: tenant_profile
  show "DeleteProfile (tp_id q) \<in> set (snd (steps (profile_card_step q) profile_card_init [AskDelete, AnswerDelete True]))"
    using nothing_deleted_unconfirmed [of "tp_id q" "[]" "[]" "[]" q "[AskDelete, AnswerDelete True]"]
    by (metis append_Nil empty_iff empty_set)
qed

end
